(* ===== verification/Prelude.thy ===== *)
theory Prelude
  imports Main "HOL-Library.Word"
begin

text \<open>
  What the component theories share: names for the machine types of the C++ code, the
  collections of simplification rules the proofs draw on, and generic lemmas on lists.

  A \<open>std::byte\<close> or \<open>char\<close> of the code is a HOL \<open>char\<close> (exactly eight bits), so a
  \<open>std::string\<close>, a \<open>std::string_view\<close> and a raw buffer are all lists of it.  Fixed-width
  integers are words; \<open>std::size_t\<close> is \<open>nat\<close> except where the code relies on its
  wrap-around.
\<close>

type_synonym byte = char
type_synonym bytes = "char list"
type_synonym u16 = "16 word"
type_synonym u32 = "32 word"
type_synonym u64 = "64 word"

text \<open>Collections: equations of lenses and frame rules, and invariant preservation.\<close>

named_theorems frame_simps \<open>what an operation leaves alone\<close>
named_theorems inv_intros \<open>operations that keep an invariant\<close>

section \<open>Lists\<close>

lemma takeWhile_append_stop:
  "list_all P xs \<Longrightarrow> \<not> P y \<Longrightarrow> takeWhile P (xs @ y # ys) = xs"
  by (induction xs) auto

lemma takeWhile_all: "list_all P xs \<Longrightarrow> takeWhile P xs = xs"
  by (induction xs) auto

lemma list_all_rev [simp]: "list_all P (rev xs) = list_all P xs"
  by (simp add: list_all_iff)

lemma list_all_takeWhile [simp]: "list_all P (takeWhile P xs)"
  by (induction xs) auto

text \<open>Padding to the right, read back from the left, and padding to the left, read back
  from the right: the two shapes of the protocol's fixed-width fields.\<close>

lemma takeWhile_pad_right:
  assumes "list_all P xs" and "\<not> P c"
  shows "takeWhile P (xs @ replicate n c) = xs"
proof (cases n)
  case 0
  with assms show ?thesis by (simp add: takeWhile_all)
next
  case (Suc m)
  with assms show ?thesis by (simp add: takeWhile_append_stop)
qed

lemma takeWhile_pad_left:
  assumes "list_all P xs" and "\<not> P c"
  shows "rev (takeWhile P (rev (replicate n c @ xs))) = xs"
  using takeWhile_pad_right [of P "rev xs" c n] assms by simp

lemma take_drop_field:
  "length xs = n \<Longrightarrow> take n (xs @ ys) = xs \<and> drop n (xs @ ys) = ys"
  by simp

lemma list_remove1_length: "x \<in> set xs \<Longrightarrow> Suc (length (remove1 x xs)) = length xs"
  by (induction xs) auto

text \<open>The first element that satisfies a predicate (\<open>std::find_if\<close>).\<close>

lemma find_append:
  "find P (xs @ ys) = (case find P xs of Some x \<Rightarrow> Some x | None \<Rightarrow> find P ys)"
  by (induction xs) auto

lemma find_SomeD: "find P xs = Some x \<Longrightarrow> x \<in> set xs \<and> P x"
  by (induction xs) (auto split: if_splits)

lemma find_map_eqD:
  "find (\<lambda>p. f p = k) xs = None \<longleftrightarrow> k \<notin> f ` set xs"
  by (induction xs) auto

end
