(* ===== verification/Lens.thy ===== *)
theory Lens
  imports Prelude
begin

text \<open>
  Sub-objects.  A class of the code that calls back into its owner (a socket or timer into
  the connection it is a member of) is modelled over the owner's whole state, and reaches
  its own fields through a pair of functions: read the sub-object, put it back.  The
  laws of that pair are the interface between such a component and whoever embeds it.
\<close>

record ('s, 'a) lens =
  lens_get :: "'s \<Rightarrow> 'a"
  lens_put :: "'a \<Rightarrow> 's \<Rightarrow> 's"

definition lens_upd :: "('s, 'a) lens \<Rightarrow> ('a \<Rightarrow> 'a) \<Rightarrow> 's \<Rightarrow> 's" where
  "lens_upd l f s = lens_put l (f (lens_get l s)) s"

locale sub_object =
  fixes l :: "('s, 'a) lens"
  assumes get_put [simp]: "lens_get l (lens_put l a s) = a"
    and put_get [simp]: "lens_put l (lens_get l s) s = s"
    and put_put [simp]: "lens_put l b (lens_put l a s) = lens_put l b s"
begin

lemma get_upd [simp]: "lens_get l (lens_upd l f s) = f (lens_get l s)"
  by (simp add: lens_upd_def)

lemma upd_upd: "lens_upd l g (lens_upd l f s) = lens_upd l (\<lambda>a. g (f a)) s"
  by (simp add: lens_upd_def)

lemma upd_put: "lens_upd l f (lens_put l a s) = lens_put l (f a) s"
  by (simp add: lens_upd_def)

lemma upd_id: "f (lens_get l s) = lens_get l s \<Longrightarrow> lens_upd l f s = s"
  by (simp add: lens_upd_def)

end

end
