(* ===== verification/Types.thy ===== *)
theory Types
  imports Prelude
begin

text \<open>
  Constants, error codes and the enumerations of the library:
  \<^verbatim>\<open>constants.h\<close>, \<^verbatim>\<open>error.h\<close>/\<^verbatim>\<open>error.cpp\<close>, \<^verbatim>\<open>types.h\<close>/\<^verbatim>\<open>types.cpp\<close>.
  An enumeration is a datatype with the source's enumerators in the source's order; the
  functions that print it have one equation per \<^verbatim>\<open>case\<close>.
\<close>

section \<open>Constants\<close>

definition packet_size_length :: nat where "packet_size_length = 2"
definition packet_type_length :: nat where "packet_type_length = 1"
definition packet_header_length :: nat where
  "packet_header_length = packet_size_length + packet_type_length"

definition username_length :: nat where "username_length = 6"
definition password_length :: nat where "password_length = 10"
definition session_length :: nat where "session_length = 10"
definition sequence_number_length :: nat where "sequence_number_length = 20"

text \<open>Durations are in seconds.\<close>

definition heartbeat_period :: nat where "heartbeat_period = 1"
definition client_heartbeat_timeout :: nat where "client_heartbeat_timeout = 15"
definition server_heartbeat_timeout :: nat where "server_heartbeat_timeout = 5"
definition login_request_timeout :: nat where "login_request_timeout = 30"
definition login_response_timeout :: nat where "login_response_timeout = 10"

definition reconnect_initial_delay :: nat where "reconnect_initial_delay = 1"
definition reconnect_max_delay :: nat where "reconnect_max_delay = 30"
definition reconnect_delay_multiplier :: nat where "reconnect_delay_multiplier = 2"

lemmas length_defs =
  packet_size_length_def packet_type_length_def packet_header_length_def
  username_length_def password_length_def session_length_def sequence_number_length_def

section \<open>Error codes\<close>

text \<open>
  A \<^verbatim>\<open>std::error_code\<close> (and \<^verbatim>\<open>asio::error_code\<close>) is a value and the category that
  gives it meaning; it converts to \<open>true\<close> when the value is not 0.  \<open>Soup\<close> is the
  category of \<^verbatim>\<open>error.cpp\<close>, \<open>Asio_misc\<close> the one that holds \<^verbatim>\<open>asio::error::eof\<close>.
\<close>

datatype category = System | Generic | Soup | Asio_misc

record error_code =
  ec_value :: int
  ec_category :: category

definition error_code_of :: "int \<Rightarrow> category \<Rightarrow> error_code" where
  "error_code_of v c = \<lparr>ec_value = v, ec_category = c\<rparr>"

definition no_error :: error_code where
  "no_error = error_code_of 0 System"

definition ec_set :: "error_code \<Rightarrow> bool" where
  "ec_set ec \<longleftrightarrow> ec_value ec \<noteq> 0"

text \<open>The \<open>errno\<close> values the code names, and the two completion codes it tests for
  (Linux numbering).\<close>

definition EINTR :: int where "EINTR = 4"
definition EIO :: int where "EIO = 5"
definition EINVAL :: int where "EINVAL = 22"
definition ECANCELED :: int where "ECANCELED = 125"

definition operation_aborted :: error_code where
  "operation_aborted = error_code_of ECANCELED System"
definition eof_error :: error_code where
  "eof_error = error_code_of 2 Asio_misc"

lemmas ec_defs = error_code_of_def no_error_def ec_set_def operation_aborted_def eof_error_def
  EINTR_def EIO_def EINVAL_def ECANCELED_def

lemma ec_set_simps [simp]:
  "\<not> ec_set no_error" "ec_set operation_aborted" "ec_set eof_error"
  "eof_error \<noteq> operation_aborted"
  by (simp_all add: ec_defs)

text \<open>\<^verbatim>\<open>enum class Error\<close> starts at 1, so every enumerator makes an error code that is set.\<close>

datatype soup_error =
    Username_too_long | Invalid_username
  | Password_too_long | Invalid_password
  | Session_too_long | Invalid_session
  | Endpoint_in_use | Username_in_use
  | Handler_not_set

fun soup_error_value :: "soup_error \<Rightarrow> int" where
  "soup_error_value Username_too_long = 1"
| "soup_error_value Invalid_username = 2"
| "soup_error_value Password_too_long = 3"
| "soup_error_value Invalid_password = 4"
| "soup_error_value Session_too_long = 5"
| "soup_error_value Invalid_session = 6"
| "soup_error_value Endpoint_in_use = 7"
| "soup_error_value Username_in_use = 8"
| "soup_error_value Handler_not_set = 9"

definition make_error_code :: "soup_error \<Rightarrow> error_code" where
  "make_error_code e = error_code_of (soup_error_value e) Soup"

text \<open>
  \<^verbatim>\<open>static_cast<Error>(ev)\<close> of an \<open>int\<close> outside 1..9 is a value that no \<^verbatim>\<open>case\<close>
  names: \<open>None\<close>.
\<close>

definition soup_error_cast :: "int \<Rightarrow> soup_error option" where
  "soup_error_cast ev = find (\<lambda>e. soup_error_value e = ev)
     [Username_too_long, Invalid_username, Password_too_long, Invalid_password,
      Session_too_long, Invalid_session, Endpoint_in_use, Username_in_use, Handler_not_set]"

definition category_name :: string where "category_name = ''soup''"

definition error_message :: "int \<Rightarrow> string" where
  "error_message ev = (case soup_error_cast ev of
     Some Username_too_long \<Rightarrow> ''username too long''
   | Some Invalid_username \<Rightarrow> ''invalid username''
   | Some Password_too_long \<Rightarrow> ''password too long''
   | Some Invalid_password \<Rightarrow> ''invalid password''
   | Some Session_too_long \<Rightarrow> ''session too long''
   | Some Invalid_session \<Rightarrow> ''invalid session''
   | Some Endpoint_in_use \<Rightarrow> ''endpoint in use''
   | Some Username_in_use \<Rightarrow> ''username in use''
   | Some Handler_not_set \<Rightarrow> ''handler not set''
   | None \<Rightarrow> ''unknown error'')"

datatype error_condition =
    Errc_invalid_argument
  | Errc_address_in_use
  | Soup_condition int

definition default_error_condition :: "int \<Rightarrow> error_condition" where
  "default_error_condition ev = (case soup_error_cast ev of
     Some Username_too_long \<Rightarrow> Errc_invalid_argument
   | Some Invalid_username \<Rightarrow> Errc_invalid_argument
   | Some Password_too_long \<Rightarrow> Errc_invalid_argument
   | Some Invalid_password \<Rightarrow> Errc_invalid_argument
   | Some Session_too_long \<Rightarrow> Errc_invalid_argument
   | Some Invalid_session \<Rightarrow> Errc_invalid_argument
   | Some Endpoint_in_use \<Rightarrow> Errc_address_in_use
   | Some Username_in_use \<Rightarrow> Soup_condition ev
   | Some Handler_not_set \<Rightarrow> Soup_condition ev
   | None \<Rightarrow> Soup_condition ev)"

lemma soup_error_cast_value [simp]: "soup_error_cast (soup_error_value e) = Some e"
  by (cases e) (simp_all add: soup_error_cast_def)

lemma soup_error_value_range: "1 \<le> soup_error_value e \<and> soup_error_value e \<le> 9"
  by (cases e) simp_all

lemma soup_error_cast_SomeD: "soup_error_cast ev = Some e \<Longrightarrow> ev = soup_error_value e"
  unfolding soup_error_cast_def by (drule find_SomeD) simp

lemma make_error_code_inject [simp]: "make_error_code e = make_error_code e' \<longleftrightarrow> e = e'"
  by (metis error_code.select_convs(1) error_code_of_def make_error_code_def
      option.inject soup_error_cast_value)

lemma ec_set_make_error_code [simp]: "ec_set (make_error_code e)"
  using soup_error_value_range [of e] by (simp add: make_error_code_def ec_defs)

lemma error_message_inj: "error_message (soup_error_value e) = error_message (soup_error_value e') \<longleftrightarrow> e = e'"
  unfolding error_message_def soup_error_cast_value by (cases e; cases e'; simp)

section \<open>Enumerations and their printed names\<close>

text \<open>
  The enumerators carry the initials of their C++ type, because several types share names
  (\<^verbatim>\<open>none\<close>, \<^verbatim>\<open>session_not_available\<close>).  Only named values of these enumerations are
  ever made, so the final \<^verbatim>\<open>return "?"\<close> of each \<^verbatim>\<open>to_string\<close> has no equation.
\<close>

datatype packet_error =
    PE_none
  | PE_malformed_header
  | PE_invalid_message_type
  | PE_incorrect_length
  | PE_invalid_field_value
  | PE_unexpected_sequence

datatype login_reject_reason =
    LR_none
  | LR_not_authorized
  | LR_user_not_found
  | LR_incorrect_password
  | LR_session_not_available
  | LR_invalid_reject_reason

datatype write_error =
    WE_none
  | WE_empty_buffer
  | WE_null_buffer
  | WE_session_ended
  | WE_disconnected
  | WE_not_logged_in
  | WE_buffer_full

datatype disconnect_reason =
    DR_none
  | DR_user_initiated
  | DR_superseded
  | DR_logout_request
  | DR_peer_closed
  | DR_connect_failure
  | DR_transport_error
  | DR_login_timeout
  | DR_heartbeat_timeout
  | DR_access_denied
  | DR_session_mismatch
  | DR_sequence_number_ahead_of_session
  | DR_sequence_number_too_low
  | DR_sequence_number_too_high
  | DR_protocol_violation
  | DR_unmanaged_abort

fun packet_error_to_string :: "packet_error \<Rightarrow> string" where
  "packet_error_to_string PE_none = ''none''"
| "packet_error_to_string PE_malformed_header = ''malformed header''"
| "packet_error_to_string PE_invalid_message_type = ''invalid message type''"
| "packet_error_to_string PE_incorrect_length = ''incorrect length''"
| "packet_error_to_string PE_invalid_field_value = ''invalid field value''"
| "packet_error_to_string PE_unexpected_sequence = ''unexpected sequence''"

fun login_reject_reason_to_string :: "login_reject_reason \<Rightarrow> string" where
  "login_reject_reason_to_string LR_none = ''none''"
| "login_reject_reason_to_string LR_not_authorized = ''not authorized''"
| "login_reject_reason_to_string LR_user_not_found = ''user not found''"
| "login_reject_reason_to_string LR_incorrect_password = ''incorrect password''"
| "login_reject_reason_to_string LR_session_not_available = ''session not available''"
| "login_reject_reason_to_string LR_invalid_reject_reason = ''invalid reject reason''"

fun write_error_to_string :: "write_error \<Rightarrow> string" where
  "write_error_to_string WE_none = ''none''"
| "write_error_to_string WE_empty_buffer = ''empty buffer''"
| "write_error_to_string WE_null_buffer = ''null buffer''"
| "write_error_to_string WE_session_ended = ''session ended''"
| "write_error_to_string WE_disconnected = ''disconnected''"
| "write_error_to_string WE_not_logged_in = ''not logged in''"
| "write_error_to_string WE_buffer_full = ''buffer full''"

fun disconnect_reason_to_string :: "disconnect_reason \<Rightarrow> string" where
  "disconnect_reason_to_string DR_none = ''none''"
| "disconnect_reason_to_string DR_user_initiated = ''user initiated''"
| "disconnect_reason_to_string DR_superseded = ''superseded''"
| "disconnect_reason_to_string DR_logout_request = ''logout request''"
| "disconnect_reason_to_string DR_peer_closed = ''peer closed''"
| "disconnect_reason_to_string DR_connect_failure = ''connect failure''"
| "disconnect_reason_to_string DR_transport_error = ''transport error''"
| "disconnect_reason_to_string DR_login_timeout = ''login timeout''"
| "disconnect_reason_to_string DR_heartbeat_timeout = ''heartbeat timeout''"
| "disconnect_reason_to_string DR_access_denied = ''access denied''"
| "disconnect_reason_to_string DR_session_mismatch = ''session mismatch''"
| "disconnect_reason_to_string DR_sequence_number_ahead_of_session = ''sequence number ahead of session''"
| "disconnect_reason_to_string DR_sequence_number_too_low = ''sequence number too low''"
| "disconnect_reason_to_string DR_sequence_number_too_high = ''sequence number too high''"
| "disconnect_reason_to_string DR_protocol_violation = ''protocol violation''"
| "disconnect_reason_to_string DR_unmanaged_abort = ''unmanaged abort''"

lemma packet_error_to_string_inj: "packet_error_to_string a = packet_error_to_string b \<longleftrightarrow> a = b"
  by (cases a; cases b; simp)

lemma login_reject_reason_to_string_inj: "login_reject_reason_to_string a = login_reject_reason_to_string b \<longleftrightarrow> a = b"
  by (cases a; cases b; simp)

lemma write_error_to_string_inj: "write_error_to_string a = write_error_to_string b \<longleftrightarrow> a = b"
  by (cases a; cases b; simp)

lemma disconnect_reason_to_string_inj: "disconnect_reason_to_string a = disconnect_reason_to_string b \<longleftrightarrow> a = b"
  by (cases a; cases b; simp)

end
