(* ===== verification/Codec.thy ===== *)
theory Codec
  imports Prelude
begin

text \<open>
  The interface of a fixed-width wire format: an encoder that always produces \<open>len\<close>
  bytes, and a decoder that reads only those and, started from a fresh destination,
  recovers every valid value.  The fields of \<^verbatim>\<open>packing.cpp\<close> and the packets of
  \<^verbatim>\<open>logical_packets.cpp\<close> are instances; a packet is one because its fields are, through
  the composition of two codecs below.
\<close>

locale field_codec =
  fixes enc :: "'v \<Rightarrow> bytes"
    and dec :: "'v \<Rightarrow> bytes \<Rightarrow> 'v"
    and valid :: "'v \<Rightarrow> bool"
    and fresh :: 'v
    and len :: nat
  assumes enc_length: "length (enc v) = len"
    and dec_enc: "valid v \<Longrightarrow> dec fresh (enc v) = v"
    and dec_prefix: "length bs = len \<Longrightarrow> dec d (bs @ rest) = dec d bs"
begin

lemma dec_enc_append: "valid v \<Longrightarrow> dec fresh (enc v @ rest) = v"
  by (simp add: dec_prefix enc_length dec_enc)

lemma enc_inj: "valid v \<Longrightarrow> valid w \<Longrightarrow> enc v = enc w \<Longrightarrow> v = w"
  by (metis dec_enc)

lemma enc_prefix_free:
  assumes "valid v" and "valid w" and eq: "enc v @ xs = enc w @ ys"
  shows "v = w \<and> xs = ys"
proof -
  from eq have "enc v = enc w \<and> xs = ys"
    by (simp add: append_eq_append_conv enc_length)
  with assms enc_inj show ?thesis by blast
qed

lemma drop_enc: "drop len (enc v @ rest) = rest"
  by (simp add: enc_length)

end

text \<open>Two fields one after the other: the second is decoded \<open>len1\<close> bytes further on.\<close>

locale field_codec_pair =
  a: field_codec enc1 dec1 valid1 fresh1 len1 + b: field_codec enc2 dec2 valid2 fresh2 len2
  for enc1 :: "'v \<Rightarrow> bytes" and dec1 valid1 fresh1 len1
    and enc2 :: "'w \<Rightarrow> bytes" and dec2 valid2 fresh2 len2

sublocale field_codec_pair \<subseteq> both: field_codec
  "\<lambda>(v, w). enc1 v @ enc2 w"
  "\<lambda>(v, w) data. (dec1 v data, dec2 w (drop len1 data))"
  "\<lambda>(v, w). valid1 v \<and> valid2 w"
  "(fresh1, fresh2)"
  "len1 + len2"
proof
  show "length (case v of (v, w) \<Rightarrow> enc1 v @ enc2 w) = len1 + len2" for v
    by (cases v) (simp add: a.enc_length b.enc_length)
next
  fix v assume "case v of (v, w) \<Rightarrow> valid1 v \<and> valid2 w"
  then show "(case (fresh1, fresh2) of (v, w) \<Rightarrow> \<lambda>data. (dec1 v data, dec2 w (drop len1 data)))
      (case v of (v, w) \<Rightarrow> enc1 v @ enc2 w) = v"
    by (cases v) (simp add: a.dec_enc_append b.dec_enc a.enc_length)
next
  fix bs :: bytes and d rest
  assume len: "length bs = len1 + len2"
  then have "dec1 x (bs @ rest) = dec1 x bs" for x
    by (metis a.dec_prefix append_assoc append_take_drop_id le_add1 length_take min.absorb2)
  moreover from len have "dec2 x (drop len1 bs @ rest) = dec2 x (drop len1 bs)" for x
    by (intro b.dec_prefix) simp
  ultimately show "(case d of (v, w) \<Rightarrow> \<lambda>data. (dec1 v data, dec2 w (drop len1 data))) (bs @ rest) =
      (case d of (v, w) \<Rightarrow> \<lambda>data. (dec1 v data, dec2 w (drop len1 data))) bs"
    using len by (cases d) simp
qed

end
