(* ===== verification/Packing.thy ===== *)
theory Packing
  imports Types Codec
begin

text \<open>
  \<^verbatim>\<open>packing.h\<close> and \<^verbatim>\<open>packing.cpp\<close>: integers in network byte order and the fixed-width
  text fields of the protocol.  A function of the code that writes through a
  \<^verbatim>\<open>void*\<close> is a function to the list of bytes it writes; one that reads through a
  \<^verbatim>\<open>const void*\<close> takes the bytes from that address on, and reads a prefix of them.
\<close>

unbundle bit_operations_syntax

section \<open>Character classes\<close>

text \<open>
  \<^verbatim>\<open>std::isalnum\<close> and \<^verbatim>\<open>std::isdigit\<close> in the \<open>C\<close> locale.  The code passes a plain
  \<open>char\<close>; for bytes above 127 (negative where \<open>char\<close> is signed) the C standard leaves
  the call undefined, and the model has the answer of the tables of glibc: no.
\<close>

definition is_digit :: "byte \<Rightarrow> bool" where
  "is_digit c \<longleftrightarrow> (let n = (of_char c :: nat) in 48 \<le> n \<and> n \<le> 57)"

definition is_alnum :: "byte \<Rightarrow> bool" where
  "is_alnum c \<longleftrightarrow> (let n = (of_char c :: nat) in
     (48 \<le> n \<and> n \<le> 57) \<or> (65 \<le> n \<and> n \<le> 90) \<or> (97 \<le> n \<and> n \<le> 122))"

abbreviation space :: byte where "space \<equiv> CHR '' ''"

lemma not_alnum_space [simp]: "\<not> is_alnum space" and not_digit_space [simp]: "\<not> is_digit space"
  by (simp_all add: is_alnum_def is_digit_def)

section \<open>Integers in memory and in network order\<close>

text \<open>
  \<^verbatim>\<open>memcpy\<close> of an integer depends on the byte order of the host, and so do \<^verbatim>\<open>htons\<close>,
  \<^verbatim>\<open>htonl\<close> and their inverses.  The host is a parameter here; what the code puts on the
  wire is then shown not to depend on it.
\<close>

datatype endian = Little_endian | Big_endian

definition byte_of :: "'a::len word \<Rightarrow> byte" where
  \<comment> \<open>the low eight bits (\<open>static_cast<char>\<close>)\<close>
  "byte_of w = char_of (unat w)"

lemma byte_of_code [code]:
  "byte_of w = Char (bit w 0) (bit w 1) (bit w 2) (bit w 3) (bit w 4) (bit w 5) (bit w 6) (bit w 7)"
  by (simp add: byte_of_def char_of_def bit_unsigned_iff possible_bit_def flip: bit_0)

fun le_bytes :: "nat \<Rightarrow> 'a::len word \<Rightarrow> bytes" where
  "le_bytes 0 w = []"
| "le_bytes (Suc n) w = byte_of w # le_bytes n (drop_bit 8 w)"

fun of_le_bytes :: "bytes \<Rightarrow> 'a::len word" where
  "of_le_bytes [] = 0"
| "of_le_bytes (c # cs) = of_char c OR push_bit 8 (of_le_bytes cs)"

definition mem_of :: "endian \<Rightarrow> 'a::len word \<Rightarrow> bytes" where
  "mem_of e w = (let bs = le_bytes (LENGTH('a) div 8) w
     in case e of Little_endian \<Rightarrow> bs | Big_endian \<Rightarrow> rev bs)"

definition of_mem :: "endian \<Rightarrow> bytes \<Rightarrow> 'a::len word" where
  "of_mem e bs = of_le_bytes (case e of Little_endian \<Rightarrow> bs | Big_endian \<Rightarrow> rev bs)"

text \<open>\<^verbatim>\<open>htons\<close>/\<^verbatim>\<open>htonl\<close>, which are their own inverses \<^verbatim>\<open>ntohs\<close>/\<^verbatim>\<open>ntohl\<close>: a byte
  swap on a little-endian host, nothing on a big-endian one.\<close>

definition hton :: "endian \<Rightarrow> 'a::len word \<Rightarrow> 'a word" where
  "hton e w = (case e of
     Big_endian \<Rightarrow> w
   | Little_endian \<Rightarrow> of_mem Little_endian (rev (mem_of Little_endian w)))"

text \<open>The templates \<^verbatim>\<open>pack(Integral, void*)\<close> and \<^verbatim>\<open>unpack(Integral&, const void*)\<close> for
  integers of 1, 2 or 4 bytes; a signed integer is the word of its bits.\<close>

definition pack_int :: "endian \<Rightarrow> 'a::len word \<Rightarrow> bytes" where
  "pack_int e i = (if LENGTH('a) = 16 then mem_of e (hton e i)
     else if LENGTH('a) = 32 then mem_of e (hton e i)
     else mem_of e i)"

definition unpack_int :: "endian \<Rightarrow> bytes \<Rightarrow> 'a::len word" where
  "unpack_int e data = (let i = of_mem e (take (LENGTH('a) div 8) data) in
     if LENGTH('a) = 16 then hton e i
     else if LENGTH('a) = 32 then hton e i
     else i)"

text \<open>An \<open>enum class\<close> with underlying type \<open>char\<close> is packed as that \<open>char\<close>.\<close>

definition pack_enum_char :: "endian \<Rightarrow> byte \<Rightarrow> bytes" where
  "pack_enum_char e c = pack_int e (of_char c :: 8 word)"

definition unpack_enum_char :: "endian \<Rightarrow> bytes \<Rightarrow> byte" where
  "unpack_enum_char e data = byte_of (unpack_int e data :: 8 word)"

subsection \<open>Byte lists and words\<close>

lemma unat_of_char [simp]:
  "8 \<le> LENGTH('a::len) \<Longrightarrow> unat (of_char c :: 'a word) = of_char c"
proof -
  assume len: "8 \<le> LENGTH('a)"
  have "(256::nat) = 2 ^ 8" by simp
  also have "\<dots> \<le> 2 ^ LENGTH('a)" using len by (intro power_increasing) auto
  finally have "(of_char c :: nat) < 2 ^ LENGTH('a)"
    using nat_of_char_less_256 [of c] by (rule order.strict_trans2 [rotated])
  moreover have "(of_char c :: 'a word) = word_of_nat (of_char c)"
    by (simp add: of_nat_of_char)
  ultimately show ?thesis by (simp add: unat_of_nat take_bit_nat_eq_self)
qed

lemma of_char_byte_of: "(of_char (byte_of w) :: 'a word) = take_bit 8 (w :: 'a::len word)"
proof -
  have "(of_char (byte_of w) :: 'a word) = word_of_nat (of_char (byte_of w))"
    by (simp add: of_nat_of_char)
  also have "of_char (byte_of w) = take_bit 8 (unat w)"
    by (simp add: byte_of_def take_bit_eq_mod)
  finally show ?thesis by (simp add: of_nat_take_bit)
qed

lemma byte_of_of_char [simp]: "8 \<le> LENGTH('a::len) \<Longrightarrow> byte_of (of_char c :: 'a word) = c"
  by (simp add: byte_of_def)

lemma byte_of_take_bit [simp]: "8 \<le> n \<Longrightarrow> byte_of (take_bit n w) = byte_of w"
  by (simp add: byte_of_def char_of_take_bit_eq unsigned_take_bit_eq)

lemma bit_of_char: "8 \<le> LENGTH('a::len) \<Longrightarrow> bit (of_char c :: 'a word) k \<Longrightarrow> k < 8"
  by (metis bit_take_bit_iff byte_of_of_char of_char_byte_of)

lemma length_le_bytes [simp]: "length (le_bytes n w) = n"
  by (induction n arbitrary: w) auto

lemma of_le_le_bytes: "of_le_bytes (le_bytes n w) = take_bit (8 * n) w"
proof (induction n arbitrary: w)
  case 0
  show ?case by simp
next
  case (Suc n)
  show ?case
    by (rule bit_eqI) (auto simp add: Suc.IH bit_simps of_char_byte_of)
qed

lemma of_le_bytes_bits:
  assumes "8 \<le> LENGTH('a::len)"
  shows "bit (of_le_bytes cs :: 'a word) k \<Longrightarrow> k < 8 * length cs"
proof (induction cs arbitrary: k)
  case Nil
  then show ?case by simp
next
  case (Cons c cs)
  then show ?case
    using bit_of_char [OF assms, of c k]
    by (fastforce simp: bit_or_iff bit_push_bit_iff)
qed

lemma le_of_le_bytes:
  assumes "8 * n \<le> LENGTH('a::len)" and "length cs = n"
  shows "le_bytes n (of_le_bytes cs :: 'a word) = cs"
  using assms
proof (induction n arbitrary: cs)
  case 0
  then show ?case by simp
next
  case (Suc n)
  then obtain c ds where cs: "cs = c # ds" and len: "length ds = n" by (cases cs) auto
  let ?w = "of_char c OR push_bit 8 (of_le_bytes ds) :: 'a word"
  from Suc.prems have eight: "8 \<le> LENGTH('a)" by simp
  have "take_bit 8 ?w = take_bit 8 (of_char c)"
    by (rule bit_eqI) (auto simp: bit_simps)
  then have "byte_of ?w = byte_of (of_char c :: 'a word)"
    by (metis byte_of_take_bit order_refl)
  with eight have c: "byte_of ?w = c" by simp
  have high: "\<not> bit (of_char c :: 'a word) (8 + k)" for k
    using bit_of_char [OF eight, of c "8 + k"] by auto
  have small: "bit (of_le_bytes ds :: 'a word) k \<Longrightarrow> 8 + k < LENGTH('a)" for k
    using of_le_bytes_bits [OF eight, of ds k] len Suc.prems by fastforce
  have "drop_bit 8 ?w = of_le_bytes ds"
    by (rule bit_eqI) (auto simp: bit_drop_bit_eq bit_or_iff bit_push_bit_iff high dest: small)
  with c cs Suc len show ?case by simp
qed

lemma length_mem_of [simp]: "length (mem_of e (w :: 'a::len word)) = LENGTH('a) div 8"
  by (cases e) (simp_all add: mem_of_def)

lemma of_mem_mem_of:
  assumes "8 dvd LENGTH('a::len)"
  shows "of_mem e (mem_of e w) = (w :: 'a word)"
  using assms by (cases e) (simp_all add: of_mem_def mem_of_def of_le_le_bytes)

lemma mem_of_of_mem:
  assumes "length bs = LENGTH('a::len) div 8"
  shows "mem_of e (of_mem e bs :: 'a word) = bs"
  using assms by (cases e) (simp_all add: of_mem_def mem_of_def le_of_le_bytes)

lemma hton_hton:
  "8 dvd LENGTH('a::len) \<Longrightarrow> hton e (hton e w) = (w :: 'a word)"
  by (cases e) (simp_all add: hton_def mem_of_of_mem of_mem_mem_of)

lemma mem_of_hton:
  "mem_of e (hton e (w :: 'a::len word)) = mem_of Big_endian w"
  by (cases e) (simp_all add: hton_def mem_of_of_mem, simp add: mem_of_def)

lemma length_pack_int [simp]: "length (pack_int e (w :: 'a::len word)) = LENGTH('a) div 8"
  by (simp add: pack_int_def)

lemma mem_of_Big_16: "mem_of Big_endian (w :: u16) = [byte_of (drop_bit 8 w), byte_of w]"
  by (simp add: mem_of_def numeral_2_eq_2)

lemma mem_of_Big_32: "mem_of Big_endian (w :: u32) =
   [byte_of (drop_bit 24 w), byte_of (drop_bit 16 w), byte_of (drop_bit 8 w), byte_of w]"
proof -
  have "le_bytes (Suc (Suc (Suc (Suc 0)))) w =
    [byte_of w, byte_of (drop_bit 8 w), byte_of (drop_bit 16 w), byte_of (drop_bit 24 w)]"
    by (simp add: drop_bit_drop_bit)
  moreover have "Suc (Suc (Suc (Suc 0))) = 4" by simp
  ultimately have "le_bytes 4 w =
    [byte_of w, byte_of (drop_bit 8 w), byte_of (drop_bit 16 w), byte_of (drop_bit 24 w)]"
    by (simp only:)
  then show ?thesis by (simp add: mem_of_def)
qed

lemma pack_int_16: "pack_int e (w :: u16) = [byte_of (drop_bit 8 w), byte_of w]"
  by (simp add: pack_int_def mem_of_hton mem_of_Big_16)

lemma pack_int_32: "pack_int e (w :: u32) =
   [byte_of (drop_bit 24 w), byte_of (drop_bit 16 w), byte_of (drop_bit 8 w), byte_of w]"
  by (simp add: pack_int_def mem_of_hton mem_of_Big_32)

lemma pack_int_8: "pack_int e (w :: 8 word) = [byte_of w]"
  by (cases e) (simp_all add: pack_int_def mem_of_def)

text \<open>Sizes the templates accept (their \<^verbatim>\<open>static_assert\<close>).\<close>

definition packable_size :: "nat \<Rightarrow> bool" where
  "packable_size n \<longleftrightarrow> n = 8 \<or> n = 16 \<or> n = 32"

lemma packable_dvd: "packable_size n \<Longrightarrow> 8 dvd n"
  by (auto simp: packable_size_def)

lemma unpack_pack_int:
  assumes "packable_size LENGTH('a::len)"
  shows "unpack_int e (pack_int e w @ rest) = (w :: 'a word)"
  using packable_dvd [OF assms]
  by (simp add: unpack_int_def pack_int_def hton_hton of_mem_mem_of)

lemma pack_int_host_independent:
  assumes "packable_size LENGTH('a::len)"
  shows "pack_int e w = pack_int e' (w :: 'a word)"
proof -
  have one: "LENGTH('a) = 8 \<Longrightarrow> mem_of e w = mem_of e' w"
    by (cases e; cases e') (simp_all add: mem_of_def)
  show ?thesis
    using assms one by (auto simp: packable_size_def pack_int_def mem_of_hton)
qed

section \<open>Text fields\<close>

text \<open>
  \<^verbatim>\<open>std::ranges::find_if_not\<close> over a range and the suffix or prefix it delimits: the
  longest alphanumeric prefix is \<open>takeWhile\<close>, the longest alphanumeric suffix is
  \<open>takeWhile\<close> over the reverse iterators.
\<close>

definition last_while :: "(byte \<Rightarrow> bool) \<Rightarrow> bytes \<Rightarrow> bytes" where
  "last_while P xs = rev (takeWhile P (rev xs))"

text \<open>Usernames and passwords: padded on the right.\<close>

definition pack_alphanumeric_right_padded :: "nat \<Rightarrow> bytes \<Rightarrow> bytes" where
  "pack_alphanumeric_right_padded len str =
    (let str = (if length str > len then take len str else str);
         str = takeWhile is_alnum str
     in str @ replicate (len - length str) space)"

definition unpack_alphanumeric_right_padded :: "nat \<Rightarrow> bytes \<Rightarrow> bytes \<Rightarrow> bytes" where
  \<comment> \<open>the bytes found are inserted in front of what the string already holds\<close>
  "unpack_alphanumeric_right_padded len str data =
    (let s = take len data; sub = takeWhile is_alnum s in sub @ str)"

definition pack_username :: "bytes \<Rightarrow> bytes" where
  "pack_username str = pack_alphanumeric_right_padded username_length str"
definition unpack_username :: "bytes \<Rightarrow> bytes \<Rightarrow> bytes" where
  "unpack_username str data = unpack_alphanumeric_right_padded username_length str data"
definition pack_password :: "bytes \<Rightarrow> bytes" where
  "pack_password str = pack_alphanumeric_right_padded password_length str"
definition unpack_password :: "bytes \<Rightarrow> bytes \<Rightarrow> bytes" where
  "unpack_password str data = unpack_alphanumeric_right_padded password_length str data"

text \<open>Sessions: padded on the left.\<close>

definition pack_alphanumeric_left_padded :: "nat \<Rightarrow> bytes \<Rightarrow> bytes" where
  "pack_alphanumeric_left_padded len str =
    (let str = (if length str > len then take len str else str);
         str = last_while is_alnum str
     in replicate (len - length str) space @ str)"

definition unpack_alphanumeric_left_padded :: "nat \<Rightarrow> bytes \<Rightarrow> bytes \<Rightarrow> bytes" where
  "unpack_alphanumeric_left_padded len str data =
    (let s = take len data; sub = last_while is_alnum s in sub @ str)"

definition pack_session :: "bytes \<Rightarrow> bytes" where
  "pack_session str = pack_alphanumeric_left_padded session_length str"
definition unpack_session :: "bytes \<Rightarrow> bytes \<Rightarrow> bytes" where
  "unpack_session str data = unpack_alphanumeric_left_padded session_length str data"

text \<open>
  Sequence numbers: decimal, padded on the left.  The loop writes digits from the last
  position backwards; \<open>k\<close> counts the positions left between \<^verbatim>\<open>s.begin()\<close> and \<^verbatim>\<open>iter\<close>,
  and what remains when it stops is filled with spaces.
\<close>

fun pack_numeric_loop :: "nat \<Rightarrow> u64 \<Rightarrow> bytes" where
  "pack_numeric_loop 0 i = []"
| "pack_numeric_loop (Suc k) i =
    (let c = byte_of (48 + i mod 10);
         i = i div 10
     in if i = 0 then replicate k space @ [c] else pack_numeric_loop k i @ [c])"

definition pack_numeric :: "nat \<Rightarrow> u64 \<Rightarrow> bytes" where
  "pack_numeric len i = pack_numeric_loop len i"

definition unpack_numeric :: "nat \<Rightarrow> bytes \<Rightarrow> u64" where
  "unpack_numeric len data =
    (let s = take len data; sub = last_while is_digit s
     in fold (\<lambda>c i. i * 10 + (of_char c - 48)) sub 0)"

definition pack_sequence_number :: "u64 \<Rightarrow> bytes" where
  "pack_sequence_number i = pack_numeric sequence_number_length i"
definition unpack_sequence_number :: "u64 \<Rightarrow> bytes \<Rightarrow> u64" where
  \<comment> \<open>the first argument is the value the reference held before; it is overwritten\<close>
  "unpack_sequence_number i data = unpack_numeric sequence_number_length data"

lemmas field_defs =
  pack_username_def unpack_username_def pack_password_def unpack_password_def
  pack_session_def unpack_session_def pack_sequence_number_def unpack_sequence_number_def
  pack_numeric_def

section \<open>What the fields carry\<close>

lemma last_while_all: "list_all P xs \<Longrightarrow> last_while P xs = xs"
  by (simp add: last_while_def takeWhile_all)

lemma list_all_last_while [simp]: "list_all P (last_while P xs)"
  by (simp add: last_while_def)

lemma length_last_while_le: "length (last_while P xs) \<le> length xs"
  by (simp add: last_while_def) (metis length_rev length_takeWhile_le)

lemma last_while_pad_left:
  "list_all P xs \<Longrightarrow> \<not> P c \<Longrightarrow> last_while P (replicate n c @ xs) = xs"
  unfolding last_while_def by (rule takeWhile_pad_left)

lemma pack_right_padded:
  "pack_alphanumeric_right_padded len str =
    (let sub = takeWhile is_alnum (take len str) in sub @ replicate (len - length sub) space)"
  by (simp add: pack_alphanumeric_right_padded_def Let_def)

lemma pack_left_padded:
  "pack_alphanumeric_left_padded len str =
    (let sub = last_while is_alnum (take len str) in replicate (len - length sub) space @ sub)"
  by (simp add: pack_alphanumeric_left_padded_def Let_def)

lemma length_takeWhile_take: "length (takeWhile P (take n xs)) \<le> n"
  by (metis length_take length_takeWhile_le min.bounded_iff)

lemma length_last_while_take: "length (last_while P (take n xs)) \<le> n"
  by (metis length_last_while_le length_take min.bounded_iff)

lemma length_pack_right_padded [simp]: "length (pack_alphanumeric_right_padded len str) = len"
  using length_takeWhile_take [of is_alnum len str] by (simp add: pack_right_padded Let_def)

lemma length_pack_left_padded [simp]: "length (pack_alphanumeric_left_padded len str) = len"
  using length_last_while_take [of is_alnum len str] by (simp add: pack_left_padded Let_def)

lemma unpack_pack_right_padded:
  "unpack_alphanumeric_right_padded len d (pack_alphanumeric_right_padded len str) =
     takeWhile is_alnum (take len str) @ d"
  using length_takeWhile_take [of is_alnum len str]
  by (simp add: unpack_alphanumeric_right_padded_def pack_right_padded Let_def takeWhile_pad_right)

lemma unpack_pack_left_padded:
  "unpack_alphanumeric_left_padded len d (pack_alphanumeric_left_padded len str) =
     last_while is_alnum (take len str) @ d"
  using length_last_while_take [of is_alnum len str]
  by (simp add: unpack_alphanumeric_left_padded_def pack_left_padded Let_def last_while_pad_left)

text \<open>A string that fits its field and is alphanumeric throughout: the condition that
  \<^verbatim>\<open>validate.cpp\<close> checks before a string is ever packed.\<close>

definition fits :: "nat \<Rightarrow> bytes \<Rightarrow> bool" where
  "fits len str \<longleftrightarrow> length str \<le> len \<and> list_all is_alnum str"

lemma fits_right_padded:
  "fits len str \<Longrightarrow> unpack_alphanumeric_right_padded len [] (pack_alphanumeric_right_padded len str) = str"
  by (simp add: unpack_pack_right_padded fits_def takeWhile_all)

lemma fits_left_padded:
  "fits len str \<Longrightarrow> unpack_alphanumeric_left_padded len [] (pack_alphanumeric_left_padded len str) = str"
  by (simp add: unpack_pack_left_padded fits_def last_while_all)

lemma unpack_fits_right: "fits len (unpack_alphanumeric_right_padded len [] data)"
  by (simp add: unpack_alphanumeric_right_padded_def fits_def Let_def length_takeWhile_take)

lemma unpack_fits_left: "fits len (unpack_alphanumeric_left_padded len [] data)"
  by (simp add: unpack_alphanumeric_left_padded_def fits_def Let_def length_last_while_take)

subsection \<open>Numbers\<close>

text \<open>The number a string of digits denotes, most significant digit first.\<close>

definition digit_value :: "byte \<Rightarrow> nat" where
  "digit_value c = of_char c - 48"

definition decimal :: "bytes \<Rightarrow> nat" where
  "decimal ds = fold (\<lambda>c n. 10 * n + digit_value c) ds 0"

lemma decimal_Nil [simp]: "decimal [] = 0"
  by (simp add: decimal_def)

lemma decimal_snoc [simp]: "decimal (ds @ [c]) = 10 * decimal ds + digit_value c"
  by (simp add: decimal_def)

lemma unat_mod_10: "unat (i mod 10 :: u64) = unat i mod 10"
  by (simp add: unat_mod)

lemma unat_div_10: "unat (i div 10 :: u64) = unat i div 10"
  by (simp add: unat_div)

lemma digit_char:
  fixes i :: u64
  shows "of_char (byte_of (48 + i mod 10)) = 48 + unat i mod 10"
proof -
  have "unat i mod 10 < 10" by simp
  then have "unat (48 + i mod 10 :: u64) = 48 + unat i mod 10"
    by (simp add: unat_word_ariths unat_mod_10)
  with \<open>unat i mod 10 < 10\<close> show ?thesis by (simp add: byte_of_def)
qed

lemma is_digit_digit_char [simp]: "is_digit (byte_of (48 + i mod 10 :: u64))"
  using digit_char [of i] mod_less_divisor [of 10 "unat i"] by (simp add: is_digit_def Let_def)

lemma digit_value_digit_char [simp]:
  "digit_value (byte_of (48 + i mod 10 :: u64)) = unat i mod 10"
  by (simp add: digit_value_def digit_char)

text \<open>
  What the loop writes, when it has enough positions: spaces, then the decimal
  representation without superfluous zeros.
\<close>

lemma pack_numeric_loop_shape:
  assumes "unat i < 10 ^ Suc k"
  shows "\<exists>m ds. pack_numeric_loop (Suc k) i = replicate m space @ ds \<and> m + length ds = Suc k
    \<and> ds \<noteq> [] \<and> list_all is_digit ds \<and> decimal ds = unat i
    \<and> (length ds > 1 \<longrightarrow> digit_value (hd ds) \<noteq> 0)"
  using assms
proof (induction k arbitrary: i)
  case 0
  then have "i div 10 = 0" by (simp add: unat_div_10 flip: unat_eq_0)
  with 0 show ?case
    by (intro exI [of _ 0] exI [of _ "[byte_of (48 + i mod 10)]"])
       (simp add: Let_def decimal_def)
next
  case (Suc k)
  let ?c = "byte_of (48 + i mod 10)"
  show ?case
  proof (cases "i div 10 = 0")
    case True
    then have "unat i div 10 = 0" by (simp add: unat_div_10 flip: unat_eq_0)
    then have "unat i mod 10 = unat i" by simp
    with True show ?thesis
      by (intro exI [of _ "Suc k"] exI [of _ "[?c]"]) (simp add: Let_def decimal_def)
  next
    case False
    then have pos: "0 < unat i div 10" by (simp add: unat_div_10 flip: unat_eq_0)
    from Suc.prems have "unat (i div 10) < 10 ^ Suc k"
      by (simp add: unat_div_10 less_mult_imp_div_less mult.commute)
    from Suc.IH [OF this] obtain m ds where
      ds: "pack_numeric_loop (Suc k) (i div 10) = replicate m space @ ds" "m + length ds = Suc k"
        "ds \<noteq> []" "list_all is_digit ds" "decimal ds = unat i div 10"
        "length ds > 1 \<longrightarrow> digit_value (hd ds) \<noteq> 0"
      by (auto simp: unat_div_10)
    have "digit_value (hd ds) \<noteq> 0"
    proof (cases "length ds > 1")
      case True
      with ds show ?thesis by simp
    next
      case False
      with ds(3) obtain d where "ds = [d]" by (cases ds; cases "tl ds") auto
      with ds(5) pos show ?thesis by (simp add: decimal_def)
    qed
    with False ds show ?thesis
      by (intro exI [of _ m] exI [of _ "ds @ [?c]"])
         (simp add: Let_def del: pack_numeric_loop.simps(2), simp add: Let_def)
  qed
qed

text \<open>The reading loop computes the decimal value modulo the width of the integer.\<close>

lemma digit_word: "is_digit c \<Longrightarrow> (of_char c - 48 :: u64) = of_nat (digit_value c)"
  by (simp add: is_digit_def digit_value_def Let_def of_nat_diff of_nat_of_char)

lemma unpack_loop_decimal:
  "list_all is_digit ds \<Longrightarrow>
   fold (\<lambda>c i. i * 10 + (of_char c - 48)) ds (0 :: u64) = of_nat (decimal ds)"
proof (induction ds rule: rev_induct)
  case Nil
  show ?case by simp
next
  case (snoc d ds)
  then show ?case by (simp add: digit_word mult.commute)
qed

lemma unpack_numeric_decimal:
  "unpack_numeric len data = of_nat (decimal (last_while is_digit (take len data)))"
  by (simp add: unpack_numeric_def Let_def unpack_loop_decimal)

lemma sequence_number_fits: "unat (i :: u64) < 10 ^ sequence_number_length"
proof -
  have "unat i < 2 ^ 64" using unsigned_less [of i] by simp
  also have "(2::nat) ^ 64 < 10 ^ sequence_number_length"
    by (simp add: sequence_number_length_def)
  finally show ?thesis .
qed

lemma pack_sequence_number_shape:
  "\<exists>m ds. pack_sequence_number i = replicate m space @ ds \<and> m + length ds = sequence_number_length
    \<and> ds \<noteq> [] \<and> list_all is_digit ds \<and> decimal ds = unat i
    \<and> (length ds > 1 \<longrightarrow> digit_value (hd ds) \<noteq> 0)"
proof -
  have "sequence_number_length = Suc 19" by (simp add: sequence_number_length_def)
  with pack_numeric_loop_shape [of i 19] sequence_number_fits [of i] show ?thesis
    unfolding pack_sequence_number_def pack_numeric_def by metis
qed

lemma length_pack_sequence_number [simp]:
  "length (pack_sequence_number i) = sequence_number_length"
  using pack_sequence_number_shape [of i] by force

lemma unpack_pack_sequence_number: "unpack_sequence_number j (pack_sequence_number i) = i"
proof -
  obtain m ds where ds: "pack_sequence_number i = replicate m space @ ds"
      "list_all is_digit ds" "decimal ds = unat i"
    using pack_sequence_number_shape by blast
  have "take sequence_number_length (pack_sequence_number i) = pack_sequence_number i" by simp
  with ds show ?thesis
    by (simp add: unpack_sequence_number_def unpack_numeric_decimal last_while_pad_left)
qed

subsection \<open>The fields are codecs\<close>

lemma unpack_right_padded_prefix:
  "length bs = len \<Longrightarrow> unpack_alphanumeric_right_padded len d (bs @ rest) =
     unpack_alphanumeric_right_padded len d bs"
  by (simp add: unpack_alphanumeric_right_padded_def)

lemma unpack_left_padded_prefix:
  "length bs = len \<Longrightarrow> unpack_alphanumeric_left_padded len d (bs @ rest) =
     unpack_alphanumeric_left_padded len d bs"
  by (simp add: unpack_alphanumeric_left_padded_def)

interpretation username: field_codec
  pack_username unpack_username "fits username_length" "[]" username_length
  by unfold_locales
     (simp_all add: field_defs fits_right_padded unpack_right_padded_prefix)

interpretation password: field_codec
  pack_password unpack_password "fits password_length" "[]" password_length
  by unfold_locales
     (simp_all add: field_defs fits_right_padded unpack_right_padded_prefix)

interpretation session: field_codec
  pack_session unpack_session "fits session_length" "[]" session_length
  by unfold_locales
     (simp_all add: field_defs fits_left_padded unpack_left_padded_prefix)

interpretation seqno: field_codec
  pack_sequence_number unpack_sequence_number "\<lambda>_. True" j sequence_number_length
  by unfold_locales
     (simp_all add: unpack_pack_sequence_number, simp add: unpack_sequence_number_def unpack_numeric_def)

end
