(* ===== verification/Logical_Packets.thy ===== *)
theory Logical_Packets
  imports Packing
begin

text \<open>
  \<^verbatim>\<open>logical_packets.h\<close>/\<^verbatim>\<open>.cpp\<close> and \<^verbatim>\<open>login_reject.h\<close>: the packet types, the payloads
  of the three packets that have one, and how they are read and written.  A payload is
  written by laying its fields out one after the other; it is read from the same offsets.
\<close>

section \<open>Packet types and payload sizes\<close>

definition debug_type :: byte where "debug_type = CHR ''+''"
definition login_accepted_type :: byte where "login_accepted_type = CHR ''A''"
definition login_rejected_type :: byte where "login_rejected_type = CHR ''J''"
definition sequenced_data_type :: byte where "sequenced_data_type = CHR ''S''"
definition server_heartbeat_type :: byte where "server_heartbeat_type = CHR ''H''"
definition end_of_session_type :: byte where "end_of_session_type = CHR ''Z''"
definition login_request_type :: byte where "login_request_type = CHR ''L''"
definition unsequenced_data_type :: byte where "unsequenced_data_type = CHR ''U''"
definition client_heartbeat_type :: byte where "client_heartbeat_type = CHR ''R''"
definition logout_request_type :: byte where "logout_request_type = CHR ''O''"

lemmas packet_type_defs =
  debug_type_def login_accepted_type_def login_rejected_type_def sequenced_data_type_def
  server_heartbeat_type_def end_of_session_type_def login_request_type_def
  unsequenced_data_type_def client_heartbeat_type_def logout_request_type_def

definition login_accepted_size :: nat where
  "login_accepted_size = session_length + sequence_number_length"
definition login_rejected_size :: nat where "login_rejected_size = 1"
definition login_request_size :: nat where
  "login_request_size =
     username_length + password_length + session_length + sequence_number_length"
definition server_heartbeat_size :: nat where "server_heartbeat_size = 0"
definition end_of_session_size :: nat where "end_of_session_size = 0"
definition client_heartbeat_size :: nat where "client_heartbeat_size = 0"
definition logout_request_size :: nat where "logout_request_size = 0"

lemmas payload_size_defs =
  login_accepted_size_def login_rejected_size_def login_request_size_def
  server_heartbeat_size_def end_of_session_size_def client_heartbeat_size_def
  logout_request_size_def

section \<open>Payloads\<close>

record login_accepted_packet =
  la_session :: bytes
  la_next_sequence_number :: u64

definition login_accepted_default :: login_accepted_packet where
  "login_accepted_default = \<lparr>la_session = [], la_next_sequence_number = 1\<rparr>"

definition login_accepted_packet_of :: "bytes \<Rightarrow> u64 \<Rightarrow> login_accepted_packet" where
  "login_accepted_packet_of s n = \<lparr>la_session = s, la_next_sequence_number = n\<rparr>"

definition read_login_accepted :: "login_accepted_packet \<Rightarrow> bytes \<Rightarrow> login_accepted_packet" where
  "read_login_accepted packet data =
    (let packet = packet\<lparr>la_session := unpack_session (la_session packet) data\<rparr>;
         data = drop session_length data
     in packet\<lparr>la_next_sequence_number :=
          unpack_sequence_number (la_next_sequence_number packet) data\<rparr>)"

definition write_login_accepted :: "login_accepted_packet \<Rightarrow> bytes" where
  "write_login_accepted packet =
     pack_session (la_session packet) @ pack_sequence_number (la_next_sequence_number packet)"

text \<open>
  \<^verbatim>\<open>enum class Login_rejected_reason : char\<close>: with a fixed underlying type every
  \<open>char\<close> is a value of it, and \<^verbatim>\<open>read\<close> stores whatever byte arrived; two are named.
\<close>

type_synonym login_rejected_reason = byte

definition rejected_not_authorized :: login_rejected_reason where
  "rejected_not_authorized = CHR ''A''"
definition rejected_session_not_available :: login_rejected_reason where
  "rejected_session_not_available = CHR ''S''"

record login_rejected_packet =
  lr_reason :: login_rejected_reason

definition login_rejected_default :: login_rejected_packet where
  "login_rejected_default = \<lparr>lr_reason = rejected_not_authorized\<rparr>"

definition login_rejected_packet_of :: "login_rejected_reason \<Rightarrow> login_rejected_packet" where
  "login_rejected_packet_of r = \<lparr>lr_reason = r\<rparr>"

text \<open>The byte order of the host, which \<open>pack_int_host_independent\<close> shows not to matter.\<close>

definition host :: endian where "host = Little_endian"

definition read_login_rejected :: "login_rejected_packet \<Rightarrow> bytes \<Rightarrow> login_rejected_packet" where
  "read_login_rejected packet data = packet\<lparr>lr_reason := unpack_enum_char host data\<rparr>"

definition write_login_rejected :: "login_rejected_packet \<Rightarrow> bytes" where
  "write_login_rejected packet = pack_enum_char host (lr_reason packet)"

record login_request_packet =
  lq_username :: bytes
  lq_password :: bytes
  lq_session :: bytes
  lq_next_sequence_number :: u64

definition login_request_default :: login_request_packet where
  "login_request_default =
     \<lparr>lq_username = [], lq_password = [], lq_session = [], lq_next_sequence_number = 0\<rparr>"

definition login_request_packet_of ::
    "bytes \<Rightarrow> bytes \<Rightarrow> bytes \<Rightarrow> u64 \<Rightarrow> login_request_packet" where
  "login_request_packet_of u p s n =
     \<lparr>lq_username = u, lq_password = p, lq_session = s, lq_next_sequence_number = n\<rparr>"

definition read_login_request :: "login_request_packet \<Rightarrow> bytes \<Rightarrow> login_request_packet" where
  "read_login_request packet data =
    (let packet = packet\<lparr>lq_username := unpack_username (lq_username packet) data\<rparr>;
         data = drop username_length data;
         packet = packet\<lparr>lq_password := unpack_password (lq_password packet) data\<rparr>;
         data = drop password_length data;
         packet = packet\<lparr>lq_session := unpack_session (lq_session packet) data\<rparr>;
         data = drop session_length data
     in packet\<lparr>lq_next_sequence_number :=
          unpack_sequence_number (lq_next_sequence_number packet) data\<rparr>)"

definition write_login_request :: "login_request_packet \<Rightarrow> bytes" where
  "write_login_request packet =
     pack_username (lq_username packet) @ pack_password (lq_password packet) @
     pack_session (lq_session packet) @ pack_sequence_number (lq_next_sequence_number packet)"

text \<open>\<^verbatim>\<open>struct Login_reject\<close>: why the server rejects, for its own handler, and what it
  tells the client.\<close>

record login_reject =
  rj_reason :: login_reject_reason
  rj_packet :: login_rejected_packet

definition login_reject_of :: "login_reject_reason \<Rightarrow> login_rejected_reason \<Rightarrow> login_reject" where
  "login_reject_of r pr = \<lparr>rj_reason = r, rj_packet = login_rejected_packet_of pr\<rparr>"

section \<open>The payloads are codecs, because their fields are\<close>

interpretation accepted_fields: field_codec_pair
  pack_session unpack_session "fits session_length" "[]" session_length
  pack_sequence_number unpack_sequence_number "\<lambda>_. True" 1 sequence_number_length
  by unfold_locales

definition valid_accepted :: "login_accepted_packet \<Rightarrow> bool" where
  "valid_accepted p \<longleftrightarrow> fits session_length (la_session p)"

interpretation accepted: field_codec
  write_login_accepted read_login_accepted valid_accepted login_accepted_default login_accepted_size
proof
  fix p
  show "length (write_login_accepted p) = login_accepted_size"
    using accepted_fields.both.enc_length [of "(la_session p, la_next_sequence_number p)"]
    by (simp add: write_login_accepted_def login_accepted_size_def)
  show "read_login_accepted login_accepted_default (write_login_accepted p) = p"
    if "valid_accepted p"
    using that accepted_fields.both.dec_enc [of "(la_session p, la_next_sequence_number p)"]
    by (simp add: read_login_accepted_def write_login_accepted_def valid_accepted_def
        login_accepted_default_def unpack_sequence_number_def Let_def)
  show "read_login_accepted p (bs @ rest) = read_login_accepted p bs"
    if "length bs = login_accepted_size" for bs rest
    using that accepted_fields.both.dec_prefix
      [of bs "(la_session p, la_next_sequence_number p)" rest]
    by (simp add: read_login_accepted_def login_accepted_size_def Let_def)
qed

interpretation rejected: field_codec
  write_login_rejected read_login_rejected "\<lambda>_. True" login_rejected_default login_rejected_size
  using unpack_pack_int [where ?'a = 8 and rest = "[]"]
  by unfold_locales
     (auto simp: write_login_rejected_def read_login_rejected_def pack_enum_char_def
       unpack_enum_char_def login_rejected_size_def login_rejected_default_def packable_size_def
       unpack_int_def)

interpretation request_text: field_codec_pair
  pack_password unpack_password "fits password_length" "[]" password_length
  "\<lambda>(v, w). pack_session v @ pack_sequence_number w"
  "\<lambda>(v, w) data. (unpack_session v data, unpack_sequence_number w (drop session_length data))"
  "\<lambda>(v, w). fits session_length v \<and> True" "([], 1)" "session_length + sequence_number_length"
  by unfold_locales

interpretation request_fields: field_codec_pair
  pack_username unpack_username "fits username_length" "[]" username_length
  "\<lambda>(p, s). pack_password p @ (case s of (v, w) \<Rightarrow> pack_session v @ pack_sequence_number w)"
  "\<lambda>(p, s) data. (unpack_password p data, (case s of (v, w) \<Rightarrow> \<lambda>data.
      (unpack_session v data, unpack_sequence_number w (drop session_length data)))
        (drop password_length data))"
  "\<lambda>(p, s). fits password_length p \<and> (case s of (v, w) \<Rightarrow> fits session_length v \<and> True)"
  "([], ([], 1))" "password_length + (session_length + sequence_number_length)"
  by unfold_locales

definition valid_request :: "login_request_packet \<Rightarrow> bool" where
  "valid_request p \<longleftrightarrow> fits username_length (lq_username p) \<and> fits password_length (lq_password p)
     \<and> fits session_length (lq_session p)"

lemmas field_decode =
  username.dec_enc_append password.dec_enc_append session.dec_enc_append
  username.enc_length password.enc_length session.enc_length seqno.dec_enc

interpretation request: field_codec
  write_login_request read_login_request valid_request login_request_default login_request_size
proof
  fix p :: login_request_packet
  let ?t = "(lq_username p, lq_password p, lq_session p, lq_next_sequence_number p)"
  show "length (write_login_request p) = login_request_size"
    using request_fields.both.enc_length [of ?t]
    by (simp add: write_login_request_def login_request_size_def)
  show "read_login_request login_request_default (write_login_request p) = p"
    if "valid_request p"
    using that
    by (simp add: read_login_request_def write_login_request_def valid_request_def
        login_request_default_def Let_def field_decode)
  show "read_login_request p (bs @ rest) = read_login_request p bs"
    if "length bs = login_request_size" for bs rest
    using that request_fields.both.dec_prefix [of bs ?t rest]
    by (simp add: read_login_request_def login_request_size_def Let_def)
qed

text \<open>Whatever bytes arrive, the text fields read are valid for their field.\<close>

lemma read_login_accepted_valid: "valid_accepted (read_login_accepted login_accepted_default data)"
  by (simp add: read_login_accepted_def valid_accepted_def login_accepted_default_def
      unpack_session_def unpack_fits_left Let_def)

lemma read_login_request_valid: "valid_request (read_login_request login_request_default data)"
  by (simp add: read_login_request_def valid_request_def login_request_default_def
      unpack_session_def unpack_username_def unpack_password_def
      unpack_fits_left unpack_fits_right Let_def)

end
