(* ===== verification/Rw_Packets.thy ===== *)
theory Rw_Packets
  imports Logical_Packets
begin

text \<open>
  \<^verbatim>\<open>rw_packets.h\<close>/\<^verbatim>\<open>.cpp\<close> and the two \<^verbatim>\<open>message.h\<close>: owned buffers, the packet being
  read and the packets to be written.  A \<^verbatim>\<open>unique_ptr<byte[]>\<close> is \<open>None\<close> when null.
  Reading or writing through a null pointer is undefined behaviour; the accessors that do
  so unchecked return \<open>None\<close> there.
\<close>

section \<open>Buffer\<close>

record buffer =
  buf_data :: "bytes option"
  buf_size :: nat

definition buffer_null :: buffer where
  "buffer_null = \<lparr>buf_data = None, buf_size = 0\<rparr>"

definition buffer_sized :: "nat \<Rightarrow> buffer" where
  \<comment> \<open>\<open>make_unique<byte[]>(size)\<close> value-initialises: zeros\<close>
  "buffer_sized n = \<lparr>buf_data = Some (replicate n (CHR 0x00)), buf_size = n\<rparr>"

definition buffer_move :: "buffer \<Rightarrow> buffer \<times> buffer" where
  \<comment> \<open>move construction: the new buffer and what is left of \<open>other\<close>\<close>
  "buffer_move other =
    (\<lparr>buf_data = buf_data other, buf_size = buf_size other\<rparr>,
     other\<lparr>buf_data := None, buf_size := 0\<rparr>)"

definition buffer_move_assign :: "buffer \<Rightarrow> buffer \<Rightarrow> buffer \<times> buffer" where
  \<comment> \<open>move assignment between two distinct buffers: \<open>*this\<close> and what is left of \<open>other\<close>\<close>
  "buffer_move_assign this other =
    (this\<lparr>buf_data := buf_data other, buf_size := buf_size other\<rparr>,
     other\<lparr>buf_data := None, buf_size := 0\<rparr>)"

definition buffer_clone :: "buffer \<Rightarrow> buffer" where
  "buffer_clone b = (case buf_data b of
     None \<Rightarrow> buffer_null
   | Some bs \<Rightarrow> (let copy = buffer_sized (buf_size b)
                in copy\<lparr>buf_data := Some (take (buf_size b) bs)\<rparr>))"

text \<open>\<^verbatim>\<open>memcpy\<close> of \<open>bs\<close> to an offset inside the array.\<close>

definition poke :: "nat \<Rightarrow> bytes \<Rightarrow> bytes \<Rightarrow> bytes" where
  "poke off bs arr = take off arr @ bs @ drop (off + length bs) arr"

definition buffer_poke :: "nat \<Rightarrow> bytes \<Rightarrow> buffer \<Rightarrow> buffer" where
  "buffer_poke off bs b = b\<lparr>buf_data := map_option (poke off bs) (buf_data b)\<rparr>"

text \<open>Class invariant: the recorded size is that of the array; no array, size 0.\<close>

definition buffer_ok :: "buffer \<Rightarrow> bool" where
  "buffer_ok b \<longleftrightarrow> buf_size b = (case buf_data b of None \<Rightarrow> 0 | Some bs \<Rightarrow> length bs)"

section \<open>Read_packet\<close>

datatype read_resize = RR_resized | RR_empty_payload | RR_malformed_header

record read_packet =
  rp_header :: bytes
  rp_payload :: buffer

definition read_packet_new :: read_packet where
  "read_packet_new =
     \<lparr>rp_header = replicate packet_header_length (CHR 0x00), rp_payload = buffer_null\<rparr>"

definition read_packet_move :: "read_packet \<Rightarrow> read_packet \<times> read_packet" where
  "read_packet_move other =
    (let (p, p') = buffer_move (rp_payload other)
     in (\<lparr>rp_header = rp_header other, rp_payload = p\<rparr>,
         other\<lparr>rp_header := replicate packet_header_length (CHR 0x00), rp_payload := p'\<rparr>))"

definition read_packet_move_assign :: "read_packet \<Rightarrow> read_packet \<Rightarrow> read_packet \<times> read_packet" where
  "read_packet_move_assign this other =
    (let (p, p') = buffer_move_assign (rp_payload this) (rp_payload other)
     in (this\<lparr>rp_header := rp_header other, rp_payload := p\<rparr>,
         other\<lparr>rp_header := replicate packet_header_length (CHR 0x00), rp_payload := p'\<rparr>))"

definition rp_packet_size :: "read_packet \<Rightarrow> u16" where
  "rp_packet_size p = unpack_int host (rp_header p)"

definition rp_packet_type :: "read_packet \<Rightarrow> byte" where
  "rp_packet_type p = rp_header p ! packet_size_length"

definition rp_resize_payload :: "read_packet \<Rightarrow> read_resize \<times> read_packet" where
  "rp_resize_payload p =
    (let p = p\<lparr>rp_payload := buffer_null\<rparr>;
         packet_size = unat (rp_packet_size p)
     in if packet_size < packet_type_length then (RR_malformed_header, p)
        else if packet_size = packet_type_length then (RR_empty_payload, p)
        else (RR_resized, p\<lparr>rp_payload := buffer_sized (packet_size - packet_type_length)\<rparr>))"

definition rp_payload_data :: "read_packet \<Rightarrow> bytes" where
  \<comment> \<open>the \<open>payload_size()\<close> bytes at \<open>payload_data()\<close>\<close>
  "rp_payload_data p = (case buf_data (rp_payload p) of None \<Rightarrow> [] | Some bs \<Rightarrow> bs)"

definition rp_payload_size :: "read_packet \<Rightarrow> nat" where
  "rp_payload_size p = buf_size (rp_payload p)"

section \<open>Write_packet\<close>

datatype write_resize = WR_resized | WR_no_capacity

record write_packet =
  wp_packet :: buffer

definition write_packet_null :: write_packet where
  "write_packet_null = \<lparr>wp_packet = buffer_null\<rparr>"

definition write_packet_sized :: "byte \<Rightarrow> u16 \<Rightarrow> write_packet" where
  \<comment> \<open>the buffer size is computed as \<open>size_t\<close>, the packet size is stored in 16 bits\<close>
  "write_packet_sized packet_type payload_size =
    (let b = buffer_sized (packet_header_length + unat payload_size);
         packet_size = of_nat packet_type_length + payload_size;
         b = buffer_poke 0 (pack_int host packet_size) b;
         b = buffer_poke packet_size_length [packet_type] b
     in \<lparr>wp_packet = b\<rparr>)"

definition write_packet_empty :: "byte \<Rightarrow> write_packet" where
  "write_packet_empty packet_type = write_packet_sized packet_type 0"

definition write_packet_of :: "byte \<Rightarrow> bytes \<Rightarrow> u16 \<Rightarrow> write_packet" where
  \<comment> \<open>\<open>payload\<close> is the memory at \<open>payload_data\<close>, of which \<open>payload_size\<close> bytes are copied\<close>
  "write_packet_of packet_type payload payload_size =
    (let p = write_packet_sized packet_type payload_size
     in p\<lparr>wp_packet := buffer_poke packet_header_length (take (unat payload_size) payload)
            (wp_packet p)\<rparr>)"

definition write_packet_clone :: "write_packet \<Rightarrow> write_packet" where
  "write_packet_clone p = write_packet_null\<lparr>wp_packet := buffer_clone (wp_packet p)\<rparr>"

definition write_packet_move :: "write_packet \<Rightarrow> write_packet \<times> write_packet" where
  "write_packet_move other =
    (let (b, b') = buffer_move (wp_packet other) in (\<lparr>wp_packet = b\<rparr>, other\<lparr>wp_packet := b'\<rparr>))"

definition wp_packet_size :: "write_packet \<Rightarrow> u16 option" where
  "wp_packet_size p = map_option (unpack_int host) (buf_data (wp_packet p))"

definition wp_packet_type :: "write_packet \<Rightarrow> byte option" where
  "wp_packet_type p = map_option (\<lambda>bs. bs ! packet_size_length) (buf_data (wp_packet p))"

definition wp_payload_capacity :: "write_packet \<Rightarrow> u64" where
  \<comment> \<open>\<open>size_t\<close> arithmetic: wraps for a buffer shorter than a header\<close>
  "wp_payload_capacity p = of_nat (buf_size (wp_packet p)) - of_nat packet_header_length"

definition wp_payload_size :: "write_packet \<Rightarrow> u64 option" where
  "wp_payload_size p = map_option (\<lambda>n. ucast n - of_nat packet_type_length) (wp_packet_size p)"

definition wp_size :: "write_packet \<Rightarrow> nat option" where
  "wp_size p = map_option (\<lambda>n. packet_size_length + unat n) (wp_packet_size p)"

definition wp_resize_payload :: "u16 \<Rightarrow> write_packet \<Rightarrow> write_resize \<times> write_packet" where
  "wp_resize_payload payload_size p =
    (if ucast payload_size > wp_payload_capacity p then (WR_no_capacity, p)
     else (let packet_size = of_nat packet_type_length + payload_size
           in (WR_resized,
               p\<lparr>wp_packet := buffer_poke 0 (pack_int host packet_size) (wp_packet p)\<rparr>)))"

text \<open>The bytes handed to \<^verbatim>\<open>asio::async_write\<close>: \<open>size()\<close> bytes at \<open>data()\<close>.\<close>

definition wp_wire :: "write_packet \<Rightarrow> bytes" where
  "wp_wire p = (case (buf_data (wp_packet p), wp_size p) of
     (Some bs, Some n) \<Rightarrow> take n bs | _ \<Rightarrow> [])"

definition wp_payload_data :: "write_packet \<Rightarrow> bytes option" where
  \<comment> \<open>the memory from \<open>payload_data()\<close> to the end of the buffer\<close>
  "wp_payload_data p = map_option (drop packet_header_length) (buf_data (wp_packet p))"

section \<open>Message (client and server)\<close>

text \<open>A message is a packet whose type is fixed by the side that sends it.\<close>

definition client_message_sized :: "u16 \<Rightarrow> write_packet" where
  "client_message_sized n = write_packet_sized unsequenced_data_type n"
definition client_message_of :: "bytes \<Rightarrow> u16 \<Rightarrow> write_packet" where
  "client_message_of payload n = write_packet_of unsequenced_data_type payload n"
definition server_message_sized :: "u16 \<Rightarrow> write_packet" where
  "server_message_sized n = write_packet_sized sequenced_data_type n"
definition server_message_of :: "bytes \<Rightarrow> u16 \<Rightarrow> write_packet" where
  "server_message_of payload n = write_packet_of sequenced_data_type payload n"
definition release_packet :: "write_packet \<Rightarrow> write_packet \<times> write_packet" where
  "release_packet m = write_packet_move m"

section \<open>Facts about buffers\<close>

lemma buffer_ok_simps [simp]:
  "buffer_ok buffer_null" "buffer_ok (buffer_sized n)"
  by (simp_all add: buffer_ok_def buffer_null_def buffer_sized_def)

lemma buffer_move_simps [simp]:
  "fst (buffer_move b) = b"
  "snd (buffer_move b) = buffer_null"
  "fst (buffer_move_assign a b) = b"
  "snd (buffer_move_assign a b) = buffer_null"
  by (simp_all add: buffer_move_def buffer_move_assign_def buffer_null_def)

lemma buffer_clone_eq: "buffer_ok b \<Longrightarrow> buffer_clone b = b"
  by (cases b) (auto simp: buffer_clone_def buffer_ok_def buffer_null_def buffer_sized_def
      split: option.splits)

lemma length_poke: "off + length bs \<le> length arr \<Longrightarrow> length (poke off bs arr) = length arr"
  by (simp add: poke_def)

lemma poke_0: "poke 0 bs arr = bs @ drop (length bs) arr"
  by (simp add: poke_def)

lemma poke_append:
  "length xs = off \<Longrightarrow> poke off bs (xs @ ys) = xs @ bs @ drop (length bs) ys"
  by (simp add: poke_def)

section \<open>The bytes of a packet\<close>

text \<open>A frame: 16-bit length of type and payload, type, payload.\<close>

definition frame :: "byte \<Rightarrow> bytes \<Rightarrow> bytes" where
  "frame t payload = pack_int host (of_nat (1 + length payload) :: u16) @ t # payload"

definition max_payload :: nat where "max_payload = 2 ^ 16 - 2"

lemma write_packet_sized_data:
  "wp_packet (write_packet_sized t n) =
     \<lparr>buf_data = Some (pack_int host (1 + n) @ t # replicate (unat n) (CHR 0x00)),
      buf_size = 3 + unat n\<rparr>"
  by (simp add: write_packet_sized_def Let_def buffer_sized_def buffer_poke_def poke_0 poke_append
      length_defs)

lemma write_packet_of_data:
  assumes "unat n \<le> length payload"
  shows "wp_packet (write_packet_of t payload n) =
     \<lparr>buf_data = Some (pack_int host (1 + n) @ t # take (unat n) payload),
      buf_size = 3 + unat n\<rparr>"
  using assms
  by (simp add: write_packet_of_def Let_def write_packet_sized_data buffer_poke_def poke_def
      length_defs)

lemma wp_packet_type_of [simp]:
  "wp_packet_type (write_packet_sized t n) = Some t"
  "unat n \<le> length payload \<Longrightarrow> wp_packet_type (write_packet_of t payload n) = Some t"
  by (simp_all add: wp_packet_type_def write_packet_sized_data write_packet_of_data length_defs
      nth_append)

lemma wp_packet_size_of [simp]:
  "wp_packet_size (write_packet_sized t n) = Some (1 + n)"
  "unat n \<le> length payload \<Longrightarrow> wp_packet_size (write_packet_of t payload n) = Some (1 + n)"
  using unpack_pack_int [where ?'a = 16 and e = host and w = "1 + n"]
  by (simp_all add: wp_packet_size_def write_packet_sized_data write_packet_of_data
      packable_size_def)

lemma unat_1_plus: "unat n \<le> max_payload \<Longrightarrow> unat (1 + n :: u16) = 1 + unat n"
  by (simp add: max_payload_def unat_word_ariths)

lemma wp_wire_of:
  assumes "unat n = length payload" and "unat n \<le> max_payload"
  shows "wp_wire (write_packet_of t payload n) = frame t payload"
proof -
  have "of_nat (1 + length payload) = 1 + n"
    using assms(1) [symmetric] by simp
  with assms show ?thesis
    by (simp add: wp_wire_def wp_size_def write_packet_of_data frame_def unat_1_plus length_defs)
qed

lemma wp_wire_empty: "wp_wire (write_packet_empty t) = frame t []"
  by (simp add: write_packet_empty_def wp_wire_def wp_size_def write_packet_sized_data frame_def
      length_defs)

lemma wp_clone_eq: "buffer_ok (wp_packet p) \<Longrightarrow> write_packet_clone p = p"
  by (simp add: write_packet_clone_def write_packet_null_def buffer_clone_eq)

text \<open>Filling in the payload through \<^verbatim>\<open>payload_data()\<close>, as the login packets do.\<close>

definition wp_write_payload :: "bytes \<Rightarrow> write_packet \<Rightarrow> write_packet" where
  "wp_write_payload bs p = p\<lparr>wp_packet := buffer_poke packet_header_length bs (wp_packet p)\<rparr>"

lemma wp_write_payload_data:
  assumes "length bs = unat n"
  shows "wp_packet (wp_write_payload bs (write_packet_sized t n)) =
     \<lparr>buf_data = Some (pack_int host (1 + n) @ t # bs), buf_size = 3 + unat n\<rparr>"
  using assms
  by (simp add: wp_write_payload_def write_packet_sized_data buffer_poke_def poke_def length_defs)

lemma wp_write_payload_eq:
  "length bs = unat n \<Longrightarrow> wp_write_payload bs (write_packet_sized t n) = write_packet_of t bs n"
  using wp_write_payload_data [of bs n t] write_packet_of_data [of n bs t]
  by (simp add: write_packet.equality)

end
