(* ===== verification/Socket.thy ===== *)
theory Socket
  imports Lens Rw_Packets
begin

text \<open>
  \<^verbatim>\<open>socket.h\<close>/\<^verbatim>\<open>.cpp\<close>: the framing of packets over an Asio TCP socket, the bounded
  queue of packets to write, and the notification that the socket is closed and idle.

  The record has the members of the class (\<open>sk_open\<close> is \<^verbatim>\<open>socket_.is_open()\<close>) and
  \<open>sk_ops\<close>, which the code cannot see: the asynchronous operations it has started whose
  completion handlers have not run.  Asio is not part of the program.  What it answers
  (the error of a synchronous call, the error and the byte count of a completion, the
  bytes it put into a read buffer) is an argument, unrestricted unless a lemma says so.

  The handler interface is a record of functions on the state \<open>'s\<close> of the object the
  socket is a member of; \<^verbatim>\<open>set_handler\<close> is the choice of that argument.
\<close>

type_synonym endpoint = "string \<times> nat"

datatype sock_op = Op_connect | Op_read_header | Op_read_payload | Op_write bytes | Op_post_closed

record socket =
  sk_open :: bool
  sk_read_packet :: read_packet
  sk_write_packets :: "write_packet list"
  sk_write_packets_limit :: nat
  sk_write_buffer_was_full :: bool
  sk_connect_pending :: bool
  sk_read_pending :: bool
  sk_write_pending :: bool
  sk_closing :: bool
  sk_closed_signaled :: bool
  sk_ops :: "sock_op list"

record 's socket_handler =
  sh_socket :: "('s, socket) lens"
  sh_connect_failure :: "error_code \<Rightarrow> 's \<Rightarrow> 's"
  sh_connect_success :: "'s \<Rightarrow> 's"
  sh_read_failure :: "error_code \<Rightarrow> 's \<Rightarrow> 's"
  sh_read_packet_failure :: "packet_error \<Rightarrow> 's \<Rightarrow> 's"
  sh_read_success :: "read_packet \<Rightarrow> 's \<Rightarrow> 's"
  sh_read_aborted :: "'s \<Rightarrow> 's"
  sh_read_end_of_file :: "'s \<Rightarrow> 's"
  sh_write_failure :: "error_code \<Rightarrow> 's \<Rightarrow> 's"
  sh_write_success :: "write_packet \<Rightarrow> 's \<Rightarrow> 's"
  sh_write_buffer_empty :: "'s \<Rightarrow> 's"
  sh_closed :: "'s \<Rightarrow> 's"

section \<open>Operations that do not call back\<close>

definition socket_new :: "bool \<Rightarrow> socket" where
  \<comment> \<open>the argument: whether the Asio socket given to the constructor is open\<close>
  "socket_new is_open = \<lparr>sk_open = is_open, sk_read_packet = read_packet_new,
     sk_write_packets = [], sk_write_packets_limit = 100, sk_write_buffer_was_full = False,
     sk_connect_pending = False, sk_read_pending = False, sk_write_pending = False,
     sk_closing = False, sk_closed_signaled = False, sk_ops = []\<rparr>"

definition set_write_packets_limit :: "nat \<Rightarrow> socket \<Rightarrow> socket" where
  "set_write_packets_limit n k = k\<lparr>sk_write_packets_limit := n\<rparr>"

definition socket_open :: "error_code \<Rightarrow> socket \<Rightarrow> error_code \<times> socket" where
  "socket_open ec k = (ec, if ec_set ec then k else k\<lparr>sk_open := True\<rparr>)"

definition socket_set_no_delay :: "error_code \<Rightarrow> socket \<Rightarrow> error_code" where
  "socket_set_no_delay ec k = ec"

definition is_idle :: "socket \<Rightarrow> bool" where
  "is_idle k \<longleftrightarrow> \<not> sk_connect_pending k \<and> \<not> sk_read_pending k \<and> \<not> sk_write_pending k"

definition socket_maybe_signal_closed :: "socket \<Rightarrow> socket" where
  "socket_maybe_signal_closed k =
    (if sk_closing k \<and> \<not> sk_closed_signaled k \<and> is_idle k
     then k\<lparr>sk_closed_signaled := True, sk_ops := sk_ops k @ [Op_post_closed]\<rparr> else k)"

definition socket_close :: "socket \<Rightarrow> socket" where
  \<comment> \<open>Asio closes the descriptor even when \<open>close\<close> reports an error\<close>
  "socket_close k =
    (let k = k\<lparr>sk_closing := True\<rparr>;
         k = (if sk_open k then k\<lparr>sk_open := False\<rparr> else k)
     in socket_maybe_signal_closed k)"

definition socket_shutdown :: "error_code \<Rightarrow> socket \<Rightarrow> error_code option \<times> socket" where
  \<comment> \<open>the first result: what is written through the argument \<open>error\<close>; nothing when the socket is
      not open.  The members stay as they are, and Asio answers the outstanding operations.\<close>
  "socket_shutdown ec k = (if sk_open k then (Some ec, k) else (None, k))"

text \<open>The endpoints are the operating system's answer; with an error Asio returns a
  default-constructed one.\<close>

definition endpoint_default :: endpoint where "endpoint_default = (''0.0.0.0'', 0)"

definition socket_local_endpoint :: "error_code \<Rightarrow> endpoint \<Rightarrow> socket \<Rightarrow> error_code \<times> endpoint" where
  "socket_local_endpoint ec ep k = (ec, if ec_set ec then endpoint_default else ep)"

definition socket_remote_endpoint :: "error_code \<Rightarrow> endpoint \<Rightarrow> socket \<Rightarrow> error_code \<times> endpoint" where
  "socket_remote_endpoint ec ep k = (ec, if ec_set ec then endpoint_default else ep)"

definition socket_async_connect :: "socket \<Rightarrow> socket" where
  "socket_async_connect k =
    (if sk_closing k then k
     else k\<lparr>sk_connect_pending := True, sk_ops := sk_ops k @ [Op_connect]\<rparr>)"

definition read_header :: "socket \<Rightarrow> socket" where
  "read_header k = k\<lparr>sk_read_pending := True, sk_ops := sk_ops k @ [Op_read_header]\<rparr>"

definition read_payload :: "socket \<Rightarrow> socket" where
  "read_payload k = k\<lparr>sk_read_pending := True, sk_ops := sk_ops k @ [Op_read_payload]\<rparr>"

definition socket_async_read :: "socket \<Rightarrow> socket" where
  "socket_async_read k =
    (if sk_closing k then k
     else read_header (k\<lparr>sk_read_packet := read_packet_new\<rparr>))"

definition write_packet_start :: "socket \<Rightarrow> socket" where
  \<comment> \<open>\<open>Socket::write_packet\<close>; only called with packets in the queue\<close>
  "write_packet_start k =
     k\<lparr>sk_write_pending := True,
       sk_ops := sk_ops k @ [Op_write (wp_wire (hd (sk_write_packets k)))]\<rparr>"

definition socket_async_write :: "write_packet \<Rightarrow> socket \<Rightarrow> write_error \<times> socket" where
  "socket_async_write packet k =
    (if sk_closing k then (WE_disconnected, k)
     else
       (let sz = length (sk_write_packets k) in
        if sz = sk_write_packets_limit k
        then (WE_buffer_full, k\<lparr>sk_write_buffer_was_full := True\<rparr>)
        else
          (let k = k\<lparr>sk_write_packets := sk_write_packets k @ [packet]\<rparr>;
               k = (if sz = 0 then write_packet_start k else k)
           in (WE_none, k))))"

section \<open>Completion handlers\<close>

definition short_transfer :: error_code where
  "short_transfer = error_code_of ECANCELED System"

definition connect_done :: "'s socket_handler \<Rightarrow> error_code \<Rightarrow> 's \<Rightarrow> 's" where
  "connect_done h ec s =
    (let l = sh_socket h;
         s = lens_upd l (\<lambda>k. k\<lparr>sk_ops := remove1 Op_connect (sk_ops k),
                              sk_connect_pending := False\<rparr>) s;
         s = (if ec_set ec
              then (if ec \<noteq> operation_aborted then sh_connect_failure h ec s else s)
              else sh_connect_success h s)
     in lens_upd l socket_maybe_signal_closed s)"

definition read_error :: "'s socket_handler \<Rightarrow> error_code \<Rightarrow> 's \<Rightarrow> 's" where
  \<comment> \<open>the first block shared by \<open>header_received\<close> and \<open>payload_received\<close>\<close>
  "read_error h ec s =
    (if ec = operation_aborted then sh_read_aborted h s
     else if ec = eof_error then sh_read_end_of_file h s
     else sh_read_failure h ec s)"

definition header_received :: "'s socket_handler \<Rightarrow> error_code \<Rightarrow> nat \<Rightarrow> 's \<Rightarrow> 's" where
  "header_received h ec n s =
    (let l = sh_socket h in
     if ec_set ec then read_error h ec s
     else if n \<noteq> length (rp_header (sk_read_packet (lens_get l s)))
     then sh_read_failure h short_transfer s
     else
       (let (result, p) = rp_resize_payload (sk_read_packet (lens_get l s));
            s = lens_upd l (\<lambda>k. k\<lparr>sk_read_packet := p\<rparr>) s
        in case result of
             RR_resized \<Rightarrow> lens_upd l read_payload s
           | RR_empty_payload \<Rightarrow>
               (let (packet, rest) = read_packet_move (sk_read_packet (lens_get l s));
                    s = lens_upd l (\<lambda>k. k\<lparr>sk_read_packet := rest\<rparr>) s
                in sh_read_success h packet s)
           | RR_malformed_header \<Rightarrow> sh_read_packet_failure h PE_malformed_header s))"

definition read_header_done :: "'s socket_handler \<Rightarrow> error_code \<Rightarrow> bytes \<Rightarrow> 's \<Rightarrow> 's" where
  \<comment> \<open>\<open>data\<close>: the bytes Asio put into the header buffer; \<open>n\<close> is their number\<close>
  "read_header_done h ec data s =
    (let l = sh_socket h;
         s = lens_upd l (\<lambda>k. k\<lparr>sk_ops := remove1 Op_read_header (sk_ops k),
               sk_read_packet := (sk_read_packet k)
                 \<lparr>rp_header := poke 0 data (rp_header (sk_read_packet k))\<rparr>,
               sk_read_pending := False\<rparr>) s;
         s = header_received h ec (length data) s
     in lens_upd l socket_maybe_signal_closed s)"

definition payload_received :: "'s socket_handler \<Rightarrow> error_code \<Rightarrow> nat \<Rightarrow> 's \<Rightarrow> 's" where
  "payload_received h ec n s =
    (let l = sh_socket h in
     if ec_set ec then read_error h ec s
     else if n \<noteq> rp_payload_size (sk_read_packet (lens_get l s))
     then sh_read_failure h short_transfer s
     else
       (let (packet, rest) = read_packet_move (sk_read_packet (lens_get l s));
            s = lens_upd l (\<lambda>k. k\<lparr>sk_read_packet := rest\<rparr>) s
        in sh_read_success h packet s))"

definition read_payload_done :: "'s socket_handler \<Rightarrow> error_code \<Rightarrow> bytes \<Rightarrow> 's \<Rightarrow> 's" where
  "read_payload_done h ec data s =
    (let l = sh_socket h;
         s = lens_upd l (\<lambda>k. k\<lparr>sk_ops := remove1 Op_read_payload (sk_ops k),
               sk_read_packet := (sk_read_packet k)
                 \<lparr>rp_payload := buffer_poke 0 data (rp_payload (sk_read_packet k))\<rparr>,
               sk_read_pending := False\<rparr>) s;
         s = payload_received h ec (length data) s
     in lens_upd l socket_maybe_signal_closed s)"

definition packet_sent :: "'s socket_handler \<Rightarrow> error_code \<Rightarrow> nat \<Rightarrow> 's \<Rightarrow> 's" where
  "packet_sent h ec n s =
    (let l = sh_socket h in
     if ec_set ec then (if ec \<noteq> operation_aborted then sh_write_failure h ec s else s)
     else
       (let packet = hd (sk_write_packets (lens_get l s)) in
        if Some n \<noteq> wp_size packet then sh_write_failure h short_transfer s
        else
          (let s = sh_write_success h packet s;
               s = lens_upd l (\<lambda>k. k\<lparr>sk_write_packets := tl (sk_write_packets k)\<rparr>) s
           in if sk_write_packets (lens_get l s) \<noteq> [] then lens_upd l write_packet_start s
              else if sk_write_buffer_was_full (lens_get l s)
              then sh_write_buffer_empty h
                     (lens_upd l (\<lambda>k. k\<lparr>sk_write_buffer_was_full := False\<rparr>) s)
              else s)))"

definition write_done :: "'s socket_handler \<Rightarrow> bytes \<Rightarrow> error_code \<Rightarrow> nat \<Rightarrow> 's \<Rightarrow> 's" where
  \<comment> \<open>\<open>bs\<close>: the bytes this write was started with\<close>
  "write_done h bs ec n s =
    (let l = sh_socket h;
         s = lens_upd l (\<lambda>k. k\<lparr>sk_ops := remove1 (Op_write bs) (sk_ops k),
               sk_write_pending := False\<rparr>) s;
         s = packet_sent h ec n s
     in lens_upd l socket_maybe_signal_closed s)"

definition post_closed_done :: "'s socket_handler \<Rightarrow> 's \<Rightarrow> 's" where
  "post_closed_done h s =
    sh_closed h (lens_upd (sh_socket h)
      (\<lambda>k. k\<lparr>sk_ops := remove1 Op_post_closed (sk_ops k)\<rparr>) s)"

text \<open>One completion of any kind.  A completion of an operation that was not started does
  not happen.\<close>

definition socket_complete ::
    "'s socket_handler \<Rightarrow> sock_op \<Rightarrow> error_code \<Rightarrow> nat \<Rightarrow> bytes \<Rightarrow> 's \<Rightarrow> 's" where
  "socket_complete h op ec n data s =
    (if op \<notin> set (sk_ops (lens_get (sh_socket h) s)) then s
     else case op of
       Op_connect \<Rightarrow> connect_done h ec s
     | Op_read_header \<Rightarrow> read_header_done h ec data s
     | Op_read_payload \<Rightarrow> read_payload_done h ec data s
     | Op_write bs \<Rightarrow> write_done h bs ec n s
     | Op_post_closed \<Rightarrow> post_closed_done h s)"

end
