(* ===== verification/Socket_Contract.thy ===== *)
theory Socket_Contract
  imports Socket
begin

text \<open>
  What a socket keeps true, and the contract with the object it belongs to.

  \<open>sock_core\<close> relates the flags of the class to the operations that are really
  outstanding in Asio; it holds at every point of every function.  \<open>sock_rest\<close> adds what
  holds between completion handlers: a closing socket with nothing pending has posted its
  \<^verbatim>\<open>closed()\<close>.  The locale \<open>socket_owner\<close> states what a handler may do to the socket while
  it is called; under it every completion keeps \<open>sock_rest\<close>, so that \<^verbatim>\<open>closed()\<close> is the
  last thing the socket does.
\<close>

section \<open>What Asio promises\<close>

text \<open>
  A completion only happens for an operation that is outstanding; and Asio documents
  \<^verbatim>\<open>operation_aborted\<close> as the outcome of an operation that was cancelled, which for a
  connection attempt or a write only \<^verbatim>\<open>Socket::close\<close> does.
\<close>

definition asio_may_complete :: "sock_op \<Rightarrow> error_code \<Rightarrow> socket \<Rightarrow> bool" where
  "asio_may_complete op ec k \<longleftrightarrow> op \<in> set (sk_ops k) \<and>
     (ec = operation_aborted \<longrightarrow> (case op of
        Op_connect \<Rightarrow> sk_closing k | Op_write bs \<Rightarrow> sk_closing k | _ \<Rightarrow> True))"

section \<open>Counting outstanding operations\<close>

fun is_read_op :: "sock_op \<Rightarrow> bool" where
  "is_read_op Op_read_header = True"
| "is_read_op Op_read_payload = True"
| "is_read_op _ = False"

fun is_write_op :: "sock_op \<Rightarrow> bool" where
  "is_write_op (Op_write bs) = True"
| "is_write_op _ = False"

definition n_ops :: "(sock_op \<Rightarrow> bool) \<Rightarrow> socket \<Rightarrow> nat" where
  "n_ops P k = length (filter P (sk_ops k))"

definition sock_core :: "socket \<Rightarrow> bool" where
  "sock_core k \<longleftrightarrow>
     n_ops (\<lambda>op. op = Op_connect) k = of_bool (sk_connect_pending k) \<and>
     n_ops is_read_op k = of_bool (sk_read_pending k) \<and>
     n_ops is_write_op k = of_bool (sk_write_pending k) \<and>
     n_ops (\<lambda>op. op = Op_post_closed) k \<le> of_bool (sk_closed_signaled k) \<and>
     (sk_closed_signaled k \<longrightarrow> sk_closing k \<and> is_idle k) \<and>
     (sk_connect_pending k \<longrightarrow> \<not> sk_read_pending k) \<and>
     (sk_write_pending k \<longrightarrow> sk_write_packets k \<noteq> [])"

definition sock_rest :: "socket \<Rightarrow> bool" where
  "sock_rest k \<longleftrightarrow> sock_core k \<and> (sk_closing k \<and> is_idle k \<longrightarrow> sk_closed_signaled k)"

text \<open>The socket has told its handler, for good, that it is closed.\<close>

definition sock_told :: "socket \<Rightarrow> bool" where
  "sock_told k \<longleftrightarrow> sk_closed_signaled k \<and> Op_post_closed \<notin> set (sk_ops k)"

lemma sock_core_new [simp]: "sock_core (socket_new b)" "sock_rest (socket_new b)"
  by (simp_all add: sock_core_def sock_rest_def socket_new_def n_ops_def is_idle_def)

lemma n_ops_append [simp]: "n_ops P (k\<lparr>sk_ops := sk_ops k @ [op]\<rparr>) = n_ops P k + of_bool (P op)"
  by (simp add: n_ops_def)

lemma length_filter_remove1:
  "x \<in> set xs \<Longrightarrow> length (filter P (remove1 x xs)) = length (filter P xs) - of_bool (P x)"
proof (induction xs)
  case Nil
  then show ?case by simp
next
  case (Cons y xs)
  have "P x \<Longrightarrow> x \<in> set xs \<Longrightarrow> length (filter P xs) > 0"
    by (metis filter_empty_conv length_greater_0_conv)
  with Cons show ?case by auto
qed

text \<open>A socket at rest that is done with everything has no operation outstanding.\<close>

lemma sock_told_no_ops:
  assumes "sock_core k" and "sock_told k"
  shows "sk_ops k = []"
proof (rule ccontr)
  assume "sk_ops k \<noteq> []"
  then obtain op where op: "op \<in> set (sk_ops k)" by (cases "sk_ops k") auto
  then have pos: "P op \<Longrightarrow> 0 < n_ops P k" for P
    unfolding n_ops_def by (metis filter_empty_conv length_greater_0_conv)
  from assms op show False
    using pos [of "\<lambda>op. op = Op_connect"] pos [of is_read_op] pos [of is_write_op]
    by (cases op) (auto simp: sock_core_def sock_told_def is_idle_def)
qed

text \<open>Conversely, as long as it has not told its handler, something is outstanding.\<close>

lemma sock_rest_progress:
  assumes "sock_rest k" and "\<not> sock_told k" and "sk_closing k \<or> \<not> is_idle k"
  shows "sk_ops k \<noteq> []"
proof
  assume "sk_ops k = []"
  then have "n_ops P k = 0" for P by (simp add: n_ops_def)
  with assms \<open>sk_ops k = []\<close> show False
    by (auto simp: sock_rest_def sock_core_def sock_told_def is_idle_def)
qed

text \<open>The socket as it is when a completion handler has cleared its flag.\<close>

lemma cleared_core:
  assumes "sock_core k" and "op \<in> set (sk_ops k)"
  shows "op = Op_connect \<Longrightarrow>
      sock_core (k\<lparr>sk_ops := remove1 op (sk_ops k), sk_connect_pending := False\<rparr>) \<and>
      sk_connect_pending k \<and> \<not> sk_read_pending k"
    and "is_read_op op \<Longrightarrow>
      sock_core (k\<lparr>sk_ops := remove1 op (sk_ops k), sk_read_packet := p, sk_read_pending := False\<rparr>)
      \<and> sk_read_pending k \<and> \<not> sk_connect_pending k \<and> \<not> sk_closed_signaled k"
    and "is_write_op op \<Longrightarrow>
      sock_core (k\<lparr>sk_ops := remove1 op (sk_ops k), sk_write_pending := False\<rparr>)
      \<and> sk_write_pending k \<and> \<not> sk_closed_signaled k \<and> sk_write_packets k \<noteq> []"
    and "op = Op_post_closed \<Longrightarrow>
      sock_core (k\<lparr>sk_ops := remove1 op (sk_ops k)\<rparr>) \<and> sk_closed_signaled k"
proof -
  have pos: "P op \<Longrightarrow> 0 < n_ops P k" for P
    unfolding n_ops_def using assms(2) by (metis filter_empty_conv length_greater_0_conv)
  note facts = assms(1) [unfolded sock_core_def]
  show "sock_core (k\<lparr>sk_ops := remove1 op (sk_ops k), sk_connect_pending := False\<rparr>) \<and>
      sk_connect_pending k \<and> \<not> sk_read_pending k" if "op = Op_connect"
    using facts that pos [of "\<lambda>op. op = Op_connect"] assms(2)
    by (auto simp: sock_core_def n_ops_def is_idle_def length_filter_remove1)
  show "sock_core (k\<lparr>sk_ops := remove1 op (sk_ops k), sk_read_packet := p, sk_read_pending := False\<rparr>)
      \<and> sk_read_pending k \<and> \<not> sk_connect_pending k \<and> \<not> sk_closed_signaled k" if "is_read_op op"
    using facts that pos [of is_read_op] assms(2)
    by (cases op) (auto simp: sock_core_def n_ops_def is_idle_def length_filter_remove1)
  show "sock_core (k\<lparr>sk_ops := remove1 op (sk_ops k), sk_write_pending := False\<rparr>)
      \<and> sk_write_pending k \<and> \<not> sk_closed_signaled k \<and> sk_write_packets k \<noteq> []"
    if "is_write_op op"
    using facts that pos [of is_write_op] assms(2)
    by (cases op) (auto simp: sock_core_def n_ops_def is_idle_def length_filter_remove1)
  show "sock_core (k\<lparr>sk_ops := remove1 op (sk_ops k)\<rparr>) \<and> sk_closed_signaled k"
    if "op = Op_post_closed"
    using facts that pos [of "\<lambda>op. op = Op_post_closed"] assms(2)
    by (cases "sk_closed_signaled k") (auto simp: sock_core_def n_ops_def is_idle_def length_filter_remove1)
qed

section \<open>Public operations keep the core\<close>

lemma sock_core_maybe_signal:
  "sock_core k \<Longrightarrow> sock_rest (socket_maybe_signal_closed k)"
  by (auto simp: sock_core_def sock_rest_def socket_maybe_signal_closed_def is_idle_def n_ops_def)

lemma sock_core_close: "sock_core k \<Longrightarrow> sock_rest (socket_close k)"
  unfolding socket_close_def Let_def
  by (rule sock_core_maybe_signal) (auto simp: sock_core_def is_idle_def n_ops_def)

lemma sock_core_async_read:
  "sock_core k \<Longrightarrow> \<not> sk_read_pending k \<Longrightarrow> \<not> sk_connect_pending k \<Longrightarrow>
   sock_core (socket_async_read k)"
  by (auto simp: sock_core_def socket_async_read_def read_header_def is_idle_def n_ops_def)

lemma sock_core_async_write: "sock_core k \<Longrightarrow> sock_core (snd (socket_async_write p k))"
  by (auto simp: sock_core_def socket_async_write_def write_packet_start_def is_idle_def
      n_ops_def Let_def)

lemma sock_core_async_connect:
  "sock_core k \<Longrightarrow> is_idle k \<Longrightarrow> sock_core (socket_async_connect k)"
  by (auto simp: sock_core_def socket_async_connect_def is_idle_def n_ops_def)

text \<open>What a handler does to the socket while it runs: reads only when no read is
  pending and the socket is connected, writes, and closes, in any order.\<close>

inductive sock_evolve :: "socket \<Rightarrow> socket \<Rightarrow> bool" where
  evolve_refl: "sock_evolve k k"
| evolve_read: "sock_evolve k k' \<Longrightarrow> \<not> sk_read_pending k' \<Longrightarrow> \<not> sk_connect_pending k' \<Longrightarrow>
     sock_evolve k (socket_async_read k')"
| evolve_write: "sock_evolve k k' \<Longrightarrow> sock_evolve k (snd (socket_async_write p k'))"
| evolve_close: "sock_evolve k k' \<Longrightarrow> sock_evolve k (socket_close k')"

inductive_simps sock_evolve_closing_read: "sock_evolve k (socket_async_read k')"

lemmas sock_op_defs =
  socket_async_read_def read_header_def socket_async_write_def write_packet_start_def
  socket_close_def socket_maybe_signal_closed_def

lemma evolve_trans: "sock_evolve k' k'' \<Longrightarrow> sock_evolve k k' \<Longrightarrow> sock_evolve k k''"
  by (induction rule: sock_evolve.induct) (auto intro: sock_evolve.intros)

lemma evolve_core: "sock_evolve k k' \<Longrightarrow> sock_core k \<Longrightarrow> sock_core k'"
  by (induction rule: sock_evolve.induct)
     (auto simp: sock_core_async_read sock_core_async_write
       dest: sock_core_close simp: sock_rest_def)

lemma evolve_closing: "sock_evolve k k' \<Longrightarrow> sk_closing k \<Longrightarrow> sk_closing k'"
  by (induction rule: sock_evolve.induct) (auto simp: sock_op_defs Let_def)

lemma evolve_connect_pending: "sock_evolve k k' \<Longrightarrow> sk_connect_pending k' = sk_connect_pending k"
  by (induction rule: sock_evolve.induct) (auto simp: sock_op_defs Let_def)

lemma evolve_signaled: "sock_evolve k k' \<Longrightarrow> sk_closed_signaled k \<Longrightarrow> sk_closed_signaled k'"
  by (induction rule: sock_evolve.induct) (auto simp: sock_op_defs Let_def)

lemma evolve_told: "sock_evolve k k' \<Longrightarrow> sock_core k \<Longrightarrow> sock_told k' = sock_told k"
proof (induction rule: sock_evolve.induct)
  case (evolve_refl k)
  then show ?case by simp
next
  case (evolve_read k k')
  then have "sock_core k'" by (simp add: evolve_core)
  with evolve_read show ?case
    by (auto simp: sock_told_def sock_op_defs sock_core_def)
next
  case (evolve_write k k' p)
  then have "sock_core k'" by (simp add: evolve_core)
  with evolve_write show ?case
    by (auto simp: sock_told_def sock_op_defs sock_core_def Let_def)
next
  case (evolve_close k k')
  then have "sock_core k'" by (simp add: evolve_core)
  with evolve_close show ?case
    by (auto simp: sock_told_def sock_op_defs sock_core_def Let_def)
qed

lemma evolve_queue:
  "sock_evolve k k' \<Longrightarrow> \<exists>ps. sk_write_packets k' = sk_write_packets k @ ps"
  by (induction rule: sock_evolve.induct) (auto simp: sock_op_defs Let_def)

lemma evolve_write_pending:
  "sock_evolve k k' \<Longrightarrow> sk_write_packets k \<noteq> [] \<Longrightarrow> sk_write_pending k' = sk_write_pending k"
proof (induction rule: sock_evolve.induct)
  case (evolve_write k k' p)
  with evolve_queue [of k k'] show ?case by (auto simp: sock_op_defs Let_def)
qed (auto simp: sock_op_defs Let_def)

section \<open>The contract\<close>

text \<open>\<open>calm\<close> is the owner's condition under which a packet that has been written does not
  close a socket that has more to write.\<close>

locale socket_owner = sub_object "sh_socket h" for h :: "'s socket_handler" +
  fixes calm :: "'s \<Rightarrow> bool"
  assumes on_connect_failure:
      "sock_evolve (lens_get (sh_socket h) s) (lens_get (sh_socket h) (sh_connect_failure h ec s))"
    and on_connect_success:
      "\<not> sk_connect_pending (lens_get (sh_socket h) s) \<Longrightarrow>
       \<not> sk_read_pending (lens_get (sh_socket h) s) \<Longrightarrow>
       sock_evolve (lens_get (sh_socket h) s) (lens_get (sh_socket h) (sh_connect_success h s))"
    and on_read_failure:
      "sock_evolve (lens_get (sh_socket h) s) (lens_get (sh_socket h) (sh_read_failure h ec s))"
    and on_read_packet_failure:
      "sock_evolve (lens_get (sh_socket h) s) (lens_get (sh_socket h) (sh_read_packet_failure h pe s))"
    and on_read_success:
      "\<not> sk_connect_pending (lens_get (sh_socket h) s) \<Longrightarrow>
       \<not> sk_read_pending (lens_get (sh_socket h) s) \<Longrightarrow>
       sock_evolve (lens_get (sh_socket h) s) (lens_get (sh_socket h) (sh_read_success h p s))"
    and on_read_aborted:
      "sock_evolve (lens_get (sh_socket h) s) (lens_get (sh_socket h) (sh_read_aborted h s))"
    and on_read_end_of_file:
      "sock_evolve (lens_get (sh_socket h) s) (lens_get (sh_socket h) (sh_read_end_of_file h s))"
    and on_write_failure:
      "sock_evolve (lens_get (sh_socket h) s) (lens_get (sh_socket h) (sh_write_failure h ec s))"
    and on_write_success:
      "sock_evolve (lens_get (sh_socket h) s) (lens_get (sh_socket h) (sh_write_success h wp s))"
    and write_success_not_closed:
      "calm s \<Longrightarrow> tl (sk_write_packets (lens_get (sh_socket h) s)) \<noteq> [] \<Longrightarrow>
       sk_closed_signaled (lens_get (sh_socket h) (sh_write_success h wp s)) \<Longrightarrow>
       sk_closed_signaled (lens_get (sh_socket h) s)"
    and calm_socket: "calm s \<Longrightarrow> sk_write_packets k = sk_write_packets (lens_get (sh_socket h) s) \<Longrightarrow>
       calm (lens_put (sh_socket h) k s)"
    and write_success_queue:
      "sk_write_packets (lens_get (sh_socket h) (sh_write_success h wp s)) =
       sk_write_packets (lens_get (sh_socket h) s)"
    and on_write_buffer_empty:
      "sock_evolve (lens_get (sh_socket h) s) (lens_get (sh_socket h) (sh_write_buffer_empty h s))"
    and on_closed: "lens_get (sh_socket h) (sh_closed h s) = lens_get (sh_socket h) s"
begin

abbreviation sock :: "'s \<Rightarrow> socket" where
  "sock s \<equiv> lens_get (sh_socket h) s"

lemma sock_upd [simp]: "sock (lens_upd (sh_socket h) f s) = f (sock s)"
  by (rule get_upd)

lemma calm_upd:
  "calm s \<Longrightarrow> (\<And>k. sk_write_packets (f k) = sk_write_packets k) \<Longrightarrow> calm (lens_upd (sh_socket h) f s)"
  by (simp add: lens_upd_def calm_socket)

lemma read_error_evolve: "sock_evolve (sock s) (sock (read_error h ec s))"
  by (simp add: read_error_def on_read_aborted on_read_end_of_file on_read_failure)

lemma header_received_core:
  assumes core: "sock_core (sock s)"
    and idle: "\<not> sk_connect_pending (sock s)" "\<not> sk_read_pending (sock s)"
    and open_: "\<not> sk_closed_signaled (sock s)"
  shows "sock_core (sock (header_received h ec n s))"
proof -
  let ?resize = "rp_resize_payload (sk_read_packet (sock s))"
  have upd: "sock_core ((sock s)\<lparr>sk_read_packet := p\<rparr>)" for p
    using core by (simp add: sock_core_def n_ops_def is_idle_def)
  have payload: "sock_core (read_payload ((sock s)\<lparr>sk_read_packet := p\<rparr>))" for p
    using core idle open_ by (auto simp: sock_core_def n_ops_def is_idle_def read_payload_def)
  show ?thesis
    unfolding header_received_def Let_def
    by (cases ?resize; cases "fst ?resize")
       (auto simp: upd payload read_packet_move_def Let_def split_def idle
         intro!: evolve_core [OF read_error_evolve] evolve_core [OF on_read_failure]
           evolve_core [OF on_read_success] evolve_core [OF on_read_packet_failure] core)
qed

lemma payload_received_core:
  assumes core: "sock_core (sock s)"
    and idle: "\<not> sk_connect_pending (sock s)" "\<not> sk_read_pending (sock s)"
  shows "sock_core (sock (payload_received h ec n s))"
proof -
  have upd: "sock_core ((sock s)\<lparr>sk_read_packet := p\<rparr>)" for p
    using core by (simp add: sock_core_def n_ops_def is_idle_def)
  show ?thesis
    by (auto simp: payload_received_def upd read_packet_move_def Let_def split_def idle
         intro!: evolve_core [OF read_error_evolve] evolve_core [OF on_read_failure]
           evolve_core [OF on_read_success] core)
qed

lemma packet_sent_core:
  assumes core: "sock_core (sock s)" and calm: "calm s"
    and idle: "\<not> sk_write_pending (sock s)" and ne: "sk_write_packets (sock s) \<noteq> []"
    and open_: "\<not> sk_closed_signaled (sock s)"
  shows "sock_core (sock (packet_sent h ec n s))"
proof -
  let ?p = "hd (sk_write_packets (sock s))"
  let ?s = "sh_write_success h ?p s"
  have ev: "sock_evolve (sock s) (sock ?s)" by (rule on_write_success)
  have core': "sock_core (sock ?s)" using ev core by (rule evolve_core)
  have nw: "\<not> sk_write_pending (sock ?s)" using evolve_write_pending [OF ev ne] idle by simp
  have ns: "\<not> sk_closed_signaled (sock ?s)" if "tl (sk_write_packets (sock ?s)) \<noteq> []"
    using write_success_not_closed [OF calm] that open_ write_success_queue by metis
  let ?k = "(sock ?s)\<lparr>sk_write_packets := tl (sk_write_packets (sock ?s))\<rparr>"
  have start: "sk_write_packets ?k \<noteq> [] \<Longrightarrow> sock_core (write_packet_start ?k)"
    using core' nw ns by (auto simp: sock_core_def n_ops_def is_idle_def write_packet_start_def)
  have popped: "sock_core ((sock ?s)\<lparr>sk_write_packets := q\<rparr>)"
      "sock_core ((sock ?s)\<lparr>sk_write_packets := q, sk_write_buffer_was_full := False\<rparr>)" for q
    using core' nw by (auto simp: sock_core_def n_ops_def is_idle_def)
  show ?thesis
    by (auto simp: packet_sent_def Let_def start popped
        intro!: evolve_core [OF on_write_failure] evolve_core [OF on_write_buffer_empty] core)
qed

theorem complete_rest:
  assumes rest: "sock_rest (sock s)" and calm: "calm s"
  shows "sock_rest (sock (socket_complete h op ec n data s))"
proof (cases "op \<in> set (sk_ops (sock s))")
  case False
  with rest show ?thesis by (simp add: socket_complete_def)
next
  case True
  from rest have core: "sock_core (sock s)" by (simp add: sock_rest_def)
  note cleared = cleared_core [OF core True]
  show ?thesis
  proof (cases op)
    case Op_connect
    with cleared(1) True show ?thesis
      by (auto simp: socket_complete_def connect_done_def Let_def
          intro!: sock_core_maybe_signal evolve_core [OF on_connect_failure]
            evolve_core [OF on_connect_success])
  next
    case Op_read_header
    with cleared(2) True show ?thesis
      by (auto simp: socket_complete_def read_header_done_def Let_def
          intro!: sock_core_maybe_signal header_received_core)
  next
    case Op_read_payload
    with cleared(2) True show ?thesis
      by (auto simp: socket_complete_def read_payload_done_def Let_def
          intro!: sock_core_maybe_signal payload_received_core)
  next
    case (Op_write bs)
    with cleared(3) True show ?thesis
      by (auto simp: socket_complete_def write_done_def Let_def
          intro!: sock_core_maybe_signal packet_sent_core calm_upd [OF calm])
  next
    case Op_post_closed
    with cleared(4) True show ?thesis
      by (auto simp: socket_complete_def post_closed_done_def sock_rest_def on_closed)
  qed
qed

end

end
