(* ===== verification/Framing.thy ===== *)
theory Framing
  imports Socket_Contract
begin

text \<open>
  The framing of packets on a TCP stream: what \<^verbatim>\<open>Socket\<close> hands to its handler when the
  bytes of a packet arrive, and what is refused.  \<open>received t pl\<close> is the packet object of
  type \<open>t\<close> with payload \<open>pl\<close>.
\<close>

definition received :: "byte \<Rightarrow> bytes \<Rightarrow> read_packet" where
  "received t pl = \<lparr>rp_header = take packet_header_length (frame t pl),
     rp_payload = (if pl = [] then buffer_null else \<lparr>buf_data = Some pl, buf_size = length pl\<rparr>)\<rparr>"

lemma frame_header: "take packet_header_length (frame t pl) = pack_int host (of_nat (1 + length pl) :: u16) @ [t]"
  by (simp add: frame_def packet_header_length_def packet_size_length_def packet_type_length_def)

lemma length_frame [simp]: "length (frame t pl) = packet_header_length + length pl"
  by (simp add: frame_def packet_header_length_def packet_size_length_def packet_type_length_def)

lemma received_fields [simp]:
  "rp_packet_type (received t pl) = t" "rp_payload_data (received t pl) = pl"
  "rp_payload_size (received t pl) = length pl"
  by (simp_all add: received_def rp_packet_type_def frame_header nth_append packet_size_length_def
      rp_payload_data_def rp_payload_size_def buffer_null_def)

lemma unat_frame_size:
  "length pl \<le> max_payload \<Longrightarrow> unat (of_nat (1 + length pl) :: u16) = 1 + length pl"
  using unat_1_plus [of "of_nat (length pl)"]
  by (simp add: unat_of_nat max_payload_def)

lemma resize_frame:
  assumes "length pl \<le> max_payload"
  shows "rp_resize_payload (p\<lparr>rp_header := take packet_header_length (frame t pl)\<rparr>) =
     (if pl = [] then (RR_empty_payload, received t [])
      else (RR_resized, \<lparr>rp_header = take packet_header_length (frame t pl),
                        rp_payload = buffer_sized (length pl)\<rparr>))"
proof -
  have "rp_packet_size (p\<lparr>rp_header := take packet_header_length (frame t pl), rp_payload := b\<rparr>) =
      of_nat (1 + length pl)" for b
    using unpack_pack_int [where ?'a = 16 and e = host and w = "of_nat (1 + length pl)" and rest = "[t]"]
    by (simp add: rp_packet_size_def frame_header packable_size_def)
  then show ?thesis
    using unat_frame_size [OF assms]
    by (simp add: rp_resize_payload_def Let_def packet_type_length_def received_def)
qed

text \<open>A header announcing less than the packet type: the empty packet.\<close>

lemma resize_malformed:
  "rp_resize_payload \<lparr>rp_header = pack_int host (0 :: u16) @ [t], rp_payload = b\<rparr> =
     (RR_malformed_header, \<lparr>rp_header = pack_int host (0 :: u16) @ [t], rp_payload = buffer_null\<rparr>)"
  using unpack_pack_int [where ?'a = 16 and e = host and w = 0 and rest = "[t]"]
  by (simp add: rp_resize_payload_def rp_packet_size_def packable_size_def packet_type_length_def Let_def)

lemma poke_full: "length bs = length arr \<Longrightarrow> poke 0 bs arr = bs"
  by (simp add: poke_def)

section \<open>Reading a packet\<close>

text \<open>The socket when a whole packet has been taken off it.\<close>

definition packet_taken :: "socket \<Rightarrow> socket" where
  "packet_taken k = k\<lparr>sk_ops := remove1 Op_read_header (sk_ops k), sk_read_pending := False,
     sk_read_packet := read_packet_new\<rparr>"

lemma read_op_alone:
  assumes "sock_core k" and "Op_read_header \<in> set (sk_ops k)"
  shows "Op_read_payload \<notin> set (sk_ops k)"
proof
  assume "Op_read_payload \<in> set (sk_ops k)"
  then have "Op_read_payload \<in> set (remove1 Op_read_header (sk_ops k))" by simp
  then have "0 < length (filter is_read_op (remove1 Op_read_header (sk_ops k)))"
    by (metis filter_empty_conv is_read_op.simps(2) length_greater_0_conv)
  with assms show False
    by (simp add: length_filter_remove1 sock_core_def n_ops_def split: if_splits)
qed

context socket_owner
begin

lemma no_payload_received:
  assumes "length (rp_header (sk_read_packet (sock s))) = packet_header_length"
  shows "read_header_done h no_error (take packet_header_length (frame t [])) s =
    lens_upd (sh_socket h) socket_maybe_signal_closed
      (sh_read_success h (received t []) (lens_upd (sh_socket h) packet_taken s))"
proof -
  have e: "\<not> ec_set no_error" by (simp add: ec_set_def no_error_def error_code_of_def)
  show ?thesis
    using resize_frame [of "[]" t "sk_read_packet (sock s)"] assms
    by (simp add: read_header_done_def header_received_def Let_def e poke_full lens_upd_def
        read_packet_move_def received_def packet_taken_def buffer_move_def buffer_null_def
        read_packet_new_def)
qed

lemma payload_announced:
  assumes "length (rp_header (sk_read_packet (sock s))) = packet_header_length"
    and "length pl \<le> max_payload" and "pl \<noteq> []"
  shows "read_header_done h no_error (take packet_header_length (frame t pl)) s =
    lens_upd (sh_socket h)
      (\<lambda>k. k\<lparr>sk_ops := remove1 Op_read_header (sk_ops k) @ [Op_read_payload],
             sk_read_pending := True,
             sk_read_packet := \<lparr>rp_header = take packet_header_length (frame t pl),
               rp_payload = buffer_sized (length pl)\<rparr>\<rparr>) s"
proof -
  have e: "\<not> ec_set no_error" by (simp add: ec_set_def no_error_def error_code_of_def)
  have "socket_maybe_signal_closed (k\<lparr>sk_read_packet := p, sk_read_pending := True, sk_ops := ops\<rparr>) =
      k\<lparr>sk_ops := ops, sk_read_pending := True, sk_read_packet := p\<rparr>" for k ops p
    by (simp add: socket_maybe_signal_closed_def is_idle_def)
  with resize_frame [OF assms(2), of t "sk_read_packet (sock s)"] assms e show ?thesis
    by (simp add: read_header_done_def header_received_def Let_def poke_full lens_upd_def
        read_payload_def)
qed

lemma packet_received:
  assumes core: "sock_core (sock s)" and op: "Op_read_header \<in> set (sk_ops (sock s))"
    and hdr: "length (rp_header (sk_read_packet (sock s))) = packet_header_length"
    and pl: "length pl \<le> max_payload" "pl \<noteq> []"
  shows "read_payload_done h no_error pl
      (read_header_done h no_error (take packet_header_length (frame t pl)) s) =
    lens_upd (sh_socket h) socket_maybe_signal_closed
      (sh_read_success h (received t pl) (lens_upd (sh_socket h) packet_taken s))"
proof -
  have e: "\<not> ec_set no_error" by (simp add: ec_set_def no_error_def error_code_of_def)
  have "Op_read_payload \<notin> set (remove1 Op_read_header (sk_ops (sock s)))"
    using read_op_alone [OF core op] by (meson notin_set_remove1)
  then have rm: "remove1 Op_read_payload (remove1 Op_read_header (sk_ops (sock s)) @ [Op_read_payload]) =
      remove1 Op_read_header (sk_ops (sock s))"
    by (simp add: remove1_append)
  show ?thesis
    unfolding payload_announced [OF hdr pl]
    using pl rm
    by (simp add: read_payload_done_def payload_received_def Let_def e lens_upd_def rp_payload_size_def
        buffer_poke_def buffer_sized_def poke_full read_packet_move_def received_def packet_taken_def
        buffer_move_def buffer_null_def read_packet_new_def)
qed

end

end
