(* ===== verification/Validate.thy ===== *)
theory Validate
  imports Packing
begin

text \<open>
  \<^verbatim>\<open>validate.cpp\<close>: the checks a username, password or session must pass before the
  library stores it.  They are what makes the packing of \<open>Packing\<close> lossless.
\<close>

fun is_valid_string :: "bytes \<Rightarrow> bool" where
  "is_valid_string [] = True"
| "is_valid_string (c # str) = (if \<not> is_alnum c then False else is_valid_string str)"

definition validate_username :: "bytes \<Rightarrow> error_code" where
  "validate_username username =
    (if length username > username_length then make_error_code Username_too_long
     else if \<not> is_valid_string username then make_error_code Invalid_username
     else no_error)"

definition validate_password :: "bytes \<Rightarrow> error_code" where
  "validate_password password =
    (if length password > password_length then make_error_code Password_too_long
     else if \<not> is_valid_string password then make_error_code Invalid_password
     else no_error)"

definition validate_session :: "bytes \<Rightarrow> error_code" where
  "validate_session session =
    (if length session > session_length then make_error_code Session_too_long
     else if \<not> is_valid_string session then make_error_code Invalid_session
     else no_error)"

lemma is_valid_string_iff [simp]: "is_valid_string str \<longleftrightarrow> list_all is_alnum str"
  by (induction str) auto

lemma validate_fits:
  "\<not> ec_set (validate_username s) \<longleftrightarrow> fits username_length s"
  "\<not> ec_set (validate_password s) \<longleftrightarrow> fits password_length s"
  "\<not> ec_set (validate_session s) \<longleftrightarrow> fits session_length s"
  by (auto simp: validate_username_def validate_password_def validate_session_def fits_def)

lemma fits_Nil [simp]: "fits n []"
  by (simp add: fits_def)

end
