(* ===== verification/Wire_Properties.thy ===== *)
theory Wire_Properties
  imports Framing Validate
begin

text \<open>
  What holds of the bytes on the wire: the fields, the packets and their framing.
\<close>

section \<open>Fields\<close>

text \<open>A number that is not one of ours: whatever the 20 bytes are, the value read is the
  decimal value of their longest suffix of digits, modulo \<open>2 ^ 64\<close>; so twenty digits above
  18446744073709551615 wrap silently.\<close>

theorem sequence_number_read:
  "unpack_sequence_number j data = of_nat (decimal (last_while is_digit (take 20 data)))"
  using unpack_numeric_decimal [of 20 data]
  by (simp add: unpack_sequence_number_def sequence_number_length_def)

theorem sequence_number_read_witness:
  "unpack_sequence_number 0 ''18446744073709551617'' = 1"
proof -
  have "last_while is_digit (take 20 ''18446744073709551617'') = ''18446744073709551617''"
    by (subst last_while_all) (simp_all add: is_digit_def)
  then show ?thesis
    by (simp add: sequence_number_read decimal_def digit_value_def)
qed

text \<open>C20 A sequence number survives the wire: what \<^verbatim>\<open>pack_sequence_number\<close> writes,
  followed by anything, is what \<^verbatim>\<open>unpack_sequence_number\<close> reads, for every 64-bit number;
  and it is written as 20 characters, right aligned, in decimal without leading zeros.  Of a
  number that is not one of ours, the decimal value of the longest suffix of digits is read,
  modulo \<open>2 ^ 64\<close>; so twenty digits above 18446744073709551615 wrap silently.\<close>

theorem sequence_number_roundtrip:
  "unpack_sequence_number j (pack_sequence_number i @ rest) = i \<and>
   (\<exists>m ds. pack_sequence_number i = replicate m space @ ds \<and> m + length ds = 20 \<and> ds \<noteq> [] \<and>
      list_all is_digit ds \<and> decimal ds = unat i \<and> (length ds = 1 \<or> 0 < digit_value (hd ds))) \<and>
   unpack_sequence_number j data = of_nat (decimal (last_while is_digit (take 20 data)))"
proof (intro conjI)
  show "unpack_sequence_number j (pack_sequence_number i @ rest) = i"
    using seqno.dec_prefix [of "pack_sequence_number i" j rest]
    by (simp add: unpack_pack_sequence_number)
  show "\<exists>m ds. pack_sequence_number i = replicate m space @ ds \<and> m + length ds = 20 \<and> ds \<noteq> [] \<and>
      list_all is_digit ds \<and> decimal ds = unat i \<and> (length ds = 1 \<or> 0 < digit_value (hd ds))"
  proof -
    obtain m ds where d: "pack_sequence_number i = replicate m space @ ds" "m + length ds = 20"
        "ds \<noteq> []" "list_all is_digit ds" "decimal ds = unat i"
        "length ds > 1 \<longrightarrow> digit_value (hd ds) \<noteq> 0"
      using pack_sequence_number_shape [of i] by (auto simp: sequence_number_length_def)
    have "length ds = 1 \<or> 0 < digit_value (hd ds)"
      using d(3,6) by (cases ds) auto
    with d(1-5) show ?thesis by blast
  qed
qed (rule sequence_number_read)

section \<open>Packets\<close>

text \<open>C19 Credentials that the setters of a client connection accept reach the server as they
  were given: the login request built from them, written and read on the other side of
  the wire, is the same request.\<close>

theorem login_request_roundtrip:
  assumes "\<not> ec_set (validate_username u)" and "\<not> ec_set (validate_password p)"
    and "\<not> ec_set (validate_session s)"
  shows "read_login_request login_request_default
           (write_login_request (login_request_packet_of u p s n) @ rest) = login_request_packet_of u p s n"
  using assms by (intro request.dec_enc_append)
    (simp add: valid_request_def login_request_packet_of_def validate_fits)

theorem login_request_roundtrip_witness:
  "read_login_request login_request_default
     (write_login_request (login_request_packet_of ''USER1'' ''PASS1'' ''S1'' 42)) =
   login_request_packet_of ''USER1'' ''PASS1'' ''S1'' 42"
  using login_request_roundtrip [of "''USER1''" "''PASS1''" "''S1''" 42 "[]"]
  by (simp add: validate_fits fits_def length_defs is_alnum_def is_digit_def)

text \<open>C40 Whatever bytes arrive as a login request or as a login response, the text fields read
  from them are alphanumeric and no longer than their field, so they can be written again:
  what was read is written and read back as itself.  That also holds of the session a request
  asked for, when it is put into the response.\<close>

theorem received_fields_valid:
  "valid_request (read_login_request login_request_default data)
   \<and> read_login_request login_request_default
       (write_login_request (read_login_request login_request_default data)) =
     read_login_request login_request_default data
   \<and> valid_accepted (read_login_accepted login_accepted_default data)
   \<and> read_login_accepted login_accepted_default
       (write_login_accepted (read_login_accepted login_accepted_default data)) =
     read_login_accepted login_accepted_default data
   \<and> read_login_accepted login_accepted_default
       (write_login_accepted (login_accepted_packet_of
          (lq_session (read_login_request login_request_default data)) n)) =
     login_accepted_packet_of (lq_session (read_login_request login_request_default data)) n"
proof (intro conjI)
  show request: "valid_request (read_login_request login_request_default data)"
    by (rule read_login_request_valid)
  show "read_login_request login_request_default
      (write_login_request (read_login_request login_request_default data)) =
    read_login_request login_request_default data"
    using request by (rule request.dec_enc)
  show accepted: "valid_accepted (read_login_accepted login_accepted_default data)"
    by (rule read_login_accepted_valid)
  show "read_login_accepted login_accepted_default
      (write_login_accepted (read_login_accepted login_accepted_default data)) =
    read_login_accepted login_accepted_default data"
    using accepted by (rule accepted.dec_enc)
  show "read_login_accepted login_accepted_default
       (write_login_accepted (login_accepted_packet_of
          (lq_session (read_login_request login_request_default data)) n)) =
     login_accepted_packet_of (lq_session (read_login_request login_request_default data)) n"
    using request by (intro accepted.dec_enc) (simp add: valid_request_def valid_accepted_def login_accepted_packet_of_def)
qed

text \<open>Two login requests that begin two byte strings equally are equal, and so are the
  rests: the format is prefix-free.\<close>

theorem login_requests_distinct:
  assumes "valid_request p" and "valid_request q"
    and "write_login_request p @ xs = write_login_request q @ ys"
  shows "p = q \<and> xs = ys"
  using assms by (rule request.enc_prefix_free)

theorem login_requests_distinct_witness:
  "write_login_request (login_request_packet_of ''A'' ''B'' ''S'' 1) \<noteq>
   write_login_request (login_request_packet_of ''A'' ''B'' ''S'' 2)"
  using login_requests_distinct [of "login_request_packet_of ''A'' ''B'' ''S'' 1"
      "login_request_packet_of ''A'' ''B'' ''S'' 2" "[]" "[]"]
  by (auto simp: valid_request_def login_request_packet_of_def fits_def length_defs is_alnum_def)

section \<open>Frames\<close>

text \<open>C21 A packet made of at most 65534 bytes of payload is put on the wire as its length in
  two bytes, most significant first whatever the byte order of the host, its type, and its
  payload.\<close>

theorem packet_on_the_wire:
  assumes "unat n = length payload" and "length payload \<le> 65534"
  shows "wp_wire (write_packet_of t payload n) =
     byte_of (drop_bit 8 (n + 1)) # byte_of (n + 1) # t # payload
   \<and> pack_int Big_endian (n + 1) = pack_int Little_endian (n + 1)"
proof
  have "of_nat (1 + length payload) = n + 1" using assms(1) 
    by (simp add: assms(1) [symmetric] add.commute)
  with wp_wire_of [of n payload t] assms
  show "wp_wire (write_packet_of t payload n) =
     byte_of (drop_bit 8 (n + 1)) # byte_of (n + 1) # t # payload"
    by (simp add: frame_def pack_int_16 max_payload_def add.commute)
  show "pack_int Big_endian (n + 1) = pack_int Little_endian (n + 1)"
    by (simp add: pack_int_16)
qed

theorem packet_on_the_wire_witness:
  "wp_wire (write_packet_of sequenced_data_type ''hello'' 5) = CHR 0x00 # CHR 0x06 # ''Shello''"
  using packet_on_the_wire [of 5 "''hello''" sequenced_data_type]
  by (simp add: sequenced_data_type_def byte_of_code)

text \<open>C36 One byte of payload more, and the 16-bit packet size wraps to zero: the whole packet
  is cut down to two zero bytes, which the receiver refuses as a malformed header.\<close>

theorem oversized_packet_wraps:
  assumes "length payload = 65535"
  shows "wp_wire (write_packet_of t payload 65535) = [CHR 0x00, CHR 0x00]
   \<and> rp_resize_payload \<lparr>rp_header = [CHR 0x00, CHR 0x00, t'], rp_payload = b\<rparr> =
       (RR_malformed_header, \<lparr>rp_header = [CHR 0x00, CHR 0x00, t'], rp_payload = buffer_null\<rparr>)"
proof
  have len: "unat (65535 :: u16) \<le> length payload" using assms by simp
  show "wp_wire (write_packet_of t payload 65535) = [CHR 0x00, CHR 0x00]"
    using wp_packet_size_of(2) [OF len, of t]
    by (simp add: wp_wire_def wp_size_def write_packet_of_data [OF len] pack_int_16 length_defs
        byte_of_code)
  show "rp_resize_payload \<lparr>rp_header = [CHR 0x00, CHR 0x00, t'], rp_payload = b\<rparr> =
       (RR_malformed_header, \<lparr>rp_header = [CHR 0x00, CHR 0x00, t'], rp_payload = buffer_null\<rparr>)"
    using resize_malformed [of t' b] by (simp add: pack_int_16 byte_of_code)
qed

theorem oversized_packet_wraps_witness:
  "wp_wire (write_packet_of debug_type (replicate 65535 CHR ''x'') 65535) = [CHR 0x00, CHR 0x00]"
  by (rule conjunct1 [OF oversized_packet_wraps]) (rule length_replicate)

end
