(* ===== verification/Expected.thy ===== *)
theory Expected
  imports Prelude
begin

text \<open>
  \<^verbatim>\<open>expected.h\<close>: the library's own \<^verbatim>\<open>expected<T, E>\<close>.  The class keeps two optionals,
  a value and an error; nothing in the type says that exactly one is engaged, so that is
  an invariant here (\<open>expected_ok\<close>), and the class is shown to represent the sum
  \<open>'e + 't\<close> (\<open>expected_abs\<close>).  Dereferencing a disengaged \<^verbatim>\<open>std::optional\<close> is undefined:
  \<open>None\<close> in the accessors that do not check.
\<close>

text \<open>\<^verbatim>\<open>unexpected<E>\<close>: an error that is about to become an \<^verbatim>\<open>expected\<close>.\<close>

datatype 'e unexpected = Unexpected (unexpected_value: 'e)

definition unexpected_eq :: "'e unexpected \<Rightarrow> 'e unexpected \<Rightarrow> bool" where
  "unexpected_eq x y \<longleftrightarrow> unexpected_value x = unexpected_value y"

definition unexpected_neq :: "'e unexpected \<Rightarrow> 'e unexpected \<Rightarrow> bool" where
  "unexpected_neq x y \<longleftrightarrow> unexpected_value x \<noteq> unexpected_value y"

record ('t, 'e) expected =
  ex_val :: "'t option"
  ex_unexpect :: "'e option"

definition expected_of :: "'t \<Rightarrow> ('t, 'e) expected" where
  "expected_of v = \<lparr>ex_val = Some v, ex_unexpect = None\<rparr>"

definition expected_default :: "'t \<Rightarrow> ('t, 'e) expected" where
  \<comment> \<open>\<open>expected()\<close>: the argument is the value-initialised \<open>T()\<close>\<close>
  "expected_default t0 = \<lparr>ex_val = Some t0, ex_unexpect = None\<rparr>"

definition unexpected_of :: "'e \<Rightarrow> ('t, 'e) expected" where
  \<comment> \<open>the argument is the \<open>value()\<close> of the \<open>unexpected\<close>\<close>
  "unexpected_of e = \<lparr>ex_val = None, ex_unexpect = Some e\<rparr>"

definition has_value :: "('t, 'e) expected \<Rightarrow> bool" where
  "has_value x \<longleftrightarrow> ex_val x \<noteq> None"

definition deref :: "('t, 'e) expected \<Rightarrow> 't option" where
  \<comment> \<open>\<open>operator*\<close> and \<open>operator->\<close>: unchecked\<close>
  "deref x = ex_val x"

definition error_of :: "('t, 'e) expected \<Rightarrow> 'e option" where
  \<comment> \<open>\<open>error()\<close>: unchecked\<close>
  "error_of x = ex_unexpect x"

datatype 'e bad_expected_access = Bad_expected_access 'e

definition value_of :: "('t, 'e) expected \<Rightarrow> ('e bad_expected_access + 't) option" where
  \<comment> \<open>\<open>value()\<close>: throws when there is no value; the argument of the exception is
      \<open>unexpect_->value()\<close>, itself unchecked (the outer \<open>None\<close>)\<close>
  "value_of x = (case ex_val x of
     None \<Rightarrow> map_option (\<lambda>e. Inl (Bad_expected_access e)) (ex_unexpect x)
   | Some v \<Rightarrow> Some (Inr v))"

text \<open>The comparison operators, in the source's order.\<close>

definition expected_eq :: "('t, 'e) expected \<Rightarrow> ('t, 'e) expected \<Rightarrow> bool" where
  "expected_eq x y =
     (if has_value x \<noteq> has_value y then False
      else if \<not> has_value x then error_of x = error_of y
      else deref x = deref y)"

definition expected_neq :: "('t, 'e) expected \<Rightarrow> ('t, 'e) expected \<Rightarrow> bool" where
  "expected_neq x y =
     (if has_value x \<noteq> has_value y then True
      else if \<not> has_value x then error_of x \<noteq> error_of y
      else deref x \<noteq> deref y)"

definition expected_eq_value :: "('t, 'e) expected \<Rightarrow> 't \<Rightarrow> bool" where
  "expected_eq_value x v = (if has_value x then deref x = Some v else False)"

definition expected_neq_value :: "('t, 'e) expected \<Rightarrow> 't \<Rightarrow> bool" where
  "expected_neq_value x v = (if has_value x then deref x \<noteq> Some v else True)"

definition expected_eq_unexpected :: "('t, 'e) expected \<Rightarrow> 'e \<Rightarrow> bool" where
  "expected_eq_unexpected x e = (if has_value x then False else error_of x = Some e)"

definition expected_neq_unexpected :: "('t, 'e) expected \<Rightarrow> 'e \<Rightarrow> bool" where
  "expected_neq_unexpected x e = (if has_value x then True else error_of x \<noteq> Some e)"

section \<open>The sum it represents\<close>

definition expected_ok :: "('t, 'e) expected \<Rightarrow> bool" where
  "expected_ok x \<longleftrightarrow> (ex_val x = None) \<noteq> (ex_unexpect x = None)"

definition expected_abs :: "('t, 'e) expected \<Rightarrow> 'e + 't" where
  "expected_abs x = (case ex_val x of Some v \<Rightarrow> Inr v | None \<Rightarrow> Inl (the (ex_unexpect x)))"

lemmas expected_defs = expected_of_def expected_default_def unexpected_of_def has_value_def
  deref_def error_of_def value_of_def

lemmas expected_cmp_defs = expected_eq_def expected_neq_def expected_eq_value_def
  expected_neq_value_def expected_eq_unexpected_def expected_neq_unexpected_def

lemma expected_ok_simps [simp]:
  "expected_ok (expected_of v)" "expected_ok (expected_default v)" "expected_ok (unexpected_of e)"
  by (simp_all add: expected_ok_def expected_defs)

lemma expected_abs_simps [simp]:
  "expected_abs (expected_of v) = Inr v"
  "expected_abs (expected_default v) = Inr v"
  "expected_abs (unexpected_of e) = Inl e"
  by (simp_all add: expected_abs_def expected_defs)

lemma has_value_simps [simp]:
  "has_value (expected_of v)" "\<not> has_value (unexpected_of e)"
  "deref (expected_of v) = Some v" "error_of (unexpected_of e) = Some e"
  "ex_val (expected_of v) = Some v" "ex_val (unexpected_of e) = None"
  "ex_unexpect (expected_of v) = None" "ex_unexpect (unexpected_of e) = Some e"
  by (simp_all add: expected_defs)

lemma expected_of_distinct [simp]:
  "expected_of v \<noteq> unexpected_of e" "unexpected_of e \<noteq> expected_of v"
  "expected_of v = expected_of v' \<longleftrightarrow> v = v'"
  "unexpected_of e = unexpected_of e' \<longleftrightarrow> e = e'"
  by (auto simp: expected_defs)

lemma expected_ok_cases:
  assumes "expected_ok x"
  obtains (val) v where "x = expected_of v" | (err) e where "x = unexpected_of e"
  using assms by (cases x) (auto simp: expected_ok_def expected_defs)

lemma expected_abs_eq_iff:
  "expected_ok x \<Longrightarrow> expected_ok y \<Longrightarrow> expected_abs x = expected_abs y \<longleftrightarrow> x = y"
  by (elim expected_ok_cases) auto


end
