(* ===== verification/Connection_State.thy ===== *)
theory Connection_State
  imports Types
begin

text \<open>
  \<^verbatim>\<open>connection_state.h\<close>/\<^verbatim>\<open>.cpp\<close>: where a connection is in its life and why it ended.
\<close>

datatype state = Connecting | Connected | Logged_in | Disconnecting | Disconnected

record connection_state =
  cs_state :: state
  cs_reason :: disconnect_reason

definition connection_state_default :: connection_state where
  "connection_state_default = \<lparr>cs_state = Connecting, cs_reason = DR_none\<rparr>"

definition connection_state_of :: "state \<Rightarrow> connection_state" where
  "connection_state_of st = \<lparr>cs_state = st, cs_reason = DR_none\<rparr>"

definition set_state :: "state \<Rightarrow> connection_state \<Rightarrow> connection_state" where
  "set_state st cs = cs\<lparr>cs_state := st\<rparr>"

definition is_closing :: "connection_state \<Rightarrow> bool" where
  "is_closing cs \<longleftrightarrow> cs_state cs = Disconnecting \<or> cs_state cs = Disconnected"

definition initiate_disconnect ::
    "disconnect_reason \<Rightarrow> connection_state \<Rightarrow> bool \<times> connection_state" where
  "initiate_disconnect pending_reason cs =
    (if is_closing cs then (False, cs)
     else (True, cs\<lparr>cs_state := Disconnecting, cs_reason := pending_reason\<rparr>))"

definition cs_disconnect ::
    "disconnect_reason \<Rightarrow> connection_state \<Rightarrow> bool \<times> connection_state" where
  "cs_disconnect observed_reason cs =
    (if cs_state cs = Disconnected then (False, cs)
     else (let cs = cs\<lparr>cs_state := Disconnected\<rparr>
           in (True, if cs_reason cs = DR_none then cs\<lparr>cs_reason := observed_reason\<rparr> else cs)))"

lemmas connection_state_defs =
  connection_state_default_def connection_state_of_def set_state_def is_closing_def
  initiate_disconnect_def cs_disconnect_def

text \<open>The two ways a connection is ended, as the operations of a small machine.\<close>

datatype cs_op = Initiate disconnect_reason | Disconnect disconnect_reason

fun cs_apply :: "connection_state \<Rightarrow> cs_op \<Rightarrow> connection_state" where
  "cs_apply cs (Initiate r) = snd (initiate_disconnect r cs)"
| "cs_apply cs (Disconnect r) = snd (cs_disconnect r cs)"

fun cs_op_reason :: "cs_op \<Rightarrow> disconnect_reason" where
  "cs_op_reason (Initiate r) = r"
| "cs_op_reason (Disconnect r) = r"

lemma cs_apply_closing: "is_closing (cs_apply cs op)"
  by (cases op) (auto simp: connection_state_defs Let_def)

lemma cs_apply_first: "\<not> is_closing cs \<Longrightarrow> cs_reason cs = DR_none \<Longrightarrow>
  cs_reason (cs_apply cs op) = cs_op_reason op"
  by (cases op) (auto simp: connection_state_defs Let_def)

lemma cs_apply_reason_fixed: "is_closing cs \<Longrightarrow> cs_reason cs \<noteq> DR_none \<Longrightarrow>
  cs_reason (cs_apply cs op) = cs_reason cs"
  by (cases op) (auto simp: connection_state_defs Let_def)

lemma fold_cs_apply_fixed:
  "is_closing cs \<Longrightarrow> cs_reason cs \<noteq> DR_none \<Longrightarrow>
   is_closing (fold (\<lambda>op cs. cs_apply cs op) ops cs) \<and>
   cs_reason (fold (\<lambda>op cs. cs_apply cs op) ops cs) = cs_reason cs"
proof (induction ops arbitrary: cs)
  case Nil
  then show ?case by simp
next
  case (Cons op ops)
  with cs_apply_closing [of cs op] cs_apply_reason_fixed [of cs op] show ?case by simp
qed

end
