(* ===== verification/Timers.thy ===== *)
theory Timers
  imports Lens Types
begin

text \<open>
  The three timers: \<^verbatim>\<open>login_timer\<close>, \<^verbatim>\<open>heartbeat_timer\<close> and \<^verbatim>\<open>reconnect_timer\<close>
  (\<^verbatim>\<open>.h\<close>/\<^verbatim>\<open>.cpp\<close>).

  The record of a timer has the members of the class, and besides them what Asio holds for
  it: how many completion handlers of \<^verbatim>\<open>async_wait\<close> have not run yet (\<open>waits\<close>) and how
  many posted \<^verbatim>\<open>..._stopped\<close> calls (\<open>posts\<close>).  The code cannot see these; they say which
  callbacks can still arrive, and so whether the object may be destroyed.

  A handler interface is a record of functions on the state \<open>'s\<close> of the object the timer
  belongs to, together with the lens to the timer inside it.  An operation of Asio that
  may throw \<^verbatim>\<open>asio::system_error\<close> takes the error it throws, if any, as an argument;
  \<^verbatim>\<open>cancel()\<close>, whose exceptions the code swallows, leaves the waits outstanding (they will
  complete with \<^verbatim>\<open>operation_aborted\<close>, or with success when it is too late).
\<close>

section \<open>Login_timer\<close>

record login_timer =
  lt_timeout :: nat
  lt_started :: bool
  lt_wait_pending :: bool
  lt_stopped_signaled :: bool
  lt_waits :: nat
  lt_posts :: nat

record 's login_timer_handler =
  lth_timer :: "('s, login_timer) lens"
  lth_error :: "error_code \<Rightarrow> string \<Rightarrow> 's \<Rightarrow> 's"
  lth_expired :: "'s \<Rightarrow> 's"
  lth_stopped :: "'s \<Rightarrow> 's"

definition login_timer_new :: "nat \<Rightarrow> login_timer" where
  "login_timer_new timeout = \<lparr>lt_timeout = timeout, lt_started = False, lt_wait_pending = False,
     lt_stopped_signaled = False, lt_waits = 0, lt_posts = 0\<rparr>"

definition login_timer_maybe_signal_stopped :: "login_timer \<Rightarrow> login_timer" where
  "login_timer_maybe_signal_stopped t =
    (if \<not> lt_started t \<and> \<not> lt_stopped_signaled t \<and> \<not> lt_wait_pending t
     then t\<lparr>lt_stopped_signaled := True, lt_posts := lt_posts t + 1\<rparr> else t)"

definition login_timer_start ::
    "'s login_timer_handler \<Rightarrow> error_code option \<Rightarrow> 's \<Rightarrow> 's" where
  "login_timer_start h throws s =
    (if lt_started (lens_get (lth_timer h) s) then s
     else (let s = lens_upd (lth_timer h) (\<lambda>t. t\<lparr>lt_started := True\<rparr>) s
           in case throws of
                Some ec \<Rightarrow> lth_error h ec ''timer expires_after'' s
              | None \<Rightarrow> lens_upd (lth_timer h)
                  (\<lambda>t. t\<lparr>lt_wait_pending := True, lt_waits := lt_waits t + 1\<rparr>) s))"

definition login_timer_stop :: "login_timer \<Rightarrow> login_timer" where
  "login_timer_stop t =
    (if \<not> lt_started t then t
     else login_timer_maybe_signal_stopped (t\<lparr>lt_started := False\<rparr>))"

definition login_timer_on_expiry :: "'s login_timer_handler \<Rightarrow> error_code \<Rightarrow> 's \<Rightarrow> 's" where
  "login_timer_on_expiry h ec s =
    (if \<not> lt_started (lens_get (lth_timer h) s) then s
     else if ec_set ec then lth_error h ec ''timer async_wait'' s
     else lth_expired h s)"

definition login_timer_wait_done :: "'s login_timer_handler \<Rightarrow> error_code \<Rightarrow> 's \<Rightarrow> 's" where
  \<comment> \<open>the completion handler of \<open>async_wait\<close>\<close>
  "login_timer_wait_done h ec s =
    (let s = lens_upd (lth_timer h)
               (\<lambda>t. t\<lparr>lt_waits := lt_waits t - 1, lt_wait_pending := False\<rparr>) s;
         s = login_timer_on_expiry h ec s
     in lens_upd (lth_timer h) login_timer_maybe_signal_stopped s)"

definition login_timer_post_done :: "'s login_timer_handler \<Rightarrow> 's \<Rightarrow> 's" where
  \<comment> \<open>the posted call of \<open>login_timer_stopped\<close>\<close>
  "login_timer_post_done h s =
    lth_stopped h (lens_upd (lth_timer h) (\<lambda>t. t\<lparr>lt_posts := lt_posts t - 1\<rparr>) s)"

section \<open>Heartbeat_timer\<close>

text \<open>\<open>hb_expiry\<close> is the expiry time of the underlying \<^verbatim>\<open>steady_timer\<close>, in seconds; the
  counters are \<^verbatim>\<open>uint32_t\<close> and wrap.\<close>

record heartbeat_timer =
  hb_expiry :: nat
  hb_timeout :: nat
  hb_no_receive_period :: nat
  hb_receive_count :: u32
  hb_send_count :: u32
  hb_started :: bool
  hb_wait_pending :: bool
  hb_stopped_signaled :: bool
  hb_waits :: nat
  hb_posts :: nat

record 's heartbeat_timer_handler =
  hbh_timer :: "('s, heartbeat_timer) lens"
  hbh_error :: "error_code \<Rightarrow> string \<Rightarrow> 's \<Rightarrow> 's"
  hbh_send_due :: "'s \<Rightarrow> 's"
  hbh_receive_timeout :: "'s \<Rightarrow> 's"
  hbh_stopped :: "'s \<Rightarrow> 's"

definition heartbeat_timer_new :: "nat \<Rightarrow> heartbeat_timer" where
  "heartbeat_timer_new timeout = \<lparr>hb_expiry = 0, hb_timeout = timeout,
     hb_no_receive_period = 0, hb_receive_count = 0, hb_send_count = 0, hb_started = False,
     hb_wait_pending = False, hb_stopped_signaled = False, hb_waits = 0, hb_posts = 0\<rparr>"

definition increment_receive_count :: "heartbeat_timer \<Rightarrow> heartbeat_timer" where
  "increment_receive_count t = t\<lparr>hb_receive_count := hb_receive_count t + 1\<rparr>"

definition increment_send_count :: "heartbeat_timer \<Rightarrow> heartbeat_timer" where
  "increment_send_count t = t\<lparr>hb_send_count := hb_send_count t + 1\<rparr>"

definition heartbeat_timer_maybe_signal_stopped :: "heartbeat_timer \<Rightarrow> heartbeat_timer" where
  "heartbeat_timer_maybe_signal_stopped t =
    (if \<not> hb_started t \<and> \<not> hb_stopped_signaled t \<and> \<not> hb_wait_pending t
     then t\<lparr>hb_stopped_signaled := True, hb_posts := hb_posts t + 1\<rparr> else t)"

definition heartbeat_timer_schedule ::
    "'s heartbeat_timer_handler \<Rightarrow> error_code option \<Rightarrow> 's \<Rightarrow> 's" where
  "heartbeat_timer_schedule h throws s = (case throws of
     Some ec \<Rightarrow> hbh_error h ec ''timer expires_at'' s
   | None \<Rightarrow> lens_upd (hbh_timer h)
       (\<lambda>t. t\<lparr>hb_expiry := hb_expiry t + heartbeat_period, hb_wait_pending := True,
              hb_waits := hb_waits t + 1\<rparr>) s)"

definition heartbeat_timer_start ::
    "'s heartbeat_timer_handler \<Rightarrow> nat \<Rightarrow> error_code option \<Rightarrow> error_code option \<Rightarrow> 's \<Rightarrow> 's" where
  \<comment> \<open>\<open>now\<close> is the steady clock; the two exceptions are those of the two \<open>expires_at\<close>\<close>
  "heartbeat_timer_start h now throws throws' s =
    (if hb_started (lens_get (hbh_timer h) s) then s
     else (let s = lens_upd (hbh_timer h) (\<lambda>t. t\<lparr>hb_started := True\<rparr>) s
           in case throws of
                Some ec \<Rightarrow> hbh_error h ec ''timer expires_at'' s
              | None \<Rightarrow> heartbeat_timer_schedule h throws'
                  (lens_upd (hbh_timer h) (\<lambda>t. t\<lparr>hb_expiry := now\<rparr>) s)))"

definition heartbeat_timer_stop :: "heartbeat_timer \<Rightarrow> heartbeat_timer" where
  "heartbeat_timer_stop t =
    (if \<not> hb_started t then t
     else heartbeat_timer_maybe_signal_stopped (t\<lparr>hb_started := False\<rparr>))"

definition heartbeat_timer_on_expiry ::
    "'s heartbeat_timer_handler \<Rightarrow> error_code option \<Rightarrow> error_code \<Rightarrow> 's \<Rightarrow> 's" where
  "heartbeat_timer_on_expiry h throws ec s =
    (let l = hbh_timer h; t = lens_get l s in
     if \<not> hb_started t then s
     else if ec_set ec then hbh_error h ec ''timer async_wait'' s
     else
       (let s = (if hb_receive_count t = 0
                 then lens_upd l (\<lambda>t. t\<lparr>hb_no_receive_period :=
                        hb_no_receive_period t + heartbeat_period\<rparr>) s
                 else lens_upd l (\<lambda>t. t\<lparr>hb_no_receive_period := 0, hb_receive_count := 0\<rparr>) s)
        in if hb_receive_count t = 0 \<and> hb_no_receive_period (lens_get l s) \<ge> hb_timeout t
           then hbh_receive_timeout h s
           else
             (let s = (if hb_send_count (lens_get l s) = 0 then hbh_send_due h s
                       else lens_upd l (\<lambda>t. t\<lparr>hb_send_count := 0\<rparr>) s)
              in if \<not> hb_started (lens_get l s) then s
                 else heartbeat_timer_schedule h throws s)))"

definition heartbeat_timer_wait_done ::
    "'s heartbeat_timer_handler \<Rightarrow> error_code option \<Rightarrow> error_code \<Rightarrow> 's \<Rightarrow> 's" where
  "heartbeat_timer_wait_done h throws ec s =
    (let s = lens_upd (hbh_timer h)
               (\<lambda>t. t\<lparr>hb_waits := hb_waits t - 1, hb_wait_pending := False\<rparr>) s;
         s = heartbeat_timer_on_expiry h throws ec s
     in lens_upd (hbh_timer h) heartbeat_timer_maybe_signal_stopped s)"

definition heartbeat_timer_post_done :: "'s heartbeat_timer_handler \<Rightarrow> 's \<Rightarrow> 's" where
  "heartbeat_timer_post_done h s =
    hbh_stopped h (lens_upd (hbh_timer h) (\<lambda>t. t\<lparr>hb_posts := hb_posts t - 1\<rparr>) s)"

section \<open>Reconnect_timer\<close>

text \<open>\<open>rt_waits\<close> lists the epochs captured by the completion handlers still to run;
  \<open>rt_delay\<close> is the expiry last set on the underlying timer.\<close>

record reconnect_timer =
  rt_started :: bool
  rt_epoch :: u32
  rt_delay :: nat
  rt_waits :: "u32 list"

record 's reconnect_timer_handler =
  rth_timer :: "('s, reconnect_timer) lens"
  rth_error :: "error_code \<Rightarrow> string \<Rightarrow> 's \<Rightarrow> 's"
  rth_expired :: "'s \<Rightarrow> 's"

definition reconnect_timer_new :: reconnect_timer where
  "reconnect_timer_new = \<lparr>rt_started = False, rt_epoch = 0, rt_delay = 0, rt_waits = []\<rparr>"

definition reconnect_timer_start ::
    "'s reconnect_timer_handler \<Rightarrow> error_code option \<Rightarrow> nat \<Rightarrow> 's \<Rightarrow> 's" where
  "reconnect_timer_start h throws delay s =
    (let l = rth_timer h in
     if rt_started (lens_get l s) then s
     else (let s = lens_upd l (\<lambda>t. t\<lparr>rt_started := True\<rparr>) s
           in case throws of
                Some ec \<Rightarrow> rth_error h ec ''reconnect timer expires_after''
                             (lens_upd l (\<lambda>t. t\<lparr>rt_started := False\<rparr>) s)
              | None \<Rightarrow> lens_upd l (\<lambda>t. t\<lparr>rt_delay := delay, rt_epoch := rt_epoch t + 1,
                             rt_waits := rt_waits t @ [rt_epoch t + 1]\<rparr>) s))"

definition reconnect_timer_stop :: "reconnect_timer \<Rightarrow> reconnect_timer" where
  "reconnect_timer_stop t = (if \<not> rt_started t then t else t\<lparr>rt_started := False\<rparr>)"

definition reconnect_timer_on_expiry ::
    "'s reconnect_timer_handler \<Rightarrow> error_code \<Rightarrow> 's \<Rightarrow> 's" where
  "reconnect_timer_on_expiry h ec s =
    (if \<not> rt_started (lens_get (rth_timer h) s) then s
     else (let s = lens_upd (rth_timer h) (\<lambda>t. t\<lparr>rt_started := False\<rparr>) s
           in if ec_set ec then rth_error h ec ''reconnect timer async_wait'' s
              else rth_expired h s))"

definition reconnect_timer_wait_done ::
    "'s reconnect_timer_handler \<Rightarrow> u32 \<Rightarrow> error_code \<Rightarrow> 's \<Rightarrow> 's" where
  "reconnect_timer_wait_done h epoch ec s =
    (let s = lens_upd (rth_timer h) (\<lambda>t. t\<lparr>rt_waits := remove1 epoch (rt_waits t)\<rparr>) s
     in if epoch \<noteq> rt_epoch (lens_get (rth_timer h) s) then s
        else reconnect_timer_on_expiry h ec s)"

section \<open>What the timers keep true\<close>

text \<open>
  \<open>lt_core\<close> and \<open>hb_core\<close>: the pending flag agrees with the waits outstanding, and the
  stop is announced at most once, after the last wait.  A timer is \<open>told\<close> when its
  handler has been called with that announcement, and \<open>unused\<close> before it is started.
\<close>

definition lt_core :: "login_timer \<Rightarrow> bool" where
  "lt_core t \<longleftrightarrow> lt_waits t = of_bool (lt_wait_pending t) \<and>
     lt_posts t \<le> of_bool (lt_stopped_signaled t) \<and>
     (lt_stopped_signaled t \<longrightarrow> \<not> lt_started t \<and> \<not> lt_wait_pending t)"

definition lt_told :: "login_timer \<Rightarrow> bool" where
  "lt_told t \<longleftrightarrow> lt_stopped_signaled t \<and> lt_posts t = 0"

definition lt_unused :: "login_timer \<Rightarrow> bool" where
  "lt_unused t \<longleftrightarrow> \<not> lt_started t \<and> \<not> lt_wait_pending t \<and> \<not> lt_stopped_signaled t"

definition hb_core :: "heartbeat_timer \<Rightarrow> bool" where
  "hb_core t \<longleftrightarrow> hb_waits t = of_bool (hb_wait_pending t) \<and>
     hb_posts t \<le> of_bool (hb_stopped_signaled t) \<and>
     (hb_stopped_signaled t \<longrightarrow> \<not> hb_started t \<and> \<not> hb_wait_pending t)"

definition hb_told :: "heartbeat_timer \<Rightarrow> bool" where
  "hb_told t \<longleftrightarrow> hb_stopped_signaled t \<and> hb_posts t = 0"

definition hb_unused :: "heartbeat_timer \<Rightarrow> bool" where
  "hb_unused t \<longleftrightarrow> \<not> hb_started t \<and> \<not> hb_wait_pending t \<and> \<not> hb_stopped_signaled t"

lemmas lt_preds = lt_core_def lt_told_def lt_unused_def
lemmas hb_preds = hb_core_def hb_told_def hb_unused_def

lemma lt_new [simp]: "lt_core (login_timer_new n)" "lt_unused (login_timer_new n)"
  by (simp_all add: lt_preds login_timer_new_def)

lemma hb_new [simp]: "hb_core (heartbeat_timer_new n)" "hb_unused (heartbeat_timer_new n)"
  by (simp_all add: hb_preds heartbeat_timer_new_def)

lemma lt_stop [simp]:
  "lt_core t \<Longrightarrow> lt_core (login_timer_stop t)"
  "\<not> lt_started (login_timer_stop t)"
  "lt_core t \<Longrightarrow> lt_told (login_timer_stop t) = lt_told t"
  "lt_core t \<Longrightarrow> lt_unused (login_timer_stop t) = lt_unused t"
  by (auto simp: lt_preds login_timer_stop_def login_timer_maybe_signal_stopped_def)

lemma lt_stop_idle: "\<not> lt_started t \<Longrightarrow> login_timer_stop t = t"
  by (simp add: login_timer_stop_def)

lemma hb_stop [simp]:
  "hb_core t \<Longrightarrow> hb_core (heartbeat_timer_stop t)"
  "\<not> hb_started (heartbeat_timer_stop t)"
  "hb_core t \<Longrightarrow> hb_told (heartbeat_timer_stop t) = hb_told t"
  "hb_core t \<Longrightarrow> hb_unused (heartbeat_timer_stop t) = hb_unused t"
  by (auto simp: hb_preds heartbeat_timer_stop_def heartbeat_timer_maybe_signal_stopped_def)

lemma hb_stop_idle: "\<not> hb_started t \<Longrightarrow> heartbeat_timer_stop t = t"
  by (simp add: heartbeat_timer_stop_def)

lemma hb_increment [simp]:
  "hb_core (increment_receive_count t) = hb_core t"
  "hb_told (increment_receive_count t) = hb_told t"
  "hb_unused (increment_receive_count t) = hb_unused t"
  "hb_started (increment_receive_count t) = hb_started t"
  "hb_wait_pending (increment_receive_count t) = hb_wait_pending t"
  "hb_waits (increment_receive_count t) = hb_waits t"
  "hb_posts (increment_receive_count t) = hb_posts t"
  "hb_core (increment_send_count t) = hb_core t"
  "hb_told (increment_send_count t) = hb_told t"
  "hb_unused (increment_send_count t) = hb_unused t"
  "hb_started (increment_send_count t) = hb_started t"
  "hb_wait_pending (increment_send_count t) = hb_wait_pending t"
  "hb_waits (increment_send_count t) = hb_waits t"
  "hb_posts (increment_send_count t) = hb_posts t"
  by (simp_all add: hb_preds increment_receive_count_def increment_send_count_def)

text \<open>Nothing outstanding once told or while unused; otherwise, at rest, something is.\<close>

lemma lt_quiet: "lt_core t \<Longrightarrow> lt_unused t \<or> lt_told t \<Longrightarrow> lt_waits t = 0 \<and> lt_posts t = 0"
  by (auto simp: lt_preds)

lemma hb_quiet: "hb_core t \<Longrightarrow> hb_unused t \<or> hb_told t \<Longrightarrow> hb_waits t = 0 \<and> hb_posts t = 0"
  by (auto simp: hb_preds)

lemma lt_progress:
  "lt_core t \<Longrightarrow> (lt_started t \<longrightarrow> lt_wait_pending t) \<Longrightarrow> \<not> lt_unused t \<Longrightarrow> \<not> lt_told t \<Longrightarrow>
   0 < lt_waits t \<or> 0 < lt_posts t"
  by (auto simp: lt_preds)

lemma hb_progress:
  "hb_core t \<Longrightarrow> (hb_started t \<longrightarrow> hb_wait_pending t) \<Longrightarrow> \<not> hb_unused t \<Longrightarrow> \<not> hb_told t \<Longrightarrow>
   0 < hb_waits t \<or> 0 < hb_posts t"
  by (auto simp: hb_preds)

lemma lt_signal:
  "lt_core t \<Longrightarrow> lt_core (login_timer_maybe_signal_stopped t)"
  "lt_started (login_timer_maybe_signal_stopped t) = lt_started t"
  "lt_wait_pending (login_timer_maybe_signal_stopped t) = lt_wait_pending t"
  "lt_core t \<Longrightarrow> lt_told (login_timer_maybe_signal_stopped t) = lt_told t"
  "\<not> lt_unused (login_timer_maybe_signal_stopped t)"
  by (auto simp: lt_preds login_timer_maybe_signal_stopped_def)

lemma hb_signal:
  "hb_core t \<Longrightarrow> hb_core (heartbeat_timer_maybe_signal_stopped t)"
  "hb_started (heartbeat_timer_maybe_signal_stopped t) = hb_started t"
  "hb_wait_pending (heartbeat_timer_maybe_signal_stopped t) = hb_wait_pending t"
  "hb_core t \<Longrightarrow> hb_told (heartbeat_timer_maybe_signal_stopped t) = hb_told t"
  "\<not> hb_unused (heartbeat_timer_maybe_signal_stopped t)"
  by (auto simp: hb_preds heartbeat_timer_maybe_signal_stopped_def)

section \<open>The contracts of the timers' handlers\<close>

text \<open>
  A login timer's handler reacts to an error or an expiry by stopping the timer, or not at
  all; likewise for the heartbeat timer, whose handler does not touch it when asked to send.
  Under these contracts a completed wait keeps the invariant of the timer.
\<close>

locale login_timer_owner = sub_object "lth_timer h" for h :: "'s login_timer_handler" +
  assumes on_login_error:
      "lens_get (lth_timer h) (lth_error h ec op s) \<in>
        {lens_get (lth_timer h) s, login_timer_stop (lens_get (lth_timer h) s)}"
    and on_login_expired:
      "lens_get (lth_timer h) (lth_expired h s) \<in>
        {lens_get (lth_timer h) s, login_timer_stop (lens_get (lth_timer h) s)}"
begin

lemma login_on_expiry_cases:
  "lens_get (lth_timer h) (login_timer_on_expiry h ec s) \<in>
    {lens_get (lth_timer h) s, login_timer_stop (lens_get (lth_timer h) s)}"
  using on_login_error [of ec "''timer async_wait''" s] on_login_expired [of s]
  by (auto simp: login_timer_on_expiry_def)

lemma login_wait_done_core:
  assumes "lt_core (lens_get (lth_timer h) s)" and "0 < lt_waits (lens_get (lth_timer h) s)"
  shows "lt_core (lens_get (lth_timer h) (login_timer_wait_done h ec s))"
proof -
  let ?t = "lens_get (lth_timer h) s"
  let ?s = "lens_upd (lth_timer h)
              (\<lambda>t. t\<lparr>lt_waits := lt_waits t - 1, lt_wait_pending := False\<rparr>) s"
  have "lt_core (?t\<lparr>lt_waits := lt_waits ?t - 1, lt_wait_pending := False\<rparr>)"
    using assms by (auto simp: lt_core_def)
  then show ?thesis
    using login_on_expiry_cases [of ec ?s]
    by (auto simp: login_timer_wait_done_def Let_def lt_signal)
qed

end

locale heartbeat_timer_owner = sub_object "hbh_timer h" for h :: "'s heartbeat_timer_handler" +
  assumes on_heartbeat_error:
      "lens_get (hbh_timer h) (hbh_error h ec op s) \<in>
        {lens_get (hbh_timer h) s, heartbeat_timer_stop (lens_get (hbh_timer h) s)}"
    and on_receive_timeout:
      "lens_get (hbh_timer h) (hbh_receive_timeout h s) \<in>
        {lens_get (hbh_timer h) s, heartbeat_timer_stop (lens_get (hbh_timer h) s)}"
    and on_send_due: "lens_get (hbh_timer h) (hbh_send_due h s) = lens_get (hbh_timer h) s"
begin

lemma schedule_core:
  assumes "hb_core (lens_get (hbh_timer h) s)"
    and "\<not> hb_wait_pending (lens_get (hbh_timer h) s)"
    and "\<not> hb_stopped_signaled (lens_get (hbh_timer h) s)"
  shows "hb_core (lens_get (hbh_timer h) (heartbeat_timer_schedule h throws s))"
proof (cases throws)
  case None
  with assms show ?thesis by (simp add: heartbeat_timer_schedule_def hb_core_def)
next
  case (Some ec)
  with assms on_heartbeat_error [of ec "''timer expires_at''" s] show ?thesis
    by (auto simp: heartbeat_timer_schedule_def)
qed

lemma heartbeat_on_expiry_core:
  assumes "hb_core (lens_get (hbh_timer h) s)"
    and "\<not> hb_wait_pending (lens_get (hbh_timer h) s)"
  shows "hb_core (lens_get (hbh_timer h) (heartbeat_timer_on_expiry h throws ec s))"
proof -
  let ?t = "lens_get (hbh_timer h) s"
  have upd: "hb_core (?t\<lparr>hb_no_receive_period := n\<rparr>)"
      "hb_core (?t\<lparr>hb_no_receive_period := n, hb_receive_count := c\<rparr>)"
      "hb_core (?t\<lparr>hb_no_receive_period := n, hb_send_count := c\<rparr>)"
      "hb_core (?t\<lparr>hb_no_receive_period := n, hb_receive_count := c, hb_send_count := d\<rparr>)" for n c d
    using assms(1) by (simp_all add: hb_core_def)
  have "hb_started ?t \<Longrightarrow> \<not> hb_stopped_signaled ?t" using assms(1) by (auto simp: hb_core_def)
  then show ?thesis
    using on_heartbeat_error [of ec "''timer async_wait''" s] assms
      on_receive_timeout [of "lens_upd (hbh_timer h) (\<lambda>t. t\<lparr>hb_no_receive_period :=
                        hb_no_receive_period t + heartbeat_period\<rparr>) s"]
    by (auto simp: heartbeat_timer_on_expiry_def Let_def on_send_due upd
        intro!: schedule_core)
qed

lemma heartbeat_wait_done_core:
  assumes "hb_core (lens_get (hbh_timer h) s)" and "0 < hb_waits (lens_get (hbh_timer h) s)"
  shows "hb_core (lens_get (hbh_timer h) (heartbeat_timer_wait_done h throws ec s))"
proof -
  let ?t = "lens_get (hbh_timer h) s"
  have "hb_core (?t\<lparr>hb_waits := hb_waits ?t - 1, hb_wait_pending := False\<rparr>)"
    using assms by (auto simp: hb_core_def)
  then show ?thesis
    by (simp add: heartbeat_timer_wait_done_def Let_def hb_signal heartbeat_on_expiry_core)
qed

end

end
