(* ===== verification/Tcp_Object.thy ===== *)
theory Tcp_Object
  imports Connection_State Timers Socket_Contract
begin

text \<open>
  What \<^verbatim>\<open>client::Tcp_connection\<close> and \<^verbatim>\<open>server::Tcp_connection\<close> have in common: a socket,
  a connection state, a login and a heartbeat timer, and three flags that remember which
  of them have announced that they are done.  The object may be destroyed when all three
  have; \<open>tcp_mid\<close>, which holds at every point of every function, says why that is safe.
  The rest of the theory is about the few ways in which the functions of the two classes
  change such an object.
\<close>

section \<open>The object\<close>

record tcp_object =
  ct_socket :: socket
  ct_state :: connection_state
  ct_login_timer :: login_timer
  ct_heartbeat_timer :: heartbeat_timer
  ct_socket_closed :: bool
  ct_login_timer_stopped :: bool
  ct_heartbeat_timer_stopped :: bool

definition t_disconnect :: "disconnect_reason \<Rightarrow> tcp_object \<Rightarrow> tcp_object" where
  "t_disconnect r t =
    (let (changed, st) = cs_disconnect r (ct_state t) in
     if changed
     then t\<lparr>ct_state := st, ct_socket := socket_close (ct_socket t),
            ct_login_timer := login_timer_stop (ct_login_timer t),
            ct_heartbeat_timer := heartbeat_timer_stop (ct_heartbeat_timer t)\<rparr>
     else t\<lparr>ct_state := st\<rparr>)"

text \<open>The flags of a TCP connection that only its constructor, the start of a timer and the
  posted notifications change.\<close>

lemma t_disconnect_flags [simp]:
  "ct_socket_closed (t_disconnect r t) = ct_socket_closed t"
  "ct_login_timer_stopped (t_disconnect r t) = ct_login_timer_stopped t"
  "ct_heartbeat_timer_stopped (t_disconnect r t) = ct_heartbeat_timer_stopped t"
  by (simp_all add: t_disconnect_def split_def Let_def)

lemma t_disconnect_state [simp]: "cs_state (ct_state (t_disconnect r t)) = Disconnected"
  by (simp add: t_disconnect_def cs_disconnect_def Let_def)

section \<open>Invariants\<close>

definition tcp_mid :: "tcp_object \<Rightarrow> bool" where
  "tcp_mid t \<longleftrightarrow>
     sock_core (ct_socket t) \<and> lt_core (ct_login_timer t) \<and> hb_core (ct_heartbeat_timer t) \<and>
     ct_socket_closed t = sock_told (ct_socket t) \<and>
     ct_login_timer_stopped t =
       (lt_unused (ct_login_timer t) \<or> lt_told (ct_login_timer t)) \<and>
     ct_heartbeat_timer_stopped t =
       (hb_unused (ct_heartbeat_timer t) \<or> hb_told (ct_heartbeat_timer t)) \<and>
     (cs_state (ct_state t) = Disconnected \<longrightarrow> sk_closing (ct_socket t) \<and>
        \<not> lt_started (ct_login_timer t) \<and> \<not> hb_started (ct_heartbeat_timer t)) \<and>
     (sk_connect_pending (ct_socket t) \<longrightarrow> lt_unused (ct_login_timer t) \<and>
        cs_state (ct_state t) \<in> {Connecting, Disconnected}) \<and>
     (sk_connect_pending (ct_socket t) \<or> cs_state (ct_state t) = Connected \<longrightarrow>
        hb_unused (ct_heartbeat_timer t))"

text \<open>Between events every started timer has a wait, and the socket is at rest.\<close>

definition timers_armed :: "tcp_object \<Rightarrow> bool" where
  "timers_armed t \<longleftrightarrow>
     (lt_started (ct_login_timer t) \<longrightarrow> lt_wait_pending (ct_login_timer t)) \<and>
     (hb_started (ct_heartbeat_timer t) \<longrightarrow> hb_wait_pending (ct_heartbeat_timer t))"

definition tcp_core :: "tcp_object \<Rightarrow> bool" where
  "tcp_core t \<longleftrightarrow> tcp_mid t \<and> sock_rest (ct_socket t) \<and> timers_armed t"

text \<open>A TCP connection that has been taken down: what every failing path leads to.\<close>

definition tcp_down :: "tcp_object \<Rightarrow> bool" where
  "tcp_down t \<longleftrightarrow> tcp_mid t \<and> sk_closing (ct_socket t) \<and> \<not> lt_started (ct_login_timer t) \<and>
     \<not> hb_started (ct_heartbeat_timer t)"

definition tcp_outstanding :: "tcp_object \<Rightarrow> bool" where
  "tcp_outstanding t \<longleftrightarrow> sk_ops (ct_socket t) \<noteq> [] \<or>
     0 < lt_waits (ct_login_timer t) \<or> 0 < lt_posts (ct_login_timer t) \<or>
     0 < hb_waits (ct_heartbeat_timer t) \<or> 0 < hb_posts (ct_heartbeat_timer t)"

definition tcp_finished :: "tcp_object \<Rightarrow> bool" where
  "tcp_finished t \<longleftrightarrow>
     ct_socket_closed t \<and> ct_login_timer_stopped t \<and> ct_heartbeat_timer_stopped t"

text \<open>Finished means that nothing is outstanding; not finished, that something is.\<close>

lemma finished_quiet: "tcp_mid t \<Longrightarrow> tcp_finished t \<Longrightarrow> \<not> tcp_outstanding t"
  using sock_told_no_ops [of "ct_socket t"] lt_quiet [of "ct_login_timer t"]
    hb_quiet [of "ct_heartbeat_timer t"]
  by (auto simp: tcp_mid_def tcp_finished_def tcp_outstanding_def)

lemma core_outstanding:
  assumes ok: "tcp_core t" and sk: "sk_closing (ct_socket t) \<or> \<not> is_idle (ct_socket t)"
    and nf: "\<not> tcp_finished t"
  shows "tcp_outstanding t"
proof -
  have mid: "tcp_mid t" and rest: "sock_rest (ct_socket t)"
    and lt: "lt_started (ct_login_timer t) \<longrightarrow> lt_wait_pending (ct_login_timer t)"
    and hb: "hb_started (ct_heartbeat_timer t) \<longrightarrow> hb_wait_pending (ct_heartbeat_timer t)"
    using ok by (auto simp: tcp_core_def timers_armed_def)
  have eqs: "ct_socket_closed t = sock_told (ct_socket t)"
      "ct_login_timer_stopped t = (lt_unused (ct_login_timer t) \<or> lt_told (ct_login_timer t))"
      "ct_heartbeat_timer_stopped t =
         (hb_unused (ct_heartbeat_timer t) \<or> hb_told (ct_heartbeat_timer t))"
    and cores: "lt_core (ct_login_timer t)" "hb_core (ct_heartbeat_timer t)"
    using mid by (simp_all add: tcp_mid_def)
  from nf [unfolded tcp_finished_def eqs] show ?thesis
    using sock_rest_progress [OF rest _ sk] lt_progress [OF cores(1) lt]
      hb_progress [OF cores(2) hb]
    unfolding tcp_outstanding_def by argo
qed

section \<open>Taking a connection down\<close>

lemma t_disconnect_down:
  assumes "tcp_mid t"
  shows "tcp_down (t_disconnect r t)"
proof (cases "cs_state (ct_state t) = Disconnected")
  case True
  with assms show ?thesis
    by (auto simp: t_disconnect_def cs_disconnect_def tcp_down_def tcp_mid_def)
next
  case False
  have ev: "sock_evolve (ct_socket t) (socket_close (ct_socket t))"
    by (intro sock_evolve.intros)
  from assms have core: "sock_core (ct_socket t)" by (simp add: tcp_mid_def)
  have closing: "sk_closing (socket_close k)" for k
    by (simp add: sock_op_defs Let_def)
  show ?thesis
    using False assms core evolve_told [OF ev core] evolve_connect_pending [OF ev]
      evolve_core [OF ev core]
    by (auto simp: t_disconnect_def cs_disconnect_def tcp_down_def tcp_mid_def Let_def closing)
qed

lemma t_disconnect_evolve: "sock_evolve (ct_socket t) (ct_socket (t_disconnect r t))"
  by (auto simp: t_disconnect_def split_def Let_def intro: sock_evolve.intros)

lemma t_disconnect_timers:
  "ct_login_timer (t_disconnect r t) \<in> {ct_login_timer t, login_timer_stop (ct_login_timer t)}"
  "ct_heartbeat_timer (t_disconnect r t) \<in>
     {ct_heartbeat_timer t, heartbeat_timer_stop (ct_heartbeat_timer t)}"
  by (auto simp: t_disconnect_def split_def Let_def)

lemma signal_told: "sock_core k \<Longrightarrow> sock_told (socket_maybe_signal_closed k) = sock_told k"
  by (auto simp: sock_told_def socket_maybe_signal_closed_def)

lemma signal_simps [simp]:
  "sk_closing (socket_maybe_signal_closed k) = sk_closing k"
  "sk_connect_pending (socket_maybe_signal_closed k) = sk_connect_pending k"
  "sk_read_pending (socket_maybe_signal_closed k) = sk_read_pending k"
  by (simp_all add: socket_maybe_signal_closed_def)

lemma t_disconnect_rest:
  "tcp_mid t \<Longrightarrow> sock_rest (ct_socket t) \<Longrightarrow> sock_rest (ct_socket (t_disconnect r t))"
  by (auto simp: t_disconnect_def split_def Let_def tcp_mid_def sock_core_close)

lemma t_disconnect_unused:
  assumes "tcp_mid t"
  shows "lt_unused (ct_login_timer (t_disconnect r t)) = lt_unused (ct_login_timer t)"
    and "hb_unused (ct_heartbeat_timer (t_disconnect r t)) = hb_unused (ct_heartbeat_timer t)"
proof -
  have "lt_core (ct_login_timer t)" "hb_core (ct_heartbeat_timer t)"
    using assms by (simp_all add: tcp_mid_def)
  then show "lt_unused (ct_login_timer (t_disconnect r t)) = lt_unused (ct_login_timer t)"
    "hb_unused (ct_heartbeat_timer (t_disconnect r t)) = hb_unused (ct_heartbeat_timer t)"
    by (simp_all add: t_disconnect_def split_def Let_def)
qed

lemma t_disconnect_pending [simp]:
  "sk_read_pending (ct_socket (t_disconnect r t)) = sk_read_pending (ct_socket t)"
  "sk_connect_pending (ct_socket (t_disconnect r t)) = sk_connect_pending (ct_socket t)"
  using evolve_connect_pending [OF t_disconnect_evolve [of t r]]
  by (auto simp: t_disconnect_def split_def Let_def sock_op_defs)

lemma disconnect_evolve [simp]:
  "sock_evolve k (ct_socket t) \<Longrightarrow> sock_evolve k (ct_socket (t_disconnect r t))"
  using evolve_trans [OF t_disconnect_evolve] .

lemma down_armed: "tcp_down t \<Longrightarrow> tcp_mid t \<and> timers_armed t"
  by (simp add: tcp_down_def timers_armed_def)

lemma t_disconnect_closing: "tcp_mid t \<Longrightarrow> sk_closing (ct_socket (t_disconnect r t))"
  using t_disconnect_down [of t r] by (simp add: tcp_down_def)

lemma core_disconnect: "tcp_mid t \<Longrightarrow> sock_rest (ct_socket t) \<Longrightarrow> tcp_core (t_disconnect r t)"
  using t_disconnect_down [of t r] by (simp add: tcp_core_def down_armed t_disconnect_rest)

section \<open>Replacing the socket\<close>

text \<open>The end of a socket completion handler, on any path.\<close>

lemma mid_signal:
  "tcp_mid t \<Longrightarrow> tcp_mid (t\<lparr>ct_socket := socket_maybe_signal_closed (ct_socket t)\<rparr>)"
  using sock_core_maybe_signal [of "ct_socket t"] signal_told [of "ct_socket t"]
  by (simp add: tcp_mid_def sock_rest_def)

lemma mid_socket:
  assumes "tcp_mid t" and "sock_core k" and "sock_told k = sock_told (ct_socket t)"
    and "sk_connect_pending k \<Longrightarrow> sk_connect_pending (ct_socket t)"
    and "sk_closing (ct_socket t) \<Longrightarrow> sk_closing k"
  shows "tcp_mid (t\<lparr>ct_socket := k\<rparr>)"
  using assms by (auto simp: tcp_mid_def)

lemma mid_evolve:
  assumes "tcp_mid t" and "sock_evolve (ct_socket t) k"
  shows "tcp_mid (t\<lparr>ct_socket := k\<rparr>)"
  using assms evolve_core evolve_told evolve_connect_pending evolve_closing
  by (intro mid_socket) (auto simp: tcp_mid_def)

lemma mid_cleared:
  assumes mid: "tcp_mid t" and "sock_core k" and "\<not> sk_closed_signaled (ct_socket t)"
    and "sk_closed_signaled k = sk_closed_signaled (ct_socket t)"
    and "sk_closing k = sk_closing (ct_socket t)"
    and "sk_connect_pending k \<Longrightarrow> sk_connect_pending (ct_socket t)"
  shows "tcp_mid (t\<lparr>ct_socket := k\<rparr>)"
  using assms by (intro mid_socket) (auto simp: sock_told_def)

lemma not_told_if_busy: "sock_core k \<Longrightarrow> \<not> is_idle k \<Longrightarrow> \<not> sk_closed_signaled k \<and> \<not> sock_told k"
  by (auto simp: sock_core_def sock_told_def)

lemma async_write_simps [simp]:
  "sk_closing (snd (socket_async_write p k)) = sk_closing k"
  "sk_read_pending (snd (socket_async_write p k)) = sk_read_pending k"
  "sk_connect_pending (snd (socket_async_write p k)) = sk_connect_pending k"
  by (simp_all add: sock_op_defs Let_def)

lemma async_write_mid: "tcp_mid t \<Longrightarrow> tcp_mid (t\<lparr>ct_socket := snd (socket_async_write p (ct_socket t))\<rparr>)"
  by (rule mid_evolve, assumption) (intro sock_evolve.intros)

lemma async_write_rest: "sock_rest k \<Longrightarrow> sock_rest (snd (socket_async_write p k))"
  using sock_core_async_write [of k p] async_write_simps(1) [of p k]
  by (cases "sk_closing k") (simp_all add: sock_rest_def, simp add: socket_async_write_def)

section \<open>Starting a timer\<close>

text \<open>Before and after its wait is armed.\<close>

lemma mid_login_start:
  assumes "tcp_mid t" and "lt_unused (ct_login_timer t)" and "\<not> sk_connect_pending (ct_socket t)"
    and "cs_state (ct_state t) \<noteq> Disconnected"
  shows "tcp_mid (t\<lparr>ct_login_timer_stopped := False,
           ct_login_timer := (ct_login_timer t)\<lparr>lt_started := True\<rparr>\<rparr>)"
    and "tcp_mid (t\<lparr>ct_login_timer_stopped := False,
           ct_login_timer := (ct_login_timer t)\<lparr>lt_started := True, lt_wait_pending := True,
             lt_waits := lt_waits (ct_login_timer t) + 1\<rparr>\<rparr>)"
  using assms by (auto simp: tcp_mid_def lt_preds)

lemma mid_heartbeat_start:
  assumes "tcp_mid t" and "hb_unused (ct_heartbeat_timer t)"
    and "\<not> sk_connect_pending (ct_socket t)"
    and "cs_state (ct_state t) = Logged_in"
  shows "tcp_mid (t\<lparr>ct_heartbeat_timer_stopped := False,
           ct_heartbeat_timer := (ct_heartbeat_timer t)\<lparr>hb_started := True\<rparr>\<rparr>)"
    and "tcp_mid (t\<lparr>ct_heartbeat_timer_stopped := False,
           ct_heartbeat_timer := (ct_heartbeat_timer t)\<lparr>hb_started := True, hb_expiry := e\<rparr>\<rparr>)"
    and "tcp_mid (t\<lparr>ct_heartbeat_timer_stopped := False,
           ct_heartbeat_timer := (ct_heartbeat_timer t)\<lparr>hb_started := True, hb_expiry := e,
             hb_wait_pending := True, hb_waits := hb_waits (ct_heartbeat_timer t) + 1\<rparr>\<rparr>)"
  using assms by (auto simp: tcp_mid_def hb_preds)

section \<open>The posted notifications\<close>

lemma post_closed_core:
  assumes ok: "tcp_core t" and mem: "Op_post_closed \<in> set (sk_ops (ct_socket t))"
  shows "tcp_core (t\<lparr>ct_socket := (ct_socket t)\<lparr>sk_ops := remove1 Op_post_closed (sk_ops (ct_socket t))\<rparr>,
                  ct_socket_closed := True\<rparr>)"
proof -
  let ?k = "ct_socket t"
  have mid: "tcp_mid t" and core: "sock_core ?k" and rest: "sock_rest ?k"
    using ok by (simp_all add: tcp_core_def tcp_mid_def)
  note c = cleared_core(4) [OF core mem refl]
  have "n_ops (\<lambda>op. op = Op_post_closed) (?k\<lparr>sk_ops := remove1 Op_post_closed (sk_ops ?k)\<rparr>) = 0"
    using c core mem by (simp add: sock_core_def n_ops_def length_filter_remove1)
  then have "Op_post_closed \<notin> set (remove1 Op_post_closed (sk_ops ?k))"
    by (auto simp: n_ops_def filter_empty_conv)
  with c mid ok rest show ?thesis
    by (auto simp: tcp_core_def timers_armed_def tcp_mid_def sock_told_def sock_rest_def)
qed

text \<open>A stopped timer may be replaced by another state of it.\<close>

lemma core_login_timer:
  assumes "tcp_core t" and "lt_core l" and "b = (lt_unused l \<or> lt_told l)" and "\<not> lt_started l"
    and "\<not> lt_unused (ct_login_timer t)"
  shows "tcp_core (t\<lparr>ct_login_timer := l, ct_login_timer_stopped := b\<rparr>)"
  using assms by (simp add: tcp_core_def timers_armed_def tcp_mid_def)

lemma core_heartbeat_timer:
  assumes "tcp_core t" and "hb_core l" and "b = (hb_unused l \<or> hb_told l)" and "\<not> hb_started l"
    and "\<not> hb_unused (ct_heartbeat_timer t)"
  shows "tcp_core (t\<lparr>ct_heartbeat_timer := l, ct_heartbeat_timer_stopped := b\<rparr>)"
  using assms by (simp add: tcp_core_def timers_armed_def tcp_mid_def)

lemma lt_post:
  assumes "lt_core l" and "0 < lt_posts l"
  shows "lt_core (l\<lparr>lt_posts := lt_posts l - 1\<rparr>)" and "lt_told (l\<lparr>lt_posts := lt_posts l - 1\<rparr>)"
    and "\<not> lt_started l" and "\<not> lt_unused l"
  using assms by (cases "lt_stopped_signaled l"; simp add: lt_preds)+

lemma hb_post:
  assumes "hb_core l" and "0 < hb_posts l"
  shows "hb_core (l\<lparr>hb_posts := hb_posts l - 1\<rparr>)" and "hb_told (l\<lparr>hb_posts := hb_posts l - 1\<rparr>)"
    and "\<not> hb_started l" and "\<not> hb_unused l"
  using assms by (cases "hb_stopped_signaled l"; simp add: hb_preds)+

lemma login_post_core:
  assumes ok: "tcp_core t" and pending: "0 < lt_posts (ct_login_timer t)"
  shows "tcp_core (t\<lparr>ct_login_timer := (ct_login_timer t)\<lparr>lt_posts := lt_posts (ct_login_timer t) - 1\<rparr>,
             ct_login_timer_stopped := True\<rparr>)"
proof -
  have "lt_core (ct_login_timer t)" using ok by (simp add: tcp_core_def tcp_mid_def)
  from lt_post [OF this pending] show ?thesis by (intro core_login_timer [OF ok]) simp_all
qed

lemma heartbeat_post_core:
  assumes ok: "tcp_core t" and pending: "0 < hb_posts (ct_heartbeat_timer t)"
  shows "tcp_core (t\<lparr>ct_heartbeat_timer := (ct_heartbeat_timer t)\<lparr>hb_posts := hb_posts (ct_heartbeat_timer t) - 1\<rparr>,
             ct_heartbeat_timer_stopped := True\<rparr>)"
proof -
  have "hb_core (ct_heartbeat_timer t)" using ok by (simp add: tcp_core_def tcp_mid_def)
  from hb_post [OF this pending] show ?thesis by (intro core_heartbeat_timer [OF ok]) simp_all
qed

section \<open>The waits of the timers\<close>

text \<open>A wait completes after the timer was stopped: the stop is announced now.\<close>

lemma lt_late_wait:
  assumes "lt_core l" and "0 < lt_waits l" and "\<not> lt_started l"
  shows "let l' = login_timer_maybe_signal_stopped (l\<lparr>lt_waits := lt_waits l - 1, lt_wait_pending := False\<rparr>)
         in lt_core l' \<and> \<not> lt_started l' \<and> \<not> lt_unused l' \<and> \<not> lt_told l' \<and> \<not> lt_unused l \<and> \<not> lt_told l"
proof -
  have "lt_wait_pending l" "lt_waits l = 1" "\<not> lt_stopped_signaled l" "lt_posts l = 0"
    using assms by (auto simp: lt_core_def)
  with assms(3) show ?thesis
    by (simp add: lt_preds login_timer_maybe_signal_stopped_def Let_def)
qed

lemma hb_late_wait:
  assumes "hb_core l" and "0 < hb_waits l" and "\<not> hb_started l"
  shows "let l' = heartbeat_timer_maybe_signal_stopped (l\<lparr>hb_waits := hb_waits l - 1, hb_wait_pending := False\<rparr>)
         in hb_core l' \<and> \<not> hb_started l' \<and> \<not> hb_unused l' \<and> \<not> hb_told l' \<and> \<not> hb_unused l \<and> \<not> hb_told l"
proof -
  have "hb_wait_pending l" "hb_waits l = 1" "\<not> hb_stopped_signaled l" "hb_posts l = 0"
    using assms by (auto simp: hb_core_def)
  with assms(3) show ?thesis
    by (simp add: hb_preds heartbeat_timer_maybe_signal_stopped_def Let_def)
qed

lemma record_self [simp]:
  "(t :: tcp_object)\<lparr>ct_login_timer := l, ct_login_timer_stopped := ct_login_timer_stopped t\<rparr> =
     t\<lparr>ct_login_timer := l\<rparr>"
  "t\<lparr>ct_heartbeat_timer := h, ct_heartbeat_timer_stopped := ct_heartbeat_timer_stopped t\<rparr> =
     t\<lparr>ct_heartbeat_timer := h\<rparr>"
  by simp_all

lemma login_late_wait_core:
  assumes ok: "tcp_core t" and pending: "0 < lt_waits (ct_login_timer t)"
    and ns: "\<not> lt_started (ct_login_timer t)"
  shows "tcp_core (t\<lparr>ct_login_timer := login_timer_maybe_signal_stopped
           ((ct_login_timer t)\<lparr>lt_waits := lt_waits (ct_login_timer t) - 1, lt_wait_pending := False\<rparr>)\<rparr>)"
proof -
  have core: "lt_core (ct_login_timer t)" using ok by (simp add: tcp_core_def tcp_mid_def)
  note late = lt_late_wait [OF core pending ns, unfolded Let_def]
  have flag: "\<not> ct_login_timer_stopped t"
    using ok late by (simp add: tcp_core_def tcp_mid_def)
  have "tcp_core (t\<lparr>ct_login_timer := login_timer_maybe_signal_stopped
           ((ct_login_timer t)\<lparr>lt_waits := lt_waits (ct_login_timer t) - 1, lt_wait_pending := False\<rparr>),
           ct_login_timer_stopped := ct_login_timer_stopped t\<rparr>)"
    by (rule core_login_timer [OF ok]) (use late flag in simp_all)
  then show ?thesis by simp
qed

lemma heartbeat_late_wait_core:
  assumes ok: "tcp_core t" and pending: "0 < hb_waits (ct_heartbeat_timer t)"
    and ns: "\<not> hb_started (ct_heartbeat_timer t)"
  shows "tcp_core (t\<lparr>ct_heartbeat_timer := heartbeat_timer_maybe_signal_stopped
           ((ct_heartbeat_timer t)\<lparr>hb_waits := hb_waits (ct_heartbeat_timer t) - 1, hb_wait_pending := False\<rparr>)\<rparr>)"
proof -
  have core: "hb_core (ct_heartbeat_timer t)" using ok by (simp add: tcp_core_def tcp_mid_def)
  note late = hb_late_wait [OF core pending ns, unfolded Let_def]
  have flag: "\<not> ct_heartbeat_timer_stopped t"
    using ok late by (simp add: tcp_core_def tcp_mid_def)
  have "tcp_core (t\<lparr>ct_heartbeat_timer := heartbeat_timer_maybe_signal_stopped
           ((ct_heartbeat_timer t)\<lparr>hb_waits := hb_waits (ct_heartbeat_timer t) - 1, hb_wait_pending := False\<rparr>),
           ct_heartbeat_timer_stopped := ct_heartbeat_timer_stopped t\<rparr>)"
    by (rule core_heartbeat_timer [OF ok]) (use late flag in simp_all)
  then show ?thesis by simp
qed

text \<open>The timer says it has stopped, if it has not said so before: nothing to do when it is
  in use.\<close>

lemma signal_idle [simp]:
  "\<not> lt_unused l \<Longrightarrow> login_timer_maybe_signal_stopped l = l"
  "\<not> hb_unused h \<Longrightarrow> heartbeat_timer_maybe_signal_stopped h = h"
  by (auto simp: login_timer_maybe_signal_stopped_def lt_unused_def
      heartbeat_timer_maybe_signal_stopped_def hb_unused_def)

text \<open>A wait of the login timer completes, with an error or not: the connection is taken
  down unless the timer has been stopped.\<close>

definition t_login_wait :: "disconnect_reason \<Rightarrow> tcp_object \<Rightarrow> tcp_object" where
  "t_login_wait r t =
    (let t1 = t\<lparr>ct_login_timer := (ct_login_timer t)\<lparr>lt_waits := lt_waits (ct_login_timer t) - 1,
                                                   lt_wait_pending := False\<rparr>\<rparr>;
         t2 = (if lt_started (ct_login_timer t) then t_disconnect r t1 else t1)
     in t2\<lparr>ct_login_timer := login_timer_maybe_signal_stopped (ct_login_timer t2)\<rparr>)"

lemma login_wait_core:
  assumes core: "tcp_core t" and pending: "0 < lt_waits (ct_login_timer t)"
  shows "tcp_core (t_login_wait r t)"
proof (cases "lt_started (ct_login_timer t)")
  case False
  with login_late_wait_core [OF core pending] show ?thesis by (simp add: t_login_wait_def)
next
  case True
  let ?lt = "ct_login_timer t"
  let ?t1 = "t\<lparr>ct_login_timer := ?lt\<lparr>lt_waits := lt_waits ?lt - 1, lt_wait_pending := False\<rparr>\<rparr>"
  have mid: "tcp_mid t" and rest: "sock_rest (ct_socket t)" using core by (simp_all add: tcp_core_def)
  from mid pending True have mid1: "tcp_mid ?t1" by (auto simp: tcp_mid_def lt_preds)
  have nu: "\<not> lt_unused (ct_login_timer (t_disconnect r ?t1))"
    using True t_disconnect_unused [OF mid1] by (simp add: lt_unused_def)
  have "tcp_core (t_disconnect r ?t1)" using mid1 rest by (simp add: core_disconnect)
  with True nu show ?thesis by (simp add: t_login_wait_def Let_def)
qed

lemma login_wait_flags [simp]:
  "ct_socket_closed (t_login_wait r t) = ct_socket_closed t"
  "ct_login_timer_stopped (t_login_wait r t) = ct_login_timer_stopped t"
  "ct_heartbeat_timer_stopped (t_login_wait r t) = ct_heartbeat_timer_stopped t"
  by (simp_all add: t_login_wait_def Let_def)

text \<open>Counting does not matter to any of this.\<close>

lemma mid_heartbeat_counts:
  assumes "tcp_mid t"
    and "hb_started l = hb_started (ct_heartbeat_timer t)"
    and "hb_wait_pending l = hb_wait_pending (ct_heartbeat_timer t)"
    and "hb_stopped_signaled l = hb_stopped_signaled (ct_heartbeat_timer t)"
    and "hb_waits l = hb_waits (ct_heartbeat_timer t)"
    and "hb_posts l = hb_posts (ct_heartbeat_timer t)"
  shows "tcp_mid (t\<lparr>ct_heartbeat_timer := l\<rparr>)"
  using assms by (simp add: tcp_mid_def hb_preds)

text \<open>The state in which a period of the heartbeat timer ends.\<close>

definition tcp_beating :: "tcp_object \<Rightarrow> bool" where
  "tcp_beating t \<longleftrightarrow> tcp_mid t \<and> sock_rest (ct_socket t) \<and> hb_started (ct_heartbeat_timer t) \<and>
     \<not> hb_wait_pending (ct_heartbeat_timer t) \<and>
     (lt_started (ct_login_timer t) \<longrightarrow> lt_wait_pending (ct_login_timer t))"

lemma beating_disconnect:
  assumes "tcp_beating t"
  shows "tcp_core ((t_disconnect r t)\<lparr>ct_heartbeat_timer :=
           heartbeat_timer_maybe_signal_stopped (ct_heartbeat_timer (t_disconnect r t))\<rparr>)"
proof -
  have mid: "tcp_mid t" and "sock_rest (ct_socket t)" and "\<not> hb_unused (ct_heartbeat_timer t)"
    using assms by (simp_all add: tcp_beating_def hb_unused_def)
  then show ?thesis
    by (simp add: core_disconnect t_disconnect_unused)
qed

lemma beating_armed:
  assumes "tcp_beating t"
  shows "tcp_core (t\<lparr>ct_heartbeat_timer := heartbeat_timer_maybe_signal_stopped ((ct_heartbeat_timer t)\<lparr>
      hb_expiry := e, hb_wait_pending := True, hb_waits := Suc (hb_waits (ct_heartbeat_timer t))\<rparr>)\<rparr>)"
  using assms
  by (simp add: tcp_beating_def heartbeat_timer_maybe_signal_stopped_def tcp_core_def timers_armed_def tcp_mid_def hb_preds)
    blast

lemma beating_counts:
  "tcp_beating t \<Longrightarrow> tcp_beating (t\<lparr>ct_heartbeat_timer := (ct_heartbeat_timer t)\<lparr>hb_no_receive_period := n\<rparr>\<rparr>)"
  "tcp_beating t \<Longrightarrow> tcp_beating (t\<lparr>ct_heartbeat_timer := (ct_heartbeat_timer t)\<lparr>hb_no_receive_period := n, hb_receive_count := c\<rparr>\<rparr>)"
  "tcp_beating t \<Longrightarrow> tcp_beating (t\<lparr>ct_heartbeat_timer := (ct_heartbeat_timer t)\<lparr>hb_no_receive_period := n, hb_send_count := c\<rparr>\<rparr>)"
  "tcp_beating t \<Longrightarrow> tcp_beating (t\<lparr>ct_heartbeat_timer := (ct_heartbeat_timer t)\<lparr>hb_no_receive_period := n, hb_receive_count := c, hb_send_count := d\<rparr>\<rparr>)"
  unfolding tcp_beating_def by (auto intro!: mid_heartbeat_counts)

lemma beating_write:
  "tcp_beating t \<Longrightarrow> tcp_beating (t\<lparr>ct_socket := snd (socket_async_write p (ct_socket t))\<rparr>)"
  by (simp add: tcp_beating_def async_write_mid async_write_rest)

end
