(* ===== verification/Client_Types.thy ===== *)
theory Client_Types
  imports Expected Validate Tcp_Object
begin

text \<open>
  The state of the client side: the members of \<^verbatim>\<open>client::Client\<close>, \<^verbatim>\<open>client::Connection\<close>
  and \<^verbatim>\<open>client::Tcp_connection\<close>, and the calls the library makes to its user.

  Everything one connection does reads and writes only its own object, the scalar members
  of the client that owns it, and the user's handlers; \<open>cw\<close> (a connection's world) is that
  much of the state.  The list of connections is added in \<open>Client_Main\<close>.
  \<^verbatim>\<open>client::Tcp_connection\<close> is a \<open>tcp_object\<close>; its pointers to its connection and handler are
  fixed by the world it is used in.  \<^verbatim>\<open>std::optional<Tcp_connection>\<close> is the flag \<open>cc_engaged\<close> and the storage \<open>cc_tcp\<close>; the
  storage keeps what a destroyed object had left, so that completion handlers that
  still hold a pointer to it stay visible.  The user's handlers are outside the program:
  a call to one is recorded in \<open>cw_out\<close>, in the order of the calls and with the number
  \<open>cw_id\<close> of the connection it is about, and does not call back into the library.
\<close>

section \<open>Calls to the user's handlers\<close>

datatype client_cb =
    Cb_connecting endpoint
  | Cb_connect_failure error_code string
  | Cb_connect_success endpoint endpoint
  | Cb_logging_in login_request_packet
  | Cb_login_failure login_reject_reason
  | Cb_login_success login_accepted_packet
  | Cb_write_buffer_empty
  | Cb_debug bytes
  | Cb_transport_error error_code string
  | Cb_protocol_violation packet_error
  | Cb_disconnect disconnect_reason
  | Cb_reconnect_scheduled nat
  | Cb_sequenced_data u64 bytes
  | Cb_end_of_session

section \<open>State\<close>

text \<open>\<^verbatim>\<open>client::Connection\<close>: \<open>cc_handler\<close> says whether a handler is set.\<close>

record client_connection =
  cc_handler :: bool
  cc_endpoint :: endpoint
  cc_username :: bytes
  cc_password :: bytes
  cc_session :: bytes
  cc_next_sequence_number :: u64
  cc_has_session_ended :: bool
  cc_engaged :: bool
  cc_tcp :: tcp_object
  cc_reconnect_timer :: reconnect_timer
  cc_reconnect_next_delay :: nat

text \<open>The scalar members of \<^verbatim>\<open>client::Client\<close>; \<open>cl_asserts_ok\<close> stays true as long as
  no \<^verbatim>\<open>assert\<close> of the client has failed (builds with \<^verbatim>\<open>NDEBUG\<close> run on).\<close>

record client_core =
  cl_handler :: bool
  cl_write_packets_limit :: nat
  cl_next_sequence_number :: u64
  cl_has_session_ended :: bool
  cl_started :: bool
  cl_asserts_ok :: bool

record cw =
  cw_core :: client_core
  cw_conn :: client_connection
  cw_id :: nat
  cw_out :: "(nat \<times> client_cb) list"

text \<open>What Asio and the operating system answer during one step.\<close>

record client_env =
  ce_open :: error_code
  ce_no_delay :: error_code
  ce_local :: endpoint
  ce_remote :: endpoint
  ce_now :: nat
  ce_login_throws :: "error_code option"
  ce_heartbeat_throws :: "error_code option"
  ce_heartbeat_throws' :: "error_code option"
  ce_reconnect_throws :: "error_code option"

text \<open>Nothing fails.\<close>

definition quiet_env :: client_env where
  "quiet_env = \<lparr>ce_open = no_error, ce_no_delay = no_error, ce_local = ([], 0),
     ce_remote = ([], 0), ce_now = 0, ce_login_throws = None, ce_heartbeat_throws = None,
     ce_heartbeat_throws' = None, ce_reconnect_throws = None\<rparr>"

section \<open>Access\<close>

definition emit :: "client_cb \<Rightarrow> cw \<Rightarrow> cw" where
  "emit cb w = w\<lparr>cw_out := cw_out w @ [(cw_id w, cb)]\<rparr>"

definition upd_conn :: "(client_connection \<Rightarrow> client_connection) \<Rightarrow> cw \<Rightarrow> cw" where
  "upd_conn f w = w\<lparr>cw_conn := f (cw_conn w)\<rparr>"

definition upd_core :: "(client_core \<Rightarrow> client_core) \<Rightarrow> cw \<Rightarrow> cw" where
  "upd_core f w = w\<lparr>cw_core := f (cw_core w)\<rparr>"

abbreviation tcp :: "cw \<Rightarrow> tcp_object" where
  "tcp w \<equiv> cc_tcp (cw_conn w)"

definition upd_tcp :: "(tcp_object \<Rightarrow> tcp_object) \<Rightarrow> cw \<Rightarrow> cw" where
  "upd_tcp f w = w\<lparr>cw_conn := (cw_conn w)\<lparr>cc_tcp := f (cc_tcp (cw_conn w))\<rparr>\<rparr>"

definition tcp_socket_lens :: "(cw, socket) lens" where
  "tcp_socket_lens = \<lparr>lens_get = \<lambda>w. ct_socket (tcp w),
     lens_put = \<lambda>k. upd_tcp (\<lambda>t. t\<lparr>ct_socket := k\<rparr>)\<rparr>"

definition tcp_login_lens :: "(cw, login_timer) lens" where
  "tcp_login_lens = \<lparr>lens_get = \<lambda>w. ct_login_timer (tcp w),
     lens_put = \<lambda>t'. upd_tcp (\<lambda>t. t\<lparr>ct_login_timer := t'\<rparr>)\<rparr>"

definition tcp_heartbeat_lens :: "(cw, heartbeat_timer) lens" where
  "tcp_heartbeat_lens = \<lparr>lens_get = \<lambda>w. ct_heartbeat_timer (tcp w),
     lens_put = \<lambda>t'. upd_tcp (\<lambda>t. t\<lparr>ct_heartbeat_timer := t'\<rparr>)\<rparr>"

definition conn_reconnect_lens :: "(cw, reconnect_timer) lens" where
  "conn_reconnect_lens = \<lparr>lens_get = \<lambda>w. cc_reconnect_timer (cw_conn w),
     lens_put = \<lambda>t'. upd_conn (\<lambda>c. c\<lparr>cc_reconnect_timer := t'\<rparr>)\<rparr>"

lemmas client_lens_defs =
  tcp_socket_lens_def tcp_login_lens_def tcp_heartbeat_lens_def conn_reconnect_lens_def

lemmas client_upd_defs = emit_def upd_conn_def upd_core_def upd_tcp_def

interpretation socket_part: sub_object tcp_socket_lens
  by unfold_locales (simp_all add: client_lens_defs client_upd_defs)

interpretation login_part: sub_object tcp_login_lens
  by unfold_locales (simp_all add: client_lens_defs client_upd_defs)

interpretation heartbeat_part: sub_object tcp_heartbeat_lens
  by unfold_locales (simp_all add: client_lens_defs client_upd_defs)

interpretation reconnect_part: sub_object conn_reconnect_lens
  by unfold_locales (simp_all add: client_lens_defs client_upd_defs)

end
