(* ===== verification/Client_Tcp.thy ===== *)
theory Client_Tcp
  imports Client_Types
begin

text \<open>
  \<^verbatim>\<open>client::Tcp_connection\<close> (\<^verbatim>\<open>client/tcp_connection.h\<close>/\<^verbatim>\<open>.cpp\<close>): one TCP connection
  from its attempt to its destruction, with what it calls of \<^verbatim>\<open>client::Connection\<close> and
  \<^verbatim>\<open>client::Client\<close> (the \<^verbatim>\<open>on_...\<close> functions of \<^verbatim>\<open>client/connection.cpp\<close> and
  \<^verbatim>\<open>client/client.cpp\<close>).
\<close>

section \<open>Called by the TCP connection: Client\<close>

definition client_on_sequenced_data :: "u64 \<Rightarrow> bytes \<Rightarrow> cw \<Rightarrow> cw" where
  "client_on_sequenced_data sequence_number data w =
    (if sequence_number < cl_next_sequence_number (cw_core w) then w
     else
       (let w = upd_core (\<lambda>c. c\<lparr>cl_asserts_ok := cl_asserts_ok c \<and>
                  sequence_number = cl_next_sequence_number c\<rparr>) w;
            w = upd_core (\<lambda>c. c\<lparr>cl_next_sequence_number := sequence_number + 1\<rparr>) w
        in emit (Cb_sequenced_data sequence_number data) w))"

definition client_on_end_of_session :: "cw \<Rightarrow> cw" where
  "client_on_end_of_session w =
    (if cl_has_session_ended (cw_core w) then w
     else emit Cb_end_of_session (upd_core (\<lambda>c. c\<lparr>cl_has_session_ended := True\<rparr>) w))"

section \<open>Called by the TCP connection: Connection\<close>

definition is_retryable :: "disconnect_reason \<Rightarrow> bool" where
  "is_retryable reason = (case reason of
     DR_peer_closed \<Rightarrow> True
   | DR_connect_failure \<Rightarrow> True
   | DR_transport_error \<Rightarrow> True
   | DR_login_timeout \<Rightarrow> True
   | DR_heartbeat_timeout \<Rightarrow> True
   | _ \<Rightarrow> False)"

definition conn_reconnect_timer_error :: "error_code \<Rightarrow> string \<Rightarrow> cw \<Rightarrow> cw" where
  "conn_reconnect_timer_error ec operation w = emit (Cb_transport_error ec operation) w"

definition next_reconnect_delay :: "nat \<Rightarrow> nat" where
  "next_reconnect_delay d =
    (if d = 0 then reconnect_initial_delay
     else min (d * reconnect_delay_multiplier) reconnect_max_delay)"

definition conn_schedule_reconnect :: "client_env \<Rightarrow> cw \<Rightarrow> cw" where
  \<comment> \<open>the timer is started before it could call \<open>reconnect_timer_expired\<close>, so that member
      of its handler is not needed here\<close>
  "conn_schedule_reconnect env w =
    (let delay = cc_reconnect_next_delay (cw_conn w);
         w = upd_conn (\<lambda>c. c\<lparr>cc_reconnect_next_delay := next_reconnect_delay delay\<rparr>) w;
         w = emit (Cb_reconnect_scheduled delay) w
     in reconnect_timer_start
          \<lparr>rth_timer = conn_reconnect_lens, rth_error = conn_reconnect_timer_error,
           rth_expired = id\<rparr> (ce_reconnect_throws env) delay w)"

definition conn_on_connect_success :: "cw \<Rightarrow> login_request_packet \<times> cw" where
  "conn_on_connect_success w =
    (let w = upd_conn (\<lambda>c. c\<lparr>cc_next_sequence_number :=
               cl_next_sequence_number (cw_core w)\<rparr>) w;
         c = cw_conn w
     in (login_request_packet_of (cc_username c) (cc_password c) (cc_session c)
           (cc_next_sequence_number c), w))"

definition conn_on_login_success :: "login_accepted_packet \<Rightarrow> cw \<Rightarrow> disconnect_reason \<times> cw" where
  "conn_on_login_success response w =
    (let c = cw_conn w;
         next = cc_next_sequence_number c;
         cnext = cl_next_sequence_number (cw_core w);
         accept = (\<lambda>w. (DR_none,
           upd_conn (\<lambda>c. c\<lparr>cc_session := la_session response,
             cc_next_sequence_number := la_next_sequence_number response,
             cc_reconnect_next_delay := 0\<rparr>) w))
     in if cc_session c \<noteq> [] \<and> la_session response \<noteq> cc_session c
        then (DR_session_mismatch, w)
        else if next \<noteq> 0
        then (if la_next_sequence_number response < next then (DR_sequence_number_too_low, w)
              else if la_next_sequence_number response > next then (DR_sequence_number_too_high, w)
              else accept w)
        else if cnext = 0
        then accept (upd_core (\<lambda>c. c\<lparr>cl_next_sequence_number :=
               la_next_sequence_number response\<rparr>) w)
        else if la_next_sequence_number response > cnext
        then (DR_sequence_number_ahead_of_session, w)
        else accept w)"

definition conn_on_sequenced_data :: "bytes \<Rightarrow> cw \<Rightarrow> cw" where
  "conn_on_sequenced_data data w =
    (let sequence_number = cc_next_sequence_number (cw_conn w);
         w = upd_conn (\<lambda>c. c\<lparr>cc_next_sequence_number := cc_next_sequence_number c + 1\<rparr>) w
     in client_on_sequenced_data sequence_number data w)"

definition conn_on_end_of_session :: "cw \<Rightarrow> cw" where
  "conn_on_end_of_session w =
    (if cc_has_session_ended (cw_conn w) then w
     else client_on_end_of_session (upd_conn (\<lambda>c. c\<lparr>cc_has_session_ended := True\<rparr>) w))"

definition conn_on_closed :: "client_env \<Rightarrow> disconnect_reason \<Rightarrow> cw \<Rightarrow> cw" where
  "conn_on_closed env reason w =
    (let w = upd_conn (\<lambda>c. c\<lparr>cc_engaged := False\<rparr>) w;
         w = emit (Cb_disconnect reason) w
     in if \<not> cl_started (cw_core w) then w
        else if \<not> is_retryable reason then w
        else conn_schedule_reconnect env w)"

section \<open>Tcp_connection: ending a connection\<close>

definition tcp_disconnect :: "disconnect_reason \<Rightarrow> cw \<Rightarrow> cw" where
  "tcp_disconnect reason w =
    (let (state_changed, st) = cs_disconnect reason (ct_state (tcp w));
         w = upd_tcp (\<lambda>t. t\<lparr>ct_state := st\<rparr>) w
     in if \<not> state_changed then w
        else
          (let w = lens_upd tcp_socket_lens socket_close w;
               w = lens_upd tcp_login_lens login_timer_stop w
           in lens_upd tcp_heartbeat_lens heartbeat_timer_stop w))"

definition tcp_handle_connect_failure :: "error_code \<Rightarrow> string \<Rightarrow> cw \<Rightarrow> cw" where
  "tcp_handle_connect_failure ec operation w =
    tcp_disconnect DR_connect_failure (emit (Cb_connect_failure ec operation) w)"

definition tcp_handle_transport_error :: "error_code \<Rightarrow> string \<Rightarrow> cw \<Rightarrow> cw" where
  "tcp_handle_transport_error ec operation w =
    tcp_disconnect DR_transport_error (emit (Cb_transport_error ec operation) w)"

definition tcp_handle_protocol_violation :: "packet_error \<Rightarrow> cw \<Rightarrow> cw" where
  "tcp_handle_protocol_violation error w =
    tcp_disconnect DR_protocol_violation (emit (Cb_protocol_violation error) w)"

definition tcp_maybe_signal_closed :: "client_env \<Rightarrow> cw \<Rightarrow> cw" where
  "tcp_maybe_signal_closed env w =
    (let t = tcp w in
     if \<not> ct_socket_closed t \<or> \<not> ct_login_timer_stopped t \<or> \<not> ct_heartbeat_timer_stopped t
     then w
     else conn_on_closed env (cs_reason (ct_state t)) w)"

section \<open>Handlers of the timers\<close>

definition tcp_login_timer_error :: "error_code \<Rightarrow> string \<Rightarrow> cw \<Rightarrow> cw" where
  "tcp_login_timer_error ec operation w = tcp_handle_transport_error ec operation w"

definition tcp_login_timer_expired :: "cw \<Rightarrow> cw" where
  "tcp_login_timer_expired w = tcp_disconnect DR_login_timeout w"

definition tcp_login_timer_stopped :: "client_env \<Rightarrow> cw \<Rightarrow> cw" where
  "tcp_login_timer_stopped env w =
    tcp_maybe_signal_closed env (upd_tcp (\<lambda>t. t\<lparr>ct_login_timer_stopped := True\<rparr>) w)"

definition tcp_login_handler :: "client_env \<Rightarrow> cw login_timer_handler" where
  "tcp_login_handler env = \<lparr>lth_timer = tcp_login_lens, lth_error = tcp_login_timer_error,
     lth_expired = tcp_login_timer_expired, lth_stopped = tcp_login_timer_stopped env\<rparr>"

definition tcp_heartbeat_timer_error :: "error_code \<Rightarrow> string \<Rightarrow> cw \<Rightarrow> cw" where
  "tcp_heartbeat_timer_error ec operation w = tcp_handle_transport_error ec operation w"

definition tcp_heartbeat_send_due :: "cw \<Rightarrow> cw" where
  "tcp_heartbeat_send_due w =
    lens_upd tcp_socket_lens
      (\<lambda>k. snd (socket_async_write (write_packet_empty client_heartbeat_type) k)) w"

definition tcp_heartbeat_receive_timeout :: "cw \<Rightarrow> cw" where
  "tcp_heartbeat_receive_timeout w = tcp_disconnect DR_heartbeat_timeout w"

definition tcp_heartbeat_timer_stopped :: "client_env \<Rightarrow> cw \<Rightarrow> cw" where
  "tcp_heartbeat_timer_stopped env w =
    tcp_maybe_signal_closed env (upd_tcp (\<lambda>t. t\<lparr>ct_heartbeat_timer_stopped := True\<rparr>) w)"

definition tcp_heartbeat_handler :: "client_env \<Rightarrow> cw heartbeat_timer_handler" where
  "tcp_heartbeat_handler env = \<lparr>hbh_timer = tcp_heartbeat_lens,
     hbh_error = tcp_heartbeat_timer_error, hbh_send_due = tcp_heartbeat_send_due,
     hbh_receive_timeout = tcp_heartbeat_receive_timeout,
     hbh_stopped = tcp_heartbeat_timer_stopped env\<rparr>"

section \<open>Packets from the server\<close>

definition tcp_process_debug :: "bytes \<Rightarrow> cw \<Rightarrow> cw" where
  "tcp_process_debug data w = emit (Cb_debug data) w"

definition tcp_process_login_accepted ::
    "client_env \<Rightarrow> bytes \<Rightarrow> nat \<Rightarrow> cw \<Rightarrow> packet_error \<times> cw" where
  "tcp_process_login_accepted env data sz w =
    (if sz \<noteq> login_accepted_size then (PE_incorrect_length, w)
     else if cs_state (ct_state (tcp w)) \<noteq> Connected then (PE_unexpected_sequence, w)
     else
       (let response = read_login_accepted login_accepted_default data in
        if la_next_sequence_number response = 0 then (PE_invalid_field_value, w)
        else
          (let w = lens_upd tcp_login_lens login_timer_stop w;
               w = upd_tcp (\<lambda>t. t\<lparr>ct_state := set_state Logged_in (ct_state t)\<rparr>) w;
               (reason, w) = conn_on_login_success response w
           in if reason = DR_none
              then
                (let w = emit (Cb_login_success response) w;
                     w = upd_tcp (\<lambda>t. t\<lparr>ct_heartbeat_timer_stopped := False\<rparr>) w
                 in (PE_none, heartbeat_timer_start (tcp_heartbeat_handler env) (ce_now env)
                       (ce_heartbeat_throws env) (ce_heartbeat_throws' env) w))
              else (PE_none, tcp_disconnect reason w))))"

definition convert_reject_reason :: "login_rejected_reason \<Rightarrow> login_reject_reason" where
  "convert_reject_reason reason =
    (if reason = rejected_not_authorized then LR_not_authorized
     else if reason = rejected_session_not_available then LR_session_not_available
     else LR_invalid_reject_reason)"

definition tcp_process_login_rejected :: "bytes \<Rightarrow> nat \<Rightarrow> cw \<Rightarrow> packet_error \<times> cw" where
  "tcp_process_login_rejected data sz w =
    (if sz \<noteq> login_rejected_size then (PE_incorrect_length, w)
     else if cs_state (ct_state (tcp w)) \<noteq> Connected then (PE_unexpected_sequence, w)
     else
       (let response = read_login_rejected login_rejected_default data;
            w = lens_upd tcp_login_lens login_timer_stop w;
            w = emit (Cb_login_failure (convert_reject_reason (lr_reason response))) w
        in (PE_none, tcp_disconnect DR_access_denied w)))"

definition tcp_increment_receive_count :: "cw \<Rightarrow> cw" where
  "tcp_increment_receive_count w = lens_upd tcp_heartbeat_lens increment_receive_count w"

definition tcp_process_sequenced_data :: "bytes \<Rightarrow> nat \<Rightarrow> cw \<Rightarrow> packet_error \<times> cw" where
  "tcp_process_sequenced_data data sz w =
    (if cs_state (ct_state (tcp w)) \<noteq> Logged_in then (PE_unexpected_sequence, w)
     else if cc_has_session_ended (cw_conn w) then (PE_unexpected_sequence, w)
     else (PE_none, conn_on_sequenced_data data (tcp_increment_receive_count w)))"

definition tcp_process_server_heartbeat :: "nat \<Rightarrow> cw \<Rightarrow> packet_error \<times> cw" where
  "tcp_process_server_heartbeat sz w =
    (if sz \<noteq> server_heartbeat_size then (PE_incorrect_length, w)
     else if cs_state (ct_state (tcp w)) \<noteq> Logged_in then (PE_unexpected_sequence, w)
     else (PE_none, tcp_increment_receive_count w))"

definition tcp_process_end_of_session :: "nat \<Rightarrow> cw \<Rightarrow> packet_error \<times> cw" where
  "tcp_process_end_of_session sz w =
    (if sz \<noteq> end_of_session_size then (PE_incorrect_length, w)
     else if cs_state (ct_state (tcp w)) \<noteq> Logged_in then (PE_unexpected_sequence, w)
     else (PE_none, conn_on_end_of_session (tcp_increment_receive_count w)))"

definition tcp_process_packet :: "client_env \<Rightarrow> read_packet \<Rightarrow> cw \<Rightarrow> packet_error \<times> cw" where
  "tcp_process_packet env packet w =
    (let data = rp_payload_data packet;
         sz = rp_payload_size packet;
         packet_type = rp_packet_type packet
     in if packet_type = debug_type then (PE_none, tcp_process_debug data w)
        else if packet_type = login_accepted_type then tcp_process_login_accepted env data sz w
        else if packet_type = login_rejected_type then tcp_process_login_rejected data sz w
        else if packet_type = sequenced_data_type then tcp_process_sequenced_data data sz w
        else if packet_type = server_heartbeat_type then tcp_process_server_heartbeat sz w
        else if packet_type = end_of_session_type then tcp_process_end_of_session sz w
        else (PE_invalid_message_type, w))"

section \<open>Handlers of the socket\<close>

definition tcp_connect_failure :: "error_code \<Rightarrow> cw \<Rightarrow> cw" where
  "tcp_connect_failure ec w = tcp_handle_connect_failure ec ''async_connect'' w"

definition tcp_connect_success :: "client_env \<Rightarrow> cw \<Rightarrow> cw" where
  "tcp_connect_success env w =
    (let w = upd_tcp (\<lambda>t. t\<lparr>ct_state := set_state Connected (ct_state t)\<rparr>) w;
         w = emit (Cb_connect_success (ce_local env) (ce_remote env)) w;
         (request, w) = conn_on_connect_success w;
         w = emit (Cb_logging_in request) w;
         w = upd_tcp (\<lambda>t. t\<lparr>ct_login_timer_stopped := False\<rparr>) w;
         w = login_timer_start (tcp_login_handler env) (ce_login_throws env) w;
         w = lens_upd tcp_socket_lens socket_async_read w;
         packet = write_packet_sized login_request_type (of_nat login_request_size);
         packet = wp_write_payload (write_login_request request) packet
     in lens_upd tcp_socket_lens (\<lambda>k. snd (socket_async_write packet k)) w)"

definition tcp_read_failure :: "error_code \<Rightarrow> cw \<Rightarrow> cw" where
  "tcp_read_failure ec w = tcp_handle_transport_error ec ''socket async_read'' w"

definition tcp_read_packet_failure :: "packet_error \<Rightarrow> cw \<Rightarrow> cw" where
  "tcp_read_packet_failure error w = tcp_handle_protocol_violation error w"

definition tcp_read_success :: "client_env \<Rightarrow> read_packet \<Rightarrow> cw \<Rightarrow> cw" where
  "tcp_read_success env packet w =
    (if is_closing (ct_state (tcp w)) then w
     else
       (let (error, w) = tcp_process_packet env packet w;
            w = (if error \<noteq> PE_none then tcp_handle_protocol_violation error w else w)
        in if is_closing (ct_state (tcp w)) then w
           else lens_upd tcp_socket_lens socket_async_read w))"

definition tcp_read_aborted :: "cw \<Rightarrow> cw" where
  "tcp_read_aborted w = tcp_disconnect DR_unmanaged_abort w"

definition tcp_read_end_of_file :: "cw \<Rightarrow> cw" where
  "tcp_read_end_of_file w = tcp_disconnect DR_peer_closed w"

definition tcp_write_failure :: "error_code \<Rightarrow> cw \<Rightarrow> cw" where
  "tcp_write_failure ec w = tcp_handle_transport_error ec ''socket async_write'' w"

definition tcp_write_success :: "write_packet \<Rightarrow> cw \<Rightarrow> cw" where
  "tcp_write_success packet w = w"

definition tcp_write_buffer_empty :: "cw \<Rightarrow> cw" where
  "tcp_write_buffer_empty w = emit Cb_write_buffer_empty w"

definition tcp_closed :: "client_env \<Rightarrow> cw \<Rightarrow> cw" where
  "tcp_closed env w =
    tcp_maybe_signal_closed env (upd_tcp (\<lambda>t. t\<lparr>ct_socket_closed := True\<rparr>) w)"

definition tcp_socket_handler :: "client_env \<Rightarrow> cw socket_handler" where
  "tcp_socket_handler env = \<lparr>sh_socket = tcp_socket_lens,
     sh_connect_failure = tcp_connect_failure, sh_connect_success = tcp_connect_success env,
     sh_read_failure = tcp_read_failure, sh_read_packet_failure = tcp_read_packet_failure,
     sh_read_success = tcp_read_success env, sh_read_aborted = tcp_read_aborted,
     sh_read_end_of_file = tcp_read_end_of_file, sh_write_failure = tcp_write_failure,
     sh_write_success = tcp_write_success, sh_write_buffer_empty = tcp_write_buffer_empty,
     sh_closed = tcp_closed env\<rparr>"

section \<open>Construction, and what Connection calls\<close>

definition client_tcp_new :: tcp_object where
  "client_tcp_new = \<lparr>ct_socket = socket_new False, ct_state = connection_state_default,
     ct_login_timer = login_timer_new login_response_timeout,
     ct_heartbeat_timer = heartbeat_timer_new server_heartbeat_timeout,
     ct_socket_closed = False, ct_login_timer_stopped = True, ct_heartbeat_timer_stopped = True\<rparr>"

definition tcp_construct :: "client_env \<Rightarrow> cw \<Rightarrow> cw" where
  \<comment> \<open>\<open>connection_.emplace(io_executor_, *this, *handler_, client_->write_packets_limit())\<close>\<close>
  "tcp_construct env w =
    (let w = upd_conn (\<lambda>c. c\<lparr>cc_engaged := True, cc_tcp := client_tcp_new\<rparr>) w;
         w = emit (Cb_connecting (cc_endpoint (cw_conn w))) w;
         w = lens_upd tcp_socket_lens
               (set_write_packets_limit (cl_write_packets_limit (cw_core w))) w;
         (ec, k) = socket_open (ce_open env) (ct_socket (tcp w));
         w = upd_tcp (\<lambda>t. t\<lparr>ct_socket := k\<rparr>) w
     in if ec_set ec then tcp_handle_connect_failure ec ''open'' w
        else
          (let ec = socket_set_no_delay (ce_no_delay env) (ct_socket (tcp w)) in
           if ec_set ec then tcp_handle_connect_failure ec ''set_no_delay'' w
           else lens_upd tcp_socket_lens socket_async_connect w))"

definition tcp_send_packet :: "write_packet \<Rightarrow> cw \<Rightarrow> write_error \<times> cw" where
  "tcp_send_packet packet w =
    (if cs_state (ct_state (tcp w)) \<noteq> Logged_in then (WE_not_logged_in, w)
     else
       (let packet_type = wp_packet_type packet;
            (error, k) = socket_async_write packet (ct_socket (tcp w));
            w = upd_tcp (\<lambda>t. t\<lparr>ct_socket := k\<rparr>) w;
            w = (if packet_type = Some unsequenced_data_type \<and> error = WE_none
                 then lens_upd tcp_heartbeat_lens increment_send_count w else w)
        in (error, w)))"

definition tcp_send_debug_packet :: "bytes \<Rightarrow> cw \<Rightarrow> write_error \<times> cw" where
  "tcp_send_debug_packet text w =
    (if cs_state (ct_state (tcp w)) = Connecting \<or> is_closing (ct_state (tcp w))
     then (WE_disconnected, w)
     else
       (let (error, k) = socket_async_write
              (write_packet_of debug_type text (of_nat (length text))) (ct_socket (tcp w))
        in (error, upd_tcp (\<lambda>t. t\<lparr>ct_socket := k\<rparr>) w)))"

definition tcp_close :: "cw \<Rightarrow> cw" where
  "tcp_close w = tcp_disconnect DR_user_initiated w"

end
