(* ===== verification/Client_Connection.thy ===== *)
theory Client_Connection
  imports Client_Tcp
begin

text \<open>
  \<^verbatim>\<open>client::Connection\<close> (\<^verbatim>\<open>client/connection.h\<close>/\<^verbatim>\<open>.cpp\<close>): what its user and the
  client call, and the events that reach one connection.  The calls the TCP connection
  makes to it are in \<open>Client_Tcp\<close>.
\<close>

section \<open>Construction and settings\<close>

definition client_connection_new :: "endpoint \<Rightarrow> bool \<Rightarrow> client_connection" where
  "client_connection_new ep handler = \<lparr>cc_handler = handler, cc_endpoint = ep,
     cc_username = [], cc_password = [], cc_session = [], cc_next_sequence_number = 1,
     cc_has_session_ended = False, cc_engaged = False, cc_tcp = client_tcp_new,
     cc_reconnect_timer = reconnect_timer_new, cc_reconnect_next_delay = 0\<rparr>"

definition conn_set_handler :: "client_connection \<Rightarrow> client_connection" where
  "conn_set_handler c = c\<lparr>cc_handler := True\<rparr>"

definition conn_set_username :: "bytes \<Rightarrow> client_connection \<Rightarrow> error_code \<times> client_connection" where
  "conn_set_username username c =
    (let ec = validate_username username
     in if ec_set ec then (ec, c) else (no_error, c\<lparr>cc_username := username\<rparr>))"

definition conn_set_password :: "bytes \<Rightarrow> client_connection \<Rightarrow> error_code \<times> client_connection" where
  "conn_set_password password c =
    (let ec = validate_password password
     in if ec_set ec then (ec, c) else (no_error, c\<lparr>cc_password := password\<rparr>))"

definition conn_set_session :: "bytes \<Rightarrow> client_connection \<Rightarrow> error_code \<times> client_connection" where
  "conn_set_session session c =
    (let ec = validate_session session
     in if ec_set ec then (ec, c) else (no_error, c\<lparr>cc_session := session\<rparr>))"

definition conn_is_handler_set :: "client_connection \<Rightarrow> bool" where
  "conn_is_handler_set c = cc_handler c"

section \<open>Connecting and closing\<close>

definition conn_reconnect_timer_expired :: "client_env \<Rightarrow> cw \<Rightarrow> cw" where
  "conn_reconnect_timer_expired env w = tcp_construct env w"

definition conn_reconnect_handler :: "client_env \<Rightarrow> cw reconnect_timer_handler" where
  "conn_reconnect_handler env = \<lparr>rth_timer = conn_reconnect_lens,
     rth_error = conn_reconnect_timer_error, rth_expired = conn_reconnect_timer_expired env\<rparr>"

definition conn_connect :: "client_env \<Rightarrow> cw \<Rightarrow> cw" where
  "conn_connect env w =
    (if \<not> cl_started (cw_core w) then w
     else if cc_engaged (cw_conn w) then w
     else if rt_started (cc_reconnect_timer (cw_conn w)) then w
     else tcp_construct env w)"

definition conn_close :: "cw \<Rightarrow> cw" where
  "conn_close w =
    (let w = (if cc_engaged (cw_conn w) then tcp_close w else w);
         w = lens_upd conn_reconnect_lens reconnect_timer_stop w
     in upd_conn (\<lambda>c. c\<lparr>cc_reconnect_next_delay := 0\<rparr>) w)"

section \<open>Sending\<close>

definition conn_send_packet :: "write_packet \<Rightarrow> cw \<Rightarrow> write_error \<times> cw" where
  "conn_send_packet packet w =
    (if cc_has_session_ended (cw_conn w) then (WE_session_ended, w)
     else if \<not> cc_engaged (cw_conn w) then (WE_disconnected, w)
     else tcp_send_packet packet w)"

text \<open>
  The size is a \<^verbatim>\<open>std::size_t\<close> here and a \<^verbatim>\<open>std::uint16_t\<close> in the constructor of
  \<^verbatim>\<open>Write_packet\<close>: the call converts it, modulo \<open>2 ^ 16\<close>.
\<close>

definition conn_send_message :: "bytes option \<Rightarrow> nat \<Rightarrow> cw \<Rightarrow> write_error \<times> cw" where
  "conn_send_message data n w =
    (if n = 0 then (WE_empty_buffer, w)
     else case data of
       None \<Rightarrow> (WE_null_buffer, w)
     | Some bs \<Rightarrow> conn_send_packet (write_packet_of unsequenced_data_type bs (of_nat n)) w)"

definition conn_send_message_packet :: "write_packet \<Rightarrow> cw \<Rightarrow> (write_error \<times> cw) option" where
  \<comment> \<open>\<open>send_message(Message&&)\<close>; \<open>None\<close>: \<open>payload_size()\<close> reads through a null pointer.
      The payload pointer is the buffer plus three bytes, so its null test never fires.\<close>
  "conn_send_message_packet message w = (case wp_payload_size message of
     None \<Rightarrow> None
   | Some n \<Rightarrow> Some (if n = 0 then (WE_empty_buffer, w)
                   else conn_send_packet (fst (release_packet message)) w))"

definition conn_send_logout_request :: "cw \<Rightarrow> write_error \<times> cw" where
  "conn_send_logout_request w =
    (if \<not> cc_engaged (cw_conn w) then (WE_disconnected, w)
     else tcp_send_packet (write_packet_empty logout_request_type) w)"

definition conn_send_debug :: "bytes \<Rightarrow> cw \<Rightarrow> write_error \<times> cw" where
  "conn_send_debug text w =
    (if text = [] then (WE_empty_buffer, w)
     else if \<not> cc_engaged (cw_conn w) then (WE_disconnected, w)
     else tcp_send_debug_packet text w)"

section \<open>Events\<close>

text \<open>
  What can happen to one connection: a completion handler runs, or its user (or its
  client) calls it.
\<close>

datatype client_event =
    Ev_socket sock_op error_code nat bytes
  | Ev_login_wait error_code
  | Ev_login_post
  | Ev_heartbeat_wait error_code
  | Ev_heartbeat_post
  | Ev_reconnect_wait u32 error_code
  | Ev_connect
  | Ev_close
  | Ev_send_packet write_packet
  | Ev_send_logout_request
  | Ev_send_debug bytes

fun client_event_enabled :: "cw \<Rightarrow> client_event \<Rightarrow> bool" where
  "client_event_enabled w (Ev_socket op ec n data) \<longleftrightarrow>
     asio_may_complete op ec (ct_socket (tcp w))"
| "client_event_enabled w (Ev_login_wait ec) \<longleftrightarrow> 0 < lt_waits (ct_login_timer (tcp w))"
| "client_event_enabled w Ev_login_post \<longleftrightarrow> 0 < lt_posts (ct_login_timer (tcp w))"
| "client_event_enabled w (Ev_heartbeat_wait ec) \<longleftrightarrow> 0 < hb_waits (ct_heartbeat_timer (tcp w))"
| "client_event_enabled w Ev_heartbeat_post \<longleftrightarrow> 0 < hb_posts (ct_heartbeat_timer (tcp w))"
| "client_event_enabled w (Ev_reconnect_wait epoch ec) \<longleftrightarrow>
     epoch \<in> set (rt_waits (cc_reconnect_timer (cw_conn w)))"
| "client_event_enabled w _ \<longleftrightarrow> True"

fun client_handle :: "client_env \<Rightarrow> client_event \<Rightarrow> cw \<Rightarrow> cw" where
  "client_handle env (Ev_socket op ec n data) w =
     socket_complete (tcp_socket_handler env) op ec n data w"
| "client_handle env (Ev_login_wait ec) w = login_timer_wait_done (tcp_login_handler env) ec w"
| "client_handle env Ev_login_post w = login_timer_post_done (tcp_login_handler env) w"
| "client_handle env (Ev_heartbeat_wait ec) w =
     heartbeat_timer_wait_done (tcp_heartbeat_handler env) (ce_heartbeat_throws env) ec w"
| "client_handle env Ev_heartbeat_post w =
     heartbeat_timer_post_done (tcp_heartbeat_handler env) w"
| "client_handle env (Ev_reconnect_wait epoch ec) w =
     reconnect_timer_wait_done (conn_reconnect_handler env) epoch ec w"
| "client_handle env Ev_connect w = conn_connect env w"
| "client_handle env Ev_close w = conn_close w"
| "client_handle env (Ev_send_packet p) w = snd (conn_send_packet p w)"
| "client_handle env Ev_send_logout_request w = snd (conn_send_logout_request w)"
| "client_handle env (Ev_send_debug text) w = snd (conn_send_debug text w)"

definition client_step :: "client_env \<Rightarrow> client_event \<Rightarrow> cw \<Rightarrow> cw" where
  "client_step env ev w = (if client_event_enabled w ev then client_handle env ev w else w)"

fun client_run :: "(client_env \<times> client_event) list \<Rightarrow> cw \<Rightarrow> cw" where
  "client_run [] w = w"
| "client_run ((env, ev) # evs) w = client_run evs (client_step env ev w)"

end
