(* ===== verification/Client_Lifecycle.thy ===== *)
theory Client_Lifecycle
  imports Client_Connection
begin

text \<open>
  The life of a client connection: what holds between the events that reach it, for any
  errors, byte counts and data Asio may deliver and any calls its user may make.

  \<open>tcp_ok\<close> holds of the TCP connection between events while it exists; \<open>conn_ok\<close> adds the
  connection that owns it.  The consequence is
  that the object is destroyed exactly when nothing it started can still call it.
\<close>

section \<open>The effect of the handlers on the TCP connection\<close>

lemma tcp_emit [simp]: "tcp (emit cb w) = tcp w" "cw_core (emit cb w) = cw_core w"
    "cw_conn (emit cb w) = cw_conn w" "cw_out (emit cb w) = cw_out w @ [(cw_id w, cb)]"
    "cw_id (emit cb w) = cw_id w"
  by (simp_all add: emit_def)

lemma tcp_upd_tcp [simp]: "tcp (upd_tcp f w) = f (tcp w)" "cw_core (upd_tcp f w) = cw_core w"
    "cw_out (upd_tcp f w) = cw_out w" "cw_id (upd_tcp f w) = cw_id w"
  by (simp_all add: upd_tcp_def)

lemma tcp_upd_core [simp]: "tcp (upd_core f w) = tcp w" "cw_conn (upd_core f w) = cw_conn w"
    "cw_core (upd_core f w) = f (cw_core w)" "cw_out (upd_core f w) = cw_out w"
    "cw_id (upd_core f w) = cw_id w"
  by (simp_all add: upd_core_def)

lemma upd_conn_simps [simp]: "cw_conn (upd_conn f w) = f (cw_conn w)"
    "cw_core (upd_conn f w) = cw_core w" "cw_out (upd_conn f w) = cw_out w"
    "cw_id (upd_conn f w) = cw_id w"
  by (simp_all add: upd_conn_def)

lemma lens_upd_tcp [simp]:
  "lens_upd tcp_socket_lens f = upd_tcp (\<lambda>t. t\<lparr>ct_socket := f (ct_socket t)\<rparr>)"
  "lens_upd tcp_login_lens g = upd_tcp (\<lambda>t. t\<lparr>ct_login_timer := g (ct_login_timer t)\<rparr>)"
  "lens_upd tcp_heartbeat_lens i = upd_tcp (\<lambda>t. t\<lparr>ct_heartbeat_timer := i (ct_heartbeat_timer t)\<rparr>)"
  "lens_get tcp_socket_lens w = ct_socket (tcp w)"
  "lens_get tcp_login_lens w = ct_login_timer (tcp w)"
  "lens_get tcp_heartbeat_lens w = ct_heartbeat_timer (tcp w)"
  by (rule ext, simp add: lens_upd_def client_lens_defs client_upd_defs)+
     (simp_all add: client_lens_defs)

lemma tcp_disconnect_eq: "tcp_disconnect r w = upd_tcp (t_disconnect r) w"
  by (simp add: tcp_disconnect_def t_disconnect_def upd_tcp_def split_def Let_def)

lemma upd_tcp_conn [simp]:
  "cc_engaged (cw_conn (upd_tcp f w)) = cc_engaged (cw_conn w)"
  "cc_reconnect_timer (cw_conn (upd_tcp f w)) = cc_reconnect_timer (cw_conn w)"
  "cc_has_session_ended (cw_conn (upd_tcp f w)) = cc_has_session_ended (cw_conn w)"
  "cc_next_sequence_number (cw_conn (upd_tcp f w)) = cc_next_sequence_number (cw_conn w)"
  "cc_session (cw_conn (upd_tcp f w)) = cc_session (cw_conn w)"
  by (simp_all add: upd_tcp_def)

section \<open>Invariants\<close>

text \<open>A connection that is not being closed has an attempt or a read pending; and the client
  never begins a graceful disconnect.\<close>

definition client_live :: "tcp_object \<Rightarrow> bool" where
  "client_live t \<longleftrightarrow> cs_state (ct_state t) \<noteq> Disconnecting \<and>
     (\<not> sk_closing (ct_socket t) \<longrightarrow>
        sk_connect_pending (ct_socket t) \<or> sk_read_pending (ct_socket t))"

definition tcp_ok :: "tcp_object \<Rightarrow> bool" where
  "tcp_ok t \<longleftrightarrow> tcp_core t \<and> client_live t"

text \<open>A reconnect that is due has a wait that will trigger it.\<close>

definition rt_ok :: "reconnect_timer \<Rightarrow> bool" where
  "rt_ok t \<longleftrightarrow> (rt_started t \<longrightarrow> rt_epoch t \<in> set (rt_waits t))"

definition conn_ok :: "cw \<Rightarrow> bool" where
  "conn_ok w \<longleftrightarrow>
     (if cc_engaged (cw_conn w)
      then tcp_ok (tcp w) \<and> \<not> tcp_finished (tcp w) \<and> \<not> rt_started (cc_reconnect_timer (cw_conn w))
      else \<not> tcp_outstanding (tcp w)) \<and> rt_ok (cc_reconnect_timer (cw_conn w))"

lemma unfinished_outstanding: "tcp_ok t \<Longrightarrow> \<not> tcp_finished t \<Longrightarrow> tcp_outstanding t"
  by (rule core_outstanding) (auto simp: tcp_ok_def client_live_def is_idle_def)

lemma ok_mid: "tcp_ok t \<Longrightarrow> tcp_mid t"
  by (simp add: tcp_ok_def tcp_core_def)

lemma ok_rest: "tcp_ok t \<Longrightarrow> sock_rest (ct_socket t)"
  by (simp add: tcp_ok_def tcp_core_def)

text \<open>What a completion handler of the socket must leave behind.\<close>

definition tcp_pre :: "tcp_object \<Rightarrow> bool" where
  "tcp_pre t \<longleftrightarrow> tcp_mid t \<and> timers_armed t \<and> client_live t"

lemma tcp_disconnect_pre: "tcp_mid t \<Longrightarrow> tcp_pre (t_disconnect r t)"
  using t_disconnect_down [of t r]
  by (simp add: tcp_pre_def down_armed client_live_def t_disconnect_closing)

lemma pre_signal_ok:
  "tcp_pre t \<Longrightarrow> tcp_ok (t\<lparr>ct_socket := socket_maybe_signal_closed (ct_socket t)\<rparr>)"
  using mid_signal [of t] sock_core_maybe_signal [of "ct_socket t"]
  by (simp add: tcp_pre_def tcp_ok_def tcp_core_def client_live_def timers_armed_def tcp_mid_def [of t])

lemma ok_disconnect: "tcp_mid t \<Longrightarrow> sock_rest (ct_socket t) \<Longrightarrow> tcp_ok (t_disconnect r t)"
  by (simp add: tcp_ok_def core_disconnect client_live_def t_disconnect_closing)

section \<open>Packets\<close>

text \<open>While a packet is processed no read is pending and the connection attempt is over.\<close>

definition tcp_reading :: "tcp_object \<Rightarrow> bool" where
  "tcp_reading t \<longleftrightarrow> tcp_mid t \<and> timers_armed t \<and> cs_state (ct_state t) \<noteq> Disconnecting \<and>
     \<not> sk_connect_pending (ct_socket t) \<and> \<not> sk_read_pending (ct_socket t)"

lemma t_disconnect_reading:
  assumes "tcp_mid t" and "\<not> sk_connect_pending (ct_socket t)" and "\<not> sk_read_pending (ct_socket t)"
  shows "tcp_reading (t_disconnect r t)"
  using assms t_disconnect_down [of t r] by (simp add: tcp_reading_def down_armed)

lemma conn_calls_tcp [simp]:
  "tcp (snd (conn_on_login_success response w)) = tcp w"
  "tcp (conn_on_sequenced_data data w) = tcp w"
  "tcp (conn_on_end_of_session w) = tcp w"
  "tcp (snd (conn_on_connect_success w)) = tcp w"
  by (simp_all add: conn_on_login_success_def conn_on_sequenced_data_def
      client_on_sequenced_data_def conn_on_end_of_session_def client_on_end_of_session_def
      conn_on_connect_success_def Let_def)

lemma process_login_accepted_reading:
  assumes "tcp_reading (tcp w)"
  shows "tcp_reading (tcp (snd (tcp_process_login_accepted env data sz w)))"
proof -
  let ?t = "tcp w"
  let ?t1 = "?t\<lparr>ct_login_timer := login_timer_stop (ct_login_timer ?t),
               ct_state := set_state Logged_in (ct_state ?t)\<rparr>"
  note facts = assms [unfolded tcp_reading_def]
  show ?thesis
  proof (cases "cs_state (ct_state ?t) = Connected")
    case False
    with assms show ?thesis
      by (simp add: tcp_process_login_accepted_def)
  next
    case True
    with facts have mid: "tcp_mid ?t1" and unused: "hb_unused (ct_heartbeat_timer ?t1)"
      by (auto simp: tcp_mid_def set_state_def)
    have t1: "\<not> sk_connect_pending (ct_socket ?t1)" "\<not> sk_read_pending (ct_socket ?t1)"
        "cs_state (ct_state ?t1) = Logged_in"
      using facts by (auto simp: set_state_def)
    note start = mid_heartbeat_start [OF mid unused t1(1,3)]
    have down: "tcp_reading (t_disconnect r ?t1)" for r
      by (rule t_disconnect_reading [OF mid t1(1,2)])
    have started: "tcp_reading (t_disconnect r (?t1\<lparr>ct_heartbeat_timer_stopped := False,
           ct_heartbeat_timer := (ct_heartbeat_timer ?t1)\<lparr>hb_started := True\<rparr>\<rparr>))" for r
      using start(1) t1 by (intro t_disconnect_reading) auto
    have started': "tcp_reading (t_disconnect r (?t1\<lparr>ct_heartbeat_timer_stopped := False,
           ct_heartbeat_timer := (ct_heartbeat_timer ?t1)\<lparr>hb_started := True, hb_expiry := e\<rparr>\<rparr>))"
      for r e
      using start(2) t1 by (intro t_disconnect_reading) auto
    have armed: "tcp_reading (?t1\<lparr>ct_heartbeat_timer_stopped := False,
           ct_heartbeat_timer := (ct_heartbeat_timer ?t1)\<lparr>hb_started := True, hb_expiry := e,
             hb_wait_pending := True, hb_waits := hb_waits (ct_heartbeat_timer ?t1) + 1\<rparr>\<rparr>)" for e
      using start(3) t1 facts by (auto simp: tcp_reading_def timers_armed_def client_live_def)
    have ns: "\<not> hb_started (ct_heartbeat_timer ?t)" using unused by (simp add: hb_unused_def)
    show ?thesis
      using assms down started started' armed ns
      by (simp add: tcp_process_login_accepted_def Let_def split_def heartbeat_timer_start_def
          heartbeat_timer_schedule_def tcp_heartbeat_handler_def tcp_heartbeat_timer_error_def
          tcp_handle_transport_error_def tcp_disconnect_eq split: option.splits)
  qed
qed

lemma reading_increment:
  "tcp_reading t \<Longrightarrow> tcp_reading (t\<lparr>ct_heartbeat_timer := increment_receive_count (ct_heartbeat_timer t)\<rparr>)"
  by (simp add: tcp_reading_def tcp_mid_def timers_armed_def client_live_def)

lemma reading_login_stop:
  "tcp_reading t \<Longrightarrow> tcp_reading (t\<lparr>ct_login_timer := login_timer_stop (ct_login_timer t)\<rparr>)"
  by (auto simp: tcp_reading_def tcp_mid_def timers_armed_def client_live_def)

lemma reading_disconnect: "tcp_reading t \<Longrightarrow> tcp_reading (t_disconnect r t)"
  by (rule t_disconnect_reading) (simp_all add: tcp_reading_def)

lemma process_login_rejected_reading:
  assumes "tcp_reading (tcp w)"
  shows "tcp_reading (tcp (snd (tcp_process_login_rejected data sz w)))"
  using assms reading_disconnect [OF reading_login_stop [OF assms]]
  by (simp add: tcp_process_login_rejected_def Let_def tcp_disconnect_eq)

lemma process_packet_reading:
  assumes "tcp_reading (tcp w)"
  shows "tcp_reading (tcp (snd (tcp_process_packet env packet w)))"
  using assms
  by (simp add: tcp_process_packet_def Let_def process_login_accepted_reading
      process_login_rejected_reading tcp_process_debug_def tcp_process_sequenced_data_def
      tcp_process_server_heartbeat_def tcp_process_end_of_session_def
      tcp_increment_receive_count_def reading_increment)

lemma async_read_pre:
  assumes "tcp_reading t"
  shows "tcp_pre (t\<lparr>ct_socket := socket_async_read (ct_socket t)\<rparr>)"
proof -
  have ev: "sock_evolve (ct_socket t) (socket_async_read (ct_socket t))"
    using assms by (intro sock_evolve.intros) (simp_all add: tcp_reading_def)
  have "sk_closing (socket_async_read k) \<or> sk_read_pending (socket_async_read k)" for k
    by (simp add: sock_op_defs)
  with assms mid_evolve [OF _ ev] show ?thesis
    by (auto simp: tcp_reading_def tcp_pre_def timers_armed_def client_live_def)
qed

lemma read_success_pre:
  assumes "tcp_reading (tcp w)"
  shows "tcp_pre (tcp (tcp_read_success env packet w))"
proof -
  have closing: "is_closing (ct_state t) \<Longrightarrow> tcp_reading t \<Longrightarrow> tcp_pre t" for t
  proof -
    assume c: "is_closing (ct_state t)" and r: "tcp_reading t"
    then have d: "cs_state (ct_state t) = Disconnected" by (auto simp: is_closing_def tcp_reading_def)
    with r have "sk_closing (ct_socket t)" by (simp add: tcp_reading_def tcp_mid_def)
    with r d show ?thesis by (simp add: tcp_reading_def tcp_pre_def client_live_def)
  qed
  obtain e w' where p: "tcp_process_packet env packet w = (e, w')" by fastforce
  with process_packet_reading [OF assms, of env packet] have r: "tcp_reading (tcp w')" by simp
  show ?thesis
    using assms r reading_disconnect [OF r]
    by (simp add: tcp_read_success_def p Let_def closing async_read_pre
        tcp_handle_protocol_violation_def tcp_disconnect_eq)
qed

section \<open>Connecting\<close>

lemma connect_success_pre:
  assumes mid: "tcp_mid (tcp w)"
    and unused: "lt_unused (ct_login_timer (tcp w))" "hb_unused (ct_heartbeat_timer (tcp w))"
    and idle: "\<not> sk_connect_pending (ct_socket (tcp w))" "\<not> sk_read_pending (ct_socket (tcp w))"
  shows "tcp_pre (tcp (tcp_connect_success env w))"
proof -
  let ?t = "(tcp w)\<lparr>ct_state := set_state Connected (ct_state (tcp w))\<rparr>"
  have t: "tcp_mid ?t" "lt_unused (ct_login_timer ?t)" "\<not> sk_connect_pending (ct_socket ?t)"
      "cs_state (ct_state ?t) \<noteq> Disconnected"
    using mid unused idle by (auto simp: tcp_mid_def set_state_def)
  note start = mid_login_start [OF t]
  let ?t1 = "?t\<lparr>ct_login_timer_stopped := False,
           ct_login_timer := (ct_login_timer ?t)\<lparr>lt_started := True\<rparr>\<rparr>"
  let ?t2 = "?t\<lparr>ct_login_timer_stopped := False,
           ct_login_timer := (ct_login_timer ?t)\<lparr>lt_started := True, lt_wait_pending := True,
             lt_waits := lt_waits (ct_login_timer ?t) + 1\<rparr>\<rparr>"
  have armed: "tcp_reading ?t2"
    using start(2) unused idle by (auto simp: tcp_reading_def timers_armed_def set_state_def hb_unused_def)
  have failed: "tcp_reading (t_disconnect r ?t1)" for r
    using start(1) idle by (intro t_disconnect_reading) auto
  have queued: "tcp_pre u \<Longrightarrow> tcp_pre (u\<lparr>ct_socket := snd (socket_async_write p (ct_socket u))\<rparr>)" for u p
  proof -
    assume pre: "tcp_pre u"
    have ev: "sock_evolve (ct_socket u) (snd (socket_async_write p (ct_socket u)))"
      by (intro sock_evolve.intros)
    have flags: "sk_closing (snd (socket_async_write p k)) = sk_closing k"
        "sk_read_pending (snd (socket_async_write p k)) = sk_read_pending k"
        "sk_connect_pending (snd (socket_async_write p k)) = sk_connect_pending k" for k
      by (simp_all add: sock_op_defs Let_def)
    from pre mid_evolve [OF _ ev] show ?thesis
      by (simp add: tcp_pre_def timers_armed_def client_live_def flags)
  qed
  have ns: "\<not> lt_started (ct_login_timer (tcp w))" using unused by (simp add: lt_unused_def)
  show ?thesis
    using ns queued [OF async_read_pre [OF armed]] queued [OF async_read_pre [OF failed]]
    by (simp add: tcp_connect_success_def Let_def split_def login_timer_start_def
        tcp_login_handler_def tcp_login_timer_error_def tcp_handle_transport_error_def
        tcp_disconnect_eq split: option.splits)
qed

section \<open>Completions of the socket\<close>

lemma reading_read_packet:
  "tcp_reading t \<Longrightarrow> tcp_reading (t\<lparr>ct_socket := (ct_socket t)\<lparr>sk_read_packet := p\<rparr>\<rparr>)"
  unfolding tcp_reading_def timers_armed_def client_live_def
  by (auto intro!: mid_socket simp: tcp_mid_def sock_core_def sock_told_def n_ops_def is_idle_def)

lemma reading_read_payload:
  assumes r: "tcp_reading t" and ns: "\<not> sk_closed_signaled (ct_socket t)"
  shows "tcp_pre (t\<lparr>ct_socket := read_payload ((ct_socket t)\<lparr>sk_read_packet := p\<rparr>)\<rparr>)"
proof -
  let ?k = "read_payload ((ct_socket t)\<lparr>sk_read_packet := p\<rparr>)"
  have core: "sock_core (ct_socket t)" and mid: "tcp_mid t"
    using r by (simp_all add: tcp_reading_def tcp_mid_def)
  have "sock_core ?k"
    using core r ns by (auto simp: tcp_reading_def sock_core_def n_ops_def is_idle_def read_payload_def)
  moreover have "sock_told ?k = sock_told (ct_socket t)"
    using ns by (simp add: sock_told_def read_payload_def)
  ultimately have "tcp_mid (t\<lparr>ct_socket := ?k\<rparr>)"
    using r by (intro mid_socket [OF mid]) (auto simp: read_payload_def)
  with r show ?thesis
    by (simp add: tcp_pre_def tcp_reading_def timers_armed_def client_live_def read_payload_def)
qed

lemma header_received_pre:
  assumes r: "tcp_reading (tcp w)" and ns: "\<not> sk_closed_signaled (ct_socket (tcp w))"
  shows "tcp_pre (tcp (header_received (tcp_socket_handler env) ec n w))"
proof -
  have mid: "tcp_mid (tcp w)" using r by (simp add: tcp_reading_def)
  have mid': "tcp_mid (tcp w\<lparr>ct_socket := (ct_socket (tcp w))\<lparr>sk_read_packet := p\<rparr>\<rparr>)" for p
    using reading_read_packet [OF r] by (simp add: tcp_reading_def)
  note down = tcp_disconnect_pre [OF mid] tcp_disconnect_pre [OF mid']
  show ?thesis
    by (auto simp: header_received_def Let_def split_def read_error_def read_packet_move_def
        tcp_socket_handler_def tcp_read_aborted_def tcp_read_end_of_file_def tcp_read_failure_def
        tcp_read_packet_failure_def tcp_handle_transport_error_def tcp_handle_protocol_violation_def
        tcp_disconnect_eq down reading_read_payload [OF r ns]
        intro!: read_success_pre reading_read_packet [OF r] split: read_resize.splits)
qed

lemma payload_received_pre:
  assumes r: "tcp_reading (tcp w)"
  shows "tcp_pre (tcp (payload_received (tcp_socket_handler env) ec n w))"
proof -
  have mid: "tcp_mid (tcp w)" using r by (simp add: tcp_reading_def)
  show ?thesis
    by (auto simp: payload_received_def Let_def split_def read_error_def read_packet_move_def
        tcp_socket_handler_def tcp_read_aborted_def tcp_read_end_of_file_def tcp_read_failure_def
        tcp_handle_transport_error_def tcp_disconnect_eq tcp_disconnect_pre [OF mid]
        intro!: read_success_pre reading_read_packet [OF r])
qed

end
