(* ===== verification/Client_Invariant.thy ===== *)
theory Client_Invariant
  imports Client_Lifecycle
begin

text \<open>
  Every event keeps \<open>conn_ok\<close>: the completions of the socket, the waits and the posted
  notifications of the timers, the reconnect timer, and the calls of the user.
\<close>

section \<open>What no completion changes\<close>

text \<open>Only the posted notifications destroy the object or schedule a reconnect; everything
  else keeps \<open>same_life\<close>, for some TCP connection that is as far from finished.\<close>

definition same_life :: "cw \<Rightarrow> cw \<Rightarrow> bool" where
  "same_life w w' \<longleftrightarrow>
     cc_engaged (cw_conn w') = cc_engaged (cw_conn w) \<and>
     cc_reconnect_timer (cw_conn w') = cc_reconnect_timer (cw_conn w) \<and>
     ct_socket_closed (tcp w') = ct_socket_closed (tcp w)"

lemma same_life_simps [simp]:
  "same_life w w"
  "same_life w (emit cb w') = same_life w w'"
  "same_life w (upd_core f w') = same_life w w'"
  "(\<And>t. ct_socket_closed (g t) = ct_socket_closed t) \<Longrightarrow> same_life w (upd_tcp g w') = same_life w w'"
  by (simp_all add: same_life_def)

lemma same_life_upd_conn [simp]:
  "(\<And>c. cc_engaged (f c) = cc_engaged c \<and> cc_reconnect_timer (f c) = cc_reconnect_timer c \<and>
     cc_tcp (f c) = cc_tcp c) \<Longrightarrow> same_life w (upd_conn f w') = same_life w w'"
  by (simp add: same_life_def)

lemma same_life_disconnect [simp]: "same_life w (tcp_disconnect r w') = same_life w w'"
  by (simp add: tcp_disconnect_eq)

lemma same_life_client [simp]:
  "same_life w (client_on_sequenced_data n d w') = same_life w w'"
  "same_life w (client_on_end_of_session w') = same_life w w'"
  by (simp_all add: client_on_sequenced_data_def client_on_end_of_session_def Let_def)

lemma same_life_conn_calls [simp]:
  "same_life w (snd (conn_on_login_success response w')) = same_life w w'"
  "same_life w (conn_on_sequenced_data data w') = same_life w w'"
  "same_life w (conn_on_end_of_session w') = same_life w w'"
  "same_life w (snd (conn_on_connect_success w')) = same_life w w'"
  by (simp_all add: conn_on_login_success_def conn_on_sequenced_data_def
      conn_on_end_of_session_def conn_on_connect_success_def Let_def)

lemma same_life_process_packet [simp]:
  "same_life w (snd (tcp_process_packet env packet w')) = same_life w w'"
  by (simp add: tcp_process_packet_def Let_def split_def tcp_process_debug_def
      tcp_process_login_accepted_def tcp_process_login_rejected_def tcp_process_sequenced_data_def
      tcp_process_server_heartbeat_def tcp_process_end_of_session_def tcp_increment_receive_count_def
      heartbeat_timer_start_def heartbeat_timer_schedule_def tcp_heartbeat_handler_def
      tcp_heartbeat_timer_error_def tcp_handle_transport_error_def split: option.splits)

lemma same_life_read_success [simp]:
  "same_life w (tcp_read_success env packet w') = same_life w w'"
  by (simp add: tcp_read_success_def Let_def split_def tcp_handle_protocol_violation_def)

lemma same_life_connect_success [simp]:
  "same_life w (tcp_connect_success env w') = same_life w w'"
  by (simp add: tcp_connect_success_def Let_def split_def login_timer_start_def
      tcp_login_handler_def tcp_login_timer_error_def tcp_handle_transport_error_def
      split: option.splits)

lemmas tcp_socket_callbacks =
  tcp_socket_handler_def tcp_connect_failure_def tcp_read_aborted_def tcp_read_end_of_file_def
  tcp_read_failure_def tcp_read_packet_failure_def tcp_write_failure_def tcp_write_success_def
  tcp_write_buffer_empty_def tcp_handle_connect_failure_def tcp_handle_transport_error_def
  tcp_handle_protocol_violation_def

lemma same_life_socket:
  "op \<noteq> Op_post_closed \<Longrightarrow>
   same_life w (socket_complete (tcp_socket_handler env) op ec n data w)"
  by (cases op)
     (simp_all add: socket_complete_def connect_done_def read_header_done_def
       read_payload_done_def write_done_def header_received_def payload_received_def
       packet_sent_def read_error_def Let_def split_def tcp_socket_callbacks
       split: read_resize.splits)

section \<open>Completions of the socket\<close>

lemma connect_done_ok:
  assumes ok: "tcp_ok (tcp w)" and op: "asio_may_complete Op_connect ec (ct_socket (tcp w))"
  shows "tcp_ok (tcp (connect_done (tcp_socket_handler env) ec w))"
proof -
  let ?t = "tcp w"
  let ?k = "ct_socket ?t"
  let ?k1 = "?k\<lparr>sk_ops := remove1 Op_connect (sk_ops ?k), sk_connect_pending := False\<rparr>"
  have mid: "tcp_mid ?t" and core: "sock_core ?k"
    using ok by (simp_all add: tcp_ok_def tcp_core_def tcp_mid_def)
  have mem: "Op_connect \<in> set (sk_ops ?k)" using op by (simp add: asio_may_complete_def)
  note c = cleared_core(1) [OF core mem refl]
  have ns: "\<not> sk_closed_signaled ?k" using not_told_if_busy [OF core] c by (simp add: is_idle_def)
  have mid1: "tcp_mid (?t\<lparr>ct_socket := ?k1\<rparr>)"
    using c ns by (intro mid_cleared [OF mid]) auto
  have unused: "lt_unused (ct_login_timer ?t)" "hb_unused (ct_heartbeat_timer ?t)"
    using mid c by (simp_all add: tcp_mid_def)
  have aborted: "tcp_pre (?t\<lparr>ct_socket := ?k1\<rparr>)" if "ec = operation_aborted"
    using mid1 unused op that ok
    by (simp add: tcp_pre_def timers_armed_def client_live_def tcp_ok_def lt_unused_def
        hb_unused_def asio_may_complete_def)
  let ?w1 = "upd_tcp (\<lambda>t. t\<lparr>ct_socket := (ct_socket t)\<lparr>sk_ops := remove1 Op_connect (sk_ops (ct_socket t)),
      sk_connect_pending := False\<rparr>\<rparr>) w"
  have success: "tcp_pre (tcp (tcp_connect_success env ?w1))"
    using mid1 unused c by (intro connect_success_pre) simp_all
  show ?thesis
    using aborted success mid1
    by (simp add: connect_done_def Let_def tcp_socket_callbacks tcp_disconnect_eq pre_signal_ok
        tcp_disconnect_pre)
qed

text \<open>The state in which a read completes.\<close>

lemma read_cleared:
  assumes ok: "tcp_ok t" and mem: "op \<in> set (sk_ops (ct_socket t))" and rd: "is_read_op op"
  shows "tcp_reading (t\<lparr>ct_socket := (ct_socket t)\<lparr>sk_ops := remove1 op (sk_ops (ct_socket t)),
             sk_read_packet := p, sk_read_pending := False\<rparr>\<rparr>)"
    and "\<not> sk_closed_signaled (ct_socket t)"
proof -
  have mid: "tcp_mid t" and core: "sock_core (ct_socket t)"
    using ok by (simp_all add: tcp_ok_def tcp_core_def tcp_mid_def)
  note c = cleared_core(2) [OF core mem rd]
  show "\<not> sk_closed_signaled (ct_socket t)" using c by simp
  show "tcp_reading (t\<lparr>ct_socket := (ct_socket t)\<lparr>sk_ops := remove1 op (sk_ops (ct_socket t)),
             sk_read_packet := p, sk_read_pending := False\<rparr>\<rparr>)"
    unfolding tcp_reading_def
    using c ok by (auto intro!: mid_cleared [OF mid] simp: tcp_ok_def tcp_core_def timers_armed_def
        client_live_def)
qed

lemma sh_socket_eq: "sh_socket (tcp_socket_handler env) = tcp_socket_lens"
  by (simp add: tcp_socket_handler_def)

lemma read_header_done_ok:
  assumes "tcp_ok (tcp w)" and "Op_read_header \<in> set (sk_ops (ct_socket (tcp w)))"
  shows "tcp_ok (tcp (read_header_done (tcp_socket_handler env) ec data w))"
  using read_cleared [OF assms]
  by (simp add: read_header_done_def Let_def pre_signal_ok header_received_pre sh_socket_eq)

lemma read_payload_done_ok:
  assumes "tcp_ok (tcp w)" and "Op_read_payload \<in> set (sk_ops (ct_socket (tcp w)))"
  shows "tcp_ok (tcp (read_payload_done (tcp_socket_handler env) ec data w))"
  using read_cleared [OF assms]
  by (simp add: read_payload_done_def Let_def pre_signal_ok payload_received_pre sh_socket_eq)

lemma write_done_ok:
  assumes ok: "tcp_ok (tcp w)" and mem: "Op_write bs \<in> set (sk_ops (ct_socket (tcp w)))"
  shows "tcp_ok (tcp (write_done (tcp_socket_handler env) bs ec n w))"
proof -
  let ?t = "tcp w"
  let ?k = "ct_socket ?t"
  let ?k1 = "?k\<lparr>sk_ops := remove1 (Op_write bs) (sk_ops ?k), sk_write_pending := False\<rparr>"
  have mid: "tcp_mid ?t" and core: "sock_core ?k"
    using ok by (simp_all add: tcp_ok_def tcp_core_def tcp_mid_def)
  have c: "sock_core ?k1" and ns: "\<not> sk_closed_signaled ?k"
    using cleared_core(3) [OF core mem] by simp_all
  have start: "sock_core (write_packet_start (?k1\<lparr>sk_write_packets := q\<rparr>))" if "q \<noteq> []" for q
    using c ns that by (auto simp: sock_core_def n_ops_def is_idle_def write_packet_start_def)
  have popped: "sock_core (?k1\<lparr>sk_write_packets := q\<rparr>)"
      "sock_core (?k1\<lparr>sk_write_packets := q, sk_write_buffer_was_full := b\<rparr>)" for q b
    using c by (auto simp: sock_core_def n_ops_def is_idle_def)
  have pre: "tcp_pre (?t\<lparr>ct_socket := k\<rparr>)"
    if "sock_core k" "sk_closed_signaled k = sk_closed_signaled ?k" "sk_closing k = sk_closing ?k"
      "sk_connect_pending k = sk_connect_pending ?k" "sk_read_pending k = sk_read_pending ?k" for k
    using that ok ns mid_cleared [OF mid that(1) ns that(2,3)]
    by (simp add: tcp_pre_def tcp_ok_def tcp_core_def timers_armed_def client_live_def)
  have mid1: "tcp_mid (?t\<lparr>ct_socket := ?k1\<rparr>)"
    using pre [OF c] by (simp add: tcp_pre_def)
  show ?thesis
    using start popped
    by (simp add: write_done_def packet_sent_def Let_def tcp_socket_callbacks tcp_disconnect_eq
        pre_signal_ok tcp_disconnect_pre [OF mid1] pre [OF c] pre write_packet_start_def)
qed

section \<open>The posted notifications\<close>

lemma conn_ok_emit: "conn_ok (emit cb w) = conn_ok w"
  by (simp add: conn_ok_def)

lemma on_closed_ok:
  assumes "\<not> tcp_outstanding (tcp w)" and "\<not> rt_started (cc_reconnect_timer (cw_conn w))"
  shows "conn_ok (conn_on_closed env r w)"
  using assms
  by (simp add: conn_on_closed_def conn_schedule_reconnect_def reconnect_timer_start_def Let_def
      conn_ok_def rt_ok_def lens_upd_def conn_reconnect_lens_def conn_reconnect_timer_error_def
      split: option.splits)

lemma maybe_signal_conn_ok:
  assumes "tcp_ok (tcp w)" and "cc_engaged (cw_conn w)"
    and "\<not> rt_started (cc_reconnect_timer (cw_conn w))"
  shows "conn_ok (tcp_maybe_signal_closed env w)"
proof (cases "tcp_finished (tcp w)")
  case True
  with assms finished_quiet [OF ok_mid, of "tcp w"] show ?thesis
    by (simp add: tcp_maybe_signal_closed_def tcp_finished_def on_closed_ok)
next
  case False
  with assms show ?thesis
    by (auto simp: tcp_maybe_signal_closed_def tcp_finished_def conn_ok_def rt_ok_def)
qed

lemma post_ok:
  "tcp_ok t \<Longrightarrow> Op_post_closed \<in> set (sk_ops (ct_socket t)) \<Longrightarrow>
   tcp_ok (t\<lparr>ct_socket := (ct_socket t)\<lparr>sk_ops := remove1 Op_post_closed (sk_ops (ct_socket t))\<rparr>,
             ct_socket_closed := True\<rparr>)"
  "tcp_ok t \<Longrightarrow> 0 < lt_posts (ct_login_timer t) \<Longrightarrow>
   tcp_ok (t\<lparr>ct_login_timer := (ct_login_timer t)\<lparr>lt_posts := lt_posts (ct_login_timer t) - 1\<rparr>,
             ct_login_timer_stopped := True\<rparr>)"
  "tcp_ok t \<Longrightarrow> 0 < hb_posts (ct_heartbeat_timer t) \<Longrightarrow>
   tcp_ok (t\<lparr>ct_heartbeat_timer := (ct_heartbeat_timer t)\<lparr>hb_posts := hb_posts (ct_heartbeat_timer t) - 1\<rparr>,
             ct_heartbeat_timer_stopped := True\<rparr>)"
  using post_closed_core [of t] login_post_core [of t] heartbeat_post_core [of t]
  by (simp_all add: tcp_ok_def client_live_def)

section \<open>The waits of the timers\<close>

lemma login_wait_tcp:
  "tcp (login_timer_wait_done (tcp_login_handler env) ec w) =
     t_login_wait (if ec_set ec then DR_transport_error else DR_login_timeout) (tcp w)"
  by (simp add: login_timer_wait_done_def login_timer_on_expiry_def t_login_wait_def
      tcp_login_handler_def tcp_login_timer_error_def tcp_login_timer_expired_def
      tcp_handle_transport_error_def tcp_disconnect_eq Let_def)

lemma login_wait_live: "tcp_mid t \<Longrightarrow> 0 < lt_waits (ct_login_timer t) \<Longrightarrow> client_live t \<Longrightarrow>
    client_live (t_login_wait r t)"
  by (auto simp: client_live_def t_login_wait_def Let_def t_disconnect_def split_def sock_op_defs
      cs_disconnect_def)

lemma login_wait_ok:
  assumes ok: "tcp_ok (tcp w)" and pending: "0 < lt_waits (ct_login_timer (tcp w))"
  shows "tcp_ok (tcp (login_timer_wait_done (tcp_login_handler env) ec w))"
  using assms login_wait_core [of "tcp w"] login_wait_live [of "tcp w"]
  by (simp add: login_wait_tcp tcp_ok_def tcp_core_def)

lemma heartbeat_wait_ok:
  assumes ok: "tcp_ok (tcp w)" and pending: "0 < hb_waits (ct_heartbeat_timer (tcp w))"
  shows "tcp_ok (tcp (heartbeat_timer_wait_done (tcp_heartbeat_handler env) throws ec w))"
proof -
  let ?t = "tcp w"
  let ?hb = "ct_heartbeat_timer ?t"
  let ?t1 = "?t\<lparr>ct_heartbeat_timer := ?hb\<lparr>hb_waits := hb_waits ?hb - 1, hb_wait_pending := False\<rparr>\<rparr>"
  have core: "tcp_core ?t" and live: "client_live ?t" using ok by (simp_all add: tcp_ok_def)
  have mid: "tcp_mid ?t" using core by (simp add: tcp_core_def)
  show ?thesis
  proof (cases "hb_started ?hb")
    case False
    with heartbeat_late_wait_core [OF core pending] live show ?thesis
      by (simp add: heartbeat_timer_wait_done_def heartbeat_timer_on_expiry_def
          tcp_heartbeat_handler_def Let_def tcp_ok_def client_live_def)
  next
    case True
    have mid1: "tcp_mid ?t1"
      using mid pending True by (auto simp: tcp_mid_def hb_preds)
    with core True have b: "tcp_beating ?t1"
      by (simp add: tcp_beating_def tcp_core_def timers_armed_def)
    note counts = beating_counts [OF b]
    note bs = b counts beating_write [OF counts(1)] beating_write [OF counts(2)]
    have downs: "tcp_beating u \<Longrightarrow> tcp_ok ((t_disconnect r u)\<lparr>ct_heartbeat_timer :=
           heartbeat_timer_maybe_signal_stopped (ct_heartbeat_timer (t_disconnect r u))\<rparr>)" for u r
      using beating_disconnect [of u r] t_disconnect_closing [of u r]
      by (simp add: tcp_ok_def client_live_def tcp_beating_def)
    have arms: "tcp_beating u \<Longrightarrow> client_live u \<Longrightarrow> tcp_ok (u\<lparr>ct_heartbeat_timer :=
        heartbeat_timer_maybe_signal_stopped ((ct_heartbeat_timer u)\<lparr>hb_expiry := e,
          hb_wait_pending := True, hb_waits := Suc (hb_waits (ct_heartbeat_timer u))\<rparr>)\<rparr>)" for u e
      using beating_armed [of u e] by (simp add: tcp_ok_def client_live_def)
    show ?thesis
      using True bs [THEN downs] bs [THEN arms] live
      by (simp add: heartbeat_timer_wait_done_def heartbeat_timer_on_expiry_def
          heartbeat_timer_schedule_def tcp_heartbeat_handler_def tcp_heartbeat_timer_error_def
          tcp_heartbeat_send_due_def tcp_heartbeat_receive_timeout_def tcp_handle_transport_error_def
          tcp_disconnect_eq Let_def client_live_def split: option.splits)
  qed
qed

section \<open>Calls of the user\<close>

lemma tcp_new_beginning:
  "tcp_mid (client_tcp_new\<lparr>ct_socket := set_write_packets_limit n (socket_new False)\<rparr>)"
  "tcp_mid (client_tcp_new\<lparr>ct_socket := (set_write_packets_limit n (socket_new False))\<lparr>sk_open := b\<rparr>\<rparr>)"
  by (simp_all add: tcp_mid_def client_tcp_new_def socket_new_def set_write_packets_limit_def
      sock_core_def sock_told_def n_ops_def is_idle_def connection_state_default_def)

lemma tcp_new_connecting:
  "tcp_ok (client_tcp_new\<lparr>ct_socket := socket_async_connect
     ((set_write_packets_limit n (socket_new False))\<lparr>sk_open := b\<rparr>)\<rparr>)"
  by (simp add: tcp_ok_def tcp_core_def tcp_mid_def client_tcp_new_def socket_new_def set_write_packets_limit_def
      sock_core_def sock_rest_def sock_told_def n_ops_def is_idle_def socket_async_connect_def
      connection_state_default_def login_timer_new_def heartbeat_timer_new_def lt_preds hb_preds
      timers_armed_def client_live_def)

lemma tcp_new_disconnect:
  "tcp_ok (t_disconnect r (client_tcp_new\<lparr>ct_socket := set_write_packets_limit n (socket_new False)\<rparr>))"
  "tcp_ok (t_disconnect r (client_tcp_new\<lparr>ct_socket := (set_write_packets_limit n (socket_new False))\<lparr>sk_open := b\<rparr>\<rparr>))"
  by (rule ok_disconnect [OF tcp_new_beginning(1)],
      simp add: socket_new_def set_write_packets_limit_def sock_rest_def sock_core_def n_ops_def is_idle_def)
     (rule ok_disconnect [OF tcp_new_beginning(2)],
      simp add: socket_new_def set_write_packets_limit_def sock_rest_def sock_core_def n_ops_def is_idle_def)

lemma tcp_new_flags [simp]: "\<not> ct_socket_closed client_tcp_new" "ct_socket client_tcp_new = socket_new False"
  by (simp_all add: client_tcp_new_def)

lemma construct_ok:
  assumes "\<not> rt_started (cc_reconnect_timer (cw_conn w))"
  shows "conn_ok (tcp_construct env w)"
  using assms
  by (simp add: conn_ok_def rt_ok_def tcp_construct_def Let_def split_def socket_open_def
      socket_set_no_delay_def tcp_handle_connect_failure_def tcp_disconnect_eq tcp_new_disconnect
      tcp_new_connecting tcp_finished_def)

lemma reconnect_lens [simp]:
  "lens_get conn_reconnect_lens w = cc_reconnect_timer (cw_conn w)"
  "lens_upd conn_reconnect_lens f =
     upd_conn (\<lambda>c. c\<lparr>cc_reconnect_timer := f (cc_reconnect_timer c)\<rparr>)"
  by (simp_all add: lens_upd_def conn_reconnect_lens_def fun_eq_iff upd_conn_def)

lemma close_ok:
  assumes "conn_ok w"
  shows "conn_ok (conn_close w)"
proof (cases "cc_engaged (cw_conn w)")
  case True
  with assms have "tcp_ok (tcp w)" by (simp add: conn_ok_def)
  then have "tcp_mid (tcp w)" "sock_rest (ct_socket (tcp w))" by (simp_all add: ok_mid ok_rest)
  then have "tcp_ok (t_disconnect r (tcp w))" for r by (rule ok_disconnect)
  with assms True show ?thesis
    by (simp add: conn_ok_def rt_ok_def conn_close_def tcp_close_def tcp_disconnect_eq
        reconnect_timer_stop_def tcp_finished_def)
next
  case False
  with assms show ?thesis
    by (simp add: conn_ok_def rt_ok_def conn_close_def reconnect_timer_stop_def)
qed

text \<open>Queueing a packet.\<close>

lemma send_ok:
  assumes "tcp_ok t"
  shows "tcp_ok (t\<lparr>ct_socket := snd (socket_async_write p (ct_socket t))\<rparr>)"
  using assms async_write_mid [of t p] async_write_rest [of "ct_socket t" p]
  by (simp add: tcp_ok_def tcp_core_def timers_armed_def client_live_def)

lemma send_count_ok:
  assumes "tcp_ok t"
  shows "tcp_ok (t\<lparr>ct_heartbeat_timer := increment_send_count (ct_heartbeat_timer t)\<rparr>)"
proof -
  have "tcp_mid (t\<lparr>ct_heartbeat_timer := increment_send_count (ct_heartbeat_timer t)\<rparr>)"
    using assms by (intro mid_heartbeat_counts) (simp_all add: ok_mid increment_send_count_def)
  with assms show ?thesis
    by (simp add: tcp_ok_def tcp_core_def timers_armed_def client_live_def increment_send_count_def)
qed

lemma send_packet_ok:
  "tcp_ok (tcp w) \<Longrightarrow> tcp_ok (tcp (snd (tcp_send_packet p w)))"
  using send_count_ok [OF send_ok [of "tcp w" p]]
  by (simp add: tcp_send_packet_def Let_def split_def send_ok)

lemma send_debug_ok:
  "tcp_ok (tcp w) \<Longrightarrow> tcp_ok (tcp (snd (tcp_send_debug_packet text w)))"
  by (simp add: tcp_send_debug_packet_def Let_def split_def send_ok)

lemma send_same_life [simp]:
  "same_life w (snd (tcp_send_packet p w))" "same_life w (snd (tcp_send_debug_packet text w))"
  by (simp_all add: tcp_send_packet_def tcp_send_debug_packet_def Let_def split_def)

section \<open>Every event\<close>

lemma same_life_ok:
  assumes ok: "conn_ok w" and eng: "cc_engaged (cw_conn w)" and same: "same_life w w'"
    and new: "tcp_ok (tcp w')" and open_: "\<not> ct_socket_closed (tcp w)"
  shows "conn_ok w'"
  using ok eng same new open_ by (simp add: conn_ok_def same_life_def tcp_finished_def)

lemma same_life_ok':
  assumes ok: "conn_ok w" and eng: "cc_engaged (cw_conn w)" and same: "same_life w w'"
    and new: "tcp_ok (tcp w')"
    and "ct_login_timer_stopped (tcp w') = ct_login_timer_stopped (tcp w)"
    and "ct_heartbeat_timer_stopped (tcp w') = ct_heartbeat_timer_stopped (tcp w)"
  shows "conn_ok w'"
  using assms by (simp add: conn_ok_def same_life_def tcp_finished_def)

lemma conn_ok_outstanding:
  "conn_ok w \<Longrightarrow> tcp_outstanding (tcp w) \<Longrightarrow>
   cc_engaged (cw_conn w) \<and> tcp_ok (tcp w) \<and> \<not> rt_started (cc_reconnect_timer (cw_conn w))"
  by (simp add: conn_ok_def split: if_splits)

lemma socket_event_ok:
  assumes ok: "conn_ok w" and may: "asio_may_complete op ec (ct_socket (tcp w))"
  shows "conn_ok (socket_complete (tcp_socket_handler env) op ec n data w)"
proof -
  have mem: "op \<in> set (sk_ops (ct_socket (tcp w)))" using may by (simp add: asio_may_complete_def)
  then have out: "tcp_outstanding (tcp w)" by (auto simp: tcp_outstanding_def)
  note c = conn_ok_outstanding [OF ok out]
  have core: "sock_core (ct_socket (tcp w))" using c by (simp add: tcp_ok_def tcp_core_def tcp_mid_def)
  have open_: "\<not> ct_socket_closed (tcp w)"
  proof -
    have "ct_socket_closed (tcp w) = sock_told (ct_socket (tcp w))"
      using c by (simp add: tcp_ok_def tcp_core_def tcp_mid_def)
    with sock_told_no_ops [OF core] mem show ?thesis by auto
  qed
  show ?thesis
  proof (cases "op = Op_post_closed")
    case True
    with c mem post_ok(1) [of "tcp w"] show ?thesis
      by (simp add: socket_complete_def sh_socket_eq post_closed_done_def
          tcp_socket_handler_def tcp_closed_def maybe_signal_conn_ok)
  next
    case False
    have "tcp_ok (tcp (socket_complete (tcp_socket_handler env) op ec n data w))"
      using False mem c may
      by (cases op) (simp_all add: socket_complete_def sh_socket_eq connect_done_ok
          read_header_done_ok read_payload_done_ok write_done_ok)
    with same_life_ok [OF ok _ same_life_socket [OF False] _ open_] c show ?thesis by simp
  qed
qed

lemma login_wait_event_ok:
  assumes ok: "conn_ok w" and pending: "0 < lt_waits (ct_login_timer (tcp w))"
  shows "conn_ok (login_timer_wait_done (tcp_login_handler env) ec w)"
proof -
  have out: "tcp_outstanding (tcp w)" using pending by (simp add: tcp_outstanding_def)
  note c = conn_ok_outstanding [OF ok out]
  have new: "tcp_ok (tcp (login_timer_wait_done (tcp_login_handler env) ec w))"
    using c pending by (simp add: login_wait_ok)
  show ?thesis
    by (rule same_life_ok' [OF ok _ _ new])
       (use c in \<open>simp_all add: login_timer_wait_done_def login_timer_on_expiry_def
          tcp_login_handler_def tcp_login_timer_error_def tcp_login_timer_expired_def
          tcp_handle_transport_error_def tcp_disconnect_eq Let_def\<close>)
qed

lemma heartbeat_wait_event_ok:
  assumes ok: "conn_ok w" and pending: "0 < hb_waits (ct_heartbeat_timer (tcp w))"
  shows "conn_ok (heartbeat_timer_wait_done (tcp_heartbeat_handler env) throws ec w)"
proof -
  have out: "tcp_outstanding (tcp w)" using pending by (simp add: tcp_outstanding_def)
  note c = conn_ok_outstanding [OF ok out]
  have new: "tcp_ok (tcp (heartbeat_timer_wait_done (tcp_heartbeat_handler env) throws ec w))"
    using c pending by (simp add: heartbeat_wait_ok)
  show ?thesis
    by (rule same_life_ok' [OF ok _ _ new])
       (use c in \<open>simp_all add: heartbeat_timer_wait_done_def heartbeat_timer_on_expiry_def
          heartbeat_timer_schedule_def tcp_heartbeat_handler_def tcp_heartbeat_timer_error_def
          tcp_heartbeat_send_due_def tcp_heartbeat_receive_timeout_def tcp_handle_transport_error_def
          tcp_disconnect_eq Let_def split: option.splits\<close>)
qed

lemma login_post_event_ok:
  assumes ok: "conn_ok w" and pending: "0 < lt_posts (ct_login_timer (tcp w))"
  shows "conn_ok (login_timer_post_done (tcp_login_handler env) w)"
proof -
  have out: "tcp_outstanding (tcp w)" using pending by (simp add: tcp_outstanding_def)
  note c = conn_ok_outstanding [OF ok out]
  from c post_ok(2) [of "tcp w"] pending show ?thesis
    by (simp add: login_timer_post_done_def tcp_login_handler_def tcp_login_timer_stopped_def
        maybe_signal_conn_ok)
qed

lemma heartbeat_post_event_ok:
  assumes ok: "conn_ok w" and pending: "0 < hb_posts (ct_heartbeat_timer (tcp w))"
  shows "conn_ok (heartbeat_timer_post_done (tcp_heartbeat_handler env) w)"
proof -
  have out: "tcp_outstanding (tcp w)" using pending by (simp add: tcp_outstanding_def)
  note c = conn_ok_outstanding [OF ok out]
  from c post_ok(3) [of "tcp w"] pending show ?thesis
    by (simp add: heartbeat_timer_post_done_def tcp_heartbeat_handler_def
        tcp_heartbeat_timer_stopped_def maybe_signal_conn_ok)
qed

lemma reconnect_wait_event_ok:
  assumes ok: "conn_ok w"
  shows "conn_ok (reconnect_timer_wait_done (conn_reconnect_handler env) epoch ec w)"
proof -
  let ?rt = "cc_reconnect_timer (cw_conn w)"
  let ?w1 = "upd_conn (\<lambda>c. c\<lparr>cc_reconnect_timer := (cc_reconnect_timer c)
      \<lparr>rt_waits := remove1 epoch (rt_waits (cc_reconnect_timer c))\<rparr>\<rparr>) w"
  show ?thesis
  proof (cases "epoch = rt_epoch ?rt \<and> rt_started ?rt")
    case True
    let ?w2 = "upd_conn (\<lambda>c. c\<lparr>cc_reconnect_timer := (cc_reconnect_timer c)\<lparr>rt_started := False\<rparr>\<rparr>) ?w1"
    from True ok have "conn_ok ?w2" by (simp add: conn_ok_def rt_ok_def)
    then have "conn_ok (emit cb ?w2)" for cb by (simp only: conn_ok_emit)
    moreover have "conn_ok (tcp_construct env ?w2)" by (rule construct_ok) simp
    ultimately show ?thesis
      using True by (simp add: reconnect_timer_wait_done_def reconnect_timer_on_expiry_def
          conn_reconnect_handler_def conn_reconnect_timer_error_def
          conn_reconnect_timer_expired_def Let_def)
  next
    case False
    with ok have "conn_ok ?w1" by (auto simp: conn_ok_def rt_ok_def)
    with False show ?thesis
      by (auto simp: reconnect_timer_wait_done_def reconnect_timer_on_expiry_def
          conn_reconnect_handler_def Let_def)
  qed
qed

text \<open>Sending does not end anything.\<close>

lemma send_event_ok:
  assumes "conn_ok w"
  shows "conn_ok (snd (conn_send_packet p w))" and "conn_ok (snd (conn_send_logout_request w))"
    and "conn_ok (snd (conn_send_debug text w))"
proof -
  have flags: "ct_login_timer_stopped (tcp (snd (tcp_send_packet q w))) = ct_login_timer_stopped (tcp w)"
      "ct_heartbeat_timer_stopped (tcp (snd (tcp_send_packet q w))) = ct_heartbeat_timer_stopped (tcp w)"
      "ct_login_timer_stopped (tcp (snd (tcp_send_debug_packet text w))) = ct_login_timer_stopped (tcp w)"
      "ct_heartbeat_timer_stopped (tcp (snd (tcp_send_debug_packet text w))) = ct_heartbeat_timer_stopped (tcp w)"
      for q
    by (simp_all add: tcp_send_packet_def tcp_send_debug_packet_def Let_def split_def)
  have "conn_ok (snd (tcp_send_packet q w))" "conn_ok (snd (tcp_send_debug_packet text w))"
    if "cc_engaged (cw_conn w)" for q
    using that assms flags
    by (intro same_life_ok' [OF assms that]; simp add: send_packet_ok send_debug_ok conn_ok_def)+
  with assms show "conn_ok (snd (conn_send_packet p w))" and "conn_ok (snd (conn_send_logout_request w))"
    and "conn_ok (snd (conn_send_debug text w))"
    by (simp_all add: conn_send_packet_def conn_send_logout_request_def conn_send_debug_def)
qed

theorem conn_ok_step:
  assumes ok: "conn_ok w"
  shows "conn_ok (client_step env ev w)"
proof (cases "client_event_enabled w ev")
  case False
  with ok show ?thesis by (simp add: client_step_def)
next
  case True
  have "conn_ok (conn_connect env w)"
    using ok construct_ok [of w env] by (simp add: conn_connect_def)
  with True ok show ?thesis
    by (cases ev) (simp_all add: client_step_def socket_event_ok login_wait_event_ok
        login_post_event_ok heartbeat_wait_event_ok heartbeat_post_event_ok
        reconnect_wait_event_ok close_ok send_event_ok)
qed

theorem conn_ok_run: "conn_ok w \<Longrightarrow> conn_ok (client_run evs w)"
proof (induction evs arbitrary: w)
  case Nil
  then show ?case by simp
next
  case (Cons e evs)
  then show ?case by (cases e) (simp add: conn_ok_step)
qed

end
