(* ===== verification/Client_Contract.thy ===== *)
theory Client_Contract
  imports Client_Invariant Framing
begin

text \<open>
  The client's TCP connection honours the contracts of its socket and its timers: the
  interpretations of \<open>socket_owner\<close>, \<open>login_timer_owner\<close> and \<open>heartbeat_timer_owner\<close> on
  the handlers of \<open>Client_Tcp\<close>.
\<close>

interpretation client_login: login_timer_owner "tcp_login_handler env" for env
  by (rule login_timer_owner.intro, simp add: tcp_login_handler_def login_part.sub_object_axioms,
      unfold_locales)
    (auto simp: tcp_login_handler_def tcp_login_timer_error_def tcp_login_timer_expired_def
       tcp_handle_transport_error_def tcp_disconnect_eq t_disconnect_def split_def Let_def)

interpretation client_heartbeat: heartbeat_timer_owner "tcp_heartbeat_handler env" for env
  by (rule heartbeat_timer_owner.intro,
      simp add: tcp_heartbeat_handler_def heartbeat_part.sub_object_axioms, unfold_locales)
    (auto simp: tcp_heartbeat_handler_def tcp_heartbeat_timer_error_def
       tcp_heartbeat_receive_timeout_def tcp_heartbeat_send_due_def
       tcp_handle_transport_error_def tcp_disconnect_eq t_disconnect_def split_def Let_def)

text \<open>What processing a packet, or the success of the attempt, does to the socket.\<close>

lemmas packet_defs =
  tcp_process_packet_def tcp_process_debug_def tcp_process_login_accepted_def
  tcp_process_login_rejected_def tcp_process_sequenced_data_def tcp_process_server_heartbeat_def
  tcp_process_end_of_session_def tcp_increment_receive_count_def heartbeat_timer_start_def
  heartbeat_timer_schedule_def tcp_heartbeat_handler_def tcp_heartbeat_timer_error_def
  tcp_handle_transport_error_def tcp_disconnect_eq

lemma process_packet_socket:
  "sk_read_pending (ct_socket (tcp (snd (tcp_process_packet env packet w)))) =
     sk_read_pending (ct_socket (tcp w))"
  "sk_connect_pending (ct_socket (tcp (snd (tcp_process_packet env packet w)))) =
     sk_connect_pending (ct_socket (tcp w))"
  by (simp_all add: packet_defs Let_def split_def split: option.splits)

lemma process_packet_evolve:
  "sock_evolve k (ct_socket (tcp w)) \<Longrightarrow>
   sock_evolve k (ct_socket (tcp (snd (tcp_process_packet env packet w))))"
  by (simp add: packet_defs Let_def split_def split: option.splits)

lemma read_success_evolve:
  assumes "\<not> sk_connect_pending (ct_socket (tcp w))" and "\<not> sk_read_pending (ct_socket (tcp w))"
  shows "sock_evolve (ct_socket (tcp w)) (ct_socket (tcp (tcp_read_success env packet w)))"
  using assms process_packet_evolve [OF evolve_refl, of w env packet]
    process_packet_socket [of env packet w]
  by (simp add: tcp_read_success_def Let_def split_def tcp_handle_protocol_violation_def
      tcp_disconnect_eq evolve_refl evolve_read)

lemma connect_success_evolve:
  assumes "\<not> sk_connect_pending (ct_socket (tcp w))" and "\<not> sk_read_pending (ct_socket (tcp w))"
  shows "sock_evolve (ct_socket (tcp w)) (ct_socket (tcp (tcp_connect_success env w)))"
  using assms
  by (simp add: tcp_connect_success_def Let_def split_def login_timer_start_def
      tcp_login_handler_def tcp_login_timer_error_def tcp_handle_transport_error_def
      tcp_disconnect_eq evolve_refl evolve_read evolve_write split: option.splits)

lemma closed_socket: "ct_socket (tcp (tcp_maybe_signal_closed env w)) = ct_socket (tcp w)"
  by (simp add: tcp_maybe_signal_closed_def conn_on_closed_def conn_schedule_reconnect_def
      reconnect_timer_start_def conn_reconnect_timer_error_def Let_def split: option.splits)

interpretation client_socket: socket_owner "tcp_socket_handler env" "\<lambda>_. True" for env
  by (rule socket_owner.intro, simp add: sh_socket_eq socket_part.sub_object_axioms, unfold_locales)
    (simp_all add: tcp_socket_callbacks tcp_disconnect_eq evolve_refl read_success_evolve
       connect_success_evolve tcp_closed_def closed_socket)

end
