(* ===== verification/Client_Main.thy ===== *)
theory Client_Main
  imports Client_Connection
begin

text \<open>
  \<^verbatim>\<open>client::Client\<close> (\<^verbatim>\<open>client/client.h\<close>/\<^verbatim>\<open>.cpp\<close>): the list of connections that share
  one sequence number.  A connection is named by its position in the list, which never
  shrinks; a pointer to it is that number.
\<close>

datatype client_post = Post_start | Post_stop

record client =
  ck_core :: client_core
  ck_connections :: "client_connection list"
  ck_posts :: "client_post list"
  ck_out :: "(nat \<times> client_cb) list"

definition client_new :: "bool \<Rightarrow> client" where
  "client_new handler = \<lparr>ck_core = \<lparr>cl_handler = handler, cl_write_packets_limit = 100,
       cl_next_sequence_number = 1, cl_has_session_ended = False, cl_started = False,
       cl_asserts_ok = True\<rparr>,
     ck_connections = [], ck_posts = [], ck_out = []\<rparr>"

definition client_set_handler :: "client \<Rightarrow> client" where
  "client_set_handler cl = cl\<lparr>ck_core := (ck_core cl)\<lparr>cl_handler := True\<rparr>\<rparr>"

definition client_set_write_packets_limit :: "nat \<Rightarrow> client \<Rightarrow> client" where
  "client_set_write_packets_limit n cl =
     cl\<lparr>ck_core := (ck_core cl)\<lparr>cl_write_packets_limit := n\<rparr>\<rparr>"

definition client_set_next_sequence_number :: "u64 \<Rightarrow> client \<Rightarrow> client" where
  "client_set_next_sequence_number n cl =
     cl\<lparr>ck_core := (ck_core cl)\<lparr>cl_next_sequence_number := n\<rparr>\<rparr>"

text \<open>Run a function of one connection's world, and put its results back.\<close>

definition connection_world :: "nat \<Rightarrow> client \<Rightarrow> cw" where
  "connection_world i cl = \<lparr>cw_core = ck_core cl, cw_conn = ck_connections cl ! i, cw_id = i,
     cw_out = ck_out cl\<rparr>"

definition on_connection :: "nat \<Rightarrow> (cw \<Rightarrow> 'r \<times> cw) \<Rightarrow> client \<Rightarrow> 'r \<times> client" where
  "on_connection i f cl =
    (let (r, w) = f (connection_world i cl)
     in (r, cl\<lparr>ck_core := cw_core w, ck_connections := (ck_connections cl)[i := cw_conn w],
               ck_out := cw_out w\<rparr>))"

definition run_connection :: "nat \<Rightarrow> (cw \<Rightarrow> cw) \<Rightarrow> client \<Rightarrow> client" where
  "run_connection i f cl = snd (on_connection i (\<lambda>w. ((), f w)) cl)"

definition client_add_connection ::
    "endpoint \<Rightarrow> bool \<Rightarrow> client \<Rightarrow> (nat, error_code) expected \<times> client" where
  "client_add_connection ep handler cl =
    (if \<exists>c \<in> set (ck_connections cl). ep = cc_endpoint c
     then (unexpected_of (make_error_code Endpoint_in_use), cl)
     else (expected_of (length (ck_connections cl)),
           cl\<lparr>ck_connections := ck_connections cl @ [client_connection_new ep handler]\<rparr>))"

section \<open>Starting and stopping\<close>

definition client_start :: "client \<Rightarrow> error_code \<times> client" where
  "client_start cl =
    (if \<not> cl_handler (ck_core cl) then (make_error_code Handler_not_set, cl)
     else if \<exists>c \<in> set (ck_connections cl). \<not> conn_is_handler_set c
     then (make_error_code Handler_not_set, cl)
     else (no_error, cl\<lparr>ck_posts := ck_posts cl @ [Post_start]\<rparr>))"

definition client_stop :: "client \<Rightarrow> client" where
  "client_stop cl = cl\<lparr>ck_posts := ck_posts cl @ [Post_stop]\<rparr>"

definition client_started_posted :: "(nat \<Rightarrow> client_env) \<Rightarrow> client \<Rightarrow> client" where
  \<comment> \<open>the function posted by \<open>start\<close>; one environment per connection\<close>
  "client_started_posted envs cl =
    (if cl_started (ck_core cl) then cl
     else fold (\<lambda>i. run_connection i (conn_connect (envs i))) [0..<length (ck_connections cl)]
            (cl\<lparr>ck_core := (ck_core cl)\<lparr>cl_started := True\<rparr>\<rparr>))"

definition client_stopped_posted :: "client \<Rightarrow> client" where
  \<comment> \<open>the function posted by \<open>stop\<close>\<close>
  "client_stopped_posted cl =
    (if \<not> cl_started (ck_core cl) then cl
     else fold (\<lambda>i. run_connection i conn_close) [0..<length (ck_connections cl)]
            (cl\<lparr>ck_core := (ck_core cl)\<lparr>cl_started := False\<rparr>\<rparr>))"

section \<open>Sending\<close>

definition priority_error :: "write_error list \<Rightarrow> write_error" where
  "priority_error errors =
    (if WE_none \<in> set errors then WE_none
     else if WE_buffer_full \<in> set errors then WE_buffer_full
     else if WE_not_logged_in \<in> set errors then WE_not_logged_in
     else WE_disconnected)"

definition client_send_one :: "write_packet \<Rightarrow> client \<Rightarrow> write_error \<times> client" where
  "client_send_one packet cl = on_connection 0 (conn_send_packet packet) cl"

definition client_send_two :: "write_packet \<Rightarrow> client \<Rightarrow> write_error \<times> client" where
  "client_send_two packet cl =
    (let copy = write_packet_clone packet;
         (error1, cl) = on_connection 0 (conn_send_packet packet) cl;
         (error2, cl) = on_connection 1 (conn_send_packet copy) cl
     in (priority_error [error1, error2], cl))"

text \<open>The loop over all connections but the last, which sends copies, then the last.\<close>

fun client_send_copies ::
    "nat list \<Rightarrow> write_packet \<Rightarrow> client \<Rightarrow> write_error list \<times> client" where
  "client_send_copies [] packet cl = ([], cl)"
| "client_send_copies (i # is) packet cl =
    (let copy = write_packet_clone packet;
         (error, cl) = on_connection i (conn_send_packet copy) cl;
         (errors, cl) = client_send_copies is packet cl
     in (error # errors, cl))"

definition client_send_multiple :: "write_packet \<Rightarrow> client \<Rightarrow> write_error \<times> client" where
  "client_send_multiple packet cl =
    (if ck_connections cl = [] then (WE_disconnected, cl)
     else
       (let back = length (ck_connections cl) - 1;
            (errors, cl) = client_send_copies [0..<back] packet cl;
            (error, cl) = on_connection back (conn_send_packet packet) cl
        in (priority_error (errors @ [error]), cl)))"

definition client_send_packet :: "write_packet \<Rightarrow> client \<Rightarrow> write_error \<times> client" where
  "client_send_packet packet cl =
    (if cl_has_session_ended (ck_core cl) then (WE_session_ended, cl)
     else if length (ck_connections cl) = 1 then client_send_one packet cl
     else if length (ck_connections cl) = 2 then client_send_two packet cl
     else client_send_multiple packet cl)"

definition client_send_message :: "bytes option \<Rightarrow> nat \<Rightarrow> client \<Rightarrow> write_error \<times> client" where
  "client_send_message data n cl =
    (if n = 0 then (WE_empty_buffer, cl)
     else case data of
       None \<Rightarrow> (WE_null_buffer, cl)
     | Some bs \<Rightarrow> client_send_packet (write_packet_of unsequenced_data_type bs (of_nat n)) cl)"

definition client_send_message_packet ::
    "write_packet \<Rightarrow> client \<Rightarrow> (write_error \<times> client) option" where
  \<comment> \<open>\<open>None\<close>: the message has no buffer, and its size is read through a null pointer\<close>
  "client_send_message_packet message cl = (case wp_payload_size message of
     None \<Rightarrow> None
   | Some n \<Rightarrow> Some (if n = 0 then (WE_empty_buffer, cl)
                   else client_send_packet (fst (release_packet message)) cl))"

definition client_send_logout_request :: "client \<Rightarrow> client" where
  "client_send_logout_request cl =
     fold (\<lambda>i cl. snd (on_connection i conn_send_logout_request cl))
       [0..<length (ck_connections cl)] cl"

definition client_send_debug :: "bytes \<Rightarrow> client \<Rightarrow> client" where
  "client_send_debug text cl =
     fold (\<lambda>i cl. snd (on_connection i (conn_send_debug text) cl))
       [0..<length (ck_connections cl)] cl"

section \<open>Events\<close>

datatype client_action =
    At_connection nat client_event client_env
  | Run_post "nat \<Rightarrow> client_env"
  | Call_start
  | Call_stop
  | Call_send "bytes option" nat
  | Call_send_message write_packet
  | Call_logout
  | Call_debug bytes

fun client_act :: "client_action \<Rightarrow> client \<Rightarrow> client" where
  "client_act (At_connection i ev env) cl =
     (if i < length (ck_connections cl) then run_connection i (client_step env ev) cl else cl)"
| "client_act (Run_post envs) cl = (case ck_posts cl of
     [] \<Rightarrow> cl
   | Post_start # ps \<Rightarrow> client_started_posted envs (cl\<lparr>ck_posts := ps\<rparr>)
   | Post_stop # ps \<Rightarrow> client_stopped_posted (cl\<lparr>ck_posts := ps\<rparr>))"
| "client_act Call_start cl = snd (client_start cl)"
| "client_act Call_stop cl = client_stop cl"
| "client_act (Call_send data n) cl = snd (client_send_message data n cl)"
| "client_act (Call_send_message m) cl =
     (case client_send_message_packet m cl of None \<Rightarrow> cl | Some (_, cl) \<Rightarrow> cl)"
| "client_act Call_logout cl = client_send_logout_request cl"
| "client_act (Call_debug text) cl = client_send_debug text cl"

end
