(* ===== verification/Client_System.thy ===== *)
theory Client_System
  imports Client_Contract Client_Main
begin

text \<open>
  The client as a whole.  What every event at one connection keeps, and no event at another
  connection spoils, holds of all connections after any sequence of actions: the locale
  \<open>connection_property\<close>.  Its interpretation on \<open>conn_ok\<close> gives the life cycle of all
  connections.
\<close>

fun client_acts :: "client_action list \<Rightarrow> client \<Rightarrow> client" where
  "client_acts [] cl = cl"
| "client_acts (a # as) cl = client_acts as (client_act a cl)"

text \<open>A client that has been set up and not started: its connections are as
  \<^verbatim>\<open>add_connection\<close> made them, but for their credentials.\<close>

definition fresh_connection :: "client_connection \<Rightarrow> bool" where
  "fresh_connection c \<longleftrightarrow>
     c = (client_connection_new (cc_endpoint c) (cc_handler c))
           \<lparr>cc_username := cc_username c, cc_password := cc_password c, cc_session := cc_session c\<rparr>"

definition fresh_client :: "client \<Rightarrow> bool" where
  "fresh_client cl \<longleftrightarrow> list_all fresh_connection (ck_connections cl) \<and> \<not> cl_started (ck_core cl) \<and>
     cl_asserts_ok (ck_core cl) \<and> ck_posts cl = [] \<and> ck_out cl = []"

lemma on_connection_length [simp]:
  "length (ck_connections (snd (on_connection i f cl))) = length (ck_connections cl)"
  by (simp add: on_connection_def split_def Let_def)

lemma on_connection_posts [simp]: "ck_posts (snd (on_connection i f cl)) = ck_posts cl"
  by (simp add: on_connection_def split_def Let_def)

lemma world_same [simp]:
  "i < length (ck_connections cl) \<Longrightarrow>
   connection_world i (snd (on_connection i f cl)) = (snd (f (connection_world i cl)))
     \<lparr>cw_id := i\<rparr>"
  by (simp add: on_connection_def connection_world_def split_def Let_def)

lemma world_other:
  "j \<noteq> i \<Longrightarrow> connection_world j (snd (on_connection i f cl)) =
     (connection_world j cl)\<lparr>cw_core := cw_core (snd (f (connection_world i cl))),
        cw_out := cw_out (snd (f (connection_world i cl)))\<rparr>"
  by (simp add: on_connection_def connection_world_def split_def Let_def)

lemma world_posts [simp]: "connection_world i (cl\<lparr>ck_posts := ps\<rparr>) = connection_world i cl"
  by (simp add: connection_world_def)

lemma connection_world_simps [simp]:
  "cw_id (connection_world i cl) = i" "cw_core (connection_world i cl) = ck_core cl"
  "cw_out (connection_world i cl) = ck_out cl"
  "cw_conn (connection_world i cl) = ck_connections cl ! i"
  by (simp_all add: connection_world_def)

lemma world_core:
  "connection_world i (cl\<lparr>ck_core := c\<rparr>) = (connection_world i cl)\<lparr>cw_core := c\<rparr>"
  by (simp add: connection_world_def)

text \<open>Every call the client makes of a connection is an event of that connection.\<close>

lemma calls_are_events:
  "conn_connect env w = client_step env Ev_connect w"
  "conn_close w = client_step env Ev_close w"
  "snd (conn_send_packet p w) = client_step env (Ev_send_packet p) w"
  "snd (conn_send_logout_request w) = client_step env Ev_send_logout_request w"
  "snd (conn_send_debug text w) = client_step env (Ev_send_debug text) w"
  by (simp_all add: client_step_def)

lemma run_connection_eq: "run_connection i f = (\<lambda>cl. snd (on_connection i (\<lambda>w. ((), f w)) cl))"
  by (rule ext) (simp add: run_connection_def)

locale connection_property =
  fixes W :: "cw \<Rightarrow> bool"
  assumes own: "W w \<Longrightarrow> W ((client_step env ev w)\<lparr>cw_id := cw_id w\<rparr>)"
    and others: "W w \<Longrightarrow> W w' \<Longrightarrow> cw_id w \<noteq> cw_id w' \<Longrightarrow> cw_core w = cw_core w' \<Longrightarrow>
      cw_out w = cw_out w' \<Longrightarrow>
      W (w\<lparr>cw_core := cw_core (client_step env ev w'), cw_out := cw_out (client_step env ev w')\<rparr>)"
    and starting: "W w \<Longrightarrow> W (w\<lparr>cw_core := (cw_core w)\<lparr>cl_started := b\<rparr>\<rparr>)"
begin

definition all_ok :: "client \<Rightarrow> bool" where
  "all_ok cl \<longleftrightarrow> (\<forall>i < length (ck_connections cl). W (connection_world i cl))"

lemma on_connection_ok:
  assumes ok: "all_ok cl" and i: "i < length (ck_connections cl)"
    and ev: "\<And>w. snd (f w) = client_step env ev w"
  shows "all_ok (snd (on_connection i f cl))"
  unfolding all_ok_def
proof (intro allI impI)
  fix j assume "j < length (ck_connections (snd (on_connection i f cl)))"
  then have j: "j < length (ck_connections cl)" by simp
  show "W (connection_world j (snd (on_connection i f cl)))"
  proof (cases "j = i")
    case True
    with i ok own [of "connection_world i cl" env ev] show ?thesis by (simp add: ev all_ok_def)
  next
    case False
    with ok i j show ?thesis
      by (simp add: world_other ev all_ok_def others)
  qed
qed

lemma run_connection_ok:
  "all_ok cl \<Longrightarrow> i < length (ck_connections cl) \<Longrightarrow> all_ok (run_connection i (client_step env ev) cl)"
  unfolding run_connection_def by (rule on_connection_ok) simp_all

lemma fold_ok:
  assumes "\<And>i cl. i < length (ck_connections cl) \<Longrightarrow> all_ok cl \<Longrightarrow>
      all_ok (f i cl) \<and> length (ck_connections (f i cl)) = length (ck_connections cl)"
    and "all_ok cl" and "\<forall>i \<in> set is. i < length (ck_connections cl)"
  shows "all_ok (fold f is cl) \<and> length (ck_connections (fold f is cl)) = length (ck_connections cl)"
  using assms(2,3) by (induction "is" arbitrary: cl) (use assms(1) in auto)

lemma posts_ok [simp]: "all_ok (cl\<lparr>ck_posts := ps\<rparr>) = all_ok cl"
  by (simp add: all_ok_def)

lemma starting_ok: "all_ok cl \<Longrightarrow> all_ok (cl\<lparr>ck_core := (ck_core cl)\<lparr>cl_started := b\<rparr>\<rparr>)"
  using starting [of "connection_world i cl" b for i] by (simp add: all_ok_def world_core)

lemma send_copies_ok:
  "all_ok cl \<Longrightarrow> \<forall>i \<in> set is. i < length (ck_connections cl) \<Longrightarrow>
   all_ok (snd (client_send_copies is p cl)) \<and>
   length (ck_connections (snd (client_send_copies is p cl))) = length (ck_connections cl)"
proof (induction "is" arbitrary: cl)
  case Nil
  then show ?case by simp
next
  case (Cons i "is")
  have "all_ok (snd (on_connection i (conn_send_packet (write_packet_clone p)) cl))"
    using Cons.prems by (intro on_connection_ok [OF _ _ calls_are_events(3)]) simp_all
  with Cons show ?case by (simp add: split_def Let_def)
qed

lemma send_packet_all_ok:
  assumes ok: "all_ok cl"
  shows "all_ok (snd (client_send_packet p cl))"
proof -
  let ?n = "length (ck_connections cl)"
  have send: "all_ok cl' \<Longrightarrow> length (ck_connections cl') = ?n \<Longrightarrow> i < ?n \<Longrightarrow>
      all_ok (snd (on_connection i (conn_send_packet q) cl'))" for i q cl'
    by (rule on_connection_ok [OF _ _ calls_are_events(3)]) simp_all
  have copies: "all_ok (snd (client_send_copies [0..<?n - 1] p cl)) \<and>
      length (ck_connections (snd (client_send_copies [0..<?n - 1] p cl))) = ?n"
    by (rule send_copies_ok [OF ok]) auto
  show ?thesis
    using ok copies
    by (auto simp: client_send_packet_def client_send_one_def client_send_two_def
        client_send_multiple_def split_def Let_def intro!: send)
qed

lemma fold_calls_ok:
  assumes ok: "all_ok cl" and ev: "\<And>i w. snd (f i w) = client_step (env i) (ev i) w"
    and n: "n = length (ck_connections cl)"
  shows "all_ok (fold (\<lambda>i cl. snd (on_connection i (f i) cl)) [0..<n] cl)"
proof -
  have "all_ok (snd (on_connection i (f i) cl'))" if "i < length (ck_connections cl')" "all_ok cl'" for i cl'
    using that(2,1) ev by (rule on_connection_ok)
  then have "all_ok (fold (\<lambda>i cl. snd (on_connection i (f i) cl)) [0..<n] cl) \<and>
     length (ck_connections (fold (\<lambda>i cl. snd (on_connection i (f i) cl)) [0..<n] cl)) =
       length (ck_connections cl)"
    by (intro fold_ok) (simp_all add: ok n)
  then show ?thesis ..
qed

lemma posted_ok:
  assumes ok: "all_ok cl"
  shows "all_ok (client_started_posted envs cl)" and "all_ok (client_stopped_posted cl)"
proof -
  show "all_ok (client_started_posted envs cl)"
    using ok fold_calls_ok [OF starting_ok [OF ok, of True],
        of "\<lambda>i w. ((), conn_connect (envs i) w)" envs "\<lambda>_. Ev_connect"]
    by (simp add: client_started_posted_def run_connection_eq calls_are_events(1))
  show "all_ok (client_stopped_posted cl)"
    using ok fold_calls_ok [OF starting_ok [OF ok, of False],
        of "\<lambda>i w. ((), conn_close w)" "\<lambda>_. quiet_env" "\<lambda>_. Ev_close"]
    by (simp add: client_stopped_posted_def run_connection_eq calls_are_events(2) [of _ quiet_env])
qed

theorem act_ok:
  assumes ok: "all_ok cl"
  shows "all_ok (client_act a cl)"
proof (cases a)
  case (At_connection i ev env)
  with ok show ?thesis by (simp add: run_connection_ok)
next
  case (Run_post envs)
  with ok posted_ok show ?thesis by (simp split: list.splits client_post.splits)
next
  case Call_start
  with ok show ?thesis by (simp add: client_start_def)
next
  case Call_stop
  with ok show ?thesis by (simp add: client_stop_def)
next
  case (Call_send data n)
  with ok show ?thesis by (simp add: client_send_message_def send_packet_all_ok split: option.splits)
next
  case (Call_send_message m)
  with ok send_packet_all_ok [OF ok, of "fst (release_packet m)"] show ?thesis
    by (auto simp: client_send_message_packet_def split: option.splits prod.splits if_splits)
next
  case Call_logout
  with ok fold_calls_ok [OF ok calls_are_events(4) [of _ quiet_env]] show ?thesis
    by (simp add: client_send_logout_request_def)
next
  case (Call_debug bs)
  with ok fold_calls_ok [OF ok calls_are_events(5) [of _ _ quiet_env]] show ?thesis
    by (simp add: client_send_debug_def)
qed

theorem acts_ok: "all_ok cl \<Longrightarrow> all_ok (client_acts as cl)"
  by (induction "as" arbitrary: cl) (simp_all add: act_ok)

end

text \<open>The connections stay the same.\<close>

lemma send_copies_length [simp]:
  "length (ck_connections (snd (client_send_copies is p cl))) = length (ck_connections cl)"
  by (induction "is" arbitrary: cl) (simp_all add: split_def Let_def)

lemma fold_length:
  "(\<And>i cl. length (ck_connections (f i cl)) = length (ck_connections cl)) \<Longrightarrow>
   length (ck_connections (fold f is cl)) = length (ck_connections cl)"
  by (induction "is" arbitrary: cl) simp_all

lemma send_packet_length [simp]:
  "length (ck_connections (snd (client_send_packet p cl))) = length (ck_connections cl)"
  by (simp add: client_send_packet_def client_send_one_def client_send_two_def
      client_send_multiple_def split_def Let_def)

lemma act_length: "length (ck_connections (client_act a cl)) = length (ck_connections cl)"
proof (cases a)
  case (Call_send_message m)
  then show ?thesis
    using send_packet_length [of "fst (release_packet m)" cl]
    by (auto simp: client_send_message_packet_def split: option.splits prod.splits if_splits
        simp del: send_packet_length)
qed (auto simp: run_connection_eq client_start_def client_stop_def client_send_message_def
      client_started_posted_def client_stopped_posted_def client_send_logout_request_def
      client_send_debug_def fold_length split: list.splits client_post.splits option.splits)

lemma acts_length: "length (ck_connections (client_acts as cl)) = length (ck_connections cl)"
  by (induction "as" arbitrary: cl) (simp_all add: act_length)

section \<open>The life cycle\<close>

lemma conn_ok_world [simp]:
  "conn_ok (w\<lparr>cw_core := c\<rparr>) = conn_ok w" "conn_ok (w\<lparr>cw_out := out\<rparr>) = conn_ok w"
  "conn_ok (w\<lparr>cw_id := i\<rparr>) = conn_ok w"
  by (simp_all add: conn_ok_def)

interpretation life: connection_property conn_ok
  by unfold_locales (simp_all add: conn_ok_step)

lemma fresh_conn_ok: "fresh_connection (cw_conn w) \<Longrightarrow> conn_ok w"
proof -
  assume "fresh_connection (cw_conn w)"
  then obtain ep h u p s where "cw_conn w = (client_connection_new ep h)
      \<lparr>cc_username := u, cc_password := p, cc_session := s\<rparr>"
    unfolding fresh_connection_def by blast
  then show ?thesis
    by (simp add: client_connection_new_def client_tcp_new_def conn_ok_def rt_ok_def
        reconnect_timer_new_def tcp_outstanding_def socket_new_def login_timer_new_def
        heartbeat_timer_new_def)
qed

lemma fresh_all_ok: "fresh_client cl \<Longrightarrow> life.all_ok cl"
  by (simp add: life.all_ok_def fresh_client_def list_all_length fresh_conn_ok)

end
