(* ===== verification/Client_Delivery.thy ===== *)
theory Client_Delivery
  imports Client_System
begin

text \<open>
  The sequenced data the client hands to its user, over all its connections: consecutive
  sequence numbers, each once, whatever arrives on whichever connection in whichever order.
  The invariant behind it is that no connection that could deliver is ahead of the client.
\<close>

section \<open>What has been delivered\<close>

fun delivered :: "(nat \<times> client_cb) list \<Rightarrow> (u64 \<times> bytes) list" where
  "delivered [] = []"
| "delivered ((i, Cb_sequenced_data n d) # out) = (n, d) # delivered out"
| "delivered (_ # out) = delivered out"

fun is_data :: "client_cb \<Rightarrow> bool" where
  "is_data (Cb_sequenced_data n d) = True"
| "is_data _ = False"

lemma delivered_data: "delivered (out @ [(i, Cb_sequenced_data n d)]) = delivered out @ [(n, d)]"
  by (induction out rule: delivered.induct) simp_all

lemma delivered_other: "\<not> is_data cb \<Longrightarrow> delivered (out @ [(i, cb)]) = delivered out"
  by (induction out rule: delivered.induct) (cases cb; simp)+

text \<open>Consecutive numbers, from \<open>s\<close> on.\<close>

definition numbered_from :: "u64 \<Rightarrow> (u64 \<times> bytes) list \<Rightarrow> bool" where
  "numbered_from s xs \<longleftrightarrow> map fst xs = map (\<lambda>k. s + of_nat k) [0..<length xs]"

lemma numbered_append:
  "numbered_from s (xs @ [(n, d)]) \<longleftrightarrow> numbered_from s xs \<and> n = s + of_nat (length xs)"
  by (auto simp: numbered_from_def)

lemma numbered_nil [simp]: "numbered_from s []"
  by (simp add: numbered_from_def)

text \<open>The largest \<^verbatim>\<open>uint64_t\<close> has not been used as a sequence number.\<close>

definition below_max :: "(nat \<times> client_cb) list \<Rightarrow> bool" where
  "below_max out \<longleftrightarrow> - 1 \<notin> fst ` set (delivered out)"

section \<open>The invariant\<close>

definition at_most_client :: "cw \<Rightarrow> bool" where
  "at_most_client w \<longleftrightarrow>
     (cs_state (ct_state (tcp w)) = Connected \<or> cs_state (ct_state (tcp w)) = Logged_in \<longrightarrow>
        cc_next_sequence_number (cw_conn w) \<le> cl_next_sequence_number (cw_core w))"

text \<open>\<open>n0\<close> is where the user asked to start, 0 for the current end of the stream; \<open>b\<close> is any
  number the client is already past.\<close>

definition in_sequence :: "u64 \<Rightarrow> u64 \<Rightarrow> cw \<Rightarrow> bool" where
  "in_sequence n0 b w \<longleftrightarrow> (below_max (cw_out w) \<longrightarrow>
     cl_asserts_ok (cw_core w) \<and> b \<le> cl_next_sequence_number (cw_core w) \<and>
     (let xs = delivered (cw_out w); next = cl_next_sequence_number (cw_core w) in
      if xs = [] then n0 \<noteq> 0 \<longrightarrow> next = n0
      else \<exists>s. numbered_from s xs \<and> next = s + of_nat (length xs) \<and> (n0 \<noteq> 0 \<longrightarrow> s = n0)))"

definition delivery_ok :: "u64 \<Rightarrow> u64 \<Rightarrow> cw \<Rightarrow> bool" where
  "delivery_ok n0 b w \<longleftrightarrow> in_sequence n0 b w \<and> (below_max (cw_out w) \<longrightarrow> at_most_client w)"

lemmas delivery_defs = delivery_ok_def in_sequence_def at_most_client_def

lemma delivery_emit [simp]:
  "\<not> is_data cb \<Longrightarrow> delivery_ok n0 b (emit cb w) = delivery_ok n0 b w"
  "\<not> is_data cb \<Longrightarrow> in_sequence n0 b (emit cb w) = in_sequence n0 b w"
  by (simp_all add: delivery_defs delivered_other below_max_def)

lemma delivery_upd [simp]:
  "(\<And>t. ct_state (f t) = ct_state t) \<Longrightarrow> delivery_ok n0 b (upd_tcp f w) = delivery_ok n0 b w"
  "in_sequence n0 b (upd_tcp f w) = in_sequence n0 b w"
  "(\<And>c. cc_next_sequence_number (g c) = cc_next_sequence_number c \<and>
      ct_state (cc_tcp (g c)) = ct_state (cc_tcp c)) \<Longrightarrow>
   delivery_ok n0 b (upd_conn g w) = delivery_ok n0 b w"
  "(\<And>c. cl_next_sequence_number (k c) = cl_next_sequence_number c \<and>
      cl_asserts_ok (k c) = cl_asserts_ok c) \<Longrightarrow>
   delivery_ok n0 b (upd_core k w) = delivery_ok n0 b w"
  by (simp_all add: delivery_defs)

lemma delivery_disconnect [simp]:
  "delivery_ok n0 b w \<Longrightarrow> delivery_ok n0 b (tcp_disconnect r w)"
  by (auto simp: delivery_defs tcp_disconnect_eq t_disconnect_def cs_disconnect_def Let_def)

lemma delivery_connect_success [simp]:
  "in_sequence n0 b w \<Longrightarrow> delivery_ok n0 b (snd (conn_on_connect_success w))"
  by (simp add: delivery_defs conn_on_connect_success_def Let_def)

lemma word_le_plus_one:
  assumes "(n :: u64) \<noteq> - 1" and "b \<le> n"
  shows "b \<le> n + 1"
proof -
  have "1 + n \<noteq> 0" using assms(1) by (metis add.commute eq_neg_iff_add_eq_0)
  then have "unat (n + 1) = Suc (unat n)" by (metis add.commute unatSuc)
  with assms(2) show ?thesis by (simp add: word_le_nat_alt)
qed

lemma below_max_data:
  "below_max (out @ [(i, Cb_sequenced_data n d)]) \<longleftrightarrow> below_max out \<and> n \<noteq> - 1"
  by (auto simp: below_max_def delivered_data)

text \<open>A sequenced packet on a connection that is logged in.\<close>

lemma delivery_sequenced_data:
  assumes ok: "delivery_ok n0 b w" and li: "cs_state (ct_state (tcp w)) = Logged_in"
  shows "delivery_ok n0 b (conn_on_sequenced_data d w)"
proof -
  let ?n = "cc_next_sequence_number (cw_conn w)" and ?c = "cl_next_sequence_number (cw_core w)"
  show ?thesis
  proof (cases "?n < ?c")
    case True
    have "?n + 1 \<le> ?c" using True by (simp add: inc_le)
    with True ok li show ?thesis
      by (simp add: delivery_defs conn_on_sequenced_data_def client_on_sequenced_data_def Let_def)
  next
    case False
    show ?thesis
    proof (cases "below_max (cw_out w) \<and> ?n \<noteq> - 1")
      case bm: False
      with False show ?thesis
        by (auto simp: delivery_defs conn_on_sequenced_data_def client_on_sequenced_data_def Let_def
            below_max_data)
    next
      case True
      with ok li have "?n \<le> ?c" by (simp add: delivery_defs)
      with False have eq: "?n = ?c" by simp
      have le: "b \<le> ?c + 1" using ok True eq by (simp add: delivery_defs word_le_plus_one)
      from True ok le eq show ?thesis
        by (auto simp: delivery_defs conn_on_sequenced_data_def client_on_sequenced_data_def Let_def
            below_max_data delivered_data numbered_append numbered_from_def [of _ "[_]"]
            split: if_splits)
    qed
  qed
qed

lemma numbered_last:
  assumes "numbered_from s xs" and "xs \<noteq> []"
  shows "s + of_nat (length xs) - 1 \<in> fst ` set xs"
proof -
  have "fst (last xs) = last (map fst xs)" using assms(2) by (simp add: last_map)
  also have "\<dots> = s + of_nat (length xs - 1)"
    using assms by (simp add: numbered_from_def last_map)
  also have "\<dots> = s + of_nat (length xs) - 1"
    using assms(2) by (cases xs) simp_all
  finally show ?thesis using assms(2) by (metis image_eqI last_in_set)
qed

lemma delivery_client_zero:
  assumes "in_sequence n0 b w" and "below_max (cw_out w)"
    and "cl_next_sequence_number (cw_core w) = 0"
  shows "delivered (cw_out w) = [] \<and> n0 = 0"
proof -
  have "delivered (cw_out w) = []"
  proof (rule ccontr)
    assume ne: "delivered (cw_out w) \<noteq> []"
    with assms obtain s where s: "numbered_from s (delivered (cw_out w))"
        "0 = s + of_nat (length (delivered (cw_out w)))"
      by (auto simp: in_sequence_def Let_def)
    from numbered_last [OF s(1) ne] assms(2) show False
      by (simp add: below_max_def flip: s(2))
  qed
  with assms show ?thesis by (auto simp: in_sequence_def Let_def)
qed

lemma delivery_login_success:
  assumes ok: "delivery_ok n0 b w" and st: "cs_state (ct_state (tcp w)) = Connected"
    and r: "la_next_sequence_number response \<noteq> 0"
  shows "delivery_ok n0 b (snd (conn_on_login_success response w))"
proof (cases "below_max (cw_out w)")
  case False
  then show ?thesis by (simp add: delivery_defs conn_on_login_success_def Let_def)
next
  case True
  let ?c = "cl_next_sequence_number (cw_core w)"
  let ?upd = "\<lambda>x. upd_conn (\<lambda>c. c\<lparr>cc_session := x,
      cc_next_sequence_number := la_next_sequence_number response, cc_reconnect_next_delay := 0\<rparr>)"
  have le: "cc_next_sequence_number (cw_conn w) \<le> ?c" and seq: "in_sequence n0 b w"
    using ok st True by (simp_all add: delivery_defs)
  have accept: "delivery_ok n0 b (?upd x w)" if "la_next_sequence_number response \<le> ?c" for x
    using seq that by (simp add: delivery_defs)
  have first: "delivery_ok n0 b (?upd x (upd_core (\<lambda>c. c\<lparr>cl_next_sequence_number :=
      la_next_sequence_number response\<rparr>) w))" if "?c = 0" for x
    using seq that delivery_client_zero [OF seq True that] True by (simp add: delivery_defs)
  show ?thesis
    using ok accept first le by (simp add: conn_on_login_success_def Let_def not_less)
qed

section \<open>Every event\<close>

text \<open>A connection whose state is left as it is, or goes from connected to logged in.\<close>

lemma delivery_logged_in:
  "cs_state (ct_state (tcp w)) = Connected \<Longrightarrow> (\<And>t. ct_state (f t) = set_state Logged_in (ct_state t)) \<Longrightarrow>
   delivery_ok n0 b (upd_tcp f w) = delivery_ok n0 b w"
  by (simp add: delivery_defs set_state_def)

lemma delivery_login_accepted:
  assumes ok: "delivery_ok n0 b w"
  shows "delivery_ok n0 b (snd (tcp_process_login_accepted env data sz w))"
proof (cases "cs_state (ct_state (tcp w)) = Connected \<and>
    la_next_sequence_number (read_login_accepted login_accepted_default data) \<noteq> 0")
  case False
  with ok show ?thesis by (simp add: tcp_process_login_accepted_def Let_def)
next
  case True
  let ?r = "read_login_accepted login_accepted_default data"
  let ?f = "\<lambda>t. t\<lparr>ct_state := set_state Logged_in (ct_state t)\<rparr>"
  let ?w1 = "upd_tcp (\<lambda>t. t\<lparr>ct_login_timer := login_timer_stop (ct_login_timer t)\<rparr>) w"
  have commute: "snd (conn_on_login_success ?r (upd_tcp ?f ?w1)) =
      upd_tcp ?f (snd (conn_on_login_success ?r ?w1))"
    by (simp add: conn_on_login_success_def Let_def upd_tcp_def upd_conn_def upd_core_def)
  have "delivery_ok n0 b (snd (conn_on_login_success ?r ?w1))"
    using ok True by (intro delivery_login_success) simp_all
  then have "delivery_ok n0 b (snd (conn_on_login_success ?r (upd_tcp ?f ?w1)))"
    unfolding commute using True by (subst delivery_logged_in) simp_all
  then show ?thesis
    by (simp add: tcp_process_login_accepted_def Let_def split_def heartbeat_timer_start_def
        heartbeat_timer_schedule_def tcp_heartbeat_handler_def tcp_heartbeat_timer_error_def
        tcp_handle_transport_error_def ok split: option.splits)
qed

lemma delivery_end_of_session [simp]:
  "delivery_ok n0 b w \<Longrightarrow> delivery_ok n0 b (conn_on_end_of_session w)"
  by (simp add: conn_on_end_of_session_def client_on_end_of_session_def)

lemma delivery_process_packet [simp]:
  "delivery_ok n0 b w \<Longrightarrow> delivery_ok n0 b (snd (tcp_process_packet env packet w))"
  by (simp add: tcp_process_packet_def Let_def tcp_process_debug_def delivery_login_accepted
      tcp_process_login_rejected_def tcp_process_sequenced_data_def delivery_sequenced_data
      tcp_process_server_heartbeat_def tcp_process_end_of_session_def tcp_increment_receive_count_def)

lemma delivery_read_success [simp]:
  "delivery_ok n0 b w \<Longrightarrow> delivery_ok n0 b (tcp_read_success env packet w)"
  by (simp add: tcp_read_success_def Let_def split_def tcp_handle_protocol_violation_def)

lemma delivery_in_sequence: "delivery_ok n0 b w \<Longrightarrow> in_sequence n0 b w"
  by (simp add: delivery_ok_def)

lemma delivery_tcp_connect_success [simp]:
  "in_sequence n0 b w \<Longrightarrow> delivery_ok n0 b (tcp_connect_success env w)"
  by (simp add: tcp_connect_success_def Let_def split_def login_timer_start_def
      tcp_login_handler_def tcp_login_timer_error_def tcp_handle_transport_error_def
      split: option.splits)

lemma delivery_on_closed [simp]:
  "delivery_ok n0 b w \<Longrightarrow> delivery_ok n0 b (conn_on_closed env r w)"
  by (simp add: conn_on_closed_def conn_schedule_reconnect_def reconnect_timer_start_def Let_def
      conn_reconnect_timer_error_def split: option.splits)

lemma delivery_signal_closed [simp]:
  "delivery_ok n0 b w \<Longrightarrow> delivery_ok n0 b (tcp_maybe_signal_closed env w)"
  by (simp add: tcp_maybe_signal_closed_def Let_def)

lemma delivery_socket:
  "delivery_ok n0 b w \<Longrightarrow>
   delivery_ok n0 b (socket_complete (tcp_socket_handler env) op ec n data w)"
  by (cases op)
     (simp_all add: socket_complete_def connect_done_def read_header_done_def
       read_payload_done_def write_done_def header_received_def payload_received_def
       packet_sent_def read_error_def post_closed_done_def tcp_closed_def Let_def split_def
       tcp_socket_callbacks delivery_in_sequence split: read_resize.splits)

lemma delivery_construct:
  "in_sequence n0 b w \<Longrightarrow> delivery_ok n0 b (tcp_construct env w)"
proof -
  assume seq: "in_sequence n0 b w"
  have "delivery_ok n0 b (upd_conn (\<lambda>c. c\<lparr>cc_engaged := True, cc_tcp := client_tcp_new\<rparr>) w)"
    using seq by (simp add: delivery_defs client_tcp_new_def connection_state_default_def)
  then show ?thesis
    by (simp add: tcp_construct_def Let_def split_def tcp_handle_connect_failure_def)
qed

lemma delivery_step:
  assumes ok: "delivery_ok n0 b w"
  shows "delivery_ok n0 b (client_step env ev w)"
proof (cases "client_event_enabled w ev")
  case False
  with ok show ?thesis by (simp add: client_step_def)
next
  case True
  have rec: "delivery_ok n0 b (tcp_construct env w')" if "delivery_ok n0 b w'" for w'
    using that by (simp add: delivery_construct delivery_in_sequence)
  have send: "delivery_ok n0 b (snd (tcp_send_packet p w))"
      "delivery_ok n0 b (snd (tcp_send_debug_packet bs w))" for p bs
    using ok by (simp_all add: tcp_send_packet_def tcp_send_debug_packet_def Let_def split_def)
  from True ok rec send show ?thesis
    by (cases ev) (simp_all add: client_step_def delivery_socket login_timer_wait_done_def
        login_timer_on_expiry_def tcp_login_handler_def tcp_login_timer_error_def
        tcp_login_timer_expired_def tcp_handle_transport_error_def login_timer_post_done_def
        tcp_login_timer_stopped_def heartbeat_timer_wait_done_def heartbeat_timer_on_expiry_def
        heartbeat_timer_schedule_def tcp_heartbeat_handler_def tcp_heartbeat_timer_error_def
        tcp_heartbeat_send_due_def tcp_heartbeat_receive_timeout_def heartbeat_timer_post_done_def
        tcp_heartbeat_timer_stopped_def reconnect_timer_wait_done_def reconnect_timer_on_expiry_def
        conn_reconnect_handler_def conn_reconnect_timer_error_def conn_reconnect_timer_expired_def
        conn_connect_def conn_close_def tcp_close_def conn_send_packet_def
        conn_send_logout_request_def conn_send_debug_def Let_def split: option.splits)
qed

section \<open>Every connection\<close>

lemma delivery_world [simp]:
  "delivery_ok n0 b (w\<lparr>cw_id := i\<rparr>) = delivery_ok n0 b w"
  "delivery_ok n0 b (w\<lparr>cw_core := (cw_core w)\<lparr>cl_started := s\<rparr>\<rparr>) = delivery_ok n0 b w"
  by (simp_all add: delivery_defs)

lemma delivery_others:
  assumes w: "delivery_ok n0 0 w" and w': "delivery_ok n0 0 w'"
    and core: "cw_core w = cw_core w'" and out: "cw_out w = cw_out w'"
  shows "delivery_ok n0 0 (w\<lparr>cw_core := cw_core (client_step env ev w'),
                            cw_out := cw_out (client_step env ev w')\<rparr>)"
proof -
  let ?v = "client_step env ev w'"
  have seq: "in_sequence n0 0 ?v" using delivery_step [OF w'] by (simp add: delivery_ok_def)
  have "cc_next_sequence_number (cw_conn w) \<le> cl_next_sequence_number (cw_core ?v)"
    if "cs_state (ct_state (tcp w)) = Connected \<or> cs_state (ct_state (tcp w)) = Logged_in"
      "below_max (cw_out ?v)"
  proof -
    have "delivery_ok n0 (cc_next_sequence_number (cw_conn w)) w'"
      using w w' that(1) by (simp add: delivery_defs core out)
    from delivery_step [OF this, of env ev] that(2) show ?thesis by (simp add: delivery_defs)
  qed
  with seq show ?thesis by (simp add: delivery_defs)
qed

interpretation delivery: connection_property "delivery_ok n0 0" for n0
  by unfold_locales (simp_all add: delivery_step delivery_others)

lemma fresh_delivery:
  assumes "fresh_client cl"
  shows "delivery.all_ok (cl_next_sequence_number (ck_core cl)) cl"
proof -
  have "delivery_ok (cl_next_sequence_number (ck_core cl)) 0 (connection_world i cl)"
    if "i < length (ck_connections cl)" for i
  proof -
    have "cs_state (ct_state (cc_tcp (ck_connections cl ! i))) = Connecting"
    proof -
      have "fresh_connection (ck_connections cl ! i)"
        using assms that by (simp add: fresh_client_def list_all_length)
      then obtain ep h u p s where "ck_connections cl ! i = (client_connection_new ep h)
          \<lparr>cc_username := u, cc_password := p, cc_session := s\<rparr>"
        unfolding fresh_connection_def by blast
      then show ?thesis
        by (simp add: client_connection_new_def client_tcp_new_def connection_state_default_def)
    qed
    with assms show ?thesis by (simp add: delivery_defs fresh_client_def)
  qed
  then show ?thesis by (simp add: delivery.all_ok_def)
qed

end
