(* ===== verification/Client_Demo.thy ===== *)
theory Client_Demo
  imports Client_Delivery
begin

text \<open>
  One run of a client with one connection, evaluated: it is started, connects, logs in and
  receives a sequenced packet.  The properties are applied to it.
\<close>

definition demo_endpoint :: endpoint where
  "demo_endpoint = (''10.0.0.1'', 4000)"

definition demo_client :: client where
  "demo_client = snd (client_add_connection demo_endpoint True (client_new True))"

lemma demo_fresh: "fresh_client demo_client"
  by (simp add: demo_client_def client_add_connection_def client_new_def fresh_client_def
      fresh_connection_def client_connection_new_def)

definition demo_start :: "client_action list" where
  "demo_start = [Call_start, Run_post (\<lambda>_. quiet_env)]"

text \<open>A packet arrives at the first connection.\<close>

definition on_wire :: "byte \<Rightarrow> bytes \<Rightarrow> client_action list" where
  "on_wire t pl =
    [At_connection 0 (Ev_socket Op_read_header no_error 0 (take packet_header_length (frame t pl))) quiet_env,
     At_connection 0 (Ev_socket Op_read_payload no_error 0 pl) quiet_env]"

definition demo_login :: "client_action list" where
  "demo_login = demo_start @ [At_connection 0 (Ev_socket Op_connect no_error 0 []) quiet_env] @
     on_wire login_accepted_type (write_login_accepted (login_accepted_packet_of ''S1'' 1))"

definition demo_data :: "client_action list" where
  "demo_data = demo_login @ on_wire sequenced_data_type ''hello''"

section \<open>Evaluation\<close>

text \<open>The definitions of the client; to be used with \<open>let_weak_cong\<close>, so that a state is
  computed before it is substituted.\<close>

lemmas client_eval =
  client_step_def run_connection_def on_connection_def connection_world_def client_start_def
  client_started_posted_def conn_connect_def tcp_construct_def socket_open_def
  socket_set_no_delay_def set_write_packets_limit_def socket_new_def client_connection_new_def
  client_tcp_new_def connection_state_default_def login_timer_new_def heartbeat_timer_new_def
  reconnect_timer_new_def quiet_env_def client_add_connection_def client_new_def
  conn_is_handler_set_def socket_async_connect_def asio_may_complete_def socket_complete_def
  connect_done_def tcp_socket_callbacks tcp_connect_success_def conn_on_connect_success_def
  login_timer_start_def tcp_login_handler_def socket_async_read_def read_header_def
  socket_async_write_def write_packet_start_def set_state_def socket_maybe_signal_closed_def
  is_idle_def read_header_done_def header_received_def read_payload_done_def payload_received_def
  tcp_read_success_def tcp_process_packet_def tcp_process_login_accepted_def packet_type_defs
  payload_size_defs length_defs conn_on_login_success_def heartbeat_timer_start_def heartbeat_timer_schedule_def
  tcp_heartbeat_handler_def is_closing_def login_timer_stop_def login_timer_maybe_signal_stopped_def
  tcp_process_sequenced_data_def conn_on_sequenced_data_def client_on_sequenced_data_def
  tcp_increment_receive_count_def increment_receive_count_def read_payload_def
  Let_def emit_def upd_conn_def upd_core_def upd_tcp_def

lemma demo_started: "client_acts demo_start demo_client =
  demo_client\<lparr>ck_core := (ck_core demo_client)\<lparr>cl_started := True\<rparr>,
    ck_connections := [(client_connection_new demo_endpoint True)
      \<lparr>cc_engaged := True, cc_tcp := client_tcp_new
         \<lparr>ct_socket := (socket_new True)\<lparr>sk_connect_pending := True, sk_ops := [Op_connect]\<rparr>\<rparr>\<rparr>],
    ck_out := [(0, Cb_connecting demo_endpoint)]\<rparr>"
  by (simp add: demo_start_def demo_client_def client_eval cong: let_weak_cong)

lemma acts_append: "client_acts (as @ bs) cl = client_acts bs (client_acts as cl)"
  by (induction "as" arbitrary: cl) simp_all

lemma no_error_aborted [simp]: "no_error \<noteq> operation_aborted"
  by (simp add: no_error_def operation_aborted_def error_code_of_def ECANCELED_def)

text \<open>After the connection attempt.\<close>

definition demo_request :: write_packet where
  "demo_request = wp_write_payload (write_login_request (login_request_packet_of [] [] [] 1))
     (write_packet_sized login_request_type (of_nat login_request_size))"

definition demo_connected :: client where
  "demo_connected = demo_client\<lparr>ck_core := (ck_core demo_client)\<lparr>cl_started := True\<rparr>,
    ck_connections := [(client_connection_new demo_endpoint True)
      \<lparr>cc_engaged := True, cc_tcp := client_tcp_new
         \<lparr>ct_socket := (socket_new True)\<lparr>sk_write_packets := [demo_request], sk_read_pending := True,
            sk_write_pending := True, sk_ops := [Op_read_header, Op_write (wp_wire demo_request)]\<rparr>,
          ct_state := connection_state_of Connected,
          ct_login_timer := (login_timer_new login_response_timeout)
            \<lparr>lt_started := True, lt_wait_pending := True, lt_waits := 1\<rparr>,
          ct_login_timer_stopped := False\<rparr>\<rparr>],
    ck_out := [(0, Cb_connecting demo_endpoint), (0, Cb_connect_success ([], 0) ([], 0)),
      (0, Cb_logging_in (login_request_packet_of [] [] [] 1))]\<rparr>"

lemma demo_connects:
  "client_act (At_connection 0 (Ev_socket Op_connect no_error 0 []) quiet_env)
     (client_acts demo_start demo_client) = demo_connected"
  unfolding demo_started
  by (simp add: demo_client_def client_eval demo_connected_def demo_request_def
      connection_state_of_def cong: let_weak_cong)

text \<open>A packet that arrives is handed to \<open>tcp_read_success\<close>.\<close>

lemma rebuild_world:
  "\<lparr>cw_core = cw_core w, cw_conn = cw_conn w, cw_id = i, cw_out = cw_out w\<rparr> = w\<lparr>cw_id := i\<rparr>"
  by simp

lemma length_run [simp]: "length (ck_connections (run_connection i f cl)) = length (ck_connections cl)"
  by (simp add: run_connection_def)

lemma packet_arrives:
  assumes len: "ck_connections cl = [c]" and core: "sock_core (ct_socket (cc_tcp c))"
    and op: "Op_read_header \<in> set (sk_ops (ct_socket (cc_tcp c)))"
    and hdr: "length (rp_header (sk_read_packet (ct_socket (cc_tcp c)))) = packet_header_length"
    and pl: "length pl \<le> max_payload" "pl \<noteq> []"
  shows "client_acts (on_wire t pl) cl =
    run_connection 0 (\<lambda>w. upd_tcp (\<lambda>t. t\<lparr>ct_socket := socket_maybe_signal_closed (ct_socket t)\<rparr>)
      (tcp_read_success quiet_env (received t pl)
        (upd_tcp (\<lambda>t. t\<lparr>ct_socket := packet_taken (ct_socket t)\<rparr>) w))) cl"
proof -
  let ?h = "tcp_socket_handler quiet_env" and ?hd = "take packet_header_length (frame t pl)"
  let ?w = "connection_world 0 cl"
  have run2: "run_connection 0 g (run_connection 0 f cl) = run_connection 0 (\<lambda>w. g ((f w)\<lparr>cw_id := 0\<rparr>)) cl"
    for f g
    by (simp add: run_connection_def on_connection_def connection_world_def len rebuild_world)
  have cong: "f ?w = g ?w \<Longrightarrow> run_connection 0 f cl = run_connection 0 g cl" for f g
    by (simp add: run_connection_def on_connection_def)
  have sock: "ct_socket (tcp ?w) = ct_socket (cc_tcp c)"
    by (simp add: connection_world_def len)
  note step = client_socket.packet_received [where s = ?w and env = quiet_env and pl = pl and t = t, unfolded sh_socket_eq lens_upd_tcp sock,
      OF core op hdr pl]
  have head: "client_step quiet_env (Ev_socket Op_read_header no_error 0 ?hd) ?w =
      read_header_done ?h no_error ?hd ?w"
    using op by (simp add: client_step_def asio_may_complete_def socket_complete_def sh_socket_eq sock len)
  note ann = client_socket.payload_announced [where s = ?w and env = quiet_env and pl = pl and t = t, unfolded sh_socket_eq lens_upd_tcp sock,
      OF hdr pl]
  have payload: "client_step quiet_env (Ev_socket Op_read_payload no_error 0 pl)
        (read_header_done ?h no_error ?hd ?w) =
      read_payload_done ?h no_error pl (read_header_done ?h no_error ?hd ?w)"
    unfolding ann by (simp add: client_step_def asio_may_complete_def socket_complete_def sh_socket_eq sock len)
  have id: "(read_header_done ?h no_error ?hd ?w)\<lparr>cw_id := 0\<rparr> = read_header_done ?h no_error ?hd ?w"
    unfolding ann by (simp add: upd_tcp_def connection_world_def)
  show ?thesis
    unfolding on_wire_def
    by (simp add: len run_connection_eq [symmetric] run2 length_run) (rule cong,
        simp only: head id payload step, simp add: tcp_socket_handler_def)
qed

definition demo_online :: client where
  "demo_online = demo_connected\<lparr>
    ck_connections := [(client_connection_new demo_endpoint True)
      \<lparr>cc_session := ''S1'', cc_engaged := True, cc_tcp := client_tcp_new
         \<lparr>ct_socket := (socket_new True)\<lparr>sk_write_packets := [demo_request], sk_read_pending := True,
            sk_write_pending := True, sk_ops := [Op_write (wp_wire demo_request), Op_read_header]\<rparr>,
          ct_state := connection_state_of Logged_in,
          ct_login_timer := (login_timer_new login_response_timeout)
            \<lparr>lt_wait_pending := True, lt_waits := 1\<rparr>,
          ct_heartbeat_timer := (heartbeat_timer_new server_heartbeat_timeout)
            \<lparr>hb_expiry := heartbeat_period, hb_started := True, hb_wait_pending := True, hb_waits := 1\<rparr>,
          ct_login_timer_stopped := False, ct_heartbeat_timer_stopped := False\<rparr>\<rparr>],
    ck_out := ck_out demo_connected @ [(0, Cb_login_success (login_accepted_packet_of ''S1'' 1))]\<rparr>"

lemma demo_payload:
  "write_login_accepted (login_accepted_packet_of ''S1'' 1) = ''        S1                   1''"
  by code_simp

lemma demo_response:
  "read_login_accepted login_accepted_default ''        S1                   1'' =
     login_accepted_packet_of ''S1'' 1"
  by code_simp

lemma demo_sock_core: "sock_core ((socket_new True)\<lparr>sk_write_packets := [demo_request],
     sk_read_pending := True, sk_write_pending := True,
     sk_ops := [Op_read_header, Op_write (wp_wire demo_request)]\<rparr>)"
  "sock_core ((socket_new True)\<lparr>sk_write_packets := [demo_request],
     sk_read_pending := True, sk_write_pending := True,
     sk_ops := [Op_write (wp_wire demo_request), Op_read_header]\<rparr>)"
  by (simp_all add: sock_core_def n_ops_def is_idle_def socket_new_def)

lemma demo_connected_conn:
  "ck_connections demo_connected = [(client_connection_new demo_endpoint True)
      \<lparr>cc_engaged := True, cc_tcp := client_tcp_new
         \<lparr>ct_socket := (socket_new True)\<lparr>sk_write_packets := [demo_request], sk_read_pending := True,
            sk_write_pending := True, sk_ops := [Op_read_header, Op_write (wp_wire demo_request)]\<rparr>,
          ct_state := connection_state_of Connected,
          ct_login_timer := (login_timer_new login_response_timeout)
            \<lparr>lt_started := True, lt_wait_pending := True, lt_waits := 1\<rparr>,
          ct_login_timer_stopped := False\<rparr>\<rparr>]"
  by (simp add: demo_connected_def)

lemma demo_header: "length (rp_header (sk_read_packet (socket_new b))) = packet_header_length"
  by (simp add: socket_new_def read_packet_new_def)

lemma demo_logs_in:
  "client_acts (on_wire login_accepted_type ''        S1                   1'') demo_connected = demo_online"
proof -
  have "client_acts (on_wire login_accepted_type ''        S1                   1'') demo_connected =
    run_connection 0 (\<lambda>w. upd_tcp (\<lambda>t. t\<lparr>ct_socket := socket_maybe_signal_closed (ct_socket t)\<rparr>)
      (tcp_read_success quiet_env (received login_accepted_type ''        S1                   1'')
        (upd_tcp (\<lambda>t. t\<lparr>ct_socket := packet_taken (ct_socket t)\<rparr>) w))) demo_connected"
    by (rule packet_arrives [OF demo_connected_conn])
       (simp add: demo_sock_core, simp, simp add: demo_header, simp add: max_payload_def, simp)
  also have "\<dots> = demo_online"
    by (simp add: demo_online_def demo_connected_def client_eval demo_response packet_taken_def
        login_accepted_packet_of_def connection_state_of_def read_packet_new_def cong: let_weak_cong)
  finally show ?thesis .
qed

lemma demo_receives:
  "client_acts (on_wire sequenced_data_type ''hello'') demo_online =
     run_connection 0 (\<lambda>w. upd_tcp (\<lambda>t. t\<lparr>ct_socket := socket_maybe_signal_closed (ct_socket t)\<rparr>)
      (tcp_read_success quiet_env (received sequenced_data_type ''hello'')
        (upd_tcp (\<lambda>t. t\<lparr>ct_socket := packet_taken (ct_socket t)\<rparr>) w))) demo_online"
  by (rule packet_arrives, simp add: demo_online_def)
     (simp add: demo_sock_core, simp, simp add: demo_header, simp add: max_payload_def, simp)

lemma demo_data_acts:
  "client_acts demo_data demo_client = client_acts (on_wire sequenced_data_type ''hello'') demo_online"
proof -
  have one: "client_acts [a] cl = client_act a cl" for a cl by simp
  show ?thesis
    unfolding demo_data_def demo_login_def acts_append one demo_connects demo_payload demo_logs_in ..
qed

lemma demo_delivers:
  "ck_out (client_acts (on_wire sequenced_data_type ''hello'') demo_online) =
     ck_out demo_online @ [(0, Cb_sequenced_data 1 ''hello'')]"
  unfolding demo_receives
  by (simp add: demo_online_def demo_connected_def demo_client_def client_eval packet_taken_def
      connection_state_of_def cong: let_weak_cong)

lemma demo_out:
  "ck_out (client_acts demo_data demo_client) =
    [(0, Cb_connecting demo_endpoint), (0, Cb_connect_success ([], 0) ([], 0)),
     (0, Cb_logging_in (login_request_packet_of [] [] [] 1)),
     (0, Cb_login_success (login_accepted_packet_of ''S1'' 1)), (0, Cb_sequenced_data 1 ''hello'')]"
  unfolding demo_data_acts demo_delivers by (simp add: demo_online_def demo_connected_def)

end
