(* ===== verification/Client_Properties.thy ===== *)
theory Client_Properties
  imports Client_Demo
begin

text \<open>
  What the client promises its user.
\<close>

section \<open>Objects\<close>

text \<open>C1 The TCP connection object of a connection exists exactly as long as something it has
  started can still call it: an operation of its socket, a wait of one of its timers, or
  a posted notification.  So no completion handler ever runs on a destroyed object, and no
  object is left behind with nothing that could ever end it; whatever errors, data and
  completions arrive, and whatever the user calls.\<close>

theorem client_object_lifetime:
  assumes "fresh_client cl"
  shows "list_all (\<lambda>c. cc_engaged c = tcp_outstanding (cc_tcp c))
           (ck_connections (client_acts as cl))"
proof -
  have "life.all_ok (client_acts as cl)"
    using assms by (intro life.acts_ok fresh_all_ok)
  then show ?thesis
    unfolding list_all_length life.all_ok_def conn_ok_def
    using unfinished_outstanding by (auto split: if_splits)
qed

theorem client_object_lifetime_witness:
  "list_all (\<lambda>c. cc_engaged c = tcp_outstanding (cc_tcp c))
     (ck_connections (client_acts demo_start demo_client))"
  by (rule client_object_lifetime) (rule demo_fresh)

section \<open>Sequenced data\<close>

text \<open>C3 The sequenced data a client hands to its user, over all its connections and
  reconnections, has consecutive sequence numbers, each once: it begins at the number the
  client was set to (or, when that is 0, at the number the first server answered), and the
  client's next number is the one after the last; the assertion in
  \<^verbatim>\<open>Client::on_sequenced_data\<close> holds.  The largest 64-bit number must not be used.\<close>

theorem client_delivers_in_sequence:
  assumes fresh: "fresh_client cl" and conn: "ck_connections cl \<noteq> []"
    and result: "cl' = client_acts as cl"
    and used: "below_max (ck_out cl')" and some: "delivered (ck_out cl') \<noteq> []"
  shows "\<exists>s. map fst (delivered (ck_out cl')) = map (\<lambda>k. s + of_nat k) [0..<length (delivered (ck_out cl'))]
     \<and> cl_next_sequence_number (ck_core cl') = s + of_nat (length (delivered (ck_out cl')))
     \<and> (cl_next_sequence_number (ck_core cl) \<noteq> 0 \<longrightarrow> s = cl_next_sequence_number (ck_core cl))
     \<and> cl_asserts_ok (ck_core cl')"
proof -
  have ok: "delivery.all_ok (cl_next_sequence_number (ck_core cl)) cl'"
    unfolding result by (intro delivery.acts_ok fresh_delivery fresh)
  have "length (ck_connections cl') = length (ck_connections cl)"
    unfolding result by (rule acts_length)
  with conn have "0 < length (ck_connections cl')" by simp
  with ok have "delivery_ok (cl_next_sequence_number (ck_core cl)) 0 (connection_world 0 cl')"
    by (simp only: delivery.all_ok_def)
  with used some show ?thesis
    by (auto simp: delivery_defs numbered_from_def Let_def)
qed

theorem client_delivers_in_sequence_witness:
  "\<exists>s. map fst (delivered (ck_out (client_acts demo_data demo_client))) = [s]
     \<and> cl_next_sequence_number (ck_core (client_acts demo_data demo_client)) = s + 1"
proof -
  have "ck_connections demo_client \<noteq> []"
    by (simp add: demo_client_def client_add_connection_def client_new_def)
  moreover have "below_max (ck_out (client_acts demo_data demo_client))"
    by (simp add: demo_out below_max_def)
  moreover have "delivered (ck_out (client_acts demo_data demo_client)) \<noteq> []"
    by (simp add: demo_out)
  ultimately show ?thesis
    using client_delivers_in_sequence [OF demo_fresh _ refl, of demo_data] by (auto simp: demo_out)
qed

end
