(* ===== verification/Listener.thy ===== *)
theory Listener
  imports Lens Types Socket
begin

text \<open>
  \<^verbatim>\<open>socket_acceptor.h\<close>/\<^verbatim>\<open>.cpp\<close>: the listening socket.  \<open>sa_open\<close> is
  \<^verbatim>\<open>acceptor_.is_open()\<close>, \<open>sa_socket\<close> says whether the member \<^verbatim>\<open>socket_\<close> is engaged,
  and \<open>sa_accepts\<close>, which the code cannot see, counts the accepts that Asio has not
  completed.  The error of every call to Asio is an argument.
\<close>

record socket_acceptor =
  sa_open :: bool
  sa_socket :: bool
  sa_accepts :: nat

record 's listen_handler =
  ash_acceptor :: "('s, socket_acceptor) lens"
  ash_accept_failure :: "error_code \<Rightarrow> 's \<Rightarrow> 's"
  ash_accept_success :: "'s \<Rightarrow> 's"

definition socket_acceptor_new :: socket_acceptor where
  "socket_acceptor_new = \<lparr>sa_open = False, sa_socket = False, sa_accepts = 0\<rparr>"

definition acceptor_open :: "error_code \<Rightarrow> socket_acceptor \<Rightarrow> error_code \<times> socket_acceptor" where
  "acceptor_open ec a = (ec, if ec_set ec then a else a\<lparr>sa_open := True\<rparr>)"

definition acceptor_set_reuse_address :: "error_code \<Rightarrow> socket_acceptor \<Rightarrow> error_code" where
  "acceptor_set_reuse_address ec a = ec"

definition acceptor_set_no_delay :: "error_code \<Rightarrow> socket_acceptor \<Rightarrow> error_code" where
  "acceptor_set_no_delay ec a = ec"

definition acceptor_bind :: "error_code \<Rightarrow> endpoint \<Rightarrow> socket_acceptor \<Rightarrow> error_code" where
  "acceptor_bind ec ep a = ec"

definition acceptor_listen :: "error_code \<Rightarrow> socket_acceptor \<Rightarrow> error_code" where
  "acceptor_listen ec a = ec"

definition acceptor_close :: "socket_acceptor \<Rightarrow> socket_acceptor" where
  "acceptor_close a = (if sa_open a then a\<lparr>sa_open := False\<rparr> else a)"

text \<open>Nothing tests whether the acceptor is still open.\<close>

definition acceptor_async_accept :: "socket_acceptor \<Rightarrow> socket_acceptor" where
  "acceptor_async_accept a = a\<lparr>sa_socket := True, sa_accepts := sa_accepts a + 1\<rparr>"

definition accept_done :: "'s listen_handler \<Rightarrow> error_code \<Rightarrow> 's \<Rightarrow> 's" where
  \<comment> \<open>the completion handler of \<open>async_accept\<close>\<close>
  "accept_done h ec s =
    (let s = lens_upd (ash_acceptor h) (\<lambda>a. a\<lparr>sa_accepts := sa_accepts a - 1\<rparr>) s
     in if ec_set ec
        then (if ec \<noteq> operation_aborted then ash_accept_failure h ec s else s)
        else ash_accept_success h s)"

definition acceptor_local_endpoint ::
    "error_code \<Rightarrow> endpoint \<Rightarrow> socket_acceptor \<Rightarrow> error_code \<times> endpoint" where
  "acceptor_local_endpoint ec ep a = (ec, if ec_set ec then endpoint_default else ep)"

lemmas acceptor_socket_defs =
  acceptor_open_def acceptor_set_reuse_address_def acceptor_set_no_delay_def acceptor_bind_def
  acceptor_listen_def acceptor_close_def acceptor_async_accept_def

end
