(* ===== verification/Server_Types.thy ===== *)
theory Server_Types
  imports Expected Validate Tcp_Object Listener
begin

text \<open>
  The state of the server side: the members of \<^verbatim>\<open>server::Tcp_connection\<close>,
  \<^verbatim>\<open>server::Port\<close> and \<^verbatim>\<open>server::Acceptor\<close>, and the calls the library makes to its user.

  Pointers are numbers.  A port is its position in \<^verbatim>\<open>ports_\<close>, which only grows.  A TCP
  connection is the number it got when it was accepted: \<open>ac_objects\<close> is the memory of all of
  them, \<open>ac_connections\<close> (\<^verbatim>\<open>connections_\<close>) lists those that exist.  What a destroyed
  object had left stays in \<open>ac_objects\<close>, so that a completion handler or a port that still
  points to it is visible.  A handler of the user is a number too; \<open>None\<close> is a null pointer.

  A call to a handler is recorded in \<open>ac_out\<close>, with the connection it is made for, if any;
  it does not call back into the library.  \<open>ac_defined\<close> becomes false when the code
  calls a handler through a null pointer or an assertion fails.
\<close>

section \<open>Calls to the user's handlers\<close>

datatype server_cb =
    Sc_listen_setup_failure error_code string
  | Sc_listen_setup_success endpoint
  | Sc_accept_failure error_code
  | Sc_accept_success endpoint endpoint
  | Sc_login_request login_request_packet
  | Sc_login_failure login_reject_reason
  | Sc_login_success login_accepted_packet
  | Sc_unsequenced_data bytes
  | Sc_logout_request
  | Sc_write_buffer_empty
  | Sc_debug bytes
  | Sc_transport_error error_code string
  | Sc_protocol_violation packet_error
  | Sc_disconnect disconnect_reason

datatype server_handler = Acceptor_handler nat | Port_handler nat

section \<open>State\<close>

record port =
  po_handler :: "nat option"
  po_username :: bytes
  po_password :: bytes
  po_next_sequence_number :: u64
  po_has_session_ended :: bool
  po_connection :: "nat option"

text \<open>\<^verbatim>\<open>server::Tcp_connection\<close>: what it shares with the client's class is a
  \<open>tcp_object\<close>.\<close>

record server_tcp =
  st_acceptor_handler :: nat
  st_port :: "nat option"
  st_handler :: "nat option"
  st_tcp :: tcp_object

record sw =
  ac_handler :: "nat option"
  ac_endpoint :: endpoint
  ac_acceptor :: socket_acceptor
  ac_ports :: "port list"
  ac_write_packets_limit :: nat
  ac_debug_banner :: bytes
  ac_connections :: "nat list"
  ac_objects :: "nat \<Rightarrow> server_tcp"
  ac_next :: nat
  ac_out :: "(nat option \<times> server_handler \<times> server_cb) list"
  ac_defined :: bool

text \<open>What Asio and the operating system answer during one step, and what
  \<^verbatim>\<open>server_->session()\<close> is.\<close>

record server_env =
  se_session :: bytes
  se_open :: error_code
  se_reuse_address :: error_code
  se_no_delay :: error_code
  se_bind :: error_code
  se_listen :: error_code
  se_local :: endpoint
  se_remote :: endpoint
  se_now :: nat
  se_login_throws :: "error_code option"
  se_heartbeat_throws :: "error_code option"
  se_heartbeat_throws' :: "error_code option"

text \<open>Nothing fails.\<close>

definition quiet_server_env :: "bytes \<Rightarrow> server_env" where
  "quiet_server_env session = \<lparr>se_session = session, se_open = no_error,
     se_reuse_address = no_error, se_no_delay = no_error, se_bind = no_error,
     se_listen = no_error, se_local = ([], 0), se_remote = ([], 0), se_now = 0,
     se_login_throws = None, se_heartbeat_throws = None, se_heartbeat_throws' = None\<rparr>"

section \<open>Access\<close>

definition sv_emit :: "nat option \<Rightarrow> server_handler \<Rightarrow> server_cb \<Rightarrow> sw \<Rightarrow> sw" where
  "sv_emit c h cb w = w\<lparr>ac_out := ac_out w @ [(c, h, cb)]\<rparr>"

definition undefined_behaviour :: "sw \<Rightarrow> sw" where
  "undefined_behaviour w = w\<lparr>ac_defined := False\<rparr>"

definition upd_object :: "nat \<Rightarrow> (server_tcp \<Rightarrow> server_tcp) \<Rightarrow> sw \<Rightarrow> sw" where
  "upd_object c f w = w\<lparr>ac_objects := (ac_objects w)(c := f (ac_objects w c))\<rparr>"

abbreviation stcp :: "nat \<Rightarrow> sw \<Rightarrow> tcp_object" where
  "stcp c w \<equiv> st_tcp (ac_objects w c)"

definition upd_stcp :: "nat \<Rightarrow> (tcp_object \<Rightarrow> tcp_object) \<Rightarrow> sw \<Rightarrow> sw" where
  "upd_stcp c f = upd_object c (\<lambda>o'. o'\<lparr>st_tcp := f (st_tcp o')\<rparr>)"

definition upd_port :: "nat \<Rightarrow> (port \<Rightarrow> port) \<Rightarrow> sw \<Rightarrow> sw" where
  "upd_port p f w = w\<lparr>ac_ports := (ac_ports w)[p := f (ac_ports w ! p)]\<rparr>"

text \<open>Calls through the handler pointers: \<^verbatim>\<open>handler_\<close> of the acceptor, \<^verbatim>\<open>handler_\<close> of a
  TCP connection without a test, and with the test that falls back to
  \<^verbatim>\<open>acceptor_handler_\<close>.\<close>

definition acceptor_call :: "nat option \<Rightarrow> server_cb \<Rightarrow> sw \<Rightarrow> sw" where
  "acceptor_call c cb w = (case ac_handler w of
     None \<Rightarrow> undefined_behaviour w
   | Some h \<Rightarrow> sv_emit c (Acceptor_handler h) cb w)"

definition port_call :: "nat \<Rightarrow> server_cb \<Rightarrow> sw \<Rightarrow> sw" where
  "port_call c cb w = (case st_handler (ac_objects w c) of
     None \<Rightarrow> undefined_behaviour w
   | Some h \<Rightarrow> sv_emit (Some c) (Port_handler h) cb w)"

definition acceptor_handler_call :: "nat \<Rightarrow> server_cb \<Rightarrow> sw \<Rightarrow> sw" where
  "acceptor_handler_call c cb w =
     sv_emit (Some c) (Acceptor_handler (st_acceptor_handler (ac_objects w c))) cb w"

definition handler_call :: "nat \<Rightarrow> server_cb \<Rightarrow> sw \<Rightarrow> sw" where
  "handler_call c cb w =
    (if st_handler (ac_objects w c) \<noteq> None then port_call c cb w
     else acceptor_handler_call c cb w)"

definition stcp_socket_lens :: "nat \<Rightarrow> (sw, socket) lens" where
  "stcp_socket_lens c = \<lparr>lens_get = \<lambda>w. ct_socket (stcp c w),
     lens_put = \<lambda>k. upd_stcp c (\<lambda>t. t\<lparr>ct_socket := k\<rparr>)\<rparr>"

definition stcp_login_lens :: "nat \<Rightarrow> (sw, login_timer) lens" where
  "stcp_login_lens c = \<lparr>lens_get = \<lambda>w. ct_login_timer (stcp c w),
     lens_put = \<lambda>t'. upd_stcp c (\<lambda>t. t\<lparr>ct_login_timer := t'\<rparr>)\<rparr>"

definition stcp_heartbeat_lens :: "nat \<Rightarrow> (sw, heartbeat_timer) lens" where
  "stcp_heartbeat_lens c = \<lparr>lens_get = \<lambda>w. ct_heartbeat_timer (stcp c w),
     lens_put = \<lambda>t'. upd_stcp c (\<lambda>t. t\<lparr>ct_heartbeat_timer := t'\<rparr>)\<rparr>"

definition acceptor_lens :: "(sw, socket_acceptor) lens" where
  "acceptor_lens = \<lparr>lens_get = ac_acceptor, lens_put = \<lambda>a w. w\<lparr>ac_acceptor := a\<rparr>\<rparr>"

lemmas server_lens_defs =
  stcp_socket_lens_def stcp_login_lens_def stcp_heartbeat_lens_def acceptor_lens_def

lemmas server_upd_defs = sv_emit_def undefined_behaviour_def upd_object_def upd_stcp_def upd_port_def

interpretation server_socket_part: sub_object "stcp_socket_lens c" for c
  by unfold_locales (simp_all add: server_lens_defs server_upd_defs)

interpretation server_login_part: sub_object "stcp_login_lens c" for c
  by unfold_locales (simp_all add: server_lens_defs server_upd_defs)

interpretation server_heartbeat_part: sub_object "stcp_heartbeat_lens c" for c
  by unfold_locales (simp_all add: server_lens_defs server_upd_defs)

interpretation acceptor_part: sub_object acceptor_lens
  by unfold_locales (simp_all add: server_lens_defs)

end
