(* ===== verification/Server_Tcp.thy ===== *)
theory Server_Tcp
  imports Server_Types
begin

text \<open>
  \<^verbatim>\<open>server::Tcp_connection\<close> (\<^verbatim>\<open>server/tcp_connection.h\<close>/\<^verbatim>\<open>.cpp\<close>), with what it calls
  of \<^verbatim>\<open>server::Port\<close> and \<^verbatim>\<open>server::Acceptor\<close>: \<^verbatim>\<open>on_login_request\<close> and \<^verbatim>\<open>on_closed\<close> of
  both.  Every function takes the number \<open>c\<close> of the object it is called on.
\<close>

section \<open>Ending a connection\<close>

definition stcp_disconnect :: "nat \<Rightarrow> disconnect_reason \<Rightarrow> sw \<Rightarrow> sw" where
  "stcp_disconnect c reason w =
    (let (state_changed, st) = cs_disconnect reason (ct_state (stcp c w));
         w = upd_stcp c (\<lambda>t. t\<lparr>ct_state := st\<rparr>) w
     in if \<not> state_changed then w
        else
          (let w = lens_upd (stcp_socket_lens c) socket_close w;
               w = lens_upd (stcp_login_lens c) login_timer_stop w
           in lens_upd (stcp_heartbeat_lens c) heartbeat_timer_stop w))"

definition stcp_prepare_graceful_disconnect :: "nat \<Rightarrow> disconnect_reason \<Rightarrow> sw \<Rightarrow> sw" where
  "stcp_prepare_graceful_disconnect c reason w =
     upd_stcp c (\<lambda>t. t\<lparr>ct_state := snd (initiate_disconnect reason (ct_state t))\<rparr>) w"

definition stcp_handle_transport_error :: "nat \<Rightarrow> error_code \<Rightarrow> string \<Rightarrow> sw \<Rightarrow> sw" where
  "stcp_handle_transport_error c ec operation w =
     stcp_disconnect c DR_transport_error (handler_call c (Sc_transport_error ec operation) w)"

definition stcp_handle_protocol_violation :: "nat \<Rightarrow> packet_error \<Rightarrow> sw \<Rightarrow> sw" where
  "stcp_handle_protocol_violation c error w =
     stcp_disconnect c DR_protocol_violation (handler_call c (Sc_protocol_violation error) w)"

definition stcp_close :: "nat \<Rightarrow> sw \<Rightarrow> sw" where
  "stcp_close c w = stcp_disconnect c DR_user_initiated w"

definition stcp_supersede :: "nat \<Rightarrow> sw \<Rightarrow> sw" where
  "stcp_supersede c w = stcp_disconnect c DR_superseded w"

section \<open>Called by the TCP connection: Port\<close>

definition port_on_closed :: "nat \<Rightarrow> nat \<Rightarrow> sw \<Rightarrow> sw" where
  "port_on_closed p c w =
    (if po_connection (ac_ports w ! p) = Some c
     then upd_port p (\<lambda>po. po\<lparr>po_connection := None\<rparr>) w else w)"

text \<open>The references \<^verbatim>\<open>port\<close> and \<^verbatim>\<open>handler\<close> are members of the connection that asks.\<close>

definition port_on_login_request ::
    "nat \<Rightarrow> nat \<Rightarrow> login_request_packet \<Rightarrow> bytes \<Rightarrow> sw \<Rightarrow>
     (login_accepted_packet, login_reject) expected \<times> sw" where
  "port_on_login_request p c request session w =
    (let po = ac_ports w ! p in
     if lq_password request \<noteq> po_password po
     then (unexpected_of (login_reject_of LR_incorrect_password rejected_not_authorized), w)
     else if lq_session request \<noteq> [] \<and> lq_session request \<noteq> session
     then (unexpected_of (login_reject_of LR_session_not_available
             rejected_session_not_available), w)
     else
       (let w = (case po_connection po of None \<Rightarrow> w | Some old \<Rightarrow> stcp_supersede old w);
            w = upd_port p (\<lambda>po. po\<lparr>po_connection := Some c\<rparr>) w;
            w = upd_object c (\<lambda>t. t\<lparr>st_port := Some p, st_handler := po_handler po\<rparr>) w;
            w = (if lq_next_sequence_number request \<noteq> 0 \<and>
                    lq_next_sequence_number request < po_next_sequence_number po
                 then upd_port p (\<lambda>po. po\<lparr>po_next_sequence_number :=
                        lq_next_sequence_number request\<rparr>) w
                 else w)
        in (expected_of (login_accepted_packet_of session
              (po_next_sequence_number (ac_ports w ! p))), w)))"

section \<open>Called by the TCP connection: Acceptor\<close>

text \<open>\<^verbatim>\<open>std::find_if\<close> over the ports: the position of the first with that name.\<close>

definition find_port :: "bytes \<Rightarrow> port list \<Rightarrow> nat option" where
  "find_port username ports = find (\<lambda>p. username = po_username (ports ! p)) [0..<length ports]"

definition acceptor_on_login_request ::
    "server_env \<Rightarrow> nat \<Rightarrow> login_request_packet \<Rightarrow> sw \<Rightarrow>
     (login_accepted_packet, login_reject) expected \<times> sw" where
  "acceptor_on_login_request env c request w =
    (case find_port (lq_username request) (ac_ports w) of
       None \<Rightarrow> (unexpected_of (login_reject_of LR_user_not_found rejected_not_authorized), w)
     | Some p \<Rightarrow> port_on_login_request p c request (se_session env) w)"

definition acceptor_on_closed ::
    "nat \<Rightarrow> nat option \<Rightarrow> disconnect_reason \<Rightarrow> sw \<Rightarrow> sw" where
  "acceptor_on_closed c port_handler reason w =
    (let w = w\<lparr>ac_connections := filter (\<lambda>element. element \<noteq> c) (ac_connections w)\<rparr>
     in case port_handler of
          Some h \<Rightarrow> sv_emit (Some c) (Port_handler h) (Sc_disconnect reason) w
        | None \<Rightarrow> acceptor_call (Some c) (Sc_disconnect reason) w)"

definition stcp_maybe_signal_closed :: "nat \<Rightarrow> sw \<Rightarrow> sw" where
  "stcp_maybe_signal_closed c w =
    (let t = stcp c w in
     if \<not> ct_socket_closed t \<or> \<not> ct_login_timer_stopped t \<or> \<not> ct_heartbeat_timer_stopped t
     then w
     else
       (let w = (case st_port (ac_objects w c) of None \<Rightarrow> w | Some p \<Rightarrow> port_on_closed p c w)
        in acceptor_on_closed c (st_handler (ac_objects w c)) (cs_reason (ct_state (stcp c w))) w))"

section \<open>Handlers of the timers\<close>

definition stcp_login_timer_error :: "nat \<Rightarrow> error_code \<Rightarrow> string \<Rightarrow> sw \<Rightarrow> sw" where
  "stcp_login_timer_error c ec operation w = stcp_handle_transport_error c ec operation w"

definition stcp_login_timer_expired :: "nat \<Rightarrow> sw \<Rightarrow> sw" where
  "stcp_login_timer_expired c w = stcp_disconnect c DR_login_timeout w"

definition stcp_login_timer_stopped :: "nat \<Rightarrow> sw \<Rightarrow> sw" where
  "stcp_login_timer_stopped c w =
     stcp_maybe_signal_closed c (upd_stcp c (\<lambda>t. t\<lparr>ct_login_timer_stopped := True\<rparr>) w)"

definition stcp_login_handler :: "nat \<Rightarrow> sw login_timer_handler" where
  "stcp_login_handler c = \<lparr>lth_timer = stcp_login_lens c, lth_error = stcp_login_timer_error c,
     lth_expired = stcp_login_timer_expired c, lth_stopped = stcp_login_timer_stopped c\<rparr>"

definition stcp_heartbeat_timer_error :: "nat \<Rightarrow> error_code \<Rightarrow> string \<Rightarrow> sw \<Rightarrow> sw" where
  "stcp_heartbeat_timer_error c ec operation w = stcp_handle_transport_error c ec operation w"

definition stcp_heartbeat_send_due :: "nat \<Rightarrow> sw \<Rightarrow> sw" where
  "stcp_heartbeat_send_due c w =
     lens_upd (stcp_socket_lens c)
       (\<lambda>k. snd (socket_async_write (write_packet_empty server_heartbeat_type) k)) w"

definition stcp_heartbeat_receive_timeout :: "nat \<Rightarrow> sw \<Rightarrow> sw" where
  "stcp_heartbeat_receive_timeout c w = stcp_disconnect c DR_heartbeat_timeout w"

definition stcp_heartbeat_timer_stopped :: "nat \<Rightarrow> sw \<Rightarrow> sw" where
  "stcp_heartbeat_timer_stopped c w =
     stcp_maybe_signal_closed c (upd_stcp c (\<lambda>t. t\<lparr>ct_heartbeat_timer_stopped := True\<rparr>) w)"

definition stcp_heartbeat_handler :: "nat \<Rightarrow> sw heartbeat_timer_handler" where
  "stcp_heartbeat_handler c = \<lparr>hbh_timer = stcp_heartbeat_lens c,
     hbh_error = stcp_heartbeat_timer_error c, hbh_send_due = stcp_heartbeat_send_due c,
     hbh_receive_timeout = stcp_heartbeat_receive_timeout c,
     hbh_stopped = stcp_heartbeat_timer_stopped c\<rparr>"

section \<open>Packets from the client\<close>

definition stcp_process_debug :: "nat \<Rightarrow> bytes \<Rightarrow> sw \<Rightarrow> sw" where
  "stcp_process_debug c data w = handler_call c (Sc_debug data) w"

text \<open>The two outcomes of a login request: \<^verbatim>\<open>if (result)\<close> and its \<^verbatim>\<open>else\<close>.\<close>

definition stcp_accept_login :: "server_env \<Rightarrow> nat \<Rightarrow> login_accepted_packet \<Rightarrow> sw \<Rightarrow> sw" where
  "stcp_accept_login env c response w =
    (let w = upd_stcp c (\<lambda>t. t\<lparr>ct_state := set_state Logged_in (ct_state t)\<rparr>) w;
         w = port_call c (Sc_login_success response) w;
         w = upd_stcp c (\<lambda>t. t\<lparr>ct_heartbeat_timer_stopped := False\<rparr>) w;
         w = heartbeat_timer_start (stcp_heartbeat_handler c) (se_now env)
               (se_heartbeat_throws env) (se_heartbeat_throws' env) w;
         packet = write_packet_sized login_accepted_type (of_nat login_accepted_size);
         packet = wp_write_payload (write_login_accepted response) packet
     in lens_upd (stcp_socket_lens c) (\<lambda>k. snd (socket_async_write packet k)) w)"

definition stcp_reject_login :: "nat \<Rightarrow> login_reject \<Rightarrow> sw \<Rightarrow> sw" where
  "stcp_reject_login c reject w =
    (let w = acceptor_handler_call c (Sc_login_failure (rj_reason reject)) w;
         w = stcp_prepare_graceful_disconnect c DR_access_denied w;
         packet = write_packet_sized login_rejected_type (of_nat login_rejected_size);
         packet = wp_write_payload (write_login_rejected (rj_packet reject)) packet
     in lens_upd (stcp_socket_lens c) (\<lambda>k. snd (socket_async_write packet k)) w)"

definition stcp_process_login_request ::
    "server_env \<Rightarrow> nat \<Rightarrow> bytes \<Rightarrow> nat \<Rightarrow> sw \<Rightarrow> packet_error \<times> sw" where
  "stcp_process_login_request env c data sz w =
    (if sz \<noteq> login_request_size then (PE_incorrect_length, w)
     else if cs_state (ct_state (stcp c w)) \<noteq> Connected then (PE_unexpected_sequence, w)
     else
       (let request = read_login_request login_request_default data;
            w = lens_upd (stcp_login_lens c) login_timer_stop w;
            w = acceptor_handler_call c (Sc_login_request request) w;
            (result, w) = acceptor_on_login_request env c request w
        in (PE_none,
            (case deref result of
               Some response \<Rightarrow> stcp_accept_login env c response w
             | None \<Rightarrow> (case error_of result of
                 Some reject \<Rightarrow> stcp_reject_login c reject w
               | None \<Rightarrow> undefined_behaviour w)))))"

definition stcp_increment_receive_count :: "nat \<Rightarrow> sw \<Rightarrow> sw" where
  "stcp_increment_receive_count c w = lens_upd (stcp_heartbeat_lens c) increment_receive_count w"

definition stcp_process_unsequenced_data :: "nat \<Rightarrow> bytes \<Rightarrow> nat \<Rightarrow> sw \<Rightarrow> packet_error \<times> sw" where
  "stcp_process_unsequenced_data c data sz w =
    (if cs_state (ct_state (stcp c w)) \<noteq> Logged_in then (PE_unexpected_sequence, w)
     else
       (let w = stcp_increment_receive_count c w
        in (PE_none,
            (case st_port (ac_objects w c) of
               None \<Rightarrow> undefined_behaviour w
             | Some p \<Rightarrow>
                 (if \<not> po_has_session_ended (ac_ports w ! p)
                  then port_call c (Sc_unsequenced_data data) w else w)))))"

definition stcp_process_client_heartbeat :: "nat \<Rightarrow> nat \<Rightarrow> sw \<Rightarrow> packet_error \<times> sw" where
  "stcp_process_client_heartbeat c sz w =
    (if sz \<noteq> client_heartbeat_size then (PE_incorrect_length, w)
     else if cs_state (ct_state (stcp c w)) \<noteq> Logged_in then (PE_unexpected_sequence, w)
     else (PE_none, stcp_increment_receive_count c w))"

definition stcp_process_logout_request :: "nat \<Rightarrow> nat \<Rightarrow> sw \<Rightarrow> packet_error \<times> sw" where
  "stcp_process_logout_request c sz w =
    (if sz \<noteq> logout_request_size then (PE_incorrect_length, w)
     else if cs_state (ct_state (stcp c w)) \<noteq> Logged_in then (PE_unexpected_sequence, w)
     else (PE_none, stcp_disconnect c DR_logout_request (port_call c Sc_logout_request w)))"

definition stcp_process_packet :: "server_env \<Rightarrow> nat \<Rightarrow> read_packet \<Rightarrow> sw \<Rightarrow> packet_error \<times> sw" where
  "stcp_process_packet env c packet w =
    (let data = rp_payload_data packet;
         sz = rp_payload_size packet;
         packet_type = rp_packet_type packet
     in if packet_type = debug_type then (PE_none, stcp_process_debug c data w)
        else if packet_type = login_request_type then stcp_process_login_request env c data sz w
        else if packet_type = unsequenced_data_type
        then stcp_process_unsequenced_data c data sz w
        else if packet_type = client_heartbeat_type then stcp_process_client_heartbeat c sz w
        else if packet_type = logout_request_type then stcp_process_logout_request c sz w
        else (PE_invalid_message_type, w))"

section \<open>Handlers of the socket\<close>

definition stcp_connect_failure :: "error_code \<Rightarrow> sw \<Rightarrow> sw" where
  \<comment> \<open>\<open>assert(false)\<close>\<close>
  "stcp_connect_failure ec w = undefined_behaviour w"

definition stcp_connect_success :: "sw \<Rightarrow> sw" where
  \<comment> \<open>\<open>assert(false)\<close>\<close>
  "stcp_connect_success w = undefined_behaviour w"

definition stcp_read_failure :: "nat \<Rightarrow> error_code \<Rightarrow> sw \<Rightarrow> sw" where
  "stcp_read_failure c ec w = stcp_handle_transport_error c ec ''socket async_read'' w"

definition stcp_read_packet_failure :: "nat \<Rightarrow> packet_error \<Rightarrow> sw \<Rightarrow> sw" where
  "stcp_read_packet_failure c error w = stcp_handle_protocol_violation c error w"

definition stcp_read_success :: "server_env \<Rightarrow> nat \<Rightarrow> read_packet \<Rightarrow> sw \<Rightarrow> sw" where
  "stcp_read_success env c packet w =
    (if is_closing (ct_state (stcp c w)) then w
     else
       (let (error, w) = stcp_process_packet env c packet w;
            w = (if error \<noteq> PE_none then stcp_handle_protocol_violation c error w else w)
        in if is_closing (ct_state (stcp c w)) then w
           else lens_upd (stcp_socket_lens c) socket_async_read w))"

definition stcp_read_aborted :: "nat \<Rightarrow> sw \<Rightarrow> sw" where
  "stcp_read_aborted c w = stcp_disconnect c DR_unmanaged_abort w"

definition stcp_read_end_of_file :: "nat \<Rightarrow> sw \<Rightarrow> sw" where
  "stcp_read_end_of_file c w = stcp_disconnect c DR_peer_closed w"

definition stcp_write_failure :: "nat \<Rightarrow> error_code \<Rightarrow> sw \<Rightarrow> sw" where
  "stcp_write_failure c ec w = stcp_handle_transport_error c ec ''socket async_write'' w"

definition stcp_write_success :: "nat \<Rightarrow> write_packet \<Rightarrow> sw \<Rightarrow> sw" where
  "stcp_write_success c packet w =
    (if cs_state (ct_state (stcp c w)) = Disconnecting
     then stcp_disconnect c DR_unmanaged_abort w else w)"

definition stcp_write_buffer_empty :: "nat \<Rightarrow> sw \<Rightarrow> sw" where
  "stcp_write_buffer_empty c w =
    (if st_handler (ac_objects w c) \<noteq> None then port_call c Sc_write_buffer_empty w else w)"

definition stcp_closed :: "nat \<Rightarrow> sw \<Rightarrow> sw" where
  "stcp_closed c w =
     stcp_maybe_signal_closed c (upd_stcp c (\<lambda>t. t\<lparr>ct_socket_closed := True\<rparr>) w)"

definition stcp_socket_handler :: "server_env \<Rightarrow> nat \<Rightarrow> sw socket_handler" where
  "stcp_socket_handler env c = \<lparr>sh_socket = stcp_socket_lens c,
     sh_connect_failure = stcp_connect_failure, sh_connect_success = stcp_connect_success,
     sh_read_failure = stcp_read_failure c, sh_read_packet_failure = stcp_read_packet_failure c,
     sh_read_success = stcp_read_success env c, sh_read_aborted = stcp_read_aborted c,
     sh_read_end_of_file = stcp_read_end_of_file c, sh_write_failure = stcp_write_failure c,
     sh_write_success = stcp_write_success c, sh_write_buffer_empty = stcp_write_buffer_empty c,
     sh_closed = stcp_closed c\<rparr>"

section \<open>Construction, and what Port and Acceptor call\<close>

definition server_tcp_new :: "nat \<Rightarrow> socket \<Rightarrow> server_tcp" where
  "server_tcp_new acceptor_handler k = \<lparr>st_acceptor_handler = acceptor_handler,
     st_port = None, st_handler = None,
     st_tcp = \<lparr>ct_socket = k, ct_state = connection_state_of Connected,
       ct_login_timer = login_timer_new login_request_timeout,
       ct_heartbeat_timer = heartbeat_timer_new client_heartbeat_timeout,
       ct_socket_closed = False, ct_login_timer_stopped = True,
       ct_heartbeat_timer_stopped = True\<rparr>\<rparr>"

definition stcp_construct :: "server_env \<Rightarrow> nat \<Rightarrow> nat \<Rightarrow> socket \<Rightarrow> sw \<Rightarrow> sw" where
  "stcp_construct env c acceptor_handler k w =
    (let w = upd_object c (\<lambda>_. server_tcp_new acceptor_handler k) w;
         w = upd_stcp c (\<lambda>t. t\<lparr>ct_login_timer_stopped := False\<rparr>) w;
         w = login_timer_start (stcp_login_handler c) (se_login_throws env) w
     in lens_upd (stcp_socket_lens c) socket_async_read w)"

definition stcp_send_packet :: "nat \<Rightarrow> write_packet \<Rightarrow> sw \<Rightarrow> write_error \<times> sw" where
  "stcp_send_packet c packet w =
    (if cs_state (ct_state (stcp c w)) \<noteq> Logged_in then (WE_not_logged_in, w)
     else
       (let packet_type = wp_packet_type packet;
            (error, k) = socket_async_write packet (ct_socket (stcp c w));
            w = upd_stcp c (\<lambda>t. t\<lparr>ct_socket := k\<rparr>) w;
            w = (if packet_type = Some sequenced_data_type \<and> error = WE_none
                 then lens_upd (stcp_heartbeat_lens c) increment_send_count w else w)
        in (error, w)))"

definition stcp_send_debug_packet :: "nat \<Rightarrow> bytes \<Rightarrow> sw \<Rightarrow> write_error \<times> sw" where
  "stcp_send_debug_packet c text' w =
    (if cs_state (ct_state (stcp c w)) = Connecting \<or> is_closing (ct_state (stcp c w))
     then (WE_disconnected, w)
     else
       (let (error, k) = socket_async_write
              (write_packet_of debug_type text' (of_nat (length text'))) (ct_socket (stcp c w))
        in (error, upd_stcp c (\<lambda>t. t\<lparr>ct_socket := k\<rparr>) w)))"

end
