(* ===== verification/Server_Acceptor.thy ===== *)
theory Server_Acceptor
  imports Server_Tcp
begin

text \<open>
  \<^verbatim>\<open>server::Port\<close> (\<^verbatim>\<open>server/port.h\<close>/\<^verbatim>\<open>.cpp\<close>) and \<^verbatim>\<open>server::Acceptor\<close>
  (\<^verbatim>\<open>server/acceptor.h\<close>/\<^verbatim>\<open>.cpp\<close>): what their user, the server and the listening socket
  call, and the events that reach one acceptor and its connections.  What the TCP
  connections call of them is in \<open>Server_Tcp\<close>.
\<close>

section \<open>Port\<close>

definition port_new :: "bytes \<Rightarrow> bytes \<Rightarrow> nat option \<Rightarrow> port" where
  "port_new username password handler = \<lparr>po_handler = handler, po_username = username,
     po_password = password, po_next_sequence_number = 1, po_has_session_ended = False,
     po_connection = None\<rparr>"

definition port_set_handler :: "nat \<Rightarrow> port \<Rightarrow> port" where
  "port_set_handler handler po = po\<lparr>po_handler := Some handler\<rparr>"

definition port_set_next_sequence_number :: "u64 \<Rightarrow> port \<Rightarrow> port" where
  "port_set_next_sequence_number n po = po\<lparr>po_next_sequence_number := n\<rparr>"

definition port_is_handler_set :: "port \<Rightarrow> bool" where
  "port_is_handler_set po \<longleftrightarrow> po_handler po \<noteq> None"

definition port_send_packet :: "nat \<Rightarrow> write_packet \<Rightarrow> sw \<Rightarrow> write_error \<times> sw" where
  "port_send_packet p packet w =
    (if po_has_session_ended (ac_ports w ! p) then (WE_session_ended, w)
     else case po_connection (ac_ports w ! p) of
       None \<Rightarrow> (WE_disconnected, w)
     | Some c \<Rightarrow> stcp_send_packet c packet w)"

definition port_send_counted :: "nat \<Rightarrow> write_packet \<Rightarrow> sw \<Rightarrow> write_error \<times> sw" where
  \<comment> \<open>the last four lines of both \<open>send_message\<close>\<close>
  "port_send_counted p packet w =
    (let (error, w) = port_send_packet p packet w
     in (error, if error = WE_none
                then upd_port p (\<lambda>po. po\<lparr>po_next_sequence_number :=
                       po_next_sequence_number po + 1\<rparr>) w
                else w))"

text \<open>The size is a \<^verbatim>\<open>std::size_t\<close> here and a \<^verbatim>\<open>std::uint16_t\<close> in the constructor of
  \<^verbatim>\<open>Write_packet\<close>: the call converts it, modulo \<open>2 ^ 16\<close>.\<close>

definition port_send_message :: "nat \<Rightarrow> bytes option \<Rightarrow> nat \<Rightarrow> sw \<Rightarrow> write_error \<times> sw" where
  "port_send_message p data n w =
    (if n = 0 then (WE_empty_buffer, w)
     else case data of
       None \<Rightarrow> (WE_null_buffer, w)
     | Some bs \<Rightarrow> port_send_counted p (write_packet_of sequenced_data_type bs (of_nat n)) w)"

definition port_send_message_packet ::
    "nat \<Rightarrow> write_packet \<Rightarrow> sw \<Rightarrow> (write_error \<times> sw) option" where
  \<comment> \<open>\<open>send_message(Message&&)\<close>; \<open>None\<close>: \<open>payload_size()\<close> reads through a null pointer.
      The payload pointer is the buffer plus three bytes, so its null test never fires.\<close>
  "port_send_message_packet p message w = (case wp_payload_size message of
     None \<Rightarrow> None
   | Some n \<Rightarrow> Some (if n = 0 then (WE_empty_buffer, w)
                   else port_send_counted p (fst (release_packet message)) w))"

definition port_send_debug :: "nat \<Rightarrow> bytes \<Rightarrow> sw \<Rightarrow> write_error \<times> sw" where
  "port_send_debug p text' w =
    (if text' = [] then (WE_empty_buffer, w)
     else case po_connection (ac_ports w ! p) of
       None \<Rightarrow> (WE_disconnected, w)
     | Some c \<Rightarrow> stcp_send_debug_packet c text' w)"

definition port_end_session :: "nat \<Rightarrow> sw \<Rightarrow> sw" where
  "port_end_session p w =
    (if po_has_session_ended (ac_ports w ! p) then w
     else
       (let w = upd_port p (\<lambda>po. po\<lparr>po_has_session_ended := True\<rparr>) w
        in case po_connection (ac_ports w ! p) of
             None \<Rightarrow> w
           | Some c \<Rightarrow> snd (stcp_send_packet c (write_packet_empty end_of_session_type) w)))"

section \<open>Acceptor: settings\<close>

definition acceptor_new :: "endpoint \<Rightarrow> nat option \<Rightarrow> sw" where
  "acceptor_new ep handler = \<lparr>ac_handler = handler, ac_endpoint = ep,
     ac_acceptor = socket_acceptor_new, ac_ports = [], ac_write_packets_limit = 100,
     ac_debug_banner = [], ac_connections = [],
     ac_objects = \<lambda>_. server_tcp_new 0 (socket_new False), ac_next = 0, ac_out = [],
     ac_defined = True\<rparr>"

definition acceptor_set_handler :: "nat \<Rightarrow> sw \<Rightarrow> sw" where
  "acceptor_set_handler handler w = w\<lparr>ac_handler := Some handler\<rparr>"

definition acceptor_set_write_packets_limit :: "nat \<Rightarrow> sw \<Rightarrow> sw" where
  "acceptor_set_write_packets_limit n w = w\<lparr>ac_write_packets_limit := n\<rparr>"

definition acceptor_set_debug_banner :: "bytes \<Rightarrow> sw \<Rightarrow> sw" where
  "acceptor_set_debug_banner banner w = w\<lparr>ac_debug_banner := banner\<rparr>"

definition acceptor_add_port ::
    "bytes \<Rightarrow> bytes \<Rightarrow> nat option \<Rightarrow> sw \<Rightarrow> (nat, error_code) expected \<times> sw" where
  "acceptor_add_port username password handler w =
    (let ec = validate_username username in
     if ec_set ec then (unexpected_of ec, w)
     else
       (let ec = validate_password password in
        if ec_set ec then (unexpected_of ec, w)
        else if \<exists>po \<in> set (ac_ports w). username = po_username po
        then (unexpected_of (make_error_code Username_in_use), w)
        else (expected_of (length (ac_ports w)),
              w\<lparr>ac_ports := ac_ports w @ [port_new username password handler]\<rparr>)))"

definition acceptor_is_handler_set :: "sw \<Rightarrow> bool" where
  "acceptor_is_handler_set w \<longleftrightarrow>
     ac_handler w \<noteq> None \<and> list_all port_is_handler_set (ac_ports w)"

section \<open>Acceptor: accepting\<close>

definition acceptor_accept_failure :: "error_code \<Rightarrow> sw \<Rightarrow> sw" where
  "acceptor_accept_failure ec w =
     lens_upd acceptor_lens acceptor_async_accept (acceptor_call None (Sc_accept_failure ec) w)"

definition acceptor_accept_success :: "server_env \<Rightarrow> sw \<Rightarrow> sw" where
  "acceptor_accept_success env w =
    (let k = set_write_packets_limit (ac_write_packets_limit w) (socket_new True);
         w = acceptor_call None (Sc_accept_success (se_local env) (se_remote env)) w
     in case ac_handler w of
          None \<Rightarrow> undefined_behaviour w
        | Some handler \<Rightarrow>
            (let c = ac_next w;
                 w = w\<lparr>ac_next := c + 1\<rparr>;
                 w = stcp_construct env c handler k w;
                 w = w\<lparr>ac_connections := ac_connections w @ [c]\<rparr>;
                 w = (if ac_debug_banner w \<noteq> []
                      then snd (stcp_send_debug_packet c (ac_debug_banner w) w) else w)
             in lens_upd acceptor_lens acceptor_async_accept w))"

definition acceptor_socket_handler :: "server_env \<Rightarrow> sw listen_handler" where
  "acceptor_socket_handler env = \<lparr>ash_acceptor = acceptor_lens,
     ash_accept_failure = acceptor_accept_failure,
     ash_accept_success = acceptor_accept_success env\<rparr>"

section \<open>Acceptor: called by Server\<close>

definition acceptor_start :: "server_env \<Rightarrow> sw \<Rightarrow> sw" where
  "acceptor_start env w =
    (let (ec, a) = acceptor_open (se_open env) (ac_acceptor w);
         w = w\<lparr>ac_acceptor := a\<rparr>
     in if ec_set ec then acceptor_call None (Sc_listen_setup_failure ec ''open'') w
        else
       (let ec = acceptor_set_reuse_address (se_reuse_address env) a in
        if ec_set ec
        then acceptor_call None (Sc_listen_setup_failure ec ''set_reuse_address'') w
        else
       (let ec = acceptor_set_no_delay (se_no_delay env) a in
        if ec_set ec then acceptor_call None (Sc_listen_setup_failure ec ''set_no_delay'') w
        else
       (let ec = acceptor_bind (se_bind env) (ac_endpoint w) a in
        if ec_set ec then acceptor_call None (Sc_listen_setup_failure ec ''bind'') w
        else
       (let ec = acceptor_listen (se_listen env) a in
        if ec_set ec then acceptor_call None (Sc_listen_setup_failure ec ''listen'') w
        else lens_upd acceptor_lens acceptor_async_accept
               (acceptor_call None (Sc_listen_setup_success (se_local env)) w))))))"

definition acceptor_end_session :: "sw \<Rightarrow> sw" where
  "acceptor_end_session w = fold port_end_session [0..<length (ac_ports w)] w"

definition acceptor_stop :: "sw \<Rightarrow> sw" where
  "acceptor_stop w =
    (let w = lens_upd acceptor_lens acceptor_close w
     in fold stcp_close (ac_connections w) w)"

section \<open>Events\<close>

text \<open>
  What can happen to an acceptor: a completion handler of the listening socket or of one of
  its connections runs, or the user or the server calls it.  Asio completes an accept
  with \<open>operation_aborted\<close> only after the acceptor was closed.
\<close>

datatype server_event =
    Sv_accept error_code
  | Sv_socket nat sock_op error_code nat bytes
  | Sv_login_wait nat error_code
  | Sv_login_post nat
  | Sv_heartbeat_wait nat error_code
  | Sv_heartbeat_post nat
  | Sv_send_message nat "bytes option" nat
  | Sv_send_packet nat write_packet
  | Sv_send_debug nat bytes
  | Sv_set_next_sequence_number nat u64
  | Sv_add_port bytes bytes "nat option"
  | Sv_start
  | Sv_end_session
  | Sv_stop

fun server_event_enabled :: "sw \<Rightarrow> server_event \<Rightarrow> bool" where
  "server_event_enabled w (Sv_accept ec) \<longleftrightarrow>
     0 < sa_accepts (ac_acceptor w) \<and> (ec = operation_aborted \<longrightarrow> \<not> sa_open (ac_acceptor w))"
| "server_event_enabled w (Sv_socket c op ec n data) \<longleftrightarrow>
     asio_may_complete op ec (ct_socket (stcp c w))"
| "server_event_enabled w (Sv_login_wait c ec) \<longleftrightarrow> 0 < lt_waits (ct_login_timer (stcp c w))"
| "server_event_enabled w (Sv_login_post c) \<longleftrightarrow> 0 < lt_posts (ct_login_timer (stcp c w))"
| "server_event_enabled w (Sv_heartbeat_wait c ec) \<longleftrightarrow>
     0 < hb_waits (ct_heartbeat_timer (stcp c w))"
| "server_event_enabled w (Sv_heartbeat_post c) \<longleftrightarrow> 0 < hb_posts (ct_heartbeat_timer (stcp c w))"
| "server_event_enabled w (Sv_send_message p data n) \<longleftrightarrow> p < length (ac_ports w)"
| "server_event_enabled w (Sv_send_packet p packet) \<longleftrightarrow>
     p < length (ac_ports w) \<and> wp_payload_size packet \<noteq> None"
| "server_event_enabled w (Sv_send_debug p bs) \<longleftrightarrow> p < length (ac_ports w)"
| "server_event_enabled w (Sv_set_next_sequence_number p n) \<longleftrightarrow> p < length (ac_ports w)"
| "server_event_enabled w _ \<longleftrightarrow> True"

fun server_handle :: "server_env \<Rightarrow> server_event \<Rightarrow> sw \<Rightarrow> sw" where
  "server_handle env (Sv_accept ec) w = accept_done (acceptor_socket_handler env) ec w"
| "server_handle env (Sv_socket c op ec n data) w =
     socket_complete (stcp_socket_handler env c) op ec n data w"
| "server_handle env (Sv_login_wait c ec) w = login_timer_wait_done (stcp_login_handler c) ec w"
| "server_handle env (Sv_login_post c) w = login_timer_post_done (stcp_login_handler c) w"
| "server_handle env (Sv_heartbeat_wait c ec) w =
     heartbeat_timer_wait_done (stcp_heartbeat_handler c) (se_heartbeat_throws env) ec w"
| "server_handle env (Sv_heartbeat_post c) w = heartbeat_timer_post_done (stcp_heartbeat_handler c) w"
| "server_handle env (Sv_send_message p data n) w = snd (port_send_message p data n w)"
| "server_handle env (Sv_send_packet p packet) w =
     (case port_send_message_packet p packet w of None \<Rightarrow> w | Some (_, w) \<Rightarrow> w)"
| "server_handle env (Sv_send_debug p bs) w = snd (port_send_debug p bs w)"
| "server_handle env (Sv_set_next_sequence_number p n) w =
     upd_port p (port_set_next_sequence_number n) w"
| "server_handle env (Sv_add_port username password handler) w =
     snd (acceptor_add_port username password handler w)"
| "server_handle env Sv_start w = acceptor_start env w"
| "server_handle env Sv_end_session w = acceptor_end_session w"
| "server_handle env Sv_stop w = acceptor_stop w"

definition server_step :: "server_env \<Rightarrow> server_event \<Rightarrow> sw \<Rightarrow> sw" where
  "server_step env ev w = (if server_event_enabled w ev then server_handle env ev w else w)"

fun server_run :: "(server_env \<times> server_event) list \<Rightarrow> sw \<Rightarrow> sw" where
  "server_run [] w = w"
| "server_run ((env, ev) # evs) w = server_run evs (server_step env ev w)"

end
