(* ===== verification/Server_Lifecycle.thy ===== *)
theory Server_Lifecycle
  imports Server_Acceptor
begin

text \<open>
  The life of one TCP connection of the server, between and during the events that reach it:
  \<open>st_ok\<close> holds between events, \<open>st_pre\<close> at the end of a completion handler of its
  socket, \<open>st_reading\<close> while a packet is processed.
\<close>

section \<open>Access to the world\<close>

lemma emit_simps [simp]:
  "ac_objects (sv_emit x h cb w) = ac_objects w" "ac_ports (sv_emit x h cb w) = ac_ports w"
  "ac_connections (sv_emit x h cb w) = ac_connections w" "ac_next (sv_emit x h cb w) = ac_next w"
  "ac_handler (sv_emit x h cb w) = ac_handler w" "ac_acceptor (sv_emit x h cb w) = ac_acceptor w"
  "ac_debug_banner (sv_emit x h cb w) = ac_debug_banner w"
  "ac_write_packets_limit (sv_emit x h cb w) = ac_write_packets_limit w"
  "ac_defined (sv_emit x h cb w) = ac_defined w"
  by (simp_all add: sv_emit_def)

lemma undefined_simps [simp]:
  "ac_objects (undefined_behaviour w) = ac_objects w"
  "ac_ports (undefined_behaviour w) = ac_ports w"
  "ac_connections (undefined_behaviour w) = ac_connections w"
  "ac_next (undefined_behaviour w) = ac_next w"
  "ac_handler (undefined_behaviour w) = ac_handler w"
  "ac_acceptor (undefined_behaviour w) = ac_acceptor w"
  "ac_debug_banner (undefined_behaviour w) = ac_debug_banner w"
  "ac_write_packets_limit (undefined_behaviour w) = ac_write_packets_limit w"
  by (simp_all add: undefined_behaviour_def)

lemma upd_object_simps [simp]:
  "ac_objects (upd_object c f w) = (ac_objects w)(c := f (ac_objects w c))"
  "ac_ports (upd_object c f w) = ac_ports w" "ac_next (upd_object c f w) = ac_next w"
  "ac_connections (upd_object c f w) = ac_connections w"
  "ac_handler (upd_object c f w) = ac_handler w" "ac_acceptor (upd_object c f w) = ac_acceptor w"
  "ac_debug_banner (upd_object c f w) = ac_debug_banner w"
  "ac_write_packets_limit (upd_object c f w) = ac_write_packets_limit w"
  "ac_defined (upd_object c f w) = ac_defined w" "ac_out (upd_object c f w) = ac_out w"
  by (simp_all add: upd_object_def)

lemma upd_stcp_simps [simp]:
  "ac_objects (upd_stcp c g w) =
     (ac_objects w)(c := (ac_objects w c)\<lparr>st_tcp := g (st_tcp (ac_objects w c))\<rparr>)"
  "ac_ports (upd_stcp c g w) = ac_ports w" "ac_next (upd_stcp c g w) = ac_next w"
  "ac_connections (upd_stcp c g w) = ac_connections w"
  "ac_handler (upd_stcp c g w) = ac_handler w" "ac_acceptor (upd_stcp c g w) = ac_acceptor w"
  "ac_debug_banner (upd_stcp c g w) = ac_debug_banner w"
  "ac_write_packets_limit (upd_stcp c g w) = ac_write_packets_limit w"
  "ac_defined (upd_stcp c g w) = ac_defined w" "ac_out (upd_stcp c g w) = ac_out w"
  by (simp_all add: upd_stcp_def)

lemma upd_port_simps [simp]:
  "ac_ports (upd_port p f w) = (ac_ports w)[p := f (ac_ports w ! p)]"
  "ac_objects (upd_port p f w) = ac_objects w" "ac_next (upd_port p f w) = ac_next w"
  "ac_connections (upd_port p f w) = ac_connections w"
  "ac_handler (upd_port p f w) = ac_handler w" "ac_acceptor (upd_port p f w) = ac_acceptor w"
  "ac_debug_banner (upd_port p f w) = ac_debug_banner w"
  "ac_write_packets_limit (upd_port p f w) = ac_write_packets_limit w"
  "ac_defined (upd_port p f w) = ac_defined w" "ac_out (upd_port p f w) = ac_out w"
  by (simp_all add: upd_port_def)

lemma stcp_lenses [simp]:
  "lens_upd (stcp_socket_lens c) f = upd_stcp c (\<lambda>t. t\<lparr>ct_socket := f (ct_socket t)\<rparr>)"
  "lens_upd (stcp_login_lens c) g = upd_stcp c (\<lambda>t. t\<lparr>ct_login_timer := g (ct_login_timer t)\<rparr>)"
  "lens_upd (stcp_heartbeat_lens c) i =
     upd_stcp c (\<lambda>t. t\<lparr>ct_heartbeat_timer := i (ct_heartbeat_timer t)\<rparr>)"
  "lens_upd acceptor_lens a w = w\<lparr>ac_acceptor := a (ac_acceptor w)\<rparr>"
  "lens_get (stcp_socket_lens c) w = ct_socket (stcp c w)"
  "lens_get (stcp_login_lens c) w = ct_login_timer (stcp c w)"
  "lens_get (stcp_heartbeat_lens c) w = ct_heartbeat_timer (stcp c w)"
  by (rule ext, simp add: lens_upd_def server_lens_defs server_upd_defs)+
     (simp_all add: lens_upd_def server_lens_defs)

lemma stcp_disconnect_eq: "stcp_disconnect c r = upd_stcp c (t_disconnect r)"
  by (rule ext)
     (simp add: stcp_disconnect_def t_disconnect_def upd_stcp_def upd_object_def split_def Let_def)

text \<open>A call to a handler changes nothing but the trace.\<close>

definition only_calls :: "sw \<Rightarrow> sw \<Rightarrow> bool" where
  "only_calls w w' \<longleftrightarrow> w' = w\<lparr>ac_out := ac_out w', ac_defined := ac_defined w'\<rparr>"

lemma calls_only [simp]:
  "only_calls w (acceptor_call x cb w)" "only_calls w (port_call c cb w)"
  "only_calls w (acceptor_handler_call c cb w)" "only_calls w (handler_call c cb w)"
  by (auto simp: only_calls_def acceptor_call_def port_call_def acceptor_handler_call_def
      handler_call_def sv_emit_def undefined_behaviour_def split: option.splits)

lemma only_calls_fields:
  assumes "only_calls w w'"
  shows "ac_objects w' = ac_objects w" "ac_ports w' = ac_ports w" "ac_next w' = ac_next w"
    "ac_connections w' = ac_connections w" "ac_handler w' = ac_handler w"
    "ac_acceptor w' = ac_acceptor w" "ac_debug_banner w' = ac_debug_banner w"
    "ac_write_packets_limit w' = ac_write_packets_limit w"
proof -
  obtain out def' where w': "w' = w\<lparr>ac_out := out, ac_defined := def'\<rparr>"
    using assms by (auto simp: only_calls_def)
  show "ac_objects w' = ac_objects w" "ac_ports w' = ac_ports w" "ac_next w' = ac_next w"
    "ac_connections w' = ac_connections w" "ac_handler w' = ac_handler w"
    "ac_acceptor w' = ac_acceptor w" "ac_debug_banner w' = ac_debug_banner w"
    "ac_write_packets_limit w' = ac_write_packets_limit w"
    by (simp_all add: w')
qed

lemmas call_simps [simp] =
  only_calls_fields [OF calls_only(1)] only_calls_fields [OF calls_only(2)]
  only_calls_fields [OF calls_only(3)] only_calls_fields [OF calls_only(4)]

section \<open>Invariants of one connection\<close>

text \<open>
  A connection of the server is born connected.  Before the login nothing is written on it
  (there is no debug banner); when the login is rejected the rejection is the only packet in
  the queue, it is being written, and no heartbeats run.
\<close>

definition st_frame :: "tcp_object \<Rightarrow> bool" where
  "st_frame t \<longleftrightarrow> sk_closing (ct_socket t) = (cs_state (ct_state t) = Disconnected) \<and>
     \<not> sk_connect_pending (ct_socket t) \<and> 0 < sk_write_packets_limit (ct_socket t)"

definition st_shape :: "tcp_object \<Rightarrow> bool" where
  "st_shape t \<longleftrightarrow> st_frame t \<and> cs_state (ct_state t) \<noteq> Connecting \<and>
     (cs_state (ct_state t) = Connected \<longrightarrow> sk_write_packets (ct_socket t) = []) \<and>
     (cs_state (ct_state t) = Disconnecting \<longrightarrow>
        sk_write_pending (ct_socket t) \<and> length (sk_write_packets (ct_socket t)) = 1 \<and>
        \<not> hb_started (ct_heartbeat_timer t))"

definition server_live :: "tcp_object \<Rightarrow> bool" where
  "server_live t \<longleftrightarrow> st_shape t \<and> (is_closing (ct_state t) \<or> sk_read_pending (ct_socket t))"

definition st_ok :: "tcp_object \<Rightarrow> bool" where
  "st_ok t \<longleftrightarrow> tcp_core t \<and> server_live t"

definition st_pre :: "tcp_object \<Rightarrow> bool" where
  "st_pre t \<longleftrightarrow> tcp_mid t \<and> timers_armed t \<and> server_live t"

definition st_reading :: "tcp_object \<Rightarrow> bool" where
  "st_reading t \<longleftrightarrow> tcp_mid t \<and> timers_armed t \<and> st_shape t \<and> \<not> sk_read_pending (ct_socket t)"

lemma st_ok_D:
  assumes "st_ok t"
  shows "tcp_core t" "tcp_mid t" "sock_rest (ct_socket t)" "sock_core (ct_socket t)"
    "timers_armed t" "st_shape t" "st_frame t" "st_pre t"
proof -
  show "tcp_core t" "tcp_mid t" "sock_rest (ct_socket t)" "timers_armed t" "st_shape t" "st_pre t"
    using assms by (simp_all add: st_ok_def tcp_core_def server_live_def st_pre_def)
  then show "st_frame t" "sock_core (ct_socket t)"
    by (simp_all add: st_shape_def tcp_mid_def)
qed

lemma st_unfinished_outstanding: "st_ok t \<Longrightarrow> \<not> tcp_finished t \<Longrightarrow> tcp_outstanding t"
  by (rule core_outstanding)
    (auto simp: st_ok_def server_live_def st_shape_def st_frame_def is_idle_def is_closing_def)

text \<open>Signals and closing change none of what \<open>st_shape\<close> looks at but the closing flag.\<close>

lemma signal_shape [simp]:
  "sk_write_packets (socket_maybe_signal_closed k) = sk_write_packets k"
  "sk_write_pending (socket_maybe_signal_closed k) = sk_write_pending k"
  "sk_write_packets_limit (socket_maybe_signal_closed k) = sk_write_packets_limit k"
  "sk_write_packets (socket_close k) = sk_write_packets k"
  "sk_write_packets_limit (socket_close k) = sk_write_packets_limit k"
  by (simp_all add: socket_maybe_signal_closed_def socket_close_def Let_def)

lemma disconnect_frame [simp]: "st_frame t \<Longrightarrow> st_frame (t_disconnect r t)"
  by (auto simp: st_frame_def t_disconnect_def cs_disconnect_def Let_def sock_op_defs)

lemma disconnect_live: "st_frame t \<Longrightarrow> server_live (t_disconnect r t)"
  using disconnect_frame [of t r] by (simp add: server_live_def st_shape_def is_closing_def)

lemma disconnect_st_pre: "tcp_mid t \<Longrightarrow> st_frame t \<Longrightarrow> st_pre (t_disconnect r t)"
  using t_disconnect_down [of t r] by (simp add: st_pre_def down_armed disconnect_live)

lemma disconnect_st_ok: "tcp_mid t \<Longrightarrow> sock_rest (ct_socket t) \<Longrightarrow> st_frame t \<Longrightarrow> st_ok (t_disconnect r t)"
  by (simp add: st_ok_def core_disconnect disconnect_live)

lemma disconnect_st_reading: "st_reading t \<Longrightarrow> st_reading (t_disconnect r t)"
  using t_disconnect_down [of t r] disconnect_frame [of t r]
  by (simp add: st_reading_def down_armed st_shape_def)

lemma st_pre_signal:
  "st_pre t \<Longrightarrow> st_ok (t\<lparr>ct_socket := socket_maybe_signal_closed (ct_socket t)\<rparr>)"
  using mid_signal [of t] sock_core_maybe_signal [of "ct_socket t"]
  by (simp add: st_pre_def st_ok_def tcp_core_def server_live_def st_shape_def st_frame_def
      timers_armed_def tcp_mid_def [of t])

section \<open>Packets\<close>

lemma async_write_limit [simp]:
  "sk_write_packets_limit (snd (socket_async_write p k)) = sk_write_packets_limit k"
  by (simp add: socket_async_write_def write_packet_start_def Let_def)

text \<open>Writing is harmless once logged in, and when the connection is down.\<close>

lemma write_shape:
  assumes "st_shape t" and "cs_state (ct_state t) \<in> {Logged_in, Disconnected}"
  shows "st_shape (t\<lparr>ct_socket := snd (socket_async_write p (ct_socket t))\<rparr>)"
  using assms by (auto simp: st_shape_def st_frame_def)

lemma write_reading:
  assumes "st_reading t" and "cs_state (ct_state t) \<in> {Logged_in, Disconnected}"
  shows "st_reading (t\<lparr>ct_socket := snd (socket_async_write p (ct_socket t))\<rparr>)"
  using assms write_shape [of t p] async_write_mid [of t p]
  by (simp add: st_reading_def timers_armed_def)

lemma reading_receive_count:
  "st_reading t \<Longrightarrow> st_reading (t\<lparr>ct_heartbeat_timer := increment_receive_count (ct_heartbeat_timer t)\<rparr>)"
  by (simp add: st_reading_def tcp_mid_def timers_armed_def st_shape_def st_frame_def)

text \<open>The two outcomes of a login.\<close>

definition t_logged_in ::
    "nat \<Rightarrow> error_code option \<Rightarrow> error_code option \<Rightarrow> tcp_object \<Rightarrow> tcp_object" where
  \<comment> \<open>the effect of the accepted login on the object, until the answer is queued\<close>
  "t_logged_in now throws throws' t =
    (let t = t\<lparr>ct_state := set_state Logged_in (ct_state t), ct_heartbeat_timer_stopped := False,
               ct_heartbeat_timer := (ct_heartbeat_timer t)\<lparr>hb_started := True\<rparr>\<rparr>
     in case throws of
          Some ec \<Rightarrow> t_disconnect DR_transport_error t
        | None \<Rightarrow>
            (let t = t\<lparr>ct_heartbeat_timer := (ct_heartbeat_timer t)\<lparr>hb_expiry := now\<rparr>\<rparr>
             in case throws' of
                  Some ec \<Rightarrow> t_disconnect DR_transport_error t
                | None \<Rightarrow> t\<lparr>ct_heartbeat_timer := (ct_heartbeat_timer t)
                    \<lparr>hb_expiry := now + heartbeat_period, hb_wait_pending := True,
                     hb_waits := hb_waits (ct_heartbeat_timer t) + 1\<rparr>\<rparr>))"

lemma logged_in_state:
  "cs_state (ct_state (t_logged_in now throws throws' t)) \<in> {Logged_in, Disconnected}"
  by (simp add: t_logged_in_def Let_def set_state_def split: option.splits)

lemma logged_in_reading:
  assumes r: "st_reading t" and st: "cs_state (ct_state t) = Connected"
    and lt: "\<not> lt_started (ct_login_timer t)"
  shows "st_reading (t_logged_in now throws throws' t)"
proof -
  let ?t = "t\<lparr>ct_state := set_state Logged_in (ct_state t)\<rparr>"
  have mid: "tcp_mid ?t" and unused: "hb_unused (ct_heartbeat_timer ?t)"
    using r st lt by (auto simp: st_reading_def tcp_mid_def set_state_def st_shape_def st_frame_def)
  have idle: "\<not> sk_connect_pending (ct_socket ?t)" "cs_state (ct_state ?t) = Logged_in"
    using r by (simp_all add: st_reading_def st_shape_def st_frame_def set_state_def)
  note start = mid_heartbeat_start [OF mid unused idle]
  have frame: "st_frame (?t\<lparr>ct_heartbeat_timer_stopped := b, ct_heartbeat_timer := h\<rparr>)" for b h
    using r st by (auto simp: st_reading_def st_shape_def st_frame_def set_state_def)
  have down: "st_reading (t_disconnect e (?t\<lparr>ct_heartbeat_timer_stopped := False, ct_heartbeat_timer := h\<rparr>))"
    if "tcp_mid (?t\<lparr>ct_heartbeat_timer_stopped := False, ct_heartbeat_timer := h\<rparr>)" for e h
    using t_disconnect_down [OF that, of e] disconnect_frame [OF frame, of e] r
    by (simp add: st_reading_def down_armed st_shape_def)
  have armed: "st_reading (?t\<lparr>ct_heartbeat_timer_stopped := False,
      ct_heartbeat_timer := (ct_heartbeat_timer t)\<lparr>hb_started := True, hb_expiry := e,
        hb_wait_pending := True, hb_waits := hb_waits (ct_heartbeat_timer t) + 1\<rparr>\<rparr>)" for e
    using start(3) [of e] r frame by (simp add: st_reading_def st_shape_def set_state_def timers_armed_def)
  show ?thesis
    using down [OF start(1)] down [OF start(2), simplified] armed [simplified]
    by (simp add: t_logged_in_def Let_def split: option.splits)
qed

definition t_rejected :: "write_packet \<Rightarrow> tcp_object \<Rightarrow> tcp_object" where
  "t_rejected packet t =
     t\<lparr>ct_state := snd (initiate_disconnect DR_access_denied (ct_state t)),
       ct_socket := snd (socket_async_write packet (ct_socket t))\<rparr>"

lemma rejected_reading:
  assumes r: "st_reading t" and st: "cs_state (ct_state t) = Connected"
  shows "st_reading (t_rejected packet t)"
proof -
  have "tcp_mid (t\<lparr>ct_socket := snd (socket_async_write packet (ct_socket t))\<rparr>)"
    using r by (intro async_write_mid) (simp add: st_reading_def)
  with r st show ?thesis
    by (auto simp: st_reading_def t_rejected_def tcp_mid_def timers_armed_def st_shape_def
        st_frame_def initiate_disconnect_def is_closing_def socket_async_write_def
        write_packet_start_def Let_def hb_unused_def)
qed

end
