(* ===== verification/Server_World.thy ===== *)
theory Server_World
  imports Server_Lifecycle
begin

text \<open>
  The world of an acceptor: every connection in its list is \<open>st_ok\<close> and not finished,
  whatever is not in the list has nothing outstanding, and the pointers between ports and
  connections agree (\<open>ports_linked\<close>).  \<open>world_with P c\<close> is the same while connection
  \<open>c\<close> is in the middle of an event and satisfies \<open>P\<close> instead.
\<close>

section \<open>Ports and connections\<close>

definition ports_linked :: "sw \<Rightarrow> bool" where
  "ports_linked w \<longleftrightarrow>
     (\<forall>p < length (ac_ports w). \<forall>x. po_connection (ac_ports w ! p) = Some x \<longrightarrow>
        x \<in> set (ac_connections w) \<and> st_port (ac_objects w x) = Some p) \<and>
     (\<forall>x \<in> set (ac_connections w). \<forall>p. st_port (ac_objects w x) = Some p \<longrightarrow>
        p < length (ac_ports w)) \<and>
     (\<forall>x \<in> set (ac_connections w). cs_state (ct_state (stcp x w)) = Logged_in \<longrightarrow>
        (\<exists>p. st_port (ac_objects w x) = Some p \<and> po_connection (ac_ports w ! p) = Some x))"

lemma ports_linked_D:
  assumes "ports_linked w"
  shows "p < length (ac_ports w) \<Longrightarrow> po_connection (ac_ports w ! p) = Some x \<Longrightarrow>
      x \<in> set (ac_connections w) \<and> st_port (ac_objects w x) = Some p"
    and "x \<in> set (ac_connections w) \<Longrightarrow> st_port (ac_objects w x) = Some p \<Longrightarrow> p < length (ac_ports w)"
    and "x \<in> set (ac_connections w) \<Longrightarrow> cs_state (ct_state (stcp x w)) = Logged_in \<Longrightarrow>
      \<exists>p. st_port (ac_objects w x) = Some p \<and> po_connection (ac_ports w ! p) = Some x"
  using assms unfolding ports_linked_def by blast+

text \<open>A connection has a port from its accepted login on.\<close>

definition bound_late :: "server_tcp \<Rightarrow> bool" where
  "bound_late ob \<longleftrightarrow>
     (st_port ob \<noteq> None \<longrightarrow> cs_state (ct_state (st_tcp ob)) \<in> {Logged_in, Disconnected})"

definition srv_settings :: "sw \<Rightarrow> bool" where
  "srv_settings w \<longleftrightarrow> distinct (ac_connections w) \<and> (\<forall>x \<in> set (ac_connections w). x < ac_next w) \<and>
     0 < ac_write_packets_limit w \<and> ac_debug_banner w = [] \<and>
     (\<forall>x. x \<notin> set (ac_connections w) \<longrightarrow> \<not> tcp_outstanding (stcp x w))"

definition srv_others :: "nat \<Rightarrow> sw \<Rightarrow> bool" where
  "srv_others c w \<longleftrightarrow> (\<forall>x \<in> set (ac_connections w). x \<noteq> c \<longrightarrow>
     st_ok (stcp x w) \<and> \<not> tcp_finished (stcp x w) \<and> bound_late (ac_objects w x))"

definition world_at :: "(tcp_object \<Rightarrow> bool) \<Rightarrow> nat \<Rightarrow> sw \<Rightarrow> bool" where
  "world_at P c w \<longleftrightarrow> c \<in> set (ac_connections w) \<and> P (stcp c w) \<and> \<not> tcp_finished (stcp c w) \<and>
     srv_others c w \<and> srv_settings w \<and> ports_linked w"

definition world_with :: "(tcp_object \<Rightarrow> bool) \<Rightarrow> nat \<Rightarrow> sw \<Rightarrow> bool" where
  "world_with P c w \<longleftrightarrow> world_at P c w \<and> bound_late (ac_objects w c)"

definition srv_ok :: "sw \<Rightarrow> bool" where
  "srv_ok w \<longleftrightarrow> srv_settings w \<and> ports_linked w \<and> (\<forall>x \<in> set (ac_connections w).
     st_ok (stcp x w) \<and> \<not> tcp_finished (stcp x w) \<and> bound_late (ac_objects w x))"

lemmas world_defs = world_with_def world_at_def srv_others_def

lemma srv_ok_at: "srv_ok w \<and> c \<in> set (ac_connections w) \<longleftrightarrow> world_with st_ok c w"
  by (auto simp: srv_ok_def world_defs)

lemma world_with_D:
  assumes "world_with P c w"
  shows "P (stcp c w)" "c \<in> set (ac_connections w)" "\<not> tcp_finished (stcp c w)"
    "world_at P c w" "bound_late (ac_objects w c)"
  using assms by (simp_all add: world_with_def world_at_def)

text \<open>Calls to handlers do not matter.\<close>

lemma only_calls_world:
  assumes "only_calls w w'"
  shows "world_with P c w' = world_with P c w" "world_at P c w' = world_at P c w"
    "srv_ok w' = srv_ok w"
  by (simp_all add: world_defs srv_ok_def srv_settings_def ports_linked_def
      only_calls_fields [OF assms])

lemmas world_calls [simp] =
  only_calls_world [OF calls_only(1)] only_calls_world [OF calls_only(2)]
  only_calls_world [OF calls_only(3)] only_calls_world [OF calls_only(4)]

lemma only_calls_emit [simp]: "only_calls w (sv_emit x h cb w)"
  by (simp add: only_calls_def sv_emit_def)

lemma only_calls_undefined [simp]: "only_calls w (undefined_behaviour w)"
  by (simp add: only_calls_def undefined_behaviour_def)

lemmas world_emits [simp] =
  only_calls_world [OF only_calls_emit] only_calls_world [OF only_calls_undefined]

text \<open>What a step may do to the state of a connection without logging it in.\<close>

definition no_login :: "tcp_object \<Rightarrow> tcp_object \<Rightarrow> bool" where
  "no_login t t' \<longleftrightarrow>
     (cs_state (ct_state t') = Logged_in \<longrightarrow> cs_state (ct_state t) = Logged_in) \<and>
     (cs_state (ct_state t) \<in> {Logged_in, Disconnected} \<longrightarrow>
        cs_state (ct_state t') \<in> {Logged_in, Disconnected})"

lemma no_login_simps [simp]:
  "ct_state t' = ct_state t \<Longrightarrow> no_login t t'"
  "cs_state (ct_state t') = Disconnected \<Longrightarrow> no_login t t'"
  by (auto simp: no_login_def)

lemma ports_linked_objects:
  assumes "ports_linked w" and "ac_ports w' = ac_ports w" and "ac_connections w' = ac_connections w"
    and "\<And>x. st_port (ac_objects w' x) = st_port (ac_objects w x)"
    and "\<And>x. cs_state (ct_state (stcp x w')) = Logged_in \<Longrightarrow> cs_state (ct_state (stcp x w)) = Logged_in"
  shows "ports_linked w'"
  using assms(1) unfolding ports_linked_def assms(2-4) using assms(5) by blast

lemma world_upd_rest:
  assumes w: "world_with P c w" and nl: "no_login (stcp c w) (g (stcp c w))"
  shows "ports_linked (upd_stcp c g w)" "bound_late (ac_objects (upd_stcp c g w) c)"
    "srv_settings (upd_stcp c g w)" "srv_others c (upd_stcp c g w)"
proof -
  have "ports_linked w" using w by (simp add: world_with_def world_at_def)
  then show "ports_linked (upd_stcp c g w)"
    by (rule ports_linked_objects) (use nl in \<open>auto simp: no_login_def split: if_splits\<close>)
  show "bound_late (ac_objects (upd_stcp c g w) c)"
    using w nl by (auto simp: world_with_def bound_late_def no_login_def)
  show "srv_settings (upd_stcp c g w)" "srv_others c (upd_stcp c g w)"
    using w by (simp_all add: world_with_def world_at_def srv_settings_def srv_others_def)
qed

lemma world_upd:
  assumes "world_with P c w" and "Q (g (stcp c w))" and "\<not> tcp_finished (g (stcp c w))"
    and "no_login (stcp c w) (g (stcp c w))"
  shows "world_with Q c (upd_stcp c g w)"
  using assms world_upd_rest [where g = g, OF assms(1,4)] by (simp add: world_with_def world_at_def)

text \<open>Most steps keep the flags that \<open>tcp_finished\<close> looks at.\<close>

lemma finished_same:
  "ct_socket_closed t' = ct_socket_closed t \<Longrightarrow>
   ct_login_timer_stopped t' = ct_login_timer_stopped t \<Longrightarrow>
   ct_heartbeat_timer_stopped t' = ct_heartbeat_timer_stopped t \<Longrightarrow>
   tcp_finished t' = tcp_finished t"
  by (simp add: tcp_finished_def)

lemma world_disconnect:
  assumes "world_with P c w" and "\<And>t. P t \<Longrightarrow> Q (t_disconnect r t)"
  shows "world_with Q c (stcp_disconnect c r w)"
  unfolding stcp_disconnect_eq
  using assms world_with_D [OF assms(1)]
  by (intro world_upd [OF assms(1)]) (simp_all add: finished_same [of "t_disconnect r t" t for t])

lemma world_socket:
  assumes "world_with P c w" and "\<And>t. P t \<Longrightarrow> Q (t\<lparr>ct_socket := f (ct_socket t)\<rparr>)"
  shows "world_with Q c (upd_stcp c (\<lambda>t. t\<lparr>ct_socket := f (ct_socket t)\<rparr>) w)"
  using assms world_with_D [OF assms(1)]
  by (intro world_upd [OF assms(1)]) (simp_all add: tcp_finished_def)

lemma world_weaken: "world_with P c w \<Longrightarrow> (\<And>t. P t \<Longrightarrow> Q t) \<Longrightarrow> world_with Q c w"
  by (simp add: world_with_def world_at_def)

section \<open>Errors\<close>

lemma transport_error_world:
  assumes "world_with P c w" and "\<And>t. P t \<Longrightarrow> tcp_mid t \<and> st_frame t"
  shows "world_with st_pre c (stcp_handle_transport_error c ec operation w)"
  unfolding stcp_handle_transport_error_def
  using assms by (intro world_disconnect [where P = P]) (simp_all add: disconnect_st_pre)

lemma protocol_violation_world:
  assumes "world_with P c w" and "\<And>t. P t \<Longrightarrow> Q (t_disconnect DR_protocol_violation t)"
  shows "world_with Q c (stcp_handle_protocol_violation c e w)"
  unfolding stcp_handle_protocol_violation_def
  using assms by (intro world_disconnect [where P = P]) simp_all

end
