(* ===== verification/Server_Login.thy ===== *)
theory Server_Login
  imports Server_World
begin

text \<open>
  The login: what \<^verbatim>\<open>Acceptor::on_login_request\<close> and \<^verbatim>\<open>Port::on_login_request\<close> answer and
  do to the connection that asks, to the one they supersede, and to the port.
\<close>

section \<open>The effect on the world\<close>

lemma port_reject:
  assumes "port_on_login_request p c request session w = (result, w')"
    and "deref result = None"
  shows "w' = w \<and> error_of result \<noteq> None"
  using assms by (auto simp: port_on_login_request_def Let_def unexpected_of_def expected_of_def
      deref_def error_of_def split: if_splits)

lemma acceptor_reject:
  assumes "acceptor_on_login_request env c request w = (result, w')" and "deref result = None"
  shows "w' = w \<and> error_of result \<noteq> None"
  using assms port_reject
  by (auto simp: acceptor_on_login_request_def unexpected_of_def deref_def error_of_def
      split: option.splits)

lemma find_port_SomeD: "find_port u ports = Some p \<Longrightarrow> p < length ports \<and> po_username (ports ! p) = u"
  unfolding find_port_def by (auto dest: find_SomeD)

text \<open>An accepted login.\<close>

lemma acceptor_accept:
  assumes "acceptor_on_login_request env c request w = (result, w')"
    and "deref result = Some response"
  shows "\<exists>p. p < length (ac_ports w) \<and> po_username (ac_ports w ! p) = lq_username request \<and>
     port_on_login_request p c request (se_session env) w = (result, w')"
  using assms find_port_SomeD [of "lq_username request" "ac_ports w"]
  by (auto simp: acceptor_on_login_request_def unexpected_of_def deref_def split: option.splits)

definition port_bound :: "nat \<Rightarrow> nat \<Rightarrow> sw \<Rightarrow> sw" where
  \<comment> \<open>the old connection superseded, the port and the new connection bound to each other\<close>
  "port_bound p c w =
    (let w = (case po_connection (ac_ports w ! p) of
                None \<Rightarrow> w | Some old \<Rightarrow> upd_stcp old (t_disconnect DR_superseded) w);
         w = upd_port p (\<lambda>po. po\<lparr>po_connection := Some c\<rparr>) w
     in upd_object c (\<lambda>t. t\<lparr>st_port := Some p, st_handler := po_handler (ac_ports w ! p)\<rparr>) w)"

lemma port_accept:
  assumes "port_on_login_request p c request session w = (result, w')"
    and "deref result = Some response" and "p < length (ac_ports w)"
  shows "w' = port_bound p c w \<or>
     w' = upd_port p (\<lambda>po. po\<lparr>po_next_sequence_number := lq_next_sequence_number request\<rparr>) (port_bound p c w)"
  using assms
  by (auto simp: port_on_login_request_def port_bound_def Let_def unexpected_of_def deref_def
      stcp_supersede_def stcp_disconnect_eq split: if_splits option.splits)

lemma world_port_number:
  "world_at P c (upd_port p (\<lambda>po. po\<lparr>po_next_sequence_number := n\<rparr>) w) = world_at P c w"
proof -
  let ?w = "upd_port p (\<lambda>po. po\<lparr>po_next_sequence_number := n\<rparr>) w"
  have "po_connection (ac_ports ?w ! q) = po_connection (ac_ports w ! q)" for q
    by (cases "p < length (ac_ports w)"; cases "p = q") (auto simp: not_less list_update_beyond)
  then have "ports_linked ?w = ports_linked w" by (simp add: ports_linked_def)
  then show ?thesis by (simp add: world_at_def srv_others_def srv_settings_def)
qed

text \<open>Binding keeps the world, but for the state of the connection that logs in.\<close>

lemma port_bound_world:
  assumes w: "world_with P c w" and st: "cs_state (ct_state (stcp c w)) = Connected"
    and p: "p < length (ac_ports w)"
  shows "world_at P c (port_bound p c w)" and "stcp c (port_bound p c w) = stcp c w"
proof -
  let ?old = "po_connection (ac_ports w ! p)"
  have link: "ports_linked w" and others: "srv_others c w" and set': "srv_settings w"
      and c: "c \<in> set (ac_connections w)" and late: "bound_late (ac_objects w c)"
    using w by (simp_all add: world_with_def world_at_def)
  have free: "st_port (ac_objects w c) = None" using late st by (simp add: bound_late_def)
  have nc: "po_connection (ac_ports w ! q) \<noteq> Some c" if "q < length (ac_ports w)" for q
    using ports_linked_D(1) [OF link that] free by fastforce
  have old: "x \<in> set (ac_connections w) \<and> st_port (ac_objects w x) = Some p" if "?old = Some x" for x
    using ports_linked_D(1) [OF link p that] .
  have objs: "ac_objects (port_bound p c w) x =
      (if x = c then (ac_objects w c)\<lparr>st_port := Some p, st_handler := po_handler (ac_ports w ! p)\<rparr>
       else if ?old = Some x then (ac_objects w x)\<lparr>st_tcp := t_disconnect DR_superseded (stcp x w)\<rparr>
       else ac_objects w x)" for x
    using p nc [OF p] by (auto simp: port_bound_def Let_def split: option.splits)
  have rest: "ac_connections (port_bound p c w) = ac_connections w"
      "ac_next (port_bound p c w) = ac_next w"
      "ac_write_packets_limit (port_bound p c w) = ac_write_packets_limit w"
      "ac_debug_banner (port_bound p c w) = ac_debug_banner w"
      "ac_ports (port_bound p c w) = (ac_ports w)[p := (ac_ports w ! p)\<lparr>po_connection := Some c\<rparr>]"
    by (simp_all add: port_bound_def Let_def split: option.splits)
  show same: "stcp c (port_bound p c w) = stcp c w" by (simp add: objs)
  have "srv_settings (port_bound p c w)"
    using set' old c by (auto simp: srv_settings_def rest objs)
  moreover have "srv_others c (port_bound p c w)"
    unfolding srv_others_def rest
  proof (intro ballI impI)
    fix x assume x: "x \<in> set (ac_connections w)" "x \<noteq> c"
    then have ok: "st_ok (stcp x w)" "\<not> tcp_finished (stcp x w)" "bound_late (ac_objects w x)"
      using others by (simp_all add: srv_others_def)
    then show "st_ok (stcp x (port_bound p c w)) \<and> \<not> tcp_finished (stcp x (port_bound p c w)) \<and>
        bound_late (ac_objects (port_bound p c w) x)"
      using x by (simp add: objs disconnect_st_ok st_ok_D [OF ok(1)] tcp_finished_def bound_late_def)
  qed
  moreover have "ports_linked (port_bound p c w)"
    unfolding ports_linked_def rest
  proof (intro conjI allI ballI impI)
    fix q x assume q: "q < length ((ac_ports w)[p := (ac_ports w ! p)\<lparr>po_connection := Some c\<rparr>])"
      and qx: "po_connection ((ac_ports w)[p := (ac_ports w ! p)\<lparr>po_connection := Some c\<rparr>] ! q) = Some x"
    show "x \<in> set (ac_connections w)"
      using q qx c ports_linked_D(1) [OF link, of q x] by (cases "q = p") simp_all
    show "st_port (ac_objects (port_bound p c w) x) = Some q"
      using q qx nc [of q] ports_linked_D(1) [OF link, of q x] objs [of x] by (cases "q = p") (simp_all split: if_splits)
  next
    fix x q assume "x \<in> set (ac_connections w)" "st_port (ac_objects (port_bound p c w) x) = Some q"
    with p ports_linked_D(2) [OF link, of x q]
    show "q < length ((ac_ports w)[p := (ac_ports w ! p)\<lparr>po_connection := Some c\<rparr>])"
      by (simp add: objs split: if_splits)
  next
    fix x assume x: "x \<in> set (ac_connections w)"
      and li: "cs_state (ct_state (stcp x (port_bound p c w))) = Logged_in"
    then have xw: "x \<noteq> c" "cs_state (ct_state (stcp x w)) = Logged_in" "?old \<noteq> Some x"
      using st by (auto simp: objs split: if_splits)
    obtain q where q: "st_port (ac_objects w x) = Some q" "po_connection (ac_ports w ! q) = Some x"
      using ports_linked_D(3) [OF link x xw(2)] by blast
    with xw have "q \<noteq> p" by auto
    with q xw show "\<exists>q. st_port (ac_objects (port_bound p c w) x) = Some q \<and>
        po_connection ((ac_ports w)[p := (ac_ports w ! p)\<lparr>po_connection := Some c\<rparr>] ! q) = Some x"
      by (auto simp: objs)
  qed
  ultimately show "world_at P c (port_bound p c w)"
    using w by (simp add: world_at_def world_with_def rest same)
qed

text \<open>Then the connection becomes logged in (or fails to start its heartbeats).\<close>

lemma world_login_upd:
  assumes w: "world_at P c w" and "Q (g (stcp c w))" and "\<not> tcp_finished (g (stcp c w))"
    and st: "cs_state (ct_state (g (stcp c w))) \<in> {Logged_in, Disconnected}"
    and port: "st_port (ac_objects w c) = Some p" "po_connection (ac_ports w ! p) = Some c"
  shows "world_with Q c (upd_stcp c g w)"
proof -
  let ?w = "upd_stcp c g w"
  have link: "ports_linked w" using w by (simp add: world_at_def)
  have "ports_linked ?w"
    unfolding ports_linked_def
  proof (intro conjI allI ballI impI)
    fix q x assume "q < length (ac_ports ?w)" "po_connection (ac_ports ?w ! q) = Some x"
    with ports_linked_D(1) [OF link, of q x]
    show "x \<in> set (ac_connections ?w)" "st_port (ac_objects ?w x) = Some q" by auto
  next
    fix x q assume "x \<in> set (ac_connections ?w)" "st_port (ac_objects ?w x) = Some q"
    with ports_linked_D(2) [OF link, of x q] show "q < length (ac_ports ?w)"
      by (simp split: if_splits)
  next
    fix x assume "x \<in> set (ac_connections ?w)" "cs_state (ct_state (stcp x ?w)) = Logged_in"
    with ports_linked_D(3) [OF link, of x] port
    show "\<exists>q. st_port (ac_objects ?w x) = Some q \<and> po_connection (ac_ports ?w ! q) = Some x"
      by (cases "x = c") simp_all
  qed
  moreover have "bound_late (ac_objects ?w c)" using st by (simp add: bound_late_def)
  moreover have "srv_settings ?w" "srv_others c ?w"
    using w by (simp_all add: world_at_def srv_settings_def srv_others_def)
  ultimately show ?thesis
    using assms(1-3) by (simp add: world_with_def world_at_def)
qed

definition t_answered :: "server_env \<Rightarrow> write_packet \<Rightarrow> tcp_object \<Rightarrow> tcp_object" where
  "t_answered env packet t =
    (let t = t_logged_in (se_now env) (se_heartbeat_throws env) (se_heartbeat_throws' env) t
     in t\<lparr>ct_socket := snd (socket_async_write packet (ct_socket t))\<rparr>)"

abbreviation accepted_packet :: "login_accepted_packet \<Rightarrow> write_packet" where
  "accepted_packet response \<equiv> wp_write_payload (write_login_accepted response)
     (write_packet_sized login_accepted_type (of_nat login_accepted_size))"

abbreviation rejected_packet :: "login_reject \<Rightarrow> write_packet" where
  "rejected_packet reject \<equiv> wp_write_payload (write_login_rejected (rj_packet reject))
     (write_packet_sized login_rejected_type (of_nat login_rejected_size))"

lemma accept_login_effect:
  assumes "\<not> hb_started (ct_heartbeat_timer (stcp c w))"
  shows "only_calls (upd_stcp c (t_answered env (accepted_packet response)) w)
           (stcp_accept_login env c response w)"
  using assms
  by (simp add: stcp_accept_login_def t_answered_def t_logged_in_def heartbeat_timer_start_def
      heartbeat_timer_schedule_def stcp_heartbeat_handler_def stcp_heartbeat_timer_error_def
      stcp_handle_transport_error_def stcp_disconnect_eq only_calls_def upd_stcp_def
      upd_object_def handler_call_def port_call_def acceptor_handler_call_def sv_emit_def
      undefined_behaviour_def set_state_def Let_def split: option.splits)

lemma reject_login_effect:
  "only_calls (upd_stcp c (t_rejected (rejected_packet reject)) w) (stcp_reject_login c reject w)"
  by (simp add: stcp_reject_login_def t_rejected_def stcp_prepare_graceful_disconnect_def
      only_calls_def upd_stcp_def upd_object_def acceptor_handler_call_def sv_emit_def Let_def)

lemma t_answered_flags [simp]: "ct_socket_closed (t_answered env packet t) = ct_socket_closed t"
  "\<not> ct_heartbeat_timer_stopped (t_answered env packet t)"
  by (simp_all add: t_answered_def t_logged_in_def Let_def split: option.splits)

lemma t_answered_state:
  "cs_state (ct_state (t_answered env packet t)) \<in> {Logged_in, Disconnected}"
  using logged_in_state by (simp add: t_answered_def Let_def)

lemma answered_reading:
  assumes "st_reading t" and "cs_state (ct_state t) = Connected" and "\<not> lt_started (ct_login_timer t)"
  shows "st_reading (t_answered env packet t)"
  using logged_in_reading [OF assms] logged_in_state
  by (simp add: t_answered_def Let_def write_reading)

lemma st_reading_login_stop:
  "st_reading t \<Longrightarrow> st_reading (t\<lparr>ct_login_timer := login_timer_stop (ct_login_timer t)\<rparr>)"
  by (auto simp: st_reading_def tcp_mid_def timers_armed_def st_shape_def st_frame_def)

lemma st_connected_unused:
  "st_reading t \<Longrightarrow> cs_state (ct_state t) = Connected \<Longrightarrow> \<not> hb_started (ct_heartbeat_timer t)"
  by (simp add: st_reading_def tcp_mid_def hb_unused_def)

text \<open>The whole request, on every branch.\<close>

lemma process_login_request_world:
  assumes w: "world_with st_reading c w"
  shows "world_with st_reading c (snd (stcp_process_login_request env c data sz w))"
proof (cases "sz = login_request_size \<and> cs_state (ct_state (stcp c w)) = Connected")
  case False
  with w show ?thesis by (auto simp: stcp_process_login_request_def)
next
  case True
  let ?request = "read_login_request login_request_default data"
  let ?w1 = "acceptor_handler_call c (Sc_login_request ?request)
      (upd_stcp c (\<lambda>t. t\<lparr>ct_login_timer := login_timer_stop (ct_login_timer t)\<rparr>) w)"
  obtain result w2 where r: "acceptor_on_login_request env c ?request ?w1 = (result, w2)"
    by fastforce
  have w1: "world_with st_reading c ?w1"
    unfolding world_calls using world_with_D [OF w]
    by (intro world_upd [OF w]) (simp_all add: st_reading_login_stop tcp_finished_def)
  have st: "cs_state (ct_state (stcp c ?w1)) = Connected" "\<not> lt_started (ct_login_timer (stcp c ?w1))"
    using True by simp_all
  note rd = world_with_D(1) [OF w1]
  show ?thesis
  proof (cases "deref result")
    case None
    with acceptor_reject [OF r] obtain reject where rj: "w2 = ?w1" "error_of result = Some reject"
      by blast
    have "world_with st_reading c (upd_stcp c (t_rejected (rejected_packet reject)) ?w1)"
    proof (rule world_upd [OF w1])
      show "st_reading (t_rejected (rejected_packet reject) (stcp c ?w1))"
        by (rule rejected_reading [OF rd st(1)])
      show "\<not> tcp_finished (t_rejected (rejected_packet reject) (stcp c ?w1))"
        using world_with_D(3) [OF w1] by (simp add: tcp_finished_def t_rejected_def)
      show "no_login (stcp c ?w1) (t_rejected (rejected_packet reject) (stcp c ?w1))"
        using st(1) by (simp add: no_login_def t_rejected_def initiate_disconnect_def is_closing_def)
    qed
    with only_calls_world [OF reject_login_effect] True r None rj show ?thesis
      by (simp add: stcp_process_login_request_def Let_def)
  next
    case (Some response)
    obtain p where p: "p < length (ac_ports ?w1)"
        "port_on_login_request p c ?request (se_session env) ?w1 = (result, w2)"
      using acceptor_accept [OF r Some] by blast
    note bound = port_bound_world [OF w1 st(1) p(1)]
    from port_accept [OF p(2) Some p(1)] bound
    have w2: "world_at st_reading c w2" "stcp c w2 = stcp c ?w1" by (auto simp: world_port_number)
    have port: "st_port (ac_objects w2 c) = Some p" "po_connection (ac_ports w2 ! p) = Some c"
      using port_accept [OF p(2) Some p(1)] p(1)
      by (auto simp: port_bound_def Let_def split: option.splits)
    have "world_with st_reading c (upd_stcp c (t_answered env (accepted_packet response)) w2)"
      using t_answered_state answered_reading [OF rd st]
      by (intro world_login_upd [OF w2(1) _ _ _ port]) (simp_all add: w2(2) tcp_finished_def)
    moreover have "\<not> hb_started (ct_heartbeat_timer (stcp c w2))"
      using st_connected_unused [OF rd st(1)] w2(2) by simp
    ultimately show ?thesis
      using only_calls_world [OF accept_login_effect] True r Some
      by (simp add: stcp_process_login_request_def Let_def)
  qed
qed

end
