(* ===== verification/Server_Invariant.thy ===== *)
theory Server_Invariant
  imports Server_Login
begin

text \<open>
  Every event of an acceptor keeps \<open>srv_ok\<close>: completions and posted notifications of its
  connections, accepts, and the calls of the user and the server.
\<close>

section \<open>Packets\<close>

lemma world_counts:
  "world_with st_reading c w \<Longrightarrow> world_with st_reading c (stcp_increment_receive_count c w)"
  using world_with_D [of st_reading c w]
  by (simp add: stcp_increment_receive_count_def)
     (intro world_upd [where P = st_reading]; simp add: reading_receive_count tcp_finished_def)

lemma process_packet_world:
  assumes w: "world_with st_reading c w"
  shows "world_with st_reading c (snd (stcp_process_packet env c packet w))"
  using w
  by (simp add: stcp_process_packet_def Let_def process_login_request_world world_counts
      stcp_process_debug_def stcp_process_unsequenced_data_def stcp_process_client_heartbeat_def
      stcp_process_logout_request_def world_disconnect [where P = st_reading] disconnect_st_reading
      split: option.splits)

lemma reading_closing: "st_reading t \<Longrightarrow> is_closing (ct_state t) \<Longrightarrow> st_pre t"
  by (simp add: st_reading_def st_pre_def server_live_def)

lemma reading_async_read:
  assumes r: "st_reading t"
  shows "st_pre (t\<lparr>ct_socket := socket_async_read (ct_socket t)\<rparr>)"
proof -
  have ev: "sock_evolve (ct_socket t) (socket_async_read (ct_socket t))"
    using r by (intro sock_evolve.intros) (simp_all add: st_reading_def st_shape_def st_frame_def)
  have "tcp_mid (t\<lparr>ct_socket := socket_async_read (ct_socket t)\<rparr>)"
    using r ev by (intro mid_evolve) (simp_all add: st_reading_def)
  with r show ?thesis
    by (auto simp: st_reading_def st_pre_def server_live_def st_shape_def st_frame_def is_closing_def
        timers_armed_def socket_async_read_def read_header_def)
qed

lemma read_success_world:
  assumes w: "world_with st_reading c w"
  shows "world_with st_pre c (stcp_read_success env c packet w)"
proof (cases "is_closing (ct_state (stcp c w))")
  case True
  with w world_with_D(1) [OF w] show ?thesis
    by (simp add: stcp_read_success_def world_with_def world_at_def reading_closing)
next
  case False
  obtain e w1 where p: "stcp_process_packet env c packet w = (e, w1)" by fastforce
  let ?w2 = "if e \<noteq> PE_none then stcp_handle_protocol_violation c e w1 else w1"
  have "world_with st_reading c w1" using process_packet_world [OF w, of env packet] p by simp
  then have w2: "world_with st_reading c ?w2"
    by (simp add: protocol_violation_world [where P = st_reading] disconnect_st_reading)
  show ?thesis
  proof (cases "is_closing (ct_state (stcp c ?w2))")
    case True
    with False p w2 world_with_D(1) [OF w2] show ?thesis
      by (simp only: stcp_read_success_def Let_def split_def if_False if_True prod.sel)
        (simp add: world_with_def world_at_def reading_closing)
  next
    case c2: False
    have "world_with st_pre c (upd_stcp c (\<lambda>t. t\<lparr>ct_socket := socket_async_read (ct_socket t)\<rparr>) ?w2)"
      by (rule world_socket [OF w2]) (rule reading_async_read)
    with False p c2 show ?thesis
      by (simp only: stcp_read_success_def Let_def split_def if_False prod.sel stcp_lenses)
  qed
qed

section \<open>Completions of the socket\<close>

text \<open>The handlers of \<open>header_received\<close> and \<open>payload_received\<close>; the socket has cleared its
  flag, and has not signaled that it is closed.\<close>

lemma reading_mid_frame: "st_reading t \<Longrightarrow> tcp_mid t \<and> st_frame t"
  by (simp add: st_reading_def st_shape_def)

lemma read_error_world:
  assumes w: "world_with st_reading c w"
  shows "world_with st_pre c (read_error (stcp_socket_handler env c) ec w)"
    and "world_with st_pre c (stcp_read_failure c ec w)"
    and "world_with st_pre c (stcp_read_packet_failure c pe w)"
  using assms reading_mid_frame disconnect_st_pre
  by (simp_all add: read_error_def stcp_socket_handler_def stcp_read_aborted_def
      stcp_read_end_of_file_def stcp_read_failure_def stcp_read_packet_failure_def
      transport_error_world [where P = st_reading] protocol_violation_world [where P = st_reading]
      world_disconnect [where P = st_reading])

lemma reading_packet: "st_reading t \<Longrightarrow> st_reading (t\<lparr>ct_socket := (ct_socket t)\<lparr>sk_read_packet := p\<rparr>\<rparr>)"
  by (auto simp: st_reading_def st_shape_def st_frame_def timers_armed_def
      intro!: mid_socket simp: tcp_mid_def sock_core_def sock_told_def n_ops_def is_idle_def)

lemma world_read_packet:
  assumes "world_with st_reading c w"
  shows "world_with st_reading c
     (upd_stcp c (\<lambda>t. t\<lparr>ct_socket := (ct_socket t)\<lparr>sk_read_packet := p\<rparr>\<rparr>) w)"
  by (rule world_socket [OF assms]) (rule reading_packet)

lemma reading_payload:
  assumes r: "st_reading t" and ns: "\<not> sk_closed_signaled (ct_socket t)"
  shows "st_pre (t\<lparr>ct_socket := read_payload (ct_socket t)\<rparr>)"
proof -
  let ?k = "read_payload (ct_socket t)"
  have core: "sock_core (ct_socket t)" and mid: "tcp_mid t"
    using r by (simp_all add: st_reading_def tcp_mid_def)
  have "sock_core ?k"
    using core r ns by (auto simp: st_reading_def st_shape_def st_frame_def sock_core_def
        n_ops_def is_idle_def read_payload_def)
  moreover have "sock_told ?k = sock_told (ct_socket t)"
    using ns by (simp add: sock_told_def read_payload_def)
  ultimately have "tcp_mid (t\<lparr>ct_socket := ?k\<rparr>)"
    using r by (intro mid_socket [OF mid]) (auto simp: read_payload_def)
  with r show ?thesis
    by (simp add: st_pre_def server_live_def st_reading_def st_shape_def st_frame_def
        timers_armed_def read_payload_def)
qed

lemma world_payload:
  assumes w: "world_with st_reading c w" and ns: "\<not> sk_closed_signaled (ct_socket (stcp c w))"
  shows "world_with st_pre c (upd_stcp c (\<lambda>t. t\<lparr>ct_socket := read_payload (ct_socket t)\<rparr>) w)"
  using world_with_D [OF w] reading_payload [OF _ ns]
  by (intro world_upd [OF w]) (simp_all add: tcp_finished_def)

lemma stcp_handler_sels:
  "sh_socket (stcp_socket_handler env c) = stcp_socket_lens c"
  "sh_read_success (stcp_socket_handler env c) = stcp_read_success env c"
  "sh_read_failure (stcp_socket_handler env c) = stcp_read_failure c"
  "sh_read_packet_failure (stcp_socket_handler env c) = stcp_read_packet_failure c"
  "sh_write_success (stcp_socket_handler env c) = stcp_write_success c"
  "sh_write_failure (stcp_socket_handler env c) = stcp_write_failure c"
  "sh_write_buffer_empty (stcp_socket_handler env c) = stcp_write_buffer_empty c"
  "sh_closed (stcp_socket_handler env c) = stcp_closed c"
  by (simp_all add: stcp_socket_handler_def)

lemma header_received_world:
  assumes w: "world_with st_reading c w" and ns: "\<not> sk_closed_signaled (ct_socket (stcp c w))"
  shows "world_with st_pre c (header_received (stcp_socket_handler env c) ec n w)"
  using w ns
  by (simp add: header_received_def Let_def split_def stcp_handler_sels read_error_world
      world_read_packet world_payload read_success_world read_packet_move_def
      split: read_resize.splits)

lemma payload_received_world:
  assumes w: "world_with st_reading c w"
  shows "world_with st_pre c (payload_received (stcp_socket_handler env c) ec n w)"
  using w
  by (simp add: payload_received_def Let_def split_def stcp_handler_sels read_error_world
      world_read_packet read_success_world read_packet_move_def)

lemma world_signal:
  assumes "world_with st_pre c w"
  shows "world_with st_ok c (lens_upd (stcp_socket_lens c) socket_maybe_signal_closed w)"
  unfolding stcp_lenses using assms by (rule world_socket) (rule st_pre_signal)

text \<open>The state in which a read completes.\<close>

lemma st_read_cleared:
  assumes ok: "st_ok t" and mem: "op \<in> set (sk_ops (ct_socket t))" and rd: "is_read_op op"
  shows "st_reading (t\<lparr>ct_socket := (ct_socket t)\<lparr>sk_ops := remove1 op (sk_ops (ct_socket t)),
             sk_read_packet := p, sk_read_pending := False\<rparr>\<rparr>)"
    and "\<not> sk_closed_signaled (ct_socket t)"
proof -
  note c = cleared_core(2) [OF st_ok_D(4) [OF ok] mem rd]
  show "\<not> sk_closed_signaled (ct_socket t)" using c by simp
  show "st_reading (t\<lparr>ct_socket := (ct_socket t)\<lparr>sk_ops := remove1 op (sk_ops (ct_socket t)),
             sk_read_packet := p, sk_read_pending := False\<rparr>\<rparr>)"
    unfolding st_reading_def using c st_ok_D [OF ok]
    by (auto intro!: mid_cleared [OF st_ok_D(2) [OF ok]]
        simp: st_shape_def st_frame_def timers_armed_def)
qed

lemma world_read_cleared:
  assumes w: "world_with st_ok c w" and mem: "op \<in> set (sk_ops (ct_socket (stcp c w)))"
    and rd: "is_read_op op"
  shows "world_with st_reading c (upd_stcp c (\<lambda>t. t\<lparr>ct_socket := (ct_socket t)
      \<lparr>sk_ops := remove1 op (sk_ops (ct_socket t)),
       sk_read_packet := f (sk_read_packet (ct_socket t)), sk_read_pending := False\<rparr>\<rparr>) w)"
  using world_with_D [OF w] st_read_cleared(1) [OF _ mem rd]
  by (intro world_upd [OF w]) (simp_all add: tcp_finished_def)

lemma read_done_world:
  assumes w: "world_with st_ok c w"
  shows "Op_read_header \<in> set (sk_ops (ct_socket (stcp c w))) \<Longrightarrow>
      world_with st_ok c (read_header_done (stcp_socket_handler env c) ec data w)"
    and "Op_read_payload \<in> set (sk_ops (ct_socket (stcp c w))) \<Longrightarrow>
      world_with st_ok c (read_payload_done (stcp_socket_handler env c) ec data w)"
proof -
  note ok = world_with_D(1) [OF w]
  show "world_with st_ok c (read_header_done (stcp_socket_handler env c) ec data w)"
    if mem: "Op_read_header \<in> set (sk_ops (ct_socket (stcp c w)))"
    unfolding read_header_done_def Let_def stcp_handler_sels
    using world_read_cleared [OF w mem, of "\<lambda>p. p\<lparr>rp_header := poke 0 data (rp_header p)\<rparr>"]
      st_read_cleared(2) [OF ok mem]
    by (intro world_signal header_received_world) simp_all
  show "world_with st_ok c (read_payload_done (stcp_socket_handler env c) ec data w)"
    if mem: "Op_read_payload \<in> set (sk_ops (ct_socket (stcp c w)))"
    unfolding read_payload_done_def Let_def stcp_handler_sels
    using world_read_cleared [OF w mem, of "\<lambda>p. p\<lparr>rp_payload := buffer_poke 0 data (rp_payload p)\<rparr>"]
    by (intro world_signal payload_received_world) simp_all
qed

section \<open>A packet has been written\<close>

definition st_writing :: "tcp_object \<Rightarrow> bool" where
  "st_writing t \<longleftrightarrow> tcp_mid t \<and> timers_armed t \<and> st_frame t \<and>
     \<not> sk_write_pending (ct_socket t) \<and> sk_write_packets (ct_socket t) \<noteq> [] \<and>
     \<not> sk_closed_signaled (ct_socket t) \<and>
     cs_state (ct_state t) \<in> {Logged_in, Disconnecting, Disconnected} \<and>
     (cs_state (ct_state t) = Disconnecting \<longrightarrow> length (sk_write_packets (ct_socket t)) = 1) \<and>
     (is_closing (ct_state t) \<or> sk_read_pending (ct_socket t))"

lemma writing_cleared:
  assumes ok: "st_ok t" and mem: "Op_write bs \<in> set (sk_ops (ct_socket t))"
  shows "st_writing (t\<lparr>ct_socket := (ct_socket t)\<lparr>sk_ops := remove1 (Op_write bs) (sk_ops (ct_socket t)),
             sk_write_pending := False\<rparr>\<rparr>)"
proof -
  have c: "sock_core ((ct_socket t)\<lparr>sk_ops := remove1 (Op_write bs) (sk_ops (ct_socket t)),
             sk_write_pending := False\<rparr>)" "\<not> sk_closed_signaled (ct_socket t)"
      "sk_write_packets (ct_socket t) \<noteq> []"
    using cleared_core(3) [OF st_ok_D(4) [OF ok] mem] by simp_all
  from ok have sh: "st_shape t" "is_closing (ct_state t) \<or> sk_read_pending (ct_socket t)"
    by (simp_all add: st_ok_def server_live_def)
  then have "cs_state (ct_state t) \<in> {Logged_in, Disconnecting, Disconnected}"
    using c(3) by (cases "cs_state (ct_state t)") (simp_all add: st_shape_def)
  with sh c st_ok_D [OF ok] show ?thesis
    unfolding st_writing_def
    by (auto intro!: mid_cleared [OF st_ok_D(2) [OF ok]] simp: st_shape_def st_frame_def timers_armed_def)
qed

lemma writing_mid_frame: "st_writing t \<Longrightarrow> tcp_mid t \<and> st_frame t"
  by (simp add: st_writing_def)

lemma writing_aborted: "st_writing t \<Longrightarrow> sk_closing (ct_socket t) \<Longrightarrow> st_pre t"
  by (simp add: st_writing_def st_pre_def server_live_def st_shape_def st_frame_def is_closing_def)

text \<open>The next packet is started, or there is none.\<close>

lemma writing_next:
  assumes wr: "st_writing t" and nd: "cs_state (ct_state t) \<noteq> Disconnecting"
  shows "sk_write_packets (ct_socket t) = p # q \<Longrightarrow> q \<noteq> [] \<Longrightarrow>
      st_pre (t\<lparr>ct_socket := write_packet_start ((ct_socket t)\<lparr>sk_write_packets := q\<rparr>)\<rparr>)"
    and "st_pre (t\<lparr>ct_socket := (ct_socket t)\<lparr>sk_write_packets := q\<rparr>\<rparr>)"
    and "st_pre (t\<lparr>ct_socket := (ct_socket t)\<lparr>sk_write_packets := q, sk_write_buffer_was_full := b\<rparr>\<rparr>)"
proof -
  have mid: "tcp_mid t" and core: "sock_core (ct_socket t)" using wr by (simp_all add: st_writing_def tcp_mid_def)
  have *: "st_pre (t\<lparr>ct_socket := k\<rparr>)"
    if "sock_core k" "sk_closed_signaled k = sk_closed_signaled (ct_socket t)"
      "sk_closing k = sk_closing (ct_socket t)"
      "sk_connect_pending k = sk_connect_pending (ct_socket t)"
      "sk_read_pending k = sk_read_pending (ct_socket t)"
      "sk_write_packets_limit k = sk_write_packets_limit (ct_socket t)" for k
    using that wr nd mid_cleared [OF mid that(1) _ that(2,3)]
    by (auto simp: st_writing_def st_pre_def server_live_def st_shape_def st_frame_def timers_armed_def)
  show "st_pre (t\<lparr>ct_socket := write_packet_start ((ct_socket t)\<lparr>sk_write_packets := q\<rparr>)\<rparr>)"
    if "sk_write_packets (ct_socket t) = p # q" "q \<noteq> []"
    by (rule *) (use core wr that in \<open>auto simp: write_packet_start_def st_writing_def sock_core_def
        n_ops_def is_idle_def\<close>)
  show "st_pre (t\<lparr>ct_socket := (ct_socket t)\<lparr>sk_write_packets := q\<rparr>\<rparr>)"
      "st_pre (t\<lparr>ct_socket := (ct_socket t)\<lparr>sk_write_packets := q, sk_write_buffer_was_full := b\<rparr>\<rparr>)"
    by (rule *; use core wr in \<open>auto simp: st_writing_def sock_core_def n_ops_def is_idle_def\<close>)+
qed

text \<open>After a rejection nothing follows: the connection is taken down.\<close>

lemma writing_last:
  assumes wr: "st_writing t"
  shows "st_pre ((t_disconnect r t)\<lparr>ct_socket := (ct_socket (t_disconnect r t))\<lparr>sk_write_packets := q\<rparr>\<rparr>)"
    and "st_pre ((t_disconnect r t)\<lparr>ct_socket := (ct_socket (t_disconnect r t))
      \<lparr>sk_write_packets := q, sk_write_buffer_was_full := b\<rparr>\<rparr>)"
proof -
  let ?t = "t_disconnect r t"
  have pre: "st_pre ?t" using writing_mid_frame [OF wr] by (simp add: disconnect_st_pre)
  then have mid: "tcp_mid ?t" and core: "sock_core (ct_socket ?t)" by (simp_all add: st_pre_def tcp_mid_def)
  have nw: "\<not> sk_write_pending (ct_socket ?t)"
    using wr by (auto simp: st_writing_def t_disconnect_def split_def Let_def sock_op_defs)
  have "tcp_mid (?t\<lparr>ct_socket := k\<rparr>)" if "sock_core k" "sock_told k = sock_told (ct_socket ?t)"
      "sk_connect_pending k = sk_connect_pending (ct_socket ?t)"
      "sk_closing k = sk_closing (ct_socket ?t)" for k
    using that by (intro mid_socket [OF mid]) simp_all
  from this [of "(ct_socket ?t)\<lparr>sk_write_packets := q\<rparr>"]
    this [of "(ct_socket ?t)\<lparr>sk_write_packets := q, sk_write_buffer_was_full := b\<rparr>"]
  have "tcp_mid (?t\<lparr>ct_socket := (ct_socket ?t)\<lparr>sk_write_packets := q\<rparr>\<rparr>)"
      "tcp_mid (?t\<lparr>ct_socket := (ct_socket ?t)\<lparr>sk_write_packets := q, sk_write_buffer_was_full := b\<rparr>\<rparr>)"
    using core nw by (auto simp: sock_core_def n_ops_def is_idle_def sock_told_def)
  with pre show "st_pre (?t\<lparr>ct_socket := (ct_socket ?t)\<lparr>sk_write_packets := q\<rparr>\<rparr>)"
      "st_pre (?t\<lparr>ct_socket := (ct_socket ?t)\<lparr>sk_write_packets := q, sk_write_buffer_was_full := b\<rparr>\<rparr>)"
    by (simp_all add: st_pre_def server_live_def st_shape_def st_frame_def timers_armed_def is_closing_def)
qed

lemma world_upd_id: "upd_stcp c g (upd_stcp c f w) = upd_stcp c (\<lambda>t. g (f t)) w"
  by (simp add: upd_stcp_def upd_object_def)

lemma disconnect_closing: "cs_state (ct_state t) = Disconnecting \<Longrightarrow>
    sk_write_packets (ct_socket (t_disconnect r t)) = sk_write_packets (ct_socket t)"
  by (simp add: t_disconnect_def split_def Let_def)

lemma packet_sent_world:
  assumes w: "world_with st_writing c w" and ab: "ec = operation_aborted \<longrightarrow> sk_closing (ct_socket (stcp c w))"
  shows "world_with st_pre c (packet_sent (stcp_socket_handler env c) ec n w)"
proof -
  let ?k = "ct_socket (stcp c w)"
  note d = world_with_D [OF w]
  note wr = d(1)
  have failure: "world_with st_pre c (stcp_write_failure c e w)" for e
    unfolding stcp_write_failure_def by (rule transport_error_world [OF w writing_mid_frame])
  have aborted: "world_with st_pre c w" if "ec = operation_aborted"
    using that ab w writing_aborted [OF wr] by (simp add: world_with_def world_at_def)
  obtain p q where q: "sk_write_packets ?k = p # q" using wr by (cases "sk_write_packets ?k") (auto simp: st_writing_def)
  let ?stop = "upd_stcp c (t_disconnect DR_unmanaged_abort) w"
  have upd: "world_with st_pre c (upd_stcp c g w)"
    if "st_pre (g (stcp c w))" "\<not> tcp_finished (g (stcp c w))" "no_login (stcp c w) (g (stcp c w))" for g
    by (rule world_upd [OF w]) (fact that)+
  note nf = d(3)
  show ?thesis
  proof (cases "\<not> ec_set ec \<and> Some n = wp_size (hd (sk_write_packets ?k))")
    case False
    with failure aborted show ?thesis
      by (simp add: packet_sent_def Let_def stcp_handler_sels) blast
  next
    case True
    show ?thesis
    proof (cases "cs_state (ct_state (stcp c w)) = Disconnecting")
      case dis: True
      with wr q have "q = []" by (simp add: st_writing_def)
      with True dis q nf writing_last [OF wr] show ?thesis
        by (simp add: packet_sent_def Let_def stcp_handler_sels stcp_write_success_def
            stcp_disconnect_eq world_upd_id disconnect_closing stcp_write_buffer_empty_def upd
            tcp_finished_def)
    next
      case False
      with True q nf writing_next [OF wr False] show ?thesis
        by (simp add: packet_sent_def Let_def stcp_handler_sels stcp_write_success_def
            world_upd_id stcp_write_buffer_empty_def upd tcp_finished_def)
    qed
  qed
qed

lemma write_done_world:
  assumes w: "world_with st_ok c w" and may: "asio_may_complete (Op_write bs) ec (ct_socket (stcp c w))"
  shows "world_with st_ok c (write_done (stcp_socket_handler env c) bs ec n w)"
proof -
  let ?w = "upd_stcp c (\<lambda>t. t\<lparr>ct_socket := (ct_socket t)
      \<lparr>sk_ops := remove1 (Op_write bs) (sk_ops (ct_socket t)), sk_write_pending := False\<rparr>\<rparr>) w"
  have mem: "Op_write bs \<in> set (sk_ops (ct_socket (stcp c w)))"
    using may by (simp add: asio_may_complete_def)
  have "world_with st_writing c ?w"
    using world_with_D [OF w] writing_cleared [OF _ mem]
    by (intro world_upd [OF w]) (simp_all add: tcp_finished_def)
  then have "world_with st_pre c (packet_sent (stcp_socket_handler env c) ec n ?w)"
    by (rule packet_sent_world) (use may in \<open>simp add: asio_may_complete_def\<close>)
  then show ?thesis
    unfolding write_done_def Let_def stcp_handler_sels by (intro world_signal) simp
qed

section \<open>The posted notifications\<close>

text \<open>When the last of the three arrives the object is destroyed.\<close>

lemma signal_closed_ok:
  assumes c: "c \<in> set (ac_connections w)" and ok: "st_ok (stcp c w)" and others: "srv_others c w"
    and set': "srv_settings w" and link: "ports_linked w" and late: "bound_late (ac_objects w c)"
  shows "srv_ok (stcp_maybe_signal_closed c w)"
proof (cases "tcp_finished (stcp c w)")
  case False
  with c ok others set' link late show ?thesis
    by (auto simp: stcp_maybe_signal_closed_def tcp_finished_def srv_ok_def srv_others_def)
next
  case True
  let ?w1 = "case st_port (ac_objects w c) of None \<Rightarrow> w | Some p \<Rightarrow> port_on_closed p c w"
  let ?w2 = "?w1\<lparr>ac_connections := filter (\<lambda>x. x \<noteq> c) (ac_connections ?w1)\<rparr>"
  have w1: "ac_objects ?w1 = ac_objects w" "ac_connections ?w1 = ac_connections w"
      "ac_next ?w1 = ac_next w" "ac_write_packets_limit ?w1 = ac_write_packets_limit w"
      "ac_debug_banner ?w1 = ac_debug_banner w" "length (ac_ports ?w1) = length (ac_ports w)"
    by (simp_all add: port_on_closed_def split: option.splits)
  have po: "po_connection (ac_ports ?w1 ! q) =
      (if st_port (ac_objects w c) = Some q \<and> po_connection (ac_ports w ! q) = Some c then None
       else po_connection (ac_ports w ! q))" if q: "q < length (ac_ports w)" for q
    using ports_linked_D(2) [OF link c] q
    by (auto simp: port_on_closed_def nth_list_update split: option.splits)
  have nc: "po_connection (ac_ports ?w1 ! q) \<noteq> Some c" if q: "q < length (ac_ports w)" for q
    using po [OF q] ports_linked_D(1) [OF link q, of c] by auto
  have quiet: "\<not> tcp_outstanding (stcp c w)" using finished_quiet [OF st_ok_D(2) [OF ok] True] .
  have "ports_linked ?w2"
    unfolding ports_linked_def
  proof (intro conjI allI ballI impI)
    fix q x assume q: "q < length (ac_ports ?w2)" and qx: "po_connection (ac_ports ?w2 ! q) = Some x"
    have q': "q < length (ac_ports w)" using q w1(6) by simp
    have "po_connection (ac_ports w ! q) = Some x" "x \<noteq> c"
      using qx po [OF q'] nc [OF q'] by (auto split: if_splits)
    with ports_linked_D(1) [OF link q', of x] w1
    show "x \<in> set (ac_connections ?w2)" "st_port (ac_objects ?w2 x) = Some q" by simp_all
  next
    fix x q assume "x \<in> set (ac_connections ?w2)" "st_port (ac_objects ?w2 x) = Some q"
    with ports_linked_D(2) [OF link, of x q] w1 show "q < length (ac_ports ?w2)" by simp
  next
    fix x assume "x \<in> set (ac_connections ?w2)" "cs_state (ct_state (stcp x ?w2)) = Logged_in"
    then have x: "x \<in> set (ac_connections w)" "x \<noteq> c" "cs_state (ct_state (stcp x w)) = Logged_in"
      using w1 by simp_all
    from ports_linked_D(3) [OF link x(1,3)] obtain p where
      p: "st_port (ac_objects w x) = Some p" "po_connection (ac_ports w ! p) = Some x" by blast
    with ports_linked_D(2) [OF link x(1)] have "p < length (ac_ports w)" by blast
    with p x(2) po w1 show "\<exists>p. st_port (ac_objects ?w2 x) = Some p \<and>
        po_connection (ac_ports ?w2 ! p) = Some x"
      by auto
  qed
  moreover have "srv_settings ?w2"
    using set' quiet w1 by (auto simp: srv_settings_def)
  moreover have "\<forall>x \<in> set (ac_connections ?w2). st_ok (stcp x ?w2) \<and> \<not> tcp_finished (stcp x ?w2) \<and>
      bound_late (ac_objects ?w2 x)"
    using others w1 by (simp add: srv_others_def)
  ultimately have "srv_ok ?w2" by (simp add: srv_ok_def)
  with True show ?thesis
    by (simp add: stcp_maybe_signal_closed_def tcp_finished_def acceptor_on_closed_def Let_def
        split: option.splits)
qed

end
