(* ===== verification/Server_Events.thy ===== *)
theory Server_Events
  imports Server_Invariant
begin

text \<open>
  The remaining events of an acceptor (posted notifications, waits of the timers, accepts,
  the calls of the user and of the server), and the invariant over whole runs.
\<close>

section \<open>The posted notifications\<close>

lemma post_st_ok:
  "st_ok t \<Longrightarrow> Op_post_closed \<in> set (sk_ops (ct_socket t)) \<Longrightarrow>
   st_ok (t\<lparr>ct_socket := (ct_socket t)\<lparr>sk_ops := remove1 Op_post_closed (sk_ops (ct_socket t))\<rparr>,
             ct_socket_closed := True\<rparr>)"
  "st_ok t \<Longrightarrow> 0 < lt_posts (ct_login_timer t) \<Longrightarrow>
   st_ok (t\<lparr>ct_login_timer := (ct_login_timer t)\<lparr>lt_posts := lt_posts (ct_login_timer t) - 1\<rparr>,
             ct_login_timer_stopped := True\<rparr>)"
  "st_ok t \<Longrightarrow> 0 < hb_posts (ct_heartbeat_timer t) \<Longrightarrow>
   st_ok (t\<lparr>ct_heartbeat_timer := (ct_heartbeat_timer t)\<lparr>hb_posts := hb_posts (ct_heartbeat_timer t) - 1\<rparr>,
             ct_heartbeat_timer_stopped := True\<rparr>)"
  using post_closed_core [of t] login_post_core [of t] heartbeat_post_core [of t]
  by (simp_all add: st_ok_def server_live_def st_shape_def st_frame_def)

lemma notified_ok:
  assumes w: "world_with st_ok c w" and "st_ok (g (stcp c w))" and "ct_state (g (stcp c w)) = ct_state (stcp c w)"
  shows "srv_ok (stcp_maybe_signal_closed c (upd_stcp c g w))"
  using assms(2) world_with_D(2) [OF w] world_upd_rest [where g = g, OF w no_login_simps(1) [OF assms(3)]]
  by (intro signal_closed_ok) simp_all

lemma post_events_ok:
  assumes w: "world_with st_ok c w"
  shows "Op_post_closed \<in> set (sk_ops (ct_socket (stcp c w))) \<Longrightarrow>
      srv_ok (post_closed_done (stcp_socket_handler env c) w)"
    and "0 < lt_posts (ct_login_timer (stcp c w)) \<Longrightarrow>
      srv_ok (login_timer_post_done (stcp_login_handler c) w)"
    and "0 < hb_posts (ct_heartbeat_timer (stcp c w)) \<Longrightarrow>
      srv_ok (heartbeat_timer_post_done (stcp_heartbeat_handler c) w)"
  using post_st_ok [OF world_with_D(1) [OF w]]
  by (simp_all add: post_closed_done_def stcp_handler_sels stcp_closed_def login_timer_post_done_def
      stcp_login_handler_def stcp_login_timer_stopped_def heartbeat_timer_post_done_def
      stcp_heartbeat_handler_def stcp_heartbeat_timer_stopped_def world_upd_id notified_ok [OF w])

section \<open>The waits of the timers\<close>

lemma login_wait_effect:
  "only_calls (upd_stcp c (t_login_wait (if ec_set ec then DR_transport_error else DR_login_timeout)) w)
     (login_timer_wait_done (stcp_login_handler c) ec w)"
  by (simp add: login_timer_wait_done_def login_timer_on_expiry_def t_login_wait_def
      stcp_login_handler_def stcp_login_timer_error_def stcp_login_timer_expired_def
      stcp_handle_transport_error_def stcp_disconnect_eq only_calls_def upd_stcp_def upd_object_def
      handler_call_def port_call_def acceptor_handler_call_def sv_emit_def undefined_behaviour_def
      Let_def split: option.splits)

lemma login_wait_st_ok:
  assumes ok: "st_ok t" and pending: "0 < lt_waits (ct_login_timer t)"
  shows "st_ok (t_login_wait r t)"
proof -
  have "st_frame (t\<lparr>ct_login_timer := l\<rparr>)" for l
    using st_ok_D(7) [OF ok] by (simp add: st_frame_def)
  then have "server_live (t_login_wait r t)"
    using ok disconnect_live [of "t\<lparr>ct_login_timer := l\<rparr>" r for l]
    by (auto simp: t_login_wait_def Let_def st_ok_def server_live_def st_shape_def st_frame_def)
  with login_wait_core [OF st_ok_D(1) [OF ok] pending] show ?thesis by (simp add: st_ok_def)
qed

lemma login_wait_no_login: "no_login t (t_login_wait r t)"
  by (simp add: no_login_def t_login_wait_def Let_def)

lemma login_wait_event:
  assumes w: "world_with st_ok c w" and pending: "0 < lt_waits (ct_login_timer (stcp c w))"
  shows "world_with st_ok c (login_timer_wait_done (stcp_login_handler c) ec w)"
  unfolding only_calls_world [OF login_wait_effect]
  using world_with_D [OF w] pending
  by (intro world_upd [OF w]) (simp_all add: login_wait_st_ok login_wait_no_login tcp_finished_def)

text \<open>The end of a heartbeat period.\<close>

definition st_beating :: "tcp_object \<Rightarrow> bool" where
  "st_beating t \<longleftrightarrow> tcp_beating t \<and> server_live t \<and>
     cs_state (ct_state t) \<in> {Logged_in, Disconnected}"

lemma st_beating_down:
  assumes "st_beating t"
  shows "st_ok ((t_disconnect r t)\<lparr>ct_heartbeat_timer :=
           heartbeat_timer_maybe_signal_stopped (ct_heartbeat_timer (t_disconnect r t))\<rparr>)"
proof -
  have "st_frame t" using assms by (simp add: st_beating_def server_live_def st_shape_def)
  then have "server_live (t_disconnect r t)" by (rule disconnect_live)
  with beating_disconnect [of t r] assms show ?thesis
    by (simp add: st_beating_def st_ok_def server_live_def st_shape_def st_frame_def)
qed

lemma st_beating_armed:
  assumes "st_beating t"
  shows "st_ok (t\<lparr>ct_heartbeat_timer := heartbeat_timer_maybe_signal_stopped ((ct_heartbeat_timer t)
      \<lparr>hb_expiry := e, hb_wait_pending := True, hb_waits := Suc (hb_waits (ct_heartbeat_timer t))\<rparr>)\<rparr>)"
  using beating_armed [of t e] assms
  by (auto simp: st_beating_def st_ok_def server_live_def st_shape_def st_frame_def)

lemma st_beating_counts:
  "st_beating t \<Longrightarrow> st_beating (t\<lparr>ct_heartbeat_timer := (ct_heartbeat_timer t)\<lparr>hb_no_receive_period := n\<rparr>\<rparr>)"
  "st_beating t \<Longrightarrow> st_beating (t\<lparr>ct_heartbeat_timer := (ct_heartbeat_timer t)\<lparr>hb_no_receive_period := n, hb_receive_count := c\<rparr>\<rparr>)"
  "st_beating t \<Longrightarrow> st_beating (t\<lparr>ct_heartbeat_timer := (ct_heartbeat_timer t)\<lparr>hb_no_receive_period := n, hb_send_count := c\<rparr>\<rparr>)"
  "st_beating t \<Longrightarrow> st_beating (t\<lparr>ct_heartbeat_timer := (ct_heartbeat_timer t)\<lparr>hb_no_receive_period := n, hb_receive_count := c, hb_send_count := d\<rparr>\<rparr>)"
  unfolding st_beating_def
  by (simp_all add: beating_counts server_live_def st_shape_def st_frame_def)

lemma st_beating_write:
  assumes "st_beating t"
  shows "st_beating (t\<lparr>ct_socket := snd (socket_async_write p (ct_socket t))\<rparr>)"
  using assms write_shape [of t p] beating_write [of t p]
  by (simp add: st_beating_def server_live_def)

lemma upd_stcp_call:
  "upd_stcp c f (handler_call c cb w) = handler_call c cb (upd_stcp c f w)"
  by (simp add: handler_call_def port_call_def acceptor_handler_call_def sv_emit_def
      undefined_behaviour_def upd_stcp_def upd_object_def split: option.splits)

lemma heartbeat_wait_event:
  assumes w: "world_with st_ok c w" and pending: "0 < hb_waits (ct_heartbeat_timer (stcp c w))"
  shows "world_with st_ok c (heartbeat_timer_wait_done (stcp_heartbeat_handler c) throws ec w)"
proof -
  let ?t = "stcp c w"
  let ?hb = "ct_heartbeat_timer ?t"
  let ?t1 = "?t\<lparr>ct_heartbeat_timer := ?hb\<lparr>hb_waits := hb_waits ?hb - 1, hb_wait_pending := False\<rparr>\<rparr>"
  note d = world_with_D [OF w]
  note ok = d(1)
  have upd: "world_with st_ok c (upd_stcp c g w)"
    if "st_ok (g ?t)" "\<not> tcp_finished (g ?t)" "no_login ?t (g ?t)" for g
    by (rule world_upd [OF w]) (fact that)+
  show ?thesis
  proof (cases "hb_started ?hb")
    case False
    have "server_live (?t\<lparr>ct_heartbeat_timer := h\<rparr>)" if "\<not> hb_started h" for h
      using ok that by (simp add: st_ok_def server_live_def st_shape_def st_frame_def)
    moreover have "\<not> hb_started (heartbeat_timer_maybe_signal_stopped (?hb\<lparr>hb_waits := m, hb_wait_pending := False\<rparr>))" for m
      using False by (simp add: heartbeat_timer_maybe_signal_stopped_def)
    ultimately show ?thesis
      using False heartbeat_late_wait_core [OF st_ok_D(1) [OF ok] pending] d(3)
      by (simp add: heartbeat_timer_wait_done_def heartbeat_timer_on_expiry_def
          stcp_heartbeat_handler_def Let_def world_upd_id upd st_ok_def tcp_finished_def)
  next
    case True
    have mid1: "tcp_mid ?t1"
      using st_ok_D(2) [OF ok] pending True by (auto simp: tcp_mid_def hb_preds)
    have "cs_state (ct_state ?t) \<in> {Logged_in, Disconnected}"
      using True st_ok_D(2,6) [OF ok]
      by (cases "cs_state (ct_state ?t)") (auto simp: tcp_mid_def hb_unused_def st_shape_def)
    then have b: "st_beating ?t1"
      using True mid1 st_ok_D(3,5) [OF ok] ok
      by (auto simp: st_beating_def tcp_beating_def timers_armed_def st_ok_def server_live_def
          st_shape_def st_frame_def)
    note counts = st_beating_counts [OF b]
    note bs = b counts st_beating_write [OF counts(1)] st_beating_write [OF counts(2)]
    show ?thesis
      using True bs [THEN st_beating_down] bs [THEN st_beating_armed] d(3)
      by (simp add: heartbeat_timer_wait_done_def heartbeat_timer_on_expiry_def
          heartbeat_timer_schedule_def stcp_heartbeat_handler_def stcp_heartbeat_timer_error_def
          stcp_heartbeat_send_due_def stcp_heartbeat_receive_timeout_def
          stcp_handle_transport_error_def stcp_disconnect_eq Let_def upd_stcp_call world_upd_id upd
          tcp_finished_def split: option.splits)
  qed
qed

section \<open>Calls of the user and the server\<close>

lemma srv_ok_upd:
  assumes ok: "srv_ok w" and c: "c \<in> set (ac_connections w)" and "st_ok (g (stcp c w))"
    and "\<not> tcp_finished (g (stcp c w))" and "no_login (stcp c w) (g (stcp c w))"
  shows "srv_ok (upd_stcp c g w)"
proof -
  have w: "world_with st_ok c w" using ok c srv_ok_at by blast
  have "world_with st_ok c (upd_stcp c g w)" by (rule world_upd [OF w]) (fact assms(3-5))+
  then show ?thesis using srv_ok_at by blast
qed

lemma srv_ok_D:
  assumes "srv_ok w"
  shows "c \<in> set (ac_connections w) \<Longrightarrow> st_ok (stcp c w) \<and> \<not> tcp_finished (stcp c w) \<and> bound_late (ac_objects w c)"
    and "ports_linked w" and "srv_settings w"
    and "p < length (ac_ports w) \<Longrightarrow> po_connection (ac_ports w ! p) = Some c \<Longrightarrow> c \<in> set (ac_connections w)"
  using assms ports_linked_D(1) [of w p c] by (simp_all add: srv_ok_def)

lemma stop_ok: "srv_ok w \<Longrightarrow> c \<in> set (ac_connections w) \<Longrightarrow> srv_ok (stcp_close c w)"
  using srv_ok_D(1) [of w c]
  by (simp add: stcp_close_def stcp_disconnect_eq)
    (intro srv_ok_upd, simp_all add: disconnect_st_ok st_ok_D tcp_finished_def)

lemma stop_all_ok:
  "srv_ok w \<Longrightarrow> set cs \<subseteq> set (ac_connections w) \<Longrightarrow> srv_ok (fold stcp_close cs w)"
proof (induction cs arbitrary: w)
  case Nil
  then show ?case by simp
next
  case (Cons c cs)
  then have "srv_ok (stcp_close c w)" by (simp add: stop_ok)
  moreover have "ac_connections (stcp_close c w) = ac_connections w"
    by (simp add: stcp_close_def stcp_disconnect_eq)
  ultimately show ?case using Cons by simp
qed

text \<open>The listening socket is not part of the invariant.\<close>

lemma srv_ok_acceptor [simp]: "srv_ok (w\<lparr>ac_acceptor := a\<rparr>) = srv_ok w"
  by (simp add: srv_ok_def srv_settings_def ports_linked_def)

text \<open>Sending.\<close>

lemma st_ok_write:
  assumes "st_ok t" and "cs_state (ct_state t) \<in> {Logged_in, Disconnected}"
  shows "st_ok (t\<lparr>ct_socket := snd (socket_async_write p (ct_socket t))\<rparr>)"
  using assms async_write_mid [of t p] async_write_rest [of "ct_socket t" p] write_shape [of t p]
  by (simp add: st_ok_def tcp_core_def server_live_def timers_armed_def)

lemma st_ok_sent:
  assumes "st_ok t" and "cs_state (ct_state t) \<in> {Logged_in, Disconnected}"
  shows "st_ok (t\<lparr>ct_socket := snd (socket_async_write p (ct_socket t)),
           ct_heartbeat_timer := increment_send_count (ct_heartbeat_timer t)\<rparr>)"
proof -
  let ?t = "t\<lparr>ct_socket := snd (socket_async_write p (ct_socket t))\<rparr>"
  have ok: "st_ok ?t" using assms by (rule st_ok_write)
  have "tcp_mid (?t\<lparr>ct_heartbeat_timer := increment_send_count (ct_heartbeat_timer ?t)\<rparr>)"
    using st_ok_D(2) [OF ok] by (intro mid_heartbeat_counts) (simp_all add: increment_send_count_def)
  with ok show ?thesis
    by (simp add: st_ok_def tcp_core_def server_live_def st_shape_def st_frame_def timers_armed_def
        increment_send_count_def)
qed

lemma send_packet_srv_ok:
  assumes "srv_ok w" and "c \<in> set (ac_connections w)"
  shows "srv_ok (snd (stcp_send_packet c p w))"
proof (cases "cs_state (ct_state (stcp c w)) = Logged_in")
  case False
  with assms show ?thesis by (simp add: stcp_send_packet_def)
next
  case True
  note d = srv_ok_D(1) [OF assms]
  have "srv_ok (upd_stcp c (\<lambda>t. t\<lparr>ct_socket := snd (socket_async_write p (ct_socket (stcp c w)))\<rparr>) w)"
    using True d st_ok_write [of "stcp c w" p]
    by (intro srv_ok_upd [OF assms]) (simp_all add: tcp_finished_def)
  moreover have "srv_ok (upd_stcp c (\<lambda>t. t\<lparr>ct_socket := snd (socket_async_write p (ct_socket (stcp c w))),
      ct_heartbeat_timer := increment_send_count (ct_heartbeat_timer t)\<rparr>) w)"
    using True d st_ok_sent [of "stcp c w" p]
    by (intro srv_ok_upd [OF assms]) (simp_all add: tcp_finished_def)
  ultimately show ?thesis
    using True by (simp add: stcp_send_packet_def Let_def split_def world_upd_id)
qed

text \<open>Changes of a port that do not touch its pointer.\<close>

lemma srv_ok_port:
  assumes "\<And>po. po_connection (f po) = po_connection po"
  shows "srv_ok (upd_port p f w) = srv_ok w"
proof -
  have "po_connection (ac_ports (upd_port p f w) ! q) = po_connection (ac_ports w ! q)" for q
    using assms by (cases "p < length (ac_ports w)"; cases "p = q")
      (auto simp: not_less list_update_beyond)
  then have "ports_linked (upd_port p f w) = ports_linked w" by (simp add: ports_linked_def)
  then show ?thesis by (simp add: srv_ok_def srv_settings_def)
qed

lemma port_send_srv_ok:
  assumes ok: "srv_ok w" and p: "p < length (ac_ports w)"
  shows "srv_ok (snd (port_send_packet p packet w))" "srv_ok (snd (port_send_counted p packet w))"
    "srv_ok (snd (port_send_debug p bs w))" "srv_ok (port_end_session p w)"
proof -
  show *: "srv_ok (snd (port_send_packet p packet w))"
    using ok srv_ok_D(4) [OF ok p]
    by (simp add: port_send_packet_def send_packet_srv_ok split: option.splits)
  then show "srv_ok (snd (port_send_counted p packet w))"
    by (simp add: port_send_counted_def split_def Let_def srv_ok_port)
  show "srv_ok (snd (port_send_debug p bs w))"
  proof (cases "bs = [] \<or> po_connection (ac_ports w ! p) = None")
    case True
    with ok show ?thesis by (auto simp: port_send_debug_def)
  next
    case False
    then obtain c where c: "po_connection (ac_ports w ! p) = Some c" "bs \<noteq> []" by auto
    note mem = srv_ok_D(4) [OF ok p c(1)]
    note d = srv_ok_D(1) [OF ok mem]
    have "st_port (ac_objects w c) = Some p"
      using ports_linked_D(1) [OF srv_ok_D(2) [OF ok] p c(1)] by simp
    with d have "cs_state (ct_state (stcp c w)) \<in> {Logged_in, Disconnected}"
      by (simp add: bound_late_def)
    with d st_ok_write [of "stcp c w"] have
      "srv_ok (upd_stcp c (\<lambda>t. t\<lparr>ct_socket := snd (socket_async_write q (ct_socket (stcp c w)))\<rparr>) w)" for q
      by (intro srv_ok_upd [OF ok mem]) (simp_all add: tcp_finished_def)
    with c ok show ?thesis
      by (simp add: port_send_debug_def stcp_send_debug_packet_def split_def Let_def)
  qed
  have "srv_ok (upd_port p (\<lambda>po. po\<lparr>po_has_session_ended := True\<rparr>) w)"
    using ok by (simp add: srv_ok_port)
  with srv_ok_D(4) [OF ok p] p ok show "srv_ok (port_end_session p w)"
    by (simp add: port_end_session_def Let_def send_packet_srv_ok split: option.splits)
qed

section \<open>Accepting\<close>

definition t_accepted :: "error_code option \<Rightarrow> socket \<Rightarrow> tcp_object" where
  \<comment> \<open>the object as its constructor leaves it\<close>
  "t_accepted throws k =
    (let t = (st_tcp (server_tcp_new 0 k))\<lparr>ct_login_timer_stopped := False,
               ct_login_timer := (login_timer_new login_request_timeout)\<lparr>lt_started := True\<rparr>\<rparr>;
         t = (case throws of
                Some ec \<Rightarrow> t_disconnect DR_transport_error t
              | None \<Rightarrow> t\<lparr>ct_login_timer := (ct_login_timer t)
                  \<lparr>lt_wait_pending := True, lt_waits := lt_waits (ct_login_timer t) + 1\<rparr>\<rparr>)
     in t\<lparr>ct_socket := socket_async_read (ct_socket t)\<rparr>)"

lemma accepted_ok:
  assumes "0 < n"
  shows "st_ok (t_accepted throws (set_write_packets_limit n (socket_new True)))"
    and "\<not> tcp_finished (t_accepted throws k)"
  using assms
  by (simp_all add: t_accepted_def Let_def server_tcp_new_def st_ok_def tcp_core_def tcp_mid_def
      timers_armed_def server_live_def st_shape_def st_frame_def t_disconnect_def cs_disconnect_def
      connection_state_of_def set_write_packets_limit_def socket_new_def sock_op_defs sock_core_def
      sock_rest_def sock_told_def n_ops_def is_idle_def is_closing_def login_timer_new_def
      heartbeat_timer_new_def lt_preds hb_preds login_timer_stop_def
      login_timer_maybe_signal_stopped_def heartbeat_timer_stop_def tcp_finished_def
      split: option.splits)

definition accepted_world :: "server_env \<Rightarrow> nat \<Rightarrow> sw \<Rightarrow> sw" where
  "accepted_world env h w = w
     \<lparr>ac_next := ac_next w + 1, ac_connections := ac_connections w @ [ac_next w],
      ac_objects := (ac_objects w)(ac_next w := \<lparr>st_acceptor_handler = h, st_port = None,
        st_handler = None, st_tcp = t_accepted (se_login_throws env)
          (set_write_packets_limit (ac_write_packets_limit w) (socket_new True))\<rparr>),
      ac_acceptor := acceptor_async_accept (ac_acceptor w)\<rparr>"

lemma accept_success_effect:
  assumes "ac_handler w = Some h" and "ac_debug_banner w = []"
  shows "only_calls (accepted_world env h w) (acceptor_accept_success env w)"
  using assms
  by (simp add: acceptor_accept_success_def accepted_world_def stcp_construct_def t_accepted_def
      server_tcp_new_def login_timer_start_def stcp_login_handler_def stcp_login_timer_error_def
      stcp_handle_transport_error_def stcp_disconnect_eq only_calls_def upd_stcp_def
      upd_object_def handler_call_def acceptor_handler_call_def acceptor_call_def sv_emit_def
      login_timer_new_def Let_def split: option.splits)

lemma accepted_srv_ok:
  assumes ok: "srv_ok w"
  shows "srv_ok (accepted_world env h w)"
proof -
  let ?w = "accepted_world env h w"
  have set': "srv_settings w" and link: "ports_linked w" using ok by (simp_all add: srv_ok_def)
  have fresh: "ac_next w \<notin> set (ac_connections w)" using set' by (auto simp: srv_settings_def)
  have objs: "x \<in> set (ac_connections w) \<Longrightarrow> ac_objects ?w x = ac_objects w x" for x
    using fresh by (auto simp: accepted_world_def)
  have new: "st_port (ac_objects ?w (ac_next w)) = None"
      "stcp (ac_next w) ?w = t_accepted (se_login_throws env)
        (set_write_packets_limit (ac_write_packets_limit w) (socket_new True))"
    and conns: "ac_connections ?w = ac_connections w @ [ac_next w]" and ports: "ac_ports ?w = ac_ports w"
    by (simp_all add: accepted_world_def)
  have pos: "0 < ac_write_packets_limit w" using set' by (simp add: srv_settings_def)
  note new_ok = accepted_ok [OF pos, of "se_login_throws env"]
  have "srv_settings ?w"
    using set' fresh by (auto simp: srv_settings_def accepted_world_def less_Suc_eq)
  moreover have "ports_linked ?w"
    unfolding ports_linked_def ports
  proof (intro conjI allI ballI impI)
    fix p x assume "p < length (ac_ports w)" "po_connection (ac_ports w ! p) = Some x"
    with ports_linked_D(1) [OF link, of p x] objs [of x]
    show "x \<in> set (ac_connections ?w)" "st_port (ac_objects ?w x) = Some p" by (simp_all add: conns)
  next
    fix x p assume "x \<in> set (ac_connections ?w)" "st_port (ac_objects ?w x) = Some p"
    with new objs [of x] ports_linked_D(2) [OF link, of x p] show "p < length (ac_ports w)"
      by (auto simp: conns)
  next
    fix x assume x: "x \<in> set (ac_connections ?w)" "cs_state (ct_state (stcp x ?w)) = Logged_in"
    have "x \<noteq> ac_next w"
    proof
      assume "x = ac_next w"
      with x(2) new(2) show False
        by (simp add: t_accepted_def server_tcp_new_def Let_def connection_state_of_def split: option.splits)
    qed
    with x have xw: "x \<in> set (ac_connections w)" by (simp add: conns)
    from ports_linked_D(3) [OF link xw] x(2) objs [OF xw]
    show "\<exists>p. st_port (ac_objects ?w x) = Some p \<and> po_connection (ac_ports w ! p) = Some x" by simp
  qed
  moreover have "st_ok (stcp x ?w) \<and> \<not> tcp_finished (stcp x ?w) \<and> bound_late (ac_objects ?w x)"
    if "x \<in> set (ac_connections ?w)" for x
    using that srv_ok_D(1) [OF ok, of x] objs [of x] new_ok new
    by (cases "x = ac_next w") (simp_all add: conns bound_late_def)
  ultimately show ?thesis by (simp add: srv_ok_def)
qed

lemma accept_done_ok:
  assumes ok: "srv_ok w"
  shows "srv_ok (accept_done (acceptor_socket_handler env) ec w)"
proof -
  let ?w = "w\<lparr>ac_acceptor := (ac_acceptor w)\<lparr>sa_accepts := sa_accepts (ac_acceptor w) - 1\<rparr>\<rparr>"
  have ok': "srv_ok ?w" using ok by simp
  have "srv_ok (acceptor_accept_success env ?w)"
  proof (cases "ac_handler ?w")
    case None
    with ok' show ?thesis by (simp add: acceptor_accept_success_def Let_def)
  next
    case (Some h)
    have banner: "ac_debug_banner ?w = []" using ok' by (simp add: srv_ok_def srv_settings_def)
    show ?thesis
      unfolding only_calls_world(3) [OF accept_success_effect [OF Some banner, of env]]
      using ok' by (rule accepted_srv_ok)
  qed
  with ok show ?thesis
    by (simp add: accept_done_def acceptor_socket_handler_def acceptor_accept_failure_def Let_def)
qed

section \<open>Every event\<close>

lemma outstanding_live:
  assumes "srv_ok w" and "tcp_outstanding (stcp c w)"
  shows "world_with st_ok c w"
  using assms srv_ok_at [of w c] by (auto simp: srv_ok_def srv_settings_def)

lemma socket_event_srv_ok:
  assumes ok: "srv_ok w" and may: "asio_may_complete op ec (ct_socket (stcp c w))"
  shows "srv_ok (socket_complete (stcp_socket_handler env c) op ec n data w)"
proof -
  have mem: "op \<in> set (sk_ops (ct_socket (stcp c w)))" using may by (simp add: asio_may_complete_def)
  then have "tcp_outstanding (stcp c w)" by (auto simp: tcp_outstanding_def)
  then have w: "world_with st_ok c w" by (rule outstanding_live [OF ok])
  note d = st_ok_D(4,7) [OF world_with_D(1) [OF w]]
  have live: "world_with st_ok c w' \<Longrightarrow> srv_ok w'" for w' using srv_ok_at by blast
  show ?thesis
  proof (cases op)
    case Op_connect
    with cleared_core(1) [OF d(1) mem] d(2) show ?thesis by (simp add: st_frame_def)
  next
    case Op_read_header
    with w mem show ?thesis
      by (simp add: socket_complete_def stcp_handler_sels live read_done_world(1))
  next
    case Op_read_payload
    with w mem show ?thesis
      by (simp add: socket_complete_def stcp_handler_sels live read_done_world(2))
  next
    case (Op_write bs)
    with w mem may show ?thesis
      by (simp add: socket_complete_def stcp_handler_sels live write_done_world)
  next
    case Op_post_closed
    with w mem show ?thesis
      by (simp add: socket_complete_def stcp_handler_sels post_events_ok(1))
  qed
qed

lemma timer_events_srv_ok:
  assumes ok: "srv_ok w"
  shows "0 < lt_waits (ct_login_timer (stcp c w)) \<Longrightarrow>
      srv_ok (login_timer_wait_done (stcp_login_handler c) ec w)"
    and "0 < lt_posts (ct_login_timer (stcp c w)) \<Longrightarrow>
      srv_ok (login_timer_post_done (stcp_login_handler c) w)"
    and "0 < hb_waits (ct_heartbeat_timer (stcp c w)) \<Longrightarrow>
      srv_ok (heartbeat_timer_wait_done (stcp_heartbeat_handler c) throws ec w)"
    and "0 < hb_posts (ct_heartbeat_timer (stcp c w)) \<Longrightarrow>
      srv_ok (heartbeat_timer_post_done (stcp_heartbeat_handler c) w)"
proof -
  have live: "world_with st_ok c w" if "tcp_outstanding (stcp c w)"
    using outstanding_live [OF ok that] .
  have keep: "world_with st_ok c w' \<Longrightarrow> srv_ok w'" for w' using srv_ok_at by blast
  show "0 < lt_waits (ct_login_timer (stcp c w)) \<Longrightarrow>
      srv_ok (login_timer_wait_done (stcp_login_handler c) ec w)"
    by (rule keep, rule login_wait_event, rule live) (simp_all add: tcp_outstanding_def)
  show "0 < hb_waits (ct_heartbeat_timer (stcp c w)) \<Longrightarrow>
      srv_ok (heartbeat_timer_wait_done (stcp_heartbeat_handler c) throws ec w)"
    by (rule keep, rule heartbeat_wait_event, rule live) (simp_all add: tcp_outstanding_def)
  show "0 < lt_posts (ct_login_timer (stcp c w)) \<Longrightarrow>
      srv_ok (login_timer_post_done (stcp_login_handler c) w)"
    by (rule post_events_ok(2), rule live) (simp_all add: tcp_outstanding_def)
  show "0 < hb_posts (ct_heartbeat_timer (stcp c w)) \<Longrightarrow>
      srv_ok (heartbeat_timer_post_done (stcp_heartbeat_handler c) w)"
    by (rule post_events_ok(3), rule live) (simp_all add: tcp_outstanding_def)
qed

lemma add_port_srv_ok:
  assumes ok: "srv_ok w"
  shows "srv_ok (snd (acceptor_add_port username password handler w))"
proof -
  let ?w = "w\<lparr>ac_ports := ac_ports w @ [port_new username password handler]\<rparr>"
  have "ports_linked ?w"
    unfolding ports_linked_def
  proof (intro conjI allI ballI impI)
    fix p x assume "p < length (ac_ports ?w)" "po_connection (ac_ports ?w ! p) = Some x"
    then have "p < length (ac_ports w) \<and> po_connection (ac_ports w ! p) = Some x"
      by (cases "p = length (ac_ports w)") (simp_all add: port_new_def nth_append)
    with ports_linked_D(1) [OF srv_ok_D(2) [OF ok], of p x]
    show "x \<in> set (ac_connections ?w)" "st_port (ac_objects ?w x) = Some p" by simp_all
  next
    fix x p assume "x \<in> set (ac_connections ?w)" "st_port (ac_objects ?w x) = Some p"
    with ports_linked_D(2) [OF srv_ok_D(2) [OF ok], of x p] show "p < length (ac_ports ?w)" by simp
  next
    fix x assume "x \<in> set (ac_connections ?w)" "cs_state (ct_state (stcp x ?w)) = Logged_in"
    then have x: "x \<in> set (ac_connections w)" "cs_state (ct_state (stcp x w)) = Logged_in" by simp_all
    from ports_linked_D(3) [OF srv_ok_D(2) [OF ok] x] ports_linked_D(2) [OF srv_ok_D(2) [OF ok] x(1)]
    show "\<exists>p. st_port (ac_objects ?w x) = Some p \<and> po_connection (ac_ports ?w ! p) = Some x"
      by (auto simp: nth_append)
  qed
  with ok have "srv_ok ?w" by (simp add: srv_ok_def srv_settings_def)
  with ok show ?thesis by (simp add: acceptor_add_port_def Let_def)
qed

lemma end_session_srv_ok:
  "srv_ok w \<Longrightarrow> \<forall>p \<in> set ps. p < length (ac_ports w) \<Longrightarrow> srv_ok (fold port_end_session ps w)"
proof (induction ps arbitrary: w)
  case Nil
  then show ?case by simp
next
  case (Cons p ps)
  have "length (ac_ports (port_end_session p w)) = length (ac_ports w)"
    by (simp add: port_end_session_def stcp_send_packet_def Let_def split_def split: option.splits)
  with Cons port_send_srv_ok(4) [of w p] show ?case by simp
qed

lemma start_srv_ok: "srv_ok w \<Longrightarrow> srv_ok (acceptor_start env w)"
  by (simp add: acceptor_start_def Let_def split_def)

theorem srv_ok_step:
  assumes ok: "srv_ok w"
  shows "srv_ok (server_step env ev w)"
proof (cases "server_event_enabled w ev")
  case False
  with ok show ?thesis by (simp add: server_step_def)
next
  case True
  have stop: "srv_ok (acceptor_stop w)"
    using stop_all_ok [of "w\<lparr>ac_acceptor := acceptor_close (ac_acceptor w)\<rparr>" "ac_connections w"] ok
    by (simp add: acceptor_stop_def)
  have message: "srv_ok (snd (port_send_message p data n w))"
    and packet: "srv_ok (case port_send_message_packet p m w of None \<Rightarrow> w | Some (_, w) \<Rightarrow> w)"
    if "p < length (ac_ports w)" for p data n m
    using port_send_srv_ok(2) [OF ok that] ok
    by (auto simp: port_send_message_def port_send_message_packet_def split: option.splits prod.splits)
      (metis snd_conv)
  from True ok show ?thesis
    by (cases ev) (simp_all add: server_step_def accept_done_ok socket_event_srv_ok
        timer_events_srv_ok message packet port_send_srv_ok add_port_srv_ok start_srv_ok
        acceptor_end_session_def end_session_srv_ok stop srv_ok_port
        port_set_next_sequence_number_def)
qed

theorem srv_ok_run: "srv_ok w \<Longrightarrow> srv_ok (server_run evs w)"
proof (induction evs arbitrary: w)
  case Nil
  then show ?case by simp
next
  case (Cons e evs)
  then show ?case by (cases e) (simp add: srv_ok_step)
qed

end
