(* ===== verification/Server_Main.thy ===== *)
theory Server_Main
  imports Server_Events
begin

text \<open>
  \<^verbatim>\<open>server::Server\<close> (\<^verbatim>\<open>server/server.h\<close>/\<^verbatim>\<open>.cpp\<close>): the session and the list of
  acceptors, which only grows; an acceptor is named by its position.  \<open>sr_posts\<close> are the
  functions that \<^verbatim>\<open>start\<close>, \<^verbatim>\<open>end_session\<close> and \<^verbatim>\<open>stop\<close> have posted and that have
  not run yet.
\<close>

section \<open>The server\<close>

datatype server_post = Srv_post_start | Srv_post_end_session | Srv_post_stop

record server =
  sr_session :: bytes
  sr_acceptors :: "sw list"
  sr_started :: bool
  sr_posts :: "server_post list"

definition server_new :: server where
  "server_new = \<lparr>sr_session = [], sr_acceptors = [], sr_started = False, sr_posts = []\<rparr>"

definition server_set_session :: "bytes \<Rightarrow> server \<Rightarrow> error_code \<times> server" where
  "server_set_session session s =
    (let ec = validate_session session
     in if ec_set ec then (ec, s) else (no_error, s\<lparr>sr_session := session\<rparr>))"

definition server_add_acceptor ::
    "endpoint \<Rightarrow> nat option \<Rightarrow> server \<Rightarrow> (nat, error_code) expected \<times> server" where
  "server_add_acceptor ep handler s =
    (if \<exists>a \<in> set (sr_acceptors s). ep = ac_endpoint a
     then (unexpected_of (make_error_code Endpoint_in_use), s)
     else (expected_of (length (sr_acceptors s)),
           s\<lparr>sr_acceptors := sr_acceptors s @ [acceptor_new ep handler]\<rparr>))"

definition server_start :: "server \<Rightarrow> error_code \<times> server" where
  "server_start s =
    (if \<exists>a \<in> set (sr_acceptors s). \<not> acceptor_is_handler_set a
     then (make_error_code Handler_not_set, s)
     else (no_error, s\<lparr>sr_posts := sr_posts s @ [Srv_post_start]\<rparr>))"

definition server_end_session :: "server \<Rightarrow> server" where
  "server_end_session s = s\<lparr>sr_posts := sr_posts s @ [Srv_post_end_session]\<rparr>"

definition server_stop :: "server \<Rightarrow> server" where
  "server_stop s = s\<lparr>sr_posts := sr_posts s @ [Srv_post_stop]\<rparr>"

text \<open>The posted functions.  What the system answers may differ from acceptor to acceptor.\<close>

definition server_started_posted :: "(nat \<Rightarrow> server_env) \<Rightarrow> server \<Rightarrow> server" where
  "server_started_posted envs s =
    (if sr_started s then s
     else s\<lparr>sr_started := True,
            sr_acceptors := map (\<lambda>(i, a). acceptor_start (envs i) a)
              (zip [0..<length (sr_acceptors s)] (sr_acceptors s))\<rparr>)"

definition server_end_session_posted :: "server \<Rightarrow> server" where
  "server_end_session_posted s =
    (if \<not> sr_started s then s
     else s\<lparr>sr_acceptors := map acceptor_end_session (sr_acceptors s)\<rparr>)"

definition server_stopped_posted :: "server \<Rightarrow> server" where
  "server_stopped_posted s =
    (if \<not> sr_started s then s
     else s\<lparr>sr_started := False, sr_acceptors := map acceptor_stop (sr_acceptors s)\<rparr>)"

fun server_posted :: "(nat \<Rightarrow> server_env) \<Rightarrow> server_post \<Rightarrow> server \<Rightarrow> server" where
  "server_posted envs Srv_post_start s = server_started_posted envs s"
| "server_posted envs Srv_post_end_session s = server_end_session_posted s"
| "server_posted envs Srv_post_stop s = server_stopped_posted s"

definition server_run_post :: "(nat \<Rightarrow> server_env) \<Rightarrow> server \<Rightarrow> server" where
  \<comment> \<open>the executor runs the first function posted\<close>
  "server_run_post envs s = (case sr_posts s of
     [] \<Rightarrow> s
   | p # ps \<Rightarrow> server_posted envs p (s\<lparr>sr_posts := ps\<rparr>))"

section \<open>Everything that can happen\<close>

text \<open>What an acceptor may see on its own: only the server starts and stops it.\<close>

fun acceptor_event :: "server_event \<Rightarrow> bool" where
  "acceptor_event Sv_start = False"
| "acceptor_event Sv_end_session = False"
| "acceptor_event Sv_stop = False"
| "acceptor_event _ = True"

datatype server_action =
    Act_set_session bytes
  | Act_add_acceptor endpoint "nat option"
  | Act_start
  | Act_end_session
  | Act_stop
  | Act_run_post "nat \<Rightarrow> server_env"
  | Act_set_acceptor_handler nat nat
  | Act_set_write_packets_limit nat nat
  | Act_set_debug_banner nat bytes
  | Act_acceptor nat server_env server_event

definition upd_acceptor :: "nat \<Rightarrow> (sw \<Rightarrow> sw) \<Rightarrow> server \<Rightarrow> server" where
  "upd_acceptor i f s =
    (if i < length (sr_acceptors s)
     then s\<lparr>sr_acceptors := (sr_acceptors s)[i := f (sr_acceptors s ! i)]\<rparr> else s)"

fun server_act :: "server_action \<Rightarrow> server \<Rightarrow> server" where
  "server_act (Act_set_session session) s = snd (server_set_session session s)"
| "server_act (Act_add_acceptor ep handler) s = snd (server_add_acceptor ep handler s)"
| "server_act Act_start s = snd (server_start s)"
| "server_act Act_end_session s = server_end_session s"
| "server_act Act_stop s = server_stop s"
| "server_act (Act_run_post envs) s = server_run_post envs s"
| "server_act (Act_set_acceptor_handler i h) s = upd_acceptor i (acceptor_set_handler h) s"
| "server_act (Act_set_write_packets_limit i n) s =
     upd_acceptor i (acceptor_set_write_packets_limit n) s"
| "server_act (Act_set_debug_banner i banner) s =
     upd_acceptor i (acceptor_set_debug_banner banner) s"
| "server_act (Act_acceptor i env ev) s =
     (if acceptor_event ev
      then upd_acceptor i (server_step (env\<lparr>se_session := sr_session s\<rparr>) ev) s else s)"

fun server_acts :: "server_action list \<Rightarrow> server \<Rightarrow> server" where
  "server_acts [] s = s"
| "server_acts (a # as) s = server_acts as (server_act a s)"

section \<open>Invariants of every acceptor\<close>

text \<open>What every acceptor has when it is made and keeps in every event, under settings that a
  user may choose, all acceptors of a server always have.\<close>

locale acceptor_invariant =
  fixes inv :: "sw \<Rightarrow> bool" and may :: "server_action \<Rightarrow> bool"
  assumes made: "inv (acceptor_new ep handler)"
    and stepped: "inv w \<Longrightarrow> inv (server_step env ev w)"
    and handler_set: "inv w \<Longrightarrow> inv (acceptor_set_handler h w)"
    and limit_set: "may (Act_set_write_packets_limit i n) \<Longrightarrow> inv w \<Longrightarrow>
      inv (acceptor_set_write_packets_limit n w)"
    and banner_set: "may (Act_set_debug_banner i banner) \<Longrightarrow> inv w \<Longrightarrow>
      inv (acceptor_set_debug_banner banner w)"
begin

lemma called:
  assumes "inv w"
  shows "inv (acceptor_start env w)" "inv (acceptor_end_session w)" "inv (acceptor_stop w)"
  using stepped [OF assms, of env Sv_start] stepped [OF assms, of env Sv_end_session]
    stepped [OF assms, of env Sv_stop]
  by (simp_all add: server_step_def)

lemma updated:
  "\<forall>a \<in> set (sr_acceptors s). inv a \<Longrightarrow> (\<And>w. inv w \<Longrightarrow> inv (f w)) \<Longrightarrow>
     \<forall>a \<in> set (sr_acceptors (upd_acceptor i f s)). inv a"
  by (auto simp: upd_acceptor_def dest: set_update_subset_insert [THEN subsetD])

lemma posted:
  assumes "\<forall>a \<in> set (sr_acceptors s). inv a"
  shows "\<forall>a \<in> set (sr_acceptors (server_posted envs p s)). inv a"
  using assms called
  by (cases p) (auto simp: server_started_posted_def server_end_session_posted_def
      server_stopped_posted_def dest: set_zip_rightD)

lemma acted:
  assumes all: "\<forall>a \<in> set (sr_acceptors s). inv a" and may: "may act"
  shows "\<forall>a \<in> set (sr_acceptors (server_act act s)). inv a"
proof (cases act)
  case (Act_add_acceptor ep handler)
  with all made show ?thesis by (auto simp: server_add_acceptor_def)
next
  case (Act_run_post envs)
  with all posted [of "s\<lparr>sr_posts := tl (sr_posts s)\<rparr>" envs] show ?thesis
    by (cases "sr_posts s") (simp_all add: server_run_post_def)
next
  case (Act_acceptor i env ev)
  show ?thesis
    using updated [OF all, of "server_step (env\<lparr>se_session := sr_session s\<rparr>) ev" i] stepped all by (simp add: Act_acceptor)
next
  case (Act_set_acceptor_handler i h)
  show ?thesis using updated [OF all, of "acceptor_set_handler h" i] handler_set by (simp add: Act_set_acceptor_handler)
next
  case (Act_set_write_packets_limit i n)
  show ?thesis
    using updated [OF all, of "acceptor_set_write_packets_limit n" i] limit_set may by (simp add: Act_set_write_packets_limit)
next
  case (Act_set_debug_banner i banner)
  show ?thesis
    using updated [OF all, of "acceptor_set_debug_banner banner" i] banner_set may by (simp add: Act_set_debug_banner)
qed (simp_all add: all server_set_session_def server_start_def server_end_session_def
    server_stop_def Let_def)

theorem always:
  "\<forall>a \<in> set (sr_acceptors s). inv a \<Longrightarrow> list_all may as \<Longrightarrow>
     \<forall>a \<in> set (sr_acceptors (server_acts as s)). inv a"
proof (induction "as" arbitrary: s)
  case Nil
  then show ?case by simp
next
  case (Cons act "as")
  show ?case
    unfolding server_acts.simps
    by (rule Cons.IH [OF acted]) (use Cons.prems in simp_all)
qed

end

text \<open>Settings that keep connections from leaking.\<close>

fun plain_setting :: "server_action \<Rightarrow> bool" where
  "plain_setting (Act_set_write_packets_limit i n) \<longleftrightarrow> 0 < n"
| "plain_setting (Act_set_debug_banner i banner) \<longleftrightarrow> banner = []"
| "plain_setting _ \<longleftrightarrow> True"

lemma srv_ok_new: "srv_ok (acceptor_new ep handler)"
  by (simp add: acceptor_new_def srv_ok_def srv_settings_def ports_linked_def server_tcp_new_def
      tcp_outstanding_def socket_new_def login_timer_new_def heartbeat_timer_new_def)

lemma settings_simps:
  "srv_settings (w\<lparr>ac_handler := h\<rparr>) = srv_settings w"
  "ports_linked (w\<lparr>ac_handler := h\<rparr>) = ports_linked w"
  "ports_linked (w\<lparr>ac_write_packets_limit := n\<rparr>) = ports_linked w"
  "ports_linked (w\<lparr>ac_debug_banner := b\<rparr>) = ports_linked w"
  by (simp_all add: srv_settings_def ports_linked_def)

lemma srv_ok_settings:
  assumes "srv_ok w"
  shows "srv_ok (acceptor_set_handler h w)"
    and "0 < n \<Longrightarrow> srv_ok (acceptor_set_write_packets_limit n w)"
    and "srv_ok (acceptor_set_debug_banner [] w)"
  using assms
  by (simp_all add: acceptor_set_handler_def acceptor_set_write_packets_limit_def
      acceptor_set_debug_banner_def srv_ok_def settings_simps)
    (simp_all add: srv_settings_def)

interpretation acceptors: acceptor_invariant srv_ok plain_setting
  by unfold_locales (simp_all add: srv_ok_new srv_ok_step srv_ok_settings)

end
