(* ===== verification/Server_Defined.thy ===== *)
theory Server_Defined
  imports Server_Lifecycle
begin

text \<open>
  No null handler is called and no assertion fails, for any debug banner and any write
  limit, once the handlers that \<^verbatim>\<open>Server::start\<close> asks for are set.  \<open>sound\<close> is what makes
  it so: a connection that is logged in has a port, one that has a port has that port's
  handler, and no connection attempt is ever outstanding on the server.
  The names of the ports are kept different on the way.
\<close>

definition sound_objects :: "sw \<Rightarrow> bool" where
  "sound_objects w \<longleftrightarrow> (\<forall>c.
     (st_port (ac_objects w c) \<noteq> None \<longrightarrow> st_handler (ac_objects w c) \<noteq> None) \<and>
     (cs_state (ct_state (stcp c w)) = Logged_in \<longrightarrow> st_port (ac_objects w c) \<noteq> None) \<and>
     Op_connect \<notin> set (sk_ops (ct_socket (stcp c w))))"

definition sound :: "sw \<Rightarrow> bool" where
  "sound w \<longleftrightarrow> ac_defined w \<and> acceptor_is_handler_set w \<and> sound_objects w \<and>
     distinct (map po_username (ac_ports w))"

lemma soundD:
  assumes "sound w"
  shows "st_port (ac_objects w c) \<noteq> None \<Longrightarrow> st_handler (ac_objects w c) \<noteq> None"
    and "cs_state (ct_state (stcp c w)) = Logged_in \<Longrightarrow> st_port (ac_objects w c) \<noteq> None"
    and "Op_connect \<notin> set (sk_ops (ct_socket (stcp c w)))"
    and "ac_handler w \<noteq> None" and "p < length (ac_ports w) \<Longrightarrow> po_handler (ac_ports w ! p) \<noteq> None"
  using assms unfolding sound_def sound_objects_def acceptor_is_handler_set_def
  by (blast, blast, blast, blast, simp add: list_all_length port_is_handler_set_def)

section \<open>Calls\<close>

lemma sound_emit [simp]: "sound (sv_emit x h cb w) = sound w"
  by (simp add: sound_def sound_objects_def acceptor_is_handler_set_def)

lemma sound_calls [simp]:
  "sound w \<Longrightarrow> sound (acceptor_call x cb w)"
  "sound (acceptor_handler_call c cb w) = sound w"
  "sound (handler_call c cb w) = sound w"
  using soundD(4) [of w]
  by (auto simp: acceptor_call_def acceptor_handler_call_def handler_call_def port_call_def)

lemma sound_port_call: "sound w \<Longrightarrow> st_port (ac_objects w c) \<noteq> None \<Longrightarrow> sound (port_call c cb w)"
  using soundD(1) [of w c] by (auto simp: port_call_def)

lemma sound_logged_in_call:
  "sound w \<Longrightarrow> cs_state (ct_state (stcp c w)) = Logged_in \<Longrightarrow> sound (port_call c cb w)"
  using soundD(2) [of w c] by (simp add: sound_port_call)

section \<open>Changes of an object\<close>

text \<open>The change neither logs the connection in nor starts an attempt.\<close>

definition tame :: "(tcp_object \<Rightarrow> tcp_object) \<Rightarrow> bool" where
  "tame g \<longleftrightarrow> (\<forall>t. (cs_state (ct_state (g t)) = Logged_in \<longrightarrow> cs_state (ct_state t) = Logged_in) \<and>
     (Op_connect \<in> set (sk_ops (ct_socket (g t))) \<longrightarrow> Op_connect \<in> set (sk_ops (ct_socket t))))"

lemma sound_upd:
  assumes "sound w" and "tame g"
  shows "sound (upd_stcp c g w)"
proof -
  have "sound_objects w" using assms(1) by (simp add: sound_def)
  moreover have "cs_state (ct_state (g (stcp c w))) = Logged_in \<Longrightarrow> cs_state (ct_state (stcp c w)) = Logged_in"
      "Op_connect \<in> set (sk_ops (ct_socket (g (stcp c w)))) \<Longrightarrow> Op_connect \<in> set (sk_ops (ct_socket (stcp c w)))"
    using assms(2) by (auto simp: tame_def)
  ultimately have "sound_objects (upd_stcp c g w)"
    unfolding sound_objects_def by (auto simp del: not_None_eq)
  with assms(1) show ?thesis by (simp add: sound_def acceptor_is_handler_set_def)
qed

lemma connect_ops [simp]:
  "Op_connect \<in> set (sk_ops (socket_maybe_signal_closed k)) \<longleftrightarrow> Op_connect \<in> set (sk_ops k)"
  "Op_connect \<in> set (sk_ops (socket_close k)) \<longleftrightarrow> Op_connect \<in> set (sk_ops k)"
  "Op_connect \<in> set (sk_ops (socket_async_read k)) \<longleftrightarrow> Op_connect \<in> set (sk_ops k)"
  "Op_connect \<in> set (sk_ops (snd (socket_async_write p k))) \<longleftrightarrow> Op_connect \<in> set (sk_ops k)"
  "Op_connect \<in> set (sk_ops (read_payload k)) \<longleftrightarrow> Op_connect \<in> set (sk_ops k)"
  "Op_connect \<in> set (sk_ops (write_packet_start k)) \<longleftrightarrow> Op_connect \<in> set (sk_ops k)"
  by (auto simp: sock_op_defs read_payload_def Let_def)

lemma tame_simps [simp]:
  "tame (t_disconnect r)"
  "tame (\<lambda>t. t\<lparr>ct_login_timer := l t\<rparr>)" "tame (\<lambda>t. t\<lparr>ct_heartbeat_timer := h t\<rparr>)"
  "tame (\<lambda>t. t\<lparr>ct_socket_closed := b\<rparr>)" "tame (\<lambda>t. t\<lparr>ct_login_timer_stopped := b\<rparr>)"
  "tame (\<lambda>t. t\<lparr>ct_heartbeat_timer_stopped := b\<rparr>)"
  "tame (\<lambda>t. t\<lparr>ct_state := snd (initiate_disconnect r (ct_state t))\<rparr>)"
  "(\<And>t. Op_connect \<in> set (sk_ops (f t)) \<longrightarrow> Op_connect \<in> set (sk_ops (ct_socket t))) \<Longrightarrow>
     tame (\<lambda>t. t\<lparr>ct_socket := f t\<rparr>)"
  by (auto simp: tame_def t_disconnect_def cs_disconnect_def initiate_disconnect_def Let_def)

lemmas sound_simps [simp] = sound_upd

lemma sound_connections [simp]:
  "sound (w\<lparr>ac_connections := cs\<rparr>) = sound w" "sound (w\<lparr>ac_acceptor := a\<rparr>) = sound w"
  "sound (w\<lparr>ac_next := n\<rparr>) = sound w"
  by (simp_all add: sound_def sound_objects_def acceptor_is_handler_set_def)

lemma sound_upd_port:
  assumes "sound w" and "\<And>po. po_handler (f po) = po_handler po"
    and "\<And>po. po_username (f po) = po_username po"
  shows "sound (upd_port p f w)"
proof -
  have "map po_username (ac_ports (upd_port p f w)) = map po_username (ac_ports w)"
    using assms(3) by (cases "p < length (ac_ports w)")
      (simp_all add: map_update list_update_same_conv not_less list_update_beyond)
  have "list_all port_is_handler_set (ac_ports (upd_port p f w))"
    unfolding list_all_length
  proof (intro allI impI)
    fix q assume q: "q < length (ac_ports (upd_port p f w))"
    then show "port_is_handler_set (ac_ports (upd_port p f w) ! q)"
      using soundD(5) [OF assms(1), of q] assms(2)
      by (cases "p = q") (simp_all add: port_is_handler_set_def)
  qed
  with \<open>map po_username _ = _\<close> assms(1) show ?thesis
    by (simp add: sound_def sound_objects_def acceptor_is_handler_set_def)
qed

section \<open>The functions of a connection\<close>

lemma sound_errors [simp]:
  assumes "sound w"
  shows "sound (stcp_disconnect c r w)" "sound (stcp_handle_transport_error c ec operation w)"
    "sound (stcp_handle_protocol_violation c pe w)"
  using assms
  by (simp_all add: stcp_disconnect_eq stcp_handle_transport_error_def stcp_handle_protocol_violation_def)

lemma sound_heartbeat_start:
  "sound w \<Longrightarrow> sound (heartbeat_timer_start (stcp_heartbeat_handler c) now throws throws' w)"
  by (simp add: heartbeat_timer_start_def heartbeat_timer_schedule_def stcp_heartbeat_handler_def
      stcp_heartbeat_timer_error_def Let_def split: option.splits)

lemma sound_object:
  assumes "sound w" and "h \<noteq> None" and "p \<noteq> None"
  shows "sound (upd_object c (\<lambda>t. t\<lparr>st_port := p, st_handler := h\<rparr>) w)"
  using assms by (simp add: sound_def sound_objects_def acceptor_is_handler_set_def)

lemma sound_login_request:
  assumes "sound w"
  shows "sound (snd (acceptor_on_login_request env c request w))"
    and "deref (fst (acceptor_on_login_request env c request w)) \<noteq> None \<Longrightarrow>
      st_port (ac_objects (snd (acceptor_on_login_request env c request w)) c) \<noteq> None"
    and "deref (fst (acceptor_on_login_request env c request w)) = None \<Longrightarrow>
      error_of (fst (acceptor_on_login_request env c request w)) \<noteq> None"
proof -
  have bind: "sound (upd_object c (\<lambda>t. t\<lparr>st_port := Some p, st_handler := po_handler (ac_ports w ! p)\<rparr>)
      (upd_port p f w'))"
    if "p < length (ac_ports w)" "sound w'" "\<And>po. po_handler (f po) = po_handler po"
      "\<And>po. po_username (f po) = po_username po" for p f w'
    using soundD(5) [OF assms that(1)] sound_upd_port [OF that(2-4)] by (intro sound_object) simp_all
  note port = bind [where f = "\<lambda>po. po\<lparr>po_connection := Some c\<rparr>"]
  note defs = acceptor_on_login_request_def port_on_login_request_def unexpected_of_def expected_of_def
    deref_def error_of_def Let_def
  show "sound (snd (acceptor_on_login_request env c request w))"
    using assms
    by (auto simp: defs stcp_supersede_def find_port_def dest!: find_SomeD
        intro!: port sound_upd_port split: option.splits)
  show "st_port (ac_objects (snd (acceptor_on_login_request env c request w)) c) \<noteq> None"
    if "deref (fst (acceptor_on_login_request env c request w)) \<noteq> None"
    using that by (auto simp: defs split: option.splits)
  show "error_of (fst (acceptor_on_login_request env c request w)) \<noteq> None"
    if "deref (fst (acceptor_on_login_request env c request w)) = None"
    using that by (auto simp: defs split: option.splits)
qed

lemma sound_accept_login:
  assumes "sound w" and port: "st_port (ac_objects w c) \<noteq> None"
  shows "sound (stcp_accept_login env c response w)"
proof -
  have "sound (upd_stcp c (\<lambda>t. t\<lparr>ct_state := set_state Logged_in (ct_state t)\<rparr>) w)"
    using assms by (simp add: sound_def sound_objects_def acceptor_is_handler_set_def)
  with port show ?thesis
    by (simp add: stcp_accept_login_def Let_def sound_port_call sound_heartbeat_start)
qed

lemma sound_process_login_request:
  assumes "sound w"
  shows "sound (snd (stcp_process_login_request env c data sz w))"
proof -
  let ?request = "read_login_request login_request_default data"
  let ?w = "acceptor_handler_call c (Sc_login_request ?request)
     (upd_stcp c (\<lambda>t. t\<lparr>ct_login_timer := login_timer_stop (ct_login_timer t)\<rparr>) w)"
  have "sound ?w" using assms by simp
  note login = sound_login_request [OF this, of env c ?request]
  from login assms show ?thesis
    by (auto simp: stcp_process_login_request_def Let_def split_def stcp_reject_login_def
        stcp_prepare_graceful_disconnect_def intro!: sound_accept_login split: option.splits)
qed

lemma sound_read_success [simp]:
  assumes "sound w"
  shows "sound (stcp_read_success env c packet w)"
proof -
  have "sound (snd (stcp_process_packet env c packet w))"
    using assms soundD(2) [OF assms, of c]
    by (auto simp: stcp_process_packet_def Let_def sound_process_login_request stcp_process_debug_def
        stcp_process_unsequenced_data_def stcp_process_client_heartbeat_def
        stcp_process_logout_request_def stcp_increment_receive_count_def
        intro!: sound_logged_in_call sound_errors split: option.splits)
  with assms show ?thesis by (simp add: stcp_read_success_def Let_def split_def)
qed

section \<open>Every event\<close>

lemma sound_signal_closed [simp]:
  assumes "sound w"
  shows "sound (stcp_maybe_signal_closed c w)"
proof -
  have "sound (port_on_closed p c w)" for p
    using assms by (simp add: port_on_closed_def sound_upd_port)
  with assms show ?thesis
    by (simp add: stcp_maybe_signal_closed_def acceptor_on_closed_def Let_def split: option.splits)
qed

lemma sound_socket:
  assumes "sound w"
  shows "sound (socket_complete (stcp_socket_handler env c) op ec n data w)"
proof (cases "op = Op_connect")
  case True
  with soundD(3) [OF assms, of c] assms show ?thesis
    by (simp add: socket_complete_def stcp_socket_handler_def)
next
  case False
  have ready: "sound (stcp_write_buffer_empty c w')" if "sound w'" for w'
    using that by (auto simp: stcp_write_buffer_empty_def port_call_def)
  have sent: "sound (packet_sent (stcp_socket_handler env c) ec n w')" if "sound w'" for w'
    using that
    by (simp add: packet_sent_def Let_def stcp_socket_handler_def stcp_write_failure_def
        stcp_write_success_def ready)
  have error: "sound (read_error (stcp_socket_handler env c) ec w')" if "sound w'" for w'
    using that by (simp add: read_error_def stcp_socket_handler_def stcp_read_aborted_def
        stcp_read_end_of_file_def stcp_read_failure_def)
  have header: "sound (header_received (stcp_socket_handler env c) ec m w')" if "sound w'" for w' m
    using that error
    by (simp add: header_received_def Let_def split_def stcp_socket_handler_def read_packet_move_def
        stcp_read_failure_def stcp_read_packet_failure_def split: read_resize.splits)
  have payload: "sound (payload_received (stcp_socket_handler env c) ec m w')" if "sound w'" for w' m
    using that error
    by (simp add: payload_received_def Let_def split_def stcp_socket_handler_def
        read_packet_move_def stcp_read_failure_def)
  have l: "sh_socket (stcp_socket_handler env c) = stcp_socket_lens c"
      "sh_closed (stcp_socket_handler env c) = stcp_closed c"
    by (simp_all add: stcp_socket_handler_def)
  have cleared: "sound (upd_stcp c (\<lambda>t. t\<lparr>ct_socket := f (ct_socket t)\<rparr>) w)"
    if "\<And>k. set (sk_ops (f k)) \<subseteq> set (sk_ops k)" for f
    using that assms by (intro sound_upd) (auto simp: tame_def)
  have ended: "sound (lens_upd (stcp_socket_lens c) socket_maybe_signal_closed w')" if "sound w'" for w'
    using that by simp
  have "sound (read_header_done (stcp_socket_handler env c) ec data w)"
    unfolding read_header_done_def Let_def l
    by (intro ended header, unfold stcp_lenses, rule cleared) (simp add: set_remove1_subset)
  moreover have "sound (read_payload_done (stcp_socket_handler env c) ec data w)"
    unfolding read_payload_done_def Let_def l
    by (intro ended payload, unfold stcp_lenses, rule cleared) (simp add: set_remove1_subset)
  moreover have "sound (write_done (stcp_socket_handler env c) bs ec n w)" for bs
    unfolding write_done_def Let_def l
    by (intro ended sent, unfold stcp_lenses, rule cleared) (simp add: set_remove1_subset)
  moreover have "sound (post_closed_done (stcp_socket_handler env c) w)"
    unfolding post_closed_done_def l stcp_closed_def
    by (intro sound_signal_closed sound_upd tame_simps(4), unfold stcp_lenses, rule cleared)
      (simp add: set_remove1_subset)
  ultimately show ?thesis
    using False assms by (cases op) (simp_all add: socket_complete_def)
qed

text \<open>A store of what \<^verbatim>\<open>async_write\<close> returned is an update in place.\<close>

lemma stored_write:
  "upd_stcp c (ct_socket_update (\<lambda>_. snd (socket_async_write p (ct_socket (stcp c w))))) w =
   upd_stcp c (\<lambda>t. t\<lparr>ct_socket := snd (socket_async_write p (ct_socket t))\<rparr>) w"
  by (simp add: upd_stcp_def upd_object_def)

lemma sound_timers:
  assumes "sound w"
  shows "sound (login_timer_wait_done (stcp_login_handler c) ec w)"
    "sound (login_timer_post_done (stcp_login_handler c) w)"
    "sound (heartbeat_timer_wait_done (stcp_heartbeat_handler c) throws ec w)"
    "sound (heartbeat_timer_post_done (stcp_heartbeat_handler c) w)"
  using assms
  by (simp_all add: login_timer_wait_done_def login_timer_on_expiry_def login_timer_post_done_def
      heartbeat_timer_wait_done_def heartbeat_timer_on_expiry_def heartbeat_timer_schedule_def
      heartbeat_timer_post_done_def stcp_login_handler_def stcp_heartbeat_handler_def
      stcp_login_timer_error_def stcp_login_timer_expired_def stcp_login_timer_stopped_def
      stcp_heartbeat_timer_error_def stcp_heartbeat_send_due_def
      stcp_heartbeat_receive_timeout_def stcp_heartbeat_timer_stopped_def Let_def
      split: option.splits)

lemma sound_send_packet [simp]: "sound w \<Longrightarrow> sound (snd (stcp_send_packet c packet w))"
  by (simp add: stcp_send_packet_def Let_def split_def stored_write)

lemma sound_send_debug [simp]: "sound w \<Longrightarrow> sound (snd (stcp_send_debug_packet c bs w))"
  by (simp add: stcp_send_debug_packet_def Let_def split_def stored_write)

lemma sound_sends:
  assumes "sound w"
  shows "sound (snd (port_send_packet p packet w))" "sound (snd (port_send_counted p packet w))"
    "sound (snd (port_send_debug p bs w))" "sound (port_end_session p w)"
proof -
  show "sound (snd (port_send_packet p packet w))"
    using assms by (simp add: port_send_packet_def split: option.splits)
  then show "sound (snd (port_send_counted p packet w))"
    by (simp add: port_send_counted_def Let_def split_def sound_upd_port)
  show "sound (snd (port_send_debug p bs w))"
    using assms by (simp add: port_send_debug_def split: option.splits)
  show "sound (port_end_session p w)"
    using assms by (simp add: port_end_session_def Let_def sound_upd_port split: option.splits)
qed

lemma sound_end_session: "sound w \<Longrightarrow> sound (fold port_end_session ps w)"
  by (induction ps arbitrary: w) (simp_all add: sound_sends)

lemma sound_stop: "sound w \<Longrightarrow> sound (fold stcp_close cs w)"
  by (induction cs arbitrary: w) (simp_all add: stcp_close_def)

lemma sound_accept:
  assumes "sound w"
  shows "sound (acceptor_accept_success env w)"
proof -
  obtain h where h: "ac_handler w = Some h" using soundD(4) [OF assms] by blast
  let ?k = "set_write_packets_limit (ac_write_packets_limit w) (socket_new True)"
  let ?w = "acceptor_call None (Sc_accept_success (se_local env) (se_remote env)) w"
  have "sound (upd_object (ac_next w) (\<lambda>_. server_tcp_new h ?k) (?w\<lparr>ac_next := ac_next w + 1\<rparr>))"
    using sound_calls(1) [OF assms, of None "Sc_accept_success (se_local env) (se_remote env)"]
    by (simp add: sound_def sound_objects_def acceptor_is_handler_set_def server_tcp_new_def
        connection_state_of_def set_write_packets_limit_def socket_new_def)
  then have "sound (stcp_construct env (ac_next w) h ?k (?w\<lparr>ac_next := ac_next w + 1\<rparr>))"
    by (simp add: stcp_construct_def Let_def login_timer_start_def stcp_login_handler_def
        stcp_login_timer_error_def split: option.splits)
  with h show ?thesis
    by (simp add: acceptor_accept_success_def Let_def)
qed

lemma sound_start: "sound w \<Longrightarrow> sound (acceptor_start env w)"
  by (simp add: acceptor_start_def Let_def split_def)

text \<open>A port added later must come with its handler.\<close>

fun brings_handler :: "server_event \<Rightarrow> bool" where
  "brings_handler (Sv_add_port username password handler) \<longleftrightarrow> handler \<noteq> None"
| "brings_handler _ \<longleftrightarrow> True"

lemma sound_add_port:
  assumes "sound w" and "handler \<noteq> None"
  shows "sound (snd (acceptor_add_port username password handler w))"
  using assms
  by (auto simp: acceptor_add_port_def Let_def sound_def sound_objects_def
      acceptor_is_handler_set_def port_is_handler_set_def port_new_def)

theorem sound_step:
  assumes ok: "sound w" and "brings_handler ev"
  shows "sound (server_step env ev w)"
proof -
  have accept: "sound (accept_done (acceptor_socket_handler env) ec w)" for ec
    using ok by (simp add: accept_done_def acceptor_socket_handler_def acceptor_accept_failure_def
        sound_accept Let_def)
  have message: "sound (snd (port_send_message p data n w))"
    and packet: "sound (case port_send_message_packet p m w of None \<Rightarrow> w | Some (_, w) \<Rightarrow> w)"
    for p data n m
    using sound_sends(2) [OF ok] ok
    by (auto simp: port_send_message_def port_send_message_packet_def split: option.splits prod.splits)
      (metis snd_conv)
  from assms show ?thesis
    by (cases ev) (simp_all add: server_step_def accept sound_socket sound_timers message packet
        sound_sends sound_upd_port port_set_next_sequence_number_def sound_add_port sound_start
        acceptor_end_session_def sound_end_session acceptor_stop_def sound_stop Let_def)
qed

theorem sound_run:
  "sound w \<Longrightarrow> list_all (\<lambda>(env, ev). brings_handler ev) evs \<Longrightarrow> sound (server_run evs w)"
proof (induction evs arbitrary: w)
  case Nil
  then show ?case by simp
next
  case (Cons e evs)
  then show ?case by (cases e) (simp add: sound_step)
qed

end
