(* ===== verification/Server_Answers.thy ===== *)
theory Server_Answers
  imports Server_Login
begin

text \<open>
  What a login request decides, branch by branch, and what the port offers from then on.
\<close>

section \<open>Ports by name\<close>

lemma find_port_iff:
  assumes "distinct (map po_username ports)"
  shows "find_port u ports = Some p \<longleftrightarrow> p < length ports \<and> po_username (ports ! p) = u"
proof
  assume "find_port u ports = Some p"
  then show "p < length ports \<and> po_username (ports ! p) = u" by (rule find_port_SomeD)
next
  assume p: "p < length ports \<and> po_username (ports ! p) = u"
  have "find_port u ports \<noteq> None"
    unfolding find_port_def find_None_iff using p by auto
  then obtain q where q: "find_port u ports = Some q" by blast
  with find_port_SomeD [OF q] p assms show "find_port u ports = Some p"
    by (simp add: distinct_conv_nth) metis
qed

lemma find_port_None: "find_port u ports = None \<longleftrightarrow> (\<forall>p < length ports. po_username (ports ! p) \<noteq> u)"
  unfolding find_port_def find_None_iff by auto

text \<open>The ports that would accept a request.\<close>

definition port_admits :: "bytes \<Rightarrow> login_request_packet \<Rightarrow> port \<Rightarrow> bool" where
  "port_admits session request po \<longleftrightarrow> po_username po = lq_username request \<and>
     po_password po = lq_password request \<and>
     (lq_session request = [] \<or> lq_session request = session)"

definition offered_number :: "login_request_packet \<Rightarrow> port \<Rightarrow> u64" where
  "offered_number request po =
    (if 0 < lq_next_sequence_number request \<and>
        lq_next_sequence_number request < po_next_sequence_number po
     then lq_next_sequence_number request else po_next_sequence_number po)"

section \<open>The port's answer\<close>

text \<open>The world when the port has accepted.\<close>

definition port_taken :: "nat \<Rightarrow> nat \<Rightarrow> login_request_packet \<Rightarrow> sw \<Rightarrow> sw" where
  "port_taken p c request w =
    (if 0 < lq_next_sequence_number request \<and>
        lq_next_sequence_number request < po_next_sequence_number (ac_ports w ! p)
     then upd_port p (\<lambda>po. po\<lparr>po_next_sequence_number := lq_next_sequence_number request\<rparr>)
            (port_bound p c w)
     else port_bound p c w)"

lemma port_bound_ports [simp]:
  "ac_ports (port_bound p c w) = (ac_ports w)[p := (ac_ports w ! p)\<lparr>po_connection := Some c\<rparr>]"
  by (simp add: port_bound_def Let_def split: option.splits)

lemma port_taken_simps [simp]:
  assumes "p < length (ac_ports w)"
  shows "ac_ports (port_taken p c request w) = (ac_ports w)[p := (ac_ports w ! p)
      \<lparr>po_connection := Some c, po_next_sequence_number := offered_number request (ac_ports w ! p)\<rparr>]"
    and "ac_objects (port_taken p c request w) = ac_objects (port_bound p c w)"
  using assms by (simp_all add: port_taken_def offered_number_def)

lemma port_refuses:
  assumes "lq_password request \<noteq> po_password (ac_ports w ! p) \<or>
      lq_session request \<noteq> [] \<and> lq_session request \<noteq> session"
  shows "\<exists>reject. port_on_login_request p c request session w = (unexpected_of reject, w)"
  using assms by (auto simp: port_on_login_request_def Let_def)

lemma port_grants:
  assumes p: "p < length (ac_ports w)" and "lq_password request = po_password (ac_ports w ! p)"
    and "lq_session request = [] \<or> lq_session request = session"
  shows "port_on_login_request p c request session w =
    (expected_of (login_accepted_packet_of session (offered_number request (ac_ports w ! p))),
     port_taken p c request w)"
proof -
  let ?w = "case po_connection (ac_ports w ! p) of None \<Rightarrow> w | Some old \<Rightarrow> stcp_supersede old w"
  have ports: "ac_ports ?w = ac_ports w"
    by (simp add: stcp_supersede_def stcp_disconnect_eq split: option.splits)
  have old: "?w = (case po_connection (ac_ports w ! p) of None \<Rightarrow> w
      | Some old \<Rightarrow> upd_stcp old (t_disconnect DR_superseded) w)"
    by (simp add: stcp_supersede_def stcp_disconnect_eq split: option.splits)
  have "upd_object c (\<lambda>t. t\<lparr>st_port := Some p, st_handler := po_handler (ac_ports w ! p)\<rparr>)
      (upd_port p (\<lambda>po. po\<lparr>po_connection := Some c\<rparr>) ?w) = port_bound p c w"
    unfolding port_bound_def Let_def old [symmetric] using p by (simp add: ports)
  with assms show ?thesis
    by (auto simp: port_on_login_request_def Let_def port_taken_def offered_number_def
        word_gt_0 simp del: port_taken_simps)
qed

section \<open>The request on every branch\<close>

text \<open>The world when the acceptor is asked.\<close>

abbreviation asked :: "nat \<Rightarrow> bytes \<Rightarrow> sw \<Rightarrow> sw" where
  "asked c data w \<equiv> acceptor_handler_call c
     (Sc_login_request (read_login_request login_request_default data))
     (upd_stcp c (\<lambda>t. t\<lparr>ct_login_timer := login_timer_stop (ct_login_timer t)\<rparr>) w)"

lemma request_decided:
  assumes "cs_state (ct_state (stcp c w)) = Connected"
    and "acceptor_on_login_request env c (read_login_request login_request_default data)
           (asked c data w) = (result, w')"
  shows "stcp_process_login_request env c data login_request_size w =
     (PE_none, case deref result of Some response \<Rightarrow> stcp_accept_login env c response w'
        | None \<Rightarrow> (case error_of result of Some reject \<Rightarrow> stcp_reject_login c reject w'
            | None \<Rightarrow> undefined_behaviour w'))"
  using assms by (simp add: stcp_process_login_request_def Let_def)

lemma request_refused:
  assumes st: "cs_state (ct_state (stcp c w)) = Connected"
    and none: "\<And>p. p < length (ac_ports w) \<Longrightarrow>
      \<not> port_admits (se_session env) (read_login_request login_request_default data) (ac_ports w ! p)"
  shows "\<exists>reject. stcp_process_login_request env c data login_request_size w =
     (PE_none, stcp_reject_login c reject (asked c data w))"
proof -
  let ?request = "read_login_request login_request_default data"
  have "\<exists>reject. acceptor_on_login_request env c ?request (asked c data w) =
      (unexpected_of reject, asked c data w)"
  proof (cases "find_port (lq_username ?request) (ac_ports w)")
    case None
    then show ?thesis by (simp add: acceptor_on_login_request_def)
  next
    case (Some p)
    with find_port_SomeD [OF Some] none [of p] show ?thesis
      by (auto simp: acceptor_on_login_request_def port_admits_def intro!: port_refuses)
  qed
  then obtain reject where "acceptor_on_login_request env c ?request (asked c data w) =
      (unexpected_of reject, asked c data w)" by blast
  from request_decided [OF st this] show ?thesis
    by (auto simp: unexpected_of_def deref_def error_of_def)
qed

lemma request_granted:
  assumes st: "cs_state (ct_state (stcp c w)) = Connected"
    and "distinct (map po_username (ac_ports w))" and p: "p < length (ac_ports w)"
    and ok: "port_admits (se_session env) (read_login_request login_request_default data) (ac_ports w ! p)"
  shows "stcp_process_login_request env c data login_request_size w =
     (PE_none, stcp_accept_login env c
       (login_accepted_packet_of (se_session env)
         (offered_number (read_login_request login_request_default data) (ac_ports w ! p)))
       (port_taken p c (read_login_request login_request_default data) (asked c data w)))"
proof -
  let ?request = "read_login_request login_request_default data"
  have found: "find_port (lq_username ?request) (ac_ports w) = Some p"
    using find_port_iff [OF assms(2)] p ok by (simp add: port_admits_def)
  have "acceptor_on_login_request env c ?request (asked c data w) =
      (expected_of (login_accepted_packet_of (se_session env) (offered_number ?request (ac_ports w ! p))),
       port_taken p c ?request (asked c data w))"
    using found ok p port_grants [of p "asked c data w" ?request "se_session env" c]
    by (simp add: acceptor_on_login_request_def port_admits_def)
  from request_decided [OF st this] show ?thesis by (simp add: expected_of_def deref_def)
qed

end
