(* ===== verification/Server_Demo.thy ===== *)
theory Server_Demo
  imports Server_Events Server_Defined Server_Answers Framing
begin

text \<open>
  Acceptors as their constructor and \<^verbatim>\<open>add_port\<close> leave them, and one run, evaluated: the
  acceptor is started and a client connects.  The properties are applied to it.
\<close>

section \<open>Acceptors not yet used\<close>

definition fresh_acceptor :: "sw \<Rightarrow> bool" where
  "fresh_acceptor w \<longleftrightarrow> ac_connections w = [] \<and> ac_defined w \<and>
     (\<forall>c. ac_objects w c = server_tcp_new 0 (socket_new False)) \<and>
     (\<forall>p < length (ac_ports w). po_connection (ac_ports w ! p) = None) \<and>
     distinct (map po_username (ac_ports w))"

lemma fresh_new: "fresh_acceptor (acceptor_new ep handler)"
  by (simp add: fresh_acceptor_def acceptor_new_def)

lemma fresh_add_port:
  "fresh_acceptor w \<Longrightarrow> fresh_acceptor (snd (acceptor_add_port username password handler w))"
  by (auto simp: fresh_acceptor_def acceptor_add_port_def port_new_def Let_def nth_append)

lemma blank_object:
  "\<not> tcp_outstanding (st_tcp (server_tcp_new h (socket_new b)))"
  "cs_state (ct_state (st_tcp (server_tcp_new h k))) = Connected"
  "st_port (server_tcp_new h k) = None" "sk_ops (socket_new b) = []"
  "ct_socket (st_tcp (server_tcp_new h k)) = k"
  by (simp_all add: server_tcp_new_def tcp_outstanding_def socket_new_def login_timer_new_def
      heartbeat_timer_new_def connection_state_of_def)

lemma fresh_srv_ok:
  "fresh_acceptor w \<Longrightarrow> ac_debug_banner w = [] \<Longrightarrow> 0 < ac_write_packets_limit w \<Longrightarrow> srv_ok w"
  by (simp add: fresh_acceptor_def srv_ok_def srv_settings_def ports_linked_def blank_object)

lemma fresh_sound: "fresh_acceptor w \<Longrightarrow> acceptor_is_handler_set w \<Longrightarrow> sound w"
  by (simp add: fresh_acceptor_def sound_def sound_objects_def blank_object)

section \<open>A run\<close>

definition demo_env :: server_env where
  "demo_env = quiet_server_env ''S1''"

definition demo_acceptor :: sw where
  "demo_acceptor = snd (acceptor_add_port ''alice'' ''secret'' (Some 7)
     (acceptor_new (''10.0.0.1'', 4000) (Some 1)))"

definition demo_events :: "(server_env \<times> server_event) list" where
  "demo_events = [(demo_env, Sv_start), (demo_env, Sv_accept no_error)]"

definition demo_port :: port where
  "demo_port = port_new ''alice'' ''secret'' (Some 7)"

lemma demo_acceptor_eq:
  "demo_acceptor = (acceptor_new (''10.0.0.1'', 4000) (Some 1))\<lparr>ac_ports := [demo_port]\<rparr>"
  by (simp add: demo_acceptor_def acceptor_add_port_def acceptor_new_def validate_fits fits_def
      length_defs is_alnum_def demo_port_def Let_def)

lemma demo_ready: "fresh_acceptor demo_acceptor" "acceptor_is_handler_set demo_acceptor"
    "ac_debug_banner demo_acceptor = []" "0 < ac_write_packets_limit demo_acceptor"
  by (simp_all add: demo_acceptor_eq fresh_acceptor_def acceptor_new_def demo_port_def port_new_def
      acceptor_is_handler_set_def port_is_handler_set_def)

definition demo_accepted :: sw where
  "demo_accepted = server_run demo_events demo_acceptor"

text \<open>Started: listening, with one accept outstanding.\<close>

definition demo_listening :: sw where
  "demo_listening = demo_acceptor
     \<lparr>ac_acceptor := \<lparr>sa_open = True, sa_socket = True, sa_accepts = 1\<rparr>,
      ac_out := [(None, Acceptor_handler 1, Sc_listen_setup_success ([], 0))]\<rparr>"

lemma demo_starts: "server_step demo_env Sv_start demo_acceptor = demo_listening"
  by (simp add: server_step_def acceptor_start_def acceptor_socket_defs demo_env_def
      quiet_server_env_def demo_acceptor_eq acceptor_new_def socket_acceptor_new_def
      acceptor_call_def sv_emit_def demo_listening_def Let_def)

lemma no_error_not_aborted [simp]: "no_error \<noteq> operation_aborted"
  by (simp add: no_error_def operation_aborted_def error_code_of_def ECANCELED_def)

lemma demo_accepts: "only_calls (accepted_world demo_env 1
    (demo_listening\<lparr>ac_acceptor := \<lparr>sa_open = True, sa_socket = True, sa_accepts = 0\<rparr>\<rparr>)) demo_accepted"
proof -
  have run: "demo_accepted = acceptor_accept_success demo_env
      (demo_listening\<lparr>ac_acceptor := \<lparr>sa_open = True, sa_socket = True, sa_accepts = 0\<rparr>\<rparr>)"
    unfolding demo_accepted_def demo_events_def
    by (simp add: demo_starts)
      (simp add: server_step_def accept_done_def acceptor_socket_handler_def demo_listening_def Let_def)
  have fields: "ac_handler (demo_listening\<lparr>ac_acceptor := a\<rparr>) = Some 1"
      "ac_debug_banner (demo_listening\<lparr>ac_acceptor := a\<rparr>) = []" for a
    by (simp_all add: demo_listening_def demo_acceptor_eq acceptor_new_def)
  show ?thesis unfolding run by (rule accept_success_effect) (rule fields)+
qed

lemma demo_accepted_simps:
  "ac_connections demo_accepted = [0]" "ac_ports demo_accepted = [demo_port]"
  "ac_acceptor demo_accepted = \<lparr>sa_open = True, sa_socket = True, sa_accepts = 1\<rparr>"
  "stcp 0 demo_accepted = t_accepted None (set_write_packets_limit 100 (socket_new True))"
  by (simp_all add: only_calls_fields [OF demo_accepts])
    (simp_all add: accepted_world_def demo_listening_def demo_acceptor_eq acceptor_new_def
      acceptor_async_accept_def demo_env_def quiet_server_env_def)

lemma demo_connected: "cs_state (ct_state (stcp 0 demo_accepted)) = Connected"
  by (simp add: demo_accepted_simps t_accepted_def server_tcp_new_def connection_state_of_def Let_def)

end
