(* ===== verification/Server_Contract.thy ===== *)
theory Server_Contract
  imports Server_Events Framing
begin

text \<open>
  The server's TCP connection honours the contracts of its socket and its timers: the
  interpretations of \<open>socket_owner\<close>, \<open>login_timer_owner\<close> and \<open>heartbeat_timer_owner\<close> on
  the handlers of \<open>Server_Tcp\<close>.  Its condition \<open>calm\<close> is not always true: a connection
  that is to be closed after one packet must not have another one in its queue.
\<close>

interpretation server_login: login_timer_owner "stcp_login_handler c" for c
  by (rule login_timer_owner.intro, simp add: stcp_login_handler_def server_login_part.sub_object_axioms,
      unfold_locales)
    (auto simp: stcp_login_handler_def stcp_login_timer_error_def stcp_login_timer_expired_def
       stcp_handle_transport_error_def stcp_disconnect_eq t_disconnect_def split_def Let_def)

interpretation server_heartbeat: heartbeat_timer_owner "stcp_heartbeat_handler c" for c
  by (rule heartbeat_timer_owner.intro,
      simp add: stcp_heartbeat_handler_def server_heartbeat_part.sub_object_axioms, unfold_locales)
    (auto simp: stcp_heartbeat_handler_def stcp_heartbeat_timer_error_def
       stcp_heartbeat_receive_timeout_def stcp_heartbeat_send_due_def
       stcp_handle_transport_error_def stcp_disconnect_eq t_disconnect_def split_def Let_def)

definition server_calm :: "nat \<Rightarrow> sw \<Rightarrow> bool" where
  "server_calm c w \<longleftrightarrow> (cs_state (ct_state (stcp c w)) = Disconnecting \<longrightarrow>
     length (sk_write_packets (ct_socket (stcp c w))) \<le> 1)"

text \<open>What processing a packet does to the socket.\<close>

definition sock_idle_evolve :: "socket \<Rightarrow> socket \<Rightarrow> bool" where
  "sock_idle_evolve k k' \<longleftrightarrow> sock_evolve k k' \<and> \<not> sk_read_pending k' \<and> \<not> sk_connect_pending k'"

lemma idle_evolve_intros [simp]:
  "sock_idle_evolve k (ct_socket t) \<Longrightarrow> sock_idle_evolve k (ct_socket (t_disconnect r t))"
  "sock_idle_evolve k k' \<Longrightarrow> sock_idle_evolve k (snd (socket_async_write p k'))"
  by (simp_all add: sock_idle_evolve_def evolve_write)

lemma acceptor_login_socket:
  "sock_idle_evolve k (ct_socket (stcp c w)) \<Longrightarrow>
   sock_idle_evolve k (ct_socket (stcp c (snd (acceptor_on_login_request env c request w))))"
  by (auto simp: acceptor_on_login_request_def port_on_login_request_def Let_def
      stcp_supersede_def stcp_disconnect_eq split: option.splits)

lemma accept_login_socket:
  "sock_idle_evolve k (ct_socket (stcp c w)) \<Longrightarrow>
   sock_idle_evolve k (ct_socket (stcp c (stcp_accept_login env c response w)))"
  by (simp add: stcp_accept_login_def heartbeat_timer_start_def heartbeat_timer_schedule_def
      stcp_heartbeat_handler_def stcp_heartbeat_timer_error_def stcp_handle_transport_error_def
      stcp_disconnect_eq Let_def split: option.splits)

lemma reject_login_socket:
  "sock_idle_evolve k (ct_socket (stcp c w)) \<Longrightarrow>
   sock_idle_evolve k (ct_socket (stcp c (stcp_reject_login c reject w)))"
  by (simp add: stcp_reject_login_def stcp_prepare_graceful_disconnect_def Let_def)

lemma process_login_socket:
  assumes "sock_idle_evolve k (ct_socket (stcp c w))"
  shows "sock_idle_evolve k (ct_socket (stcp c (snd (stcp_process_login_request env c data sz w))))"
  using assms
  by (simp add: stcp_process_login_request_def Let_def split_def acceptor_login_socket
      accept_login_socket reject_login_socket split: option.splits)

lemma server_packet_socket:
  assumes "sock_idle_evolve k (ct_socket (stcp c w))"
  shows "sock_idle_evolve k (ct_socket (stcp c (snd (stcp_process_packet env c packet w))))"
  using assms
  by (simp add: stcp_process_packet_def Let_def process_login_socket stcp_process_debug_def
      stcp_process_unsequenced_data_def stcp_process_client_heartbeat_def
      stcp_process_logout_request_def stcp_increment_receive_count_def stcp_disconnect_eq
      split: option.splits)

lemma server_read_success_evolve:
  assumes "\<not> sk_connect_pending (ct_socket (stcp c w))" and "\<not> sk_read_pending (ct_socket (stcp c w))"
  shows "sock_evolve (ct_socket (stcp c w)) (ct_socket (stcp c (stcp_read_success env c packet w)))"
proof -
  have "sock_idle_evolve (ct_socket (stcp c w)) (ct_socket (stcp c w))"
    using assms by (simp add: sock_idle_evolve_def evolve_refl)
  from server_packet_socket [OF this, of env packet] show ?thesis
    by (simp add: stcp_read_success_def Let_def split_def stcp_handle_protocol_violation_def
        stcp_disconnect_eq evolve_refl sock_idle_evolve_def evolve_read)
qed

lemma server_closed_socket: "ct_socket (stcp c (stcp_maybe_signal_closed c' w)) = ct_socket (stcp c w)"
  by (simp add: stcp_maybe_signal_closed_def port_on_closed_def acceptor_on_closed_def
      acceptor_call_def Let_def split: option.splits)

lemma disconnect_queue [simp]:
  "sk_write_packets (ct_socket (t_disconnect r t)) = sk_write_packets (ct_socket t)"
  by (simp add: t_disconnect_def split_def Let_def)

interpretation server_socket: socket_owner "stcp_socket_handler env c" "server_calm c" for env c
proof -
  have *: "sh_socket (stcp_socket_handler env c) = stcp_socket_lens c"
    by (simp add: stcp_socket_handler_def)
  have h: "sh_connect_failure (stcp_socket_handler env c) = stcp_connect_failure"
      "sh_connect_success (stcp_socket_handler env c) = stcp_connect_success"
      "sh_read_aborted (stcp_socket_handler env c) = stcp_read_aborted c"
      "sh_read_end_of_file (stcp_socket_handler env c) = stcp_read_end_of_file c"
    by (simp_all add: stcp_socket_handler_def)
  note defs = stcp_connect_failure_def stcp_connect_success_def stcp_read_failure_def
    stcp_read_packet_failure_def stcp_read_aborted_def stcp_read_end_of_file_def
    stcp_write_failure_def stcp_write_success_def stcp_write_buffer_empty_def
    stcp_handle_transport_error_def stcp_handle_protocol_violation_def stcp_disconnect_eq
  show "socket_owner (stcp_socket_handler env c) (server_calm c)"
  proof (intro socket_owner.intro socket_owner_axioms.intro)
    show "sub_object (sh_socket (stcp_socket_handler env c))"
      unfolding * by (rule server_socket_part.sub_object_axioms)
  next
    fix s wp
    assume "server_calm c s" and "tl (sk_write_packets (lens_get (sh_socket (stcp_socket_handler env c)) s)) \<noteq> []"
      and "sk_closed_signaled (lens_get (sh_socket (stcp_socket_handler env c))
             (sh_write_success (stcp_socket_handler env c) wp s))"
    then show "sk_closed_signaled (lens_get (sh_socket (stcp_socket_handler env c)) s)"
      by (cases "sk_write_packets (ct_socket (stcp c s))")
        (auto simp: * stcp_handler_sels defs server_calm_def split: if_splits)
  next
    fix s and k :: socket
    assume "server_calm c s"
      and "sk_write_packets k = sk_write_packets (lens_get (sh_socket (stcp_socket_handler env c)) s)"
    then show "server_calm c (lens_put (sh_socket (stcp_socket_handler env c)) k s)"
      by (simp add: * server_calm_def stcp_socket_lens_def)
  qed (simp_all add: * h stcp_handler_sels defs evolve_refl server_read_success_evolve stcp_closed_def
         server_closed_socket)
qed

end
