(* ===== verification/Server_Online.thy ===== *)
theory Server_Online
  imports Server_Demo Server_Contract
begin

text \<open>
  More of the demonstration run: an acceptor with one port, with any banner and any limit,
  has accepted a connection, and the bytes of a login request arrive on it.  In
  \<open>demo_served\<close> the request is granted.
\<close>

section \<open>One connection\<close>

definition only_connection :: "tcp_object \<Rightarrow> sw \<Rightarrow> bool" where
  "only_connection t w \<longleftrightarrow> ac_connections w = [0] \<and> ac_handler w = Some 1 \<and> ac_ports w = [demo_port] \<and>
     ac_objects w 0 = \<lparr>st_acceptor_handler = 1, st_port = None, st_handler = None, st_tcp = t\<rparr>"

text \<open>A connection before its login, with \<open>k\<close> as its socket.\<close>

definition waiting :: "socket \<Rightarrow> tcp_object" where
  "waiting k = \<lparr>ct_socket = k, ct_state = connection_state_of Connected,
     ct_login_timer = \<lparr>lt_timeout = login_request_timeout, lt_started = True, lt_wait_pending = True,
       lt_stopped_signaled = False, lt_waits = 1, lt_posts = 0\<rparr>,
     ct_heartbeat_timer = heartbeat_timer_new client_heartbeat_timeout,
     ct_socket_closed = False, ct_login_timer_stopped = False, ct_heartbeat_timer_stopped = True\<rparr>"

lemma accepted_waiting:
  "t_accepted None k = waiting (socket_async_read k)"
  by (simp add: t_accepted_def waiting_def server_tcp_new_def login_timer_new_def Let_def)

section \<open>The acceptor accepts\<close>

lemma server_run_append: "server_run (evs @ evs') w = server_run evs' (server_run evs w)"
  by (induction evs arbitrary: w) auto

lemma banner_sent:
  assumes "only_connection (waiting k) w"
  shows "only_connection (waiting (snd (socket_async_write
      (write_packet_of debug_type banner (of_nat (length banner))) k)))
    (snd (stcp_send_debug_packet 0 banner w))"
  using assms by (simp add: only_connection_def waiting_def stcp_send_debug_packet_def
      connection_state_of_def is_closing_def split_def Let_def)

lemma only_connection_acceptor [simp]:
  "only_connection t (w\<lparr>ac_acceptor := a\<rparr>) = only_connection t w"
  by (simp add: only_connection_def)

lemma first_accept:
  assumes w: "ac_handler w = Some 1" "ac_next w = 0" "ac_connections w = []" "ac_ports w = [demo_port]"
  defines "k \<equiv> socket_async_read (set_write_packets_limit (ac_write_packets_limit w) (socket_new True))"
  shows "only_connection (waiting (if ac_debug_banner w = [] then k else snd (socket_async_write
       (write_packet_of debug_type (ac_debug_banner w) (of_nat (length (ac_debug_banner w)))) k)))
     (acceptor_accept_success demo_env w)"
proof -
  let ?w1 = "acceptor_call None (Sc_accept_success (se_local demo_env) (se_remote demo_env)) w"
  let ?w2 = "stcp_construct demo_env 0 1
      (set_write_packets_limit (ac_write_packets_limit w) (socket_new True)) (?w1\<lparr>ac_next := 1\<rparr>)"
  have made: "only_connection (waiting k) (?w2\<lparr>ac_connections := [0]\<rparr>)"
      "ac_debug_banner ?w2 = ac_debug_banner w" "ac_connections ?w2 = []"
    using w
    by (simp_all add: only_connection_def stcp_construct_def server_tcp_new_def
        login_timer_start_def stcp_login_handler_def demo_env_def quiet_server_env_def waiting_def
        login_timer_new_def k_def Let_def)
  have "acceptor_accept_success demo_env w = lens_upd acceptor_lens acceptor_async_accept
      (if ac_debug_banner w \<noteq> []
       then snd (stcp_send_debug_packet 0 (ac_debug_banner w) (?w2\<lparr>ac_connections := [0]\<rparr>))
       else ?w2\<lparr>ac_connections := [0]\<rparr>)"
    using w made(2,3) by (simp add: acceptor_accept_success_def Let_def)
  with made(1) banner_sent [OF made(1)] show ?thesis by simp
qed

lemma demo_accepts_with:
  assumes w: "w = demo_acceptor\<lparr>ac_debug_banner := banner, ac_write_packets_limit := limit\<rparr>"
  defines "k \<equiv> socket_async_read (set_write_packets_limit limit (socket_new True))"
  shows "only_connection (waiting (if banner = [] then k else snd (socket_async_write
       (write_packet_of debug_type banner (of_nat (length banner))) k))) (server_run demo_events w)"
proof -
  let ?w = "w\<lparr>ac_out := [(None, Acceptor_handler 1, Sc_listen_setup_success ([], 0))],
      ac_acceptor := \<lparr>sa_open = True, sa_socket = True, sa_accepts = 0\<rparr>\<rparr>"
  have start: "server_step demo_env Sv_start w =
      ?w\<lparr>ac_acceptor := \<lparr>sa_open = True, sa_socket = True, sa_accepts = 1\<rparr>\<rparr>"
    by (simp add: w server_step_def acceptor_start_def acceptor_socket_defs demo_env_def
        quiet_server_env_def demo_acceptor_eq acceptor_new_def socket_acceptor_new_def
        acceptor_call_def sv_emit_def Let_def)
  have "server_run demo_events w = acceptor_accept_success demo_env ?w"
    unfolding demo_events_def
    by (simp add: start) (simp add: server_step_def accept_done_def acceptor_socket_handler_def Let_def)
  moreover have "ac_handler ?w = Some 1" "ac_next ?w = 0" "ac_connections ?w = []"
      "ac_ports ?w = [demo_port]" "ac_debug_banner ?w = banner" "ac_write_packets_limit ?w = limit"
    by (simp_all add: w demo_acceptor_eq acceptor_new_def)
  ultimately show ?thesis
    using first_accept [of ?w] unfolding k_def by presburger
qed

lemma fresh_read:
  "socket_async_read (set_write_packets_limit limit (socket_new True)) =
   \<lparr>sk_open = True, sk_read_packet = read_packet_new, sk_write_packets = [],
     sk_write_packets_limit = limit, sk_write_buffer_was_full = False, sk_connect_pending = False,
     sk_read_pending = True, sk_write_pending = False, sk_closing = False,
     sk_closed_signaled = False, sk_ops = [Op_read_header]\<rparr>"
  by (simp add: socket_async_read_def read_header_def set_write_packets_limit_def socket_new_def)

lemma fresh_read_ready:
  "sock_core (socket_async_read (set_write_packets_limit limit (socket_new True)))"
  "length (rp_header (sk_read_packet (socket_async_read (set_write_packets_limit limit (socket_new True)))))
     = packet_header_length"
  by (simp_all add: fresh_read sock_core_def n_ops_def read_packet_new_def sock_told_def is_idle_def)

section \<open>A login request arrives\<close>

text \<open>Its bytes, read as the socket asks for them.\<close>

definition login_events :: "login_request_packet \<Rightarrow> (server_env \<times> server_event) list" where
  "login_events r =
     [(demo_env, Sv_socket 0 Op_read_header no_error 0 (take packet_header_length
        (frame login_request_type (write_login_request r)))),
      (demo_env, Sv_socket 0 Op_read_payload no_error 0 (write_login_request r))]"

lemma login_read:
  assumes sock: "ct_socket (stcp 0 w) = k" and "sock_core k" and "Op_read_header \<in> set (sk_ops k)"
    and "length (rp_header (sk_read_packet k)) = packet_header_length"
  shows "server_run (login_events r) w =
    upd_stcp 0 (\<lambda>t. t\<lparr>ct_socket := socket_maybe_signal_closed (ct_socket t)\<rparr>)
      (stcp_read_success demo_env 0 (received login_request_type (write_login_request r))
        (upd_stcp 0 (\<lambda>t. t\<lparr>ct_socket := packet_taken (ct_socket t)\<rparr>) w))"
proof -
  let ?data = "write_login_request r" and ?h = "stcp_socket_handler demo_env 0"
  have len: "length ?data = login_request_size" by (rule request.enc_length)
  have h: "sh_socket ?h = stcp_socket_lens 0" "sh_read_success ?h = stcp_read_success demo_env 0"
    by (simp_all add: stcp_socket_handler_def)
  have pl: "length ?data \<le> max_payload" "?data \<noteq> []"
    using len by (auto simp: login_request_size_def length_defs max_payload_def)
  note arrive = server_socket.packet_received [where s = w and env = demo_env and c = 0
      and t = login_request_type and pl = ?data, unfolded h stcp_lenses sock, OF assms(2-4) pl]
  note announced = server_socket.payload_announced [where s = w and env = demo_env and c = 0
      and t = login_request_type and pl = ?data, unfolded h stcp_lenses sock, OF assms(4) pl]
  show ?thesis
    unfolding arrive [symmetric] login_events_def using assms(3)
    by (simp add: server_step_def asio_may_complete_def socket_complete_def sock announced h)
qed

lemma request_read:
  "valid_request r \<Longrightarrow> read_login_request login_request_default (write_login_request r) = r"
  using request.dec_enc_append [of r "[]"] by simp

section \<open>A granted request\<close>

definition alice :: login_request_packet where
  "alice = login_request_packet_of ''alice'' ''secret'' ''S1'' 1"

lemma alice_valid: "valid_request alice"
  by (simp add: alice_def valid_request_def login_request_packet_of_def fits_def length_defs is_alnum_def)

lemma alice_admitted: "port_admits (se_session demo_env) alice demo_port"
  by (simp add: port_admits_def demo_port_def port_new_def alice_def login_request_packet_of_def
      demo_env_def quiet_server_env_def)

definition demo_served :: sw where
  "demo_served = server_run (demo_events @ login_events alice) demo_acceptor"

lemma demo_served_simps:
  "ac_connections demo_served = [0]"
  "ac_ports demo_served = [demo_port\<lparr>po_connection := Some 0\<rparr>]"
  "st_port (ac_objects demo_served 0) = Some 0"
  "cs_state (ct_state (stcp 0 demo_served)) = Logged_in"
  "sk_write_packets (ct_socket (stcp 0 demo_served)) =
     [accepted_packet (login_accepted_packet_of (se_session demo_env) 1)]"
  "sk_write_packets_limit (ct_socket (stcp 0 demo_served)) = 100"
  "sk_open (ct_socket (stcp 0 demo_served))"
proof -
  let ?r = "socket_async_read (set_write_packets_limit 100 (socket_new True))"
  let ?w = "upd_stcp 0 (\<lambda>t. t\<lparr>ct_socket := packet_taken (ct_socket t)\<rparr>) demo_accepted"
  let ?data = "write_login_request alice"
  let ?a = "login_accepted_packet_of (se_session demo_env) (offered_number alice demo_port)"
  let ?t = "port_taken 0 0 alice (asked 0 ?data ?w)"
  have object: "stcp 0 demo_accepted = waiting ?r"
    using demo_accepted_simps(4) by (simp only: accepted_waiting)
  then have sock: "ct_socket (stcp 0 demo_accepted) = ?r" by (simp add: waiting_def)
  have op: "Op_read_header \<in> set (sk_ops ?r)" by (simp add: fresh_read)
  have number: "offered_number alice demo_port = 1"
    by (simp add: offered_number_def demo_port_def port_new_def alice_def login_request_packet_of_def)
  have granted: "stcp_process_login_request demo_env 0 ?data login_request_size ?w =
      (PE_none, stcp_accept_login demo_env 0 ?a ?t)"
    using request_granted [where c = 0 and w = ?w and p = 0 and env = demo_env and data = ?data] alice_admitted
    by (simp add: request_read [OF alice_valid] demo_accepted_simps(2) object waiting_def
        connection_state_of_def)
  have quiet: "se_heartbeat_throws demo_env = None" "se_heartbeat_throws' demo_env = None"
    by (simp_all add: demo_env_def quiet_server_env_def)
  have port: "po_connection demo_port = None" by (simp add: demo_port_def port_new_def)
  have t: "stcp 0 ?t = stcp 0 (asked 0 ?data ?w)" "st_port (ac_objects ?t 0) = Some 0"
    "ac_ports ?t = [demo_port\<lparr>po_connection := Some 0\<rparr>]" "ac_connections ?t = [0]"
    using port number
    by (simp_all add: demo_accepted_simps port_bound_def Let_def)
      (simp_all add: demo_port_def port_new_def port_taken_def port_bound_def demo_accepted_simps
        Let_def)
  let ?v = "stcp_accept_login demo_env 0 ?a ?t"
  have "\<not> hb_started (ct_heartbeat_timer (stcp 0 ?t))"
    unfolding t(1) by (simp add: object waiting_def heartbeat_timer_new_def)
  note v = only_calls_fields [OF accept_login_effect [OF this, of demo_env ?a]]
  have answered: "stcp 0 ?v = t_answered demo_env (accepted_packet ?a) (stcp 0 (asked 0 ?data ?w))"
    unfolding v by (simp add: t(1))
  have "stcp_read_success demo_env 0 (received login_request_type ?data) ?w =
      upd_stcp 0 (\<lambda>t. t\<lparr>ct_socket := socket_async_read (ct_socket t)\<rparr>) ?v"
    using granted
    by (simp add: stcp_read_success_def stcp_process_packet_def packet_type_defs Let_def
        request.enc_length object waiting_def connection_state_of_def is_closing_def answered
        t_answered_def t_logged_in_def set_state_def quiet)
  then have run: "demo_served =
      upd_stcp 0 (\<lambda>t. t\<lparr>ct_socket := socket_maybe_signal_closed (ct_socket t)\<rparr>)
        (upd_stcp 0 (\<lambda>t. t\<lparr>ct_socket := socket_async_read (ct_socket t)\<rparr>) ?v)"
    using login_read [OF sock fresh_read_ready(1) op fresh_read_ready(2), of alice]
    unfolding demo_served_def server_run_append demo_accepted_def by simp
  show "ac_connections demo_served = [0]" "ac_ports demo_served = [demo_port\<lparr>po_connection := Some 0\<rparr>]"
    "st_port (ac_objects demo_served 0) = Some 0"
    unfolding run by (simp_all add: v t)
  let ?k = "snd (socket_async_write (accepted_packet (login_accepted_packet_of (se_session demo_env) 1))
      (packet_taken ?r))"
  have k: "sk_write_packets (socket_maybe_signal_closed (socket_async_read ?k)) =
      [accepted_packet (login_accepted_packet_of (se_session demo_env) 1)]"
    "sk_write_packets_limit (socket_maybe_signal_closed (socket_async_read ?k)) = 100"
    "sk_open (socket_maybe_signal_closed (socket_async_read ?k))"
    unfolding fresh_read
    by (simp_all add: packet_taken_def socket_async_write_def write_packet_start_def
        socket_async_read_def read_header_def socket_maybe_signal_closed_def is_idle_def Let_def)
  have "stcp 0 (asked 0 ?data ?w) = (waiting (packet_taken ?r))\<lparr>ct_login_timer :=
      login_timer_stop (ct_login_timer (waiting ?r))\<rparr>"
    by (simp add: object waiting_def)
  then have "ct_socket (stcp 0 ?v) = ?k" "cs_state (ct_state (stcp 0 ?v)) = Logged_in"
    unfolding answered t_answered_def t_logged_in_def
    by (simp_all add: quiet waiting_def set_state_def number Let_def)
  with k show "cs_state (ct_state (stcp 0 demo_served)) = Logged_in"
    "sk_write_packets (ct_socket (stcp 0 demo_served)) =
      [accepted_packet (login_accepted_packet_of (se_session demo_env) 1)]"
    "sk_write_packets_limit (ct_socket (stcp 0 demo_served)) = 100"
    "sk_open (ct_socket (stcp 0 demo_served))"
    unfolding run by simp_all
qed

end
