(* ===== verification/Server_Ending.thy ===== *)
theory Server_Ending
  imports Server_Main Server_Online
begin

text \<open>
  The end of the session, port by port: what \<^verbatim>\<open>end_session\<close> queues, and that nothing that
  happens later gives a port its session back.
\<close>

section \<open>For good\<close>

definition over_at :: "nat \<Rightarrow> sw \<Rightarrow> bool" where
  "over_at p w \<longleftrightarrow> p < length (ac_ports w) \<and> po_has_session_ended (ac_ports w ! p)"

lemma over_same [simp]:
  "over_at p (upd_stcp c f w) = over_at p w" "over_at p (upd_object c g w) = over_at p w"
  "over_at p (sv_emit x h cb w) = over_at p w" "over_at p (undefined_behaviour w) = over_at p w"
  "over_at p (acceptor_call x cb w) = over_at p w" "over_at p (port_call c cb w) = over_at p w"
  "over_at p (acceptor_handler_call c cb w) = over_at p w"
  "over_at p (handler_call c cb w) = over_at p w"
  "over_at p (w\<lparr>ac_acceptor := a\<rparr>) = over_at p w" "over_at p (w\<lparr>ac_next := n\<rparr>) = over_at p w"
  "over_at p (w\<lparr>ac_connections := cs\<rparr>) = over_at p w"
  by (simp_all add: over_at_def)

lemma over_port [simp]:
  assumes "over_at p w" and "\<And>po. po_has_session_ended po \<Longrightarrow> po_has_session_ended (f po)"
  shows "over_at p (upd_port q f w)"
  using assms by (cases "p = q") (simp_all add: over_at_def upd_port_def)

lemma over_ends [simp]:
  "over_at p (stcp_disconnect c r w) = over_at p w"
  "over_at p (stcp_handle_transport_error c ec operation w) = over_at p w"
  "over_at p (stcp_handle_protocol_violation c pe w) = over_at p w"
  "over_at p (stcp_prepare_graceful_disconnect c r w) = over_at p w"
  "over_at p (snd (stcp_send_packet c packet w)) = over_at p w"
  "over_at p (snd (stcp_send_debug_packet c bs w)) = over_at p w"
  "over_at p (heartbeat_timer_start (stcp_heartbeat_handler c) now throws throws' w) = over_at p w"
  by (simp_all add: stcp_disconnect_eq stcp_handle_transport_error_def
      stcp_handle_protocol_violation_def stcp_prepare_graceful_disconnect_def stcp_send_packet_def
      stcp_send_debug_packet_def heartbeat_timer_start_def heartbeat_timer_schedule_def
      stcp_heartbeat_handler_def stcp_heartbeat_timer_error_def Let_def split_def
      split: option.splits)

lemma over_signal_closed [simp]: "over_at p w \<Longrightarrow> over_at p (stcp_maybe_signal_closed c w)"
  by (simp add: stcp_maybe_signal_closed_def acceptor_on_closed_def port_on_closed_def Let_def
      split: option.splits)

lemma over_read_success [simp]:
  assumes "over_at p w"
  shows "over_at p (stcp_read_success env c packet w)"
proof -
  have "over_at p (snd (port_on_login_request q c request session w))" for q request session
    using assms by (simp add: port_on_login_request_def stcp_supersede_def Let_def split: option.splits)
  then have "over_at p (snd (acceptor_on_login_request env c request w'))" if "over_at p w'" for request w'
    using that by (simp add: acceptor_on_login_request_def port_on_login_request_def
        stcp_supersede_def Let_def split: option.splits)
  with assms have "over_at p (snd (stcp_process_login_request env c data n w))" for data n
    by (simp add: stcp_process_login_request_def stcp_accept_login_def stcp_reject_login_def
        Let_def split_def split: option.splits)
  with assms have "over_at p (snd (stcp_process_packet env c packet w))"
    by (simp add: stcp_process_packet_def stcp_process_debug_def stcp_process_unsequenced_data_def
        stcp_process_client_heartbeat_def stcp_process_logout_request_def
        stcp_increment_receive_count_def Let_def split: option.splits)
  with assms show ?thesis by (simp add: stcp_read_success_def Let_def split_def)
qed

lemma over_socket [simp]:
  assumes ok: "over_at p w"
  shows "over_at p (socket_complete (stcp_socket_handler env c) op ec n data w)"
proof -
  let ?h = "stcp_socket_handler env c"
  note handler = stcp_socket_handler_def read_packet_move_def stcp_connect_failure_def
    stcp_connect_success_def stcp_read_failure_def stcp_read_packet_failure_def
    stcp_read_aborted_def stcp_read_end_of_file_def stcp_write_failure_def
    stcp_write_success_def stcp_write_buffer_empty_def stcp_closed_def Let_def split_def
  have error: "over_at p w' \<Longrightarrow> over_at p (read_error ?h ec w')" for w'
    by (simp add: read_error_def handler)
  have header: "over_at p w' \<Longrightarrow> over_at p (header_received ?h ec m w')" for w' m
    using error by (simp add: header_received_def handler split: read_resize.splits)
  have payload: "over_at p w' \<Longrightarrow> over_at p (payload_received ?h ec m w')" for w' m
    using error by (simp add: payload_received_def handler)
  have sent: "over_at p w' \<Longrightarrow> over_at p (packet_sent ?h ec n w')" for w'
    by (simp add: packet_sent_def handler)
  have l: "sh_socket ?h = stcp_socket_lens c" "sh_closed ?h = stcp_closed c"
      "sh_connect_failure ?h = stcp_connect_failure" "sh_connect_success ?h = stcp_connect_success"
    by (simp_all add: stcp_socket_handler_def)
  show ?thesis
    using ok header payload sent
    by (cases op) (simp_all add: socket_complete_def connect_done_def read_header_done_def
        read_payload_done_def write_done_def post_closed_done_def l stcp_connect_failure_def
        stcp_connect_success_def stcp_closed_def Let_def)
qed

lemma over_timers [simp]:
  assumes "over_at p w"
  shows "over_at p (login_timer_wait_done (stcp_login_handler c) ec w)"
    "over_at p (login_timer_post_done (stcp_login_handler c) w)"
    "over_at p (heartbeat_timer_wait_done (stcp_heartbeat_handler c) throws ec w)"
    "over_at p (heartbeat_timer_post_done (stcp_heartbeat_handler c) w)"
  using assms
  by (simp_all add: login_timer_wait_done_def login_timer_on_expiry_def login_timer_post_done_def
      heartbeat_timer_wait_done_def heartbeat_timer_on_expiry_def heartbeat_timer_schedule_def
      heartbeat_timer_post_done_def stcp_login_handler_def stcp_heartbeat_handler_def
      stcp_login_timer_error_def stcp_login_timer_expired_def stcp_login_timer_stopped_def
      stcp_heartbeat_timer_error_def stcp_heartbeat_send_due_def
      stcp_heartbeat_receive_timeout_def stcp_heartbeat_timer_stopped_def Let_def
      split: option.splits)

lemma over_accept:
  assumes "over_at p w"
  shows "over_at p (accept_done (acceptor_socket_handler env) ec w)"
proof -
  have "over_at p (stcp_construct env c h k w) = over_at p w" for c h k w
    by (simp add: stcp_construct_def login_timer_start_def stcp_login_handler_def
        stcp_login_timer_error_def Let_def split: option.splits)
  with assms show ?thesis
    by (simp add: accept_done_def acceptor_socket_handler_def acceptor_accept_failure_def
        acceptor_accept_success_def Let_def split: option.splits)
qed

lemma over_sends [simp]:
  assumes "over_at p w"
  shows "over_at p (snd (port_send_counted q packet w))" "over_at p (snd (port_send_message q data n w))"
    "over_at p (case port_send_message_packet q packet w of None \<Rightarrow> w | Some (_, w) \<Rightarrow> w)"
    "over_at p (snd (port_send_debug q bs w))" "over_at p (port_end_session q w)"
proof -
  show counted: "over_at p (snd (port_send_counted q packet w))" for packet
    using assms by (simp add: port_send_counted_def port_send_packet_def Let_def split_def split: option.splits)
  show "over_at p (snd (port_send_message q data n w))"
    using assms counted by (simp add: port_send_message_def split: option.splits)
  show "over_at p (case port_send_message_packet q packet w of None \<Rightarrow> w | Some (_, w) \<Rightarrow> w)"
    using assms counted
    by (auto simp: port_send_message_packet_def split: option.splits prod.splits) (metis snd_conv)
  show "over_at p (snd (port_send_debug q bs w))" "over_at p (port_end_session q w)"
    using assms by (simp_all add: port_send_debug_def port_end_session_def Let_def split: option.splits)
qed

lemma over_folds:
  "over_at p w \<Longrightarrow> over_at p (fold port_end_session ps w)"
  "over_at p w \<Longrightarrow> over_at p (fold stcp_close cs w)"
  by (induction ps arbitrary: w) (simp_all, induction cs arbitrary: w, simp_all add: stcp_close_def)

theorem over_step: "over_at p w \<Longrightarrow> over_at p (server_step env ev w)"
  by (cases ev) (simp_all add: server_step_def over_accept over_folds acceptor_end_session_def
      acceptor_stop_def acceptor_start_def acceptor_add_port_def port_set_next_sequence_number_def
      Let_def split_def, simp_all add: over_at_def nth_append)

theorem over_run: "over_at p w \<Longrightarrow> over_at p (server_run evs w)"
proof (induction evs arbitrary: w)
  case (Cons e evs)
  then show ?case by (cases e) (simp add: over_step)
qed simp

lemma over_silent:
  assumes "over_at p w"
  shows "\<exists>e \<in> {WE_empty_buffer, WE_null_buffer, WE_session_ended}. port_send_message p data n w = (e, w)"
    "port_send_message_packet p packet w \<in>
       {None, Some (WE_empty_buffer, w), Some (WE_session_ended, w)}"
  using assms
  by (auto simp: over_at_def port_send_message_def port_send_message_packet_def
      port_send_counted_def port_send_packet_def split: option.splits)

section \<open>What \<^verbatim>\<open>end_session\<close> does\<close>

lemma end_session_port:
  "ac_ports (port_end_session p w) = (ac_ports w)[p := (ac_ports w ! p)\<lparr>po_has_session_ended := True\<rparr>]"
proof (cases "po_has_session_ended (ac_ports w ! p)")
  case True
  then have "(ac_ports w ! p)\<lparr>po_has_session_ended := True\<rparr> = ac_ports w ! p"
    by (cases "ac_ports w ! p") simp
  then have "(ac_ports w)[p := (ac_ports w ! p)\<lparr>po_has_session_ended := True\<rparr>] = ac_ports w"
    by (simp only: list_update_id)
  with True show ?thesis by (simp add: port_end_session_def)
next
  case False
  then show ?thesis
    by (simp add: port_end_session_def stcp_send_packet_def Let_def split_def split: option.splits)
qed

lemma end_session_ports:
  "length (ac_ports (fold port_end_session ps w)) = length (ac_ports w) \<and>
   (\<forall>q < length (ac_ports w). po_has_session_ended (ac_ports (fold port_end_session ps w) ! q) =
      (q \<in> set ps \<or> po_has_session_ended (ac_ports w ! q)))"
proof (induction ps arbitrary: w)
  case Nil
  then show ?case by simp
next
  case (Cons p ps)
  have "po_has_session_ended (ac_ports (port_end_session p w) ! q) =
      (q = p \<or> po_has_session_ended (ac_ports w ! q))" if "q < length (ac_ports w)" for q
    using that by (cases "q = p") (simp_all add: end_session_port)
  with Cons.IH [of "port_end_session p w"] show ?case by (auto simp: end_session_port)
qed

lemma end_session_again: "\<forall>p \<in> set ps. po_has_session_ended (ac_ports w ! p) \<Longrightarrow> fold port_end_session ps w = w"
  by (induction ps) (simp_all add: port_end_session_def)

text \<open>The connections that are told.\<close>

definition told_by :: "nat set \<Rightarrow> sw \<Rightarrow> nat \<Rightarrow> bool" where
  "told_by P w c \<longleftrightarrow>
     (\<exists>p \<in> P. po_connection (ac_ports w ! p) = Some c \<and> \<not> po_has_session_ended (ac_ports w ! p)) \<and>
     cs_state (ct_state (stcp c w)) = Logged_in \<and>
     length (sk_write_packets (ct_socket (stcp c w))) \<noteq> sk_write_packets_limit (ct_socket (stcp c w))"

definition one_port_each :: "sw \<Rightarrow> bool" where
  "one_port_each w \<longleftrightarrow> (\<forall>p q c. p < length (ac_ports w) \<longrightarrow> q < length (ac_ports w) \<longrightarrow>
       po_connection (ac_ports w ! p) = Some c \<longrightarrow> po_connection (ac_ports w ! q) = Some c \<longrightarrow> p = q) \<and>
     (\<forall>p c. p < length (ac_ports w) \<longrightarrow> po_connection (ac_ports w ! p) = Some c \<longrightarrow>
       cs_state (ct_state (stcp c w)) = Logged_in \<longrightarrow> \<not> sk_closing (ct_socket (stcp c w)))"

lemma srv_one_port_each:
  assumes ok: "srv_ok w"
  shows "one_port_each w"
proof -
  have "\<not> sk_closing (ct_socket (stcp c w))"
    if p: "p < length (ac_ports w)" "po_connection (ac_ports w ! p) = Some c"
      "cs_state (ct_state (stcp c w)) = Logged_in" for p c
    using srv_ok_D(1) [OF ok srv_ok_D(4) [OF ok p(1,2)]] st_ok_D(7) [of "stcp c w"] p(3)
    by (auto simp: st_frame_def)
  moreover have "p = q" if "p < length (ac_ports w)" "po_connection (ac_ports w ! p) = Some c"
    "q < length (ac_ports w)" "po_connection (ac_ports w ! q) = Some c" for p q c
    using ports_linked_D(1) [OF srv_ok_D(2) [OF ok] that(1,2)]
      ports_linked_D(1) [OF srv_ok_D(2) [OF ok] that(3,4)] by simp
  ultimately show ?thesis unfolding one_port_each_def by blast
qed

lemma end_session_object:
  assumes "p < length (ac_ports w)" and "one_port_each w"
  shows "stcp c (port_end_session p w) = (if told_by {p} w c
     then (stcp c w)\<lparr>ct_socket := snd (socket_async_write (write_packet_empty end_of_session_type)
       (ct_socket (stcp c w)))\<rparr>
     else if po_connection (ac_ports w ! p) = Some c \<and> \<not> po_has_session_ended (ac_ports w ! p) \<and>
       cs_state (ct_state (stcp c w)) = Logged_in
     then (stcp c w)\<lparr>ct_socket := (ct_socket (stcp c w))\<lparr>sk_write_buffer_was_full := True\<rparr>\<rparr>
     else stcp c w)"
  using assms
  by (auto simp: told_by_def one_port_each_def port_end_session_def stcp_send_packet_def
      write_packet_empty_def packet_type_defs socket_async_write_def Let_def
      split: option.splits)

lemma end_session_next:
  assumes p: "p < length (ac_ports w)" and w: "one_port_each w"
  defines "w' \<equiv> port_end_session p w"
  shows "one_port_each w'"
    and "sk_write_packets (ct_socket (stcp c w')) = sk_write_packets (ct_socket (stcp c w)) @
      (if told_by {p} w c then [write_packet_empty end_of_session_type] else [])"
    and "P \<subseteq> {..<length (ac_ports w)} \<Longrightarrow> p \<notin> P \<Longrightarrow> told_by P w' c = told_by P w c"
proof -
  note objs = end_session_object [OF p w]
  have wrote: "\<not> sk_closing (ct_socket (stcp c w)) \<and> length (sk_write_packets (ct_socket (stcp c w))) \<noteq>
      sk_write_packets_limit (ct_socket (stcp c w))" if "told_by {p} w c" for c
    using that w p by (auto simp: told_by_def one_port_each_def)
  have state: "ct_state (stcp c w') = ct_state (stcp c w)" for c by (simp add: w'_def objs)
  have closing: "sk_closing (ct_socket (stcp c w')) = sk_closing (ct_socket (stcp c w))" for c
    using wrote by (auto simp: w'_def objs socket_async_write_def write_packet_start_def Let_def)
  have ports: "po_connection (ac_ports w' ! q) = po_connection (ac_ports w ! q)"
      "length (ac_ports w') = length (ac_ports w)" for q
    using p by (simp_all add: w'_def end_session_port nth_list_update)
  show "one_port_each w'"
    using w unfolding one_port_each_def ports state closing .
  show "sk_write_packets (ct_socket (stcp c w')) = sk_write_packets (ct_socket (stcp c w)) @
      (if told_by {p} w c then [write_packet_empty end_of_session_type] else [])"
    using wrote [of c]
    by (simp add: w'_def objs socket_async_write_def write_packet_start_def Let_def)
  assume P: "P \<subseteq> {..<length (ac_ports w)}" "p \<notin> P"
  have ended: "po_has_session_ended (ac_ports w' ! q) = po_has_session_ended (ac_ports w ! q)"
    if "q \<in> P" for q
    using that P p by (auto simp: w'_def end_session_port nth_list_update)
  have same: "stcp c w' = stcp c w" if "q \<in> P" "po_connection (ac_ports w ! q) = Some c" for q
  proof -
    from that P have "q < length (ac_ports w)" "q \<noteq> p" by auto
    with that(2) w p have "po_connection (ac_ports w ! p) \<noteq> Some c"
      unfolding one_port_each_def by blast
    then show ?thesis by (simp add: w'_def objs told_by_def)
  qed
  show "told_by P w' c = told_by P w c"
    unfolding told_by_def ports using ended same by (metis (no_types, lifting))
qed

lemma end_sessions_queue:
  assumes "one_port_each w" and "distinct ps" and "set ps \<subseteq> {..<length (ac_ports w)}"
  shows "sk_write_packets (ct_socket (stcp c (fold port_end_session ps w))) =
    sk_write_packets (ct_socket (stcp c w)) @
      (if told_by (set ps) w c then [write_packet_empty end_of_session_type] else [])"
  using assms
proof (induction ps arbitrary: w)
  case Nil
  then show ?case by (simp add: told_by_def)
next
  case (Cons p ps)
  have p: "p < length (ac_ports w)" "p \<notin> set ps" "set ps \<subseteq> {..<length (ac_ports w)}"
    using Cons.prems by auto
  note next' = end_session_next [OF p(1) Cons.prems(1)]
  have "length (ac_ports (port_end_session p w)) = length (ac_ports w)" by (simp add: end_session_port)
  with Cons.IH [OF next'(1)] Cons.prems p
  have ih: "sk_write_packets (ct_socket (stcp c (fold port_end_session ps (port_end_session p w)))) =
    sk_write_packets (ct_socket (stcp c (port_end_session p w))) @
      (if told_by (set ps) w c then [write_packet_empty end_of_session_type] else [])"
    by (simp add: next'(3))
  have "told_by (set (p # ps)) w c \<longleftrightarrow> told_by {p} w c \<or> told_by (set ps) w c"
    by (auto simp: told_by_def)
  moreover have "\<not> (told_by {p} w c \<and> told_by (set ps) w c)"
    using p Cons.prems(1) by (auto simp: told_by_def one_port_each_def)
  ultimately show ?case using ih next'(2) by auto
qed

lemma end_session_over: "p < length (ac_ports w) \<Longrightarrow> over_at p (acceptor_end_session w)"
  by (simp add: over_at_def acceptor_end_session_def end_session_ports)

lemma end_session_idem: "acceptor_end_session (acceptor_end_session w) = acceptor_end_session w"
proof -
  have len: "length (ac_ports (acceptor_end_session w)) = length (ac_ports w)"
    by (simp add: acceptor_end_session_def end_session_ports)
  show ?thesis
    unfolding acceptor_end_session_def [of "acceptor_end_session w"] len
    by (rule end_session_again) (use end_session_over in \<open>auto simp: over_at_def\<close>)
qed

end
