(* ===== verification/Server_Properties.thy ===== *)
theory Server_Properties
  imports Server_Ending
begin

text \<open>
  What the server promises its user, for one acceptor with its ports and connections, over any
  sequence of events.
\<close>

section \<open>Objects and pointers\<close>

text \<open>C2 The TCP connections an acceptor holds are exactly those that something can still call: an
  operation of their socket, a wait of one of their timers, or a posted notification.  So no
  completion handler runs on a destroyed connection and none is left behind, whatever
  arrives and whatever the user calls.  It takes a write limit above 0 and no debug banner:
  with them the code goes wrong, see \<open>rejected_login_leaks\<close> and \<open>banner_destroys_writer\<close>.\<close>

theorem server_object_lifetime:
  assumes "fresh_acceptor w" and "ac_debug_banner w = []" and "0 < ac_write_packets_limit w"
  shows "distinct (ac_connections (server_run evs w)) \<and>
     (\<forall>c. c \<in> set (ac_connections (server_run evs w)) = tcp_outstanding (stcp c (server_run evs w)))"
proof -
  have "srv_ok (server_run evs w)" using assms by (intro srv_ok_run fresh_srv_ok)
  then show ?thesis
    using st_unfinished_outstanding by (auto simp: srv_ok_def srv_settings_def)
qed

theorem server_object_lifetime_witness:
  "distinct (ac_connections demo_accepted) \<and>
   (\<forall>c. c \<in> set (ac_connections demo_accepted) = tcp_outstanding (stcp c demo_accepted))"
  unfolding demo_accepted_def by (rule server_object_lifetime) (rule demo_ready)+

text \<open>C9 The pointers between ports and connections never dangle, with no debug banner and a
  write limit above 0: the connection a port points to exists and points back, and a
  connection that is logged in is the one its port points to.  So a user is logged in at
  most once: a login on a port that is in use takes it from the older connection.\<close>

theorem server_ports_exclusive:
  assumes "fresh_acceptor w" and "ac_debug_banner w = []" and "0 < ac_write_packets_limit w"
    and "w' = server_run evs w"
  shows "(\<forall>p < length (ac_ports w'). \<forall>c. po_connection (ac_ports w' ! p) = Some c \<longrightarrow>
       c \<in> set (ac_connections w') \<and> st_port (ac_objects w' c) = Some p) \<and>
    (\<forall>c \<in> set (ac_connections w'). cs_state (ct_state (stcp c w')) = Logged_in \<longrightarrow>
       (\<exists>p < length (ac_ports w'). st_port (ac_objects w' c) = Some p \<and>
          po_connection (ac_ports w' ! p) = Some c)) \<and>
    (\<forall>c \<in> set (ac_connections w'). \<forall>d \<in> set (ac_connections w').
       cs_state (ct_state (stcp c w')) = Logged_in \<and> cs_state (ct_state (stcp d w')) = Logged_in \<and>
       st_port (ac_objects w' c) = st_port (ac_objects w' d) \<longrightarrow> c = d)"
proof -
  have link: "ports_linked w'"
    using srv_ok_run [OF fresh_srv_ok [OF assms(1-3)], of evs] assms(4) by (simp add: srv_ok_def)
  show ?thesis
  proof (intro conjI allI ballI impI)
    fix p c assume "p < length (ac_ports w')" "po_connection (ac_ports w' ! p) = Some c"
    with ports_linked_D(1) [OF link] show "c \<in> set (ac_connections w')" "st_port (ac_objects w' c) = Some p"
      by blast+
  next
    fix c assume c: "c \<in> set (ac_connections w')" "cs_state (ct_state (stcp c w')) = Logged_in"
    from ports_linked_D(2) [OF link c(1)] ports_linked_D(3) [OF link c]
    show "\<exists>p < length (ac_ports w'). st_port (ac_objects w' c) = Some p \<and>
        po_connection (ac_ports w' ! p) = Some c" by blast
  next
    fix c d assume "c \<in> set (ac_connections w')" "d \<in> set (ac_connections w')"
      and "cs_state (ct_state (stcp c w')) = Logged_in \<and> cs_state (ct_state (stcp d w')) = Logged_in \<and>
        st_port (ac_objects w' c) = st_port (ac_objects w' d)"
    with ports_linked_D(3) [OF link, of c] ports_linked_D(3) [OF link, of d] show "c = d" by auto
  qed
qed

theorem server_ports_exclusive_witness:
  "cs_state (ct_state (stcp 0 demo_served)) = Logged_in \<and>
   (\<exists>p < length (ac_ports demo_served). st_port (ac_objects demo_served 0) = Some p \<and>
      po_connection (ac_ports demo_served ! p) = Some 0)"
  using server_ports_exclusive [OF demo_ready(1,3,4) demo_served_def] demo_served_simps(1,4) by simp

text \<open>C10 Once every handler that \<^verbatim>\<open>Server::start\<close> asks for is set, and ports added later
  bring theirs, the code never calls a handler through a null pointer and its assertions hold,
  for every debug banner and every write limit.\<close>

theorem server_never_undefined:
  assumes "fresh_acceptor w" and "acceptor_is_handler_set w"
    and "list_all (\<lambda>(env, ev). brings_handler ev) evs"
  shows "ac_defined (server_run evs w)"
  using sound_run [OF fresh_sound [OF assms(1,2)] assms(3)] by (simp add: sound_def)

theorem server_never_undefined_witness: "ac_defined demo_accepted"
  unfolding demo_accepted_def
  by (rule server_never_undefined) (simp_all add: demo_ready demo_events_def)

section \<open>Logging in\<close>

lemma accept_login_state:
  assumes "\<not> hb_started (ct_heartbeat_timer (stcp c w))" and "se_heartbeat_throws env = None"
    and "se_heartbeat_throws' env = None"
  shows "cs_state (ct_state (stcp c (stcp_accept_login env c response w))) = Logged_in"
    and "st_port (ac_objects (stcp_accept_login env c response w) c) = st_port (ac_objects w c)"
    and "ac_ports (stcp_accept_login env c response w) = ac_ports w"
    and "x \<noteq> c \<Longrightarrow> ac_objects (stcp_accept_login env c response w) x = ac_objects w x"
  by (simp_all add: only_calls_fields [OF accept_login_effect [OF assms(1)]] t_answered_def
      t_logged_in_def set_state_def assms(2,3) Let_def)

lemma reject_login_state:
  assumes "cs_state (ct_state (stcp c w)) = Connected"
  shows "cs_state (ct_state (stcp c (stcp_reject_login c reject w))) = Disconnecting"
    and "cs_reason (ct_state (stcp c (stcp_reject_login c reject w))) = DR_access_denied"
    and "ac_ports (stcp_reject_login c reject w) = ac_ports w"
  using assms
  by (simp_all add: only_calls_fields [OF reject_login_effect] t_rejected_def
      initiate_disconnect_def is_closing_def)

lemma port_bound_objects:
  "st_port (ac_objects (port_bound p c w) c) = Some p"
  "x \<noteq> c \<Longrightarrow> po_connection (ac_ports w ! p) = Some x \<Longrightarrow>
     stcp x (port_bound p c w) = t_disconnect DR_superseded (stcp x w)"
  "x \<noteq> c \<Longrightarrow> po_connection (ac_ports w ! p) \<noteq> Some x \<Longrightarrow>
     ac_objects (port_bound p c w) x = ac_objects w x"
  "po_connection (ac_ports w ! p) \<noteq> Some c \<Longrightarrow> stcp c (port_bound p c w) = stcp c w"
  by (auto simp: port_bound_def Let_def split: option.splits)

text \<open>C8 With no debug banner and a write limit above 0, a login request with the right length, on
  a connection that is not logged in yet, is granted exactly when some port has its username
  and password and it asks for the current session or for none (when the heartbeat timer
  does not throw as it starts, which would end the connection at once).  Then the connection is logged in on that port, the connection it had
  before is down, and the port goes on from the smaller of its own next sequence number and
  the one asked for (0 asks for none).  Otherwise nothing changes at the ports and the
  connection is to close, with access denied as its reason, once the rejection is written.\<close>

theorem server_login_decision:
  assumes "fresh_acceptor w0" and "ac_debug_banner w0 = []" and "0 < ac_write_packets_limit w0"
    and "acceptor_is_handler_set w0" and "list_all (\<lambda>(env, ev). brings_handler ev) evs"
    and "w = server_run evs w0" and "c \<in> set (ac_connections w)"
    and "cs_state (ct_state (stcp c w)) = Connected" and "length data = login_request_size"
    and "request = read_login_request login_request_default data"
    and "se_heartbeat_throws env = None" and "se_heartbeat_throws' env = None"
    and "stcp_process_packet env c (received login_request_type data) w = (e, w')"
  shows "e = PE_none \<and>
    (if \<exists>p < length (ac_ports w). port_admits (se_session env) request (ac_ports w ! p)
     then \<exists>p < length (ac_ports w). port_admits (se_session env) request (ac_ports w ! p) \<and>
       cs_state (ct_state (stcp c w')) = Logged_in \<and> st_port (ac_objects w' c) = Some p \<and>
       ac_ports w' = (ac_ports w)[p := (ac_ports w ! p)\<lparr>po_connection := Some c,
         po_next_sequence_number := offered_number request (ac_ports w ! p)\<rparr>] \<and>
       (\<forall>old. po_connection (ac_ports w ! p) = Some old \<longrightarrow>
          old \<noteq> c \<and> cs_state (ct_state (stcp old w')) = Disconnected)
     else cs_state (ct_state (stcp c w')) = Disconnecting \<and>
       cs_reason (ct_state (stcp c w')) = DR_access_denied \<and> ac_ports w' = ac_ports w)"
proof -
  have ok: "srv_ok w" using srv_ok_run [OF fresh_srv_ok [OF assms(1-3)], of evs] assms(6) by simp
  have names: "distinct (map po_username (ac_ports w))"
    using sound_run [OF fresh_sound [OF assms(1,4)] assms(5)] assms(6) by (simp add: sound_def)
  have w: "world_with st_ok c w" using ok assms(7) by (simp add: srv_ok_at [symmetric])
  have unused: "\<not> hb_started (ct_heartbeat_timer (stcp c w))"
    using st_ok_D(2) [OF world_with_D(1) [OF w]] assms(8) by (simp add: tcp_mid_def hb_unused_def)
  have run: "stcp_process_login_request env c data login_request_size w = (e, w')"
    using assms(9,13) by (simp add: stcp_process_packet_def packet_type_defs Let_def)
  have free: "po_connection (ac_ports w ! p) \<noteq> Some c" if "p < length (ac_ports w)" for p
    using ports_linked_D(1) [OF srv_ok_D(2) [OF ok] that] srv_ok_D(1) [OF ok assms(7)] assms(8)
    by (auto simp: bound_late_def)
  show ?thesis
  proof (cases "\<exists>p < length (ac_ports w). port_admits (se_session env) request (ac_ports w ! p)")
    case False
    then have "\<exists>reject. (e, w') = (PE_none, stcp_reject_login c reject (asked c data w))"
      unfolding run [symmetric] assms(10) by (intro request_refused [OF assms(8)]) blast
    then obtain reject where "e = PE_none" "w' = stcp_reject_login c reject (asked c data w)"
      by blast
    with False assms(8) show ?thesis by (simp add: reject_login_state)
  next
    case True
    then obtain p where p: "p < length (ac_ports w)" "port_admits (se_session env) request (ac_ports w ! p)"
      by blast
    let ?w = "port_taken p c request (asked c data w)"
    have "(e, w') = (PE_none, stcp_accept_login env c (login_accepted_packet_of (se_session env)
        (offered_number request (ac_ports w ! p))) ?w)"
      unfolding run [symmetric] assms(10)
      by (rule request_granted [OF assms(8) names p(1) p(2) [unfolded assms(10)]])
    then have w': "e = PE_none" "w' = stcp_accept_login env c (login_accepted_packet_of (se_session env)
        (offered_number request (ac_ports w ! p))) ?w"
      by (blast, blast)
    have stcp_c: "stcp c ?w = stcp c (asked c data w)"
      using p(1) free [OF p(1)] by (simp add: port_bound_objects)
    note accepted = accept_login_state [of ?w c env, OF _ assms(11,12), unfolded stcp_c]
    show ?thesis
      unfolding w' using p True unused free [OF p(1)]
      by (auto simp: accepted port_bound_objects intro!: exI [of _ p])
  qed
qed

theorem server_login_decision_witness:
  "fst (stcp_process_packet demo_env 0 (received login_request_type (write_login_request alice))
     demo_accepted) = PE_none \<and>
   cs_state (ct_state (stcp 0 (snd (stcp_process_packet demo_env 0 (received login_request_type
     (write_login_request alice)) demo_accepted)))) = Logged_in"
proof -
  have len: "length (write_login_request alice) = login_request_size"
    by (rule request.enc_length)
  have quiet: "se_heartbeat_throws demo_env = None" "se_heartbeat_throws' demo_env = None"
    by (simp_all add: demo_env_def quiet_server_env_def)
  obtain e w' where run: "stcp_process_packet demo_env 0
      (received login_request_type (write_login_request alice)) demo_accepted = (e, w')"
    by fastforce
  have mem: "0 \<in> set (ac_connections demo_accepted)" and hs: "list_all (\<lambda>(env, ev). brings_handler ev) demo_events"
    by (simp_all add: demo_accepted_simps demo_events_def)
  show ?thesis
    using server_login_decision [OF demo_ready(1,3,4,2) hs demo_accepted_def mem demo_connected
        len request_read [OF alice_valid, symmetric] quiet run] alice_admitted run
    by (simp add: demo_accepted_simps)
qed

section \<open>Sending\<close>

text \<open>What \<^verbatim>\<open>send_message\<close> may answer, in the order of the tests.\<close>

definition send_answer :: "nat \<Rightarrow> bytes option \<Rightarrow> nat \<Rightarrow> sw \<Rightarrow> write_error" where
  "send_answer p data n w =
    (if n = 0 then WE_empty_buffer
     else if data = None then WE_null_buffer
     else if po_has_session_ended (ac_ports w ! p) then WE_session_ended
     else case po_connection (ac_ports w ! p) of
       None \<Rightarrow> WE_disconnected
     | Some c \<Rightarrow>
        (if cs_state (ct_state (stcp c w)) \<noteq> Logged_in then WE_not_logged_in
         else if length (sk_write_packets (ct_socket (stcp c w))) =
                 sk_write_packets_limit (ct_socket (stcp c w)) then WE_buffer_full
         else WE_none))"

text \<open>C17 With no debug banner and a write limit above 0, a port's \<^verbatim>\<open>send_message\<close> answers the first
  of its tests that fails: an empty or null buffer, an ended session, no connection, one that is not logged in, a full write queue.  Then
  it sends nothing and the port keeps its sequence number; otherwise the packet is appended
  to the queue of the port's connection and the number goes up by one, modulo \<open>2 ^ 64\<close>.\<close>

theorem server_send_message:
  assumes "fresh_acceptor w0" and "ac_debug_banner w0 = []" and "0 < ac_write_packets_limit w0"
    and "w = server_run evs w0" and p: "p < length (ac_ports w)"
    and send: "port_send_message p data n w = (e, w')"
  shows "e = send_answer p data n w \<and>
    (if e = WE_none
     then po_next_sequence_number (ac_ports w' ! p) = po_next_sequence_number (ac_ports w ! p) + 1 \<and>
       (\<exists>c bs. po_connection (ac_ports w ! p) = Some c \<and> data = Some bs \<and>
          sk_write_packets (ct_socket (stcp c w')) = sk_write_packets (ct_socket (stcp c w)) @
            [write_packet_of sequenced_data_type bs (of_nat n)])
     else ac_ports w' = ac_ports w \<and>
       (\<forall>c. sk_write_packets (ct_socket (stcp c w')) = sk_write_packets (ct_socket (stcp c w))))"
proof -
  have ok: "srv_ok w" using srv_ok_run [OF fresh_srv_ok [OF assms(1-3)], of evs] assms(4) by simp
  have open': "\<not> sk_closing (ct_socket (stcp c w))"
    if "po_connection (ac_ports w ! p) = Some c" "cs_state (ct_state (stcp c w)) = Logged_in" for c
    using srv_ok_D(1) [OF ok srv_ok_D(4) [OF ok p that(1)]] st_ok_D(7) [of "stcp c w"] that(2)
    by (auto simp: st_frame_def)
  show ?thesis
  proof (cases "n = 0 \<or> data = None \<or> po_has_session_ended (ac_ports w ! p) \<or>
      po_connection (ac_ports w ! p) = None")
    case True
    with send show ?thesis
      by (auto simp: port_send_message_def send_answer_def port_send_counted_def port_send_packet_def
          Let_def split: option.splits)
  next
    case False
    then obtain bs c where d: "data = Some bs" "po_connection (ac_ports w ! p) = Some c" by auto
    let ?packet = "write_packet_of sequenced_data_type bs (of_nat n)"
    show ?thesis
    proof (cases "cs_state (ct_state (stcp c w)) = Logged_in")
      case li: False
      with False d send show ?thesis
        by (auto simp: port_send_message_def send_answer_def port_send_counted_def
            port_send_packet_def stcp_send_packet_def Let_def)
    next
      case li: True
      with False d p open' [OF d(2) li] send show ?thesis
        by (auto simp: port_send_message_def send_answer_def port_send_counted_def
            port_send_packet_def stcp_send_packet_def socket_async_write_def write_packet_start_def
            Let_def)
    qed
  qed
qed

theorem server_send_message_witness:
  "fst (port_send_message 0 (Some ''hello'') 5 demo_served) = WE_none \<and>
   po_next_sequence_number (ac_ports (snd (port_send_message 0 (Some ''hello'') 5 demo_served)) ! 0) =
     po_next_sequence_number (ac_ports demo_served ! 0) + 1"
proof -
  obtain e w' where run: "port_send_message 0 (Some ''hello'') 5 demo_served = (e, w')" by fastforce
  have "po_has_session_ended demo_port = False" by (simp add: demo_port_def port_new_def)
  then have "send_answer 0 (Some ''hello'') 5 demo_served = WE_none"
    by (simp add: send_answer_def demo_served_simps)
  with server_send_message [OF demo_ready(1,3,4) demo_served_def _ run] run show ?thesis
    by (simp add: demo_served_simps)
qed

section \<open>Ending the session\<close>

text \<open>C22 \<^verbatim>\<open>end_session\<close> ends the session of every port for good (with no debug banner and a
  write limit above 0).  The logged-in connection of each port that had not ended yet gets
  one End_of_session packet at the end of its write queue, if there is room, and nothing else
  is queued for anyone.  From then on, whatever happens, each port stays ended and sends no
  message: both forms of \<^verbatim>\<open>send_message\<close> answer with an error and leave everything as it is.
  Ending the session again changes nothing.\<close>

theorem server_session_ended:
  assumes "fresh_acceptor w0" and "ac_debug_banner w0 = []" and "0 < ac_write_packets_limit w0"
    and "w = server_run evs w0" and v: "v = acceptor_end_session w"
    and p: "p < length (ac_ports w)" and u: "u = server_run evs' v"
  shows "sk_write_packets (ct_socket (stcp c v)) = sk_write_packets (ct_socket (stcp c w)) @
      (if (\<exists>q < length (ac_ports w). po_connection (ac_ports w ! q) = Some c \<and>
             \<not> po_has_session_ended (ac_ports w ! q)) \<and>
          cs_state (ct_state (stcp c w)) = Logged_in \<and>
          length (sk_write_packets (ct_socket (stcp c w))) \<noteq> sk_write_packets_limit (ct_socket (stcp c w))
       then [write_packet_empty end_of_session_type] else []) \<and>
    p < length (ac_ports u) \<and> po_has_session_ended (ac_ports u ! p) \<and>
    (\<exists>e \<in> {WE_empty_buffer, WE_null_buffer, WE_session_ended}. port_send_message p data n u = (e, u)) \<and>
    port_send_message_packet p packet u \<in> {None, Some (WE_empty_buffer, u), Some (WE_session_ended, u)} \<and>
    acceptor_end_session v = v"
proof -
  have "srv_ok w" using srv_ok_run [OF fresh_srv_ok [OF assms(1-3)], of evs] assms(4) by simp
  from end_sessions_queue [OF srv_one_port_each [OF this] distinct_upt, of 0 "length (ac_ports w)" c]
  have queue: "sk_write_packets (ct_socket (stcp c v)) = sk_write_packets (ct_socket (stcp c w)) @
      (if told_by {0..<length (ac_ports w)} w c then [write_packet_empty end_of_session_type] else [])"
    by (simp add: v acceptor_end_session_def atLeast0LessThan)
  have over: "over_at p u" unfolding u v by (rule over_run [OF end_session_over [OF p]])
  with over_silent(1) [OF over, of data n] over_silent(2) [OF over, of packet] queue show ?thesis
    by (simp add: over_at_def told_by_def v end_session_idem Bex_def atLeast0LessThan)
qed

theorem server_session_ended_witness:
  "sk_write_packets (ct_socket (stcp 0 (acceptor_end_session demo_served))) =
     [accepted_packet (login_accepted_packet_of (se_session demo_env) 1),
      write_packet_empty end_of_session_type] \<and>
   po_has_session_ended (ac_ports (server_run [(demo_env, Sv_send_message 0 (Some ''hello'') 5)]
     (acceptor_end_session demo_served)) ! 0)"
proof -
  have "0 < length (ac_ports demo_served)" "po_has_session_ended demo_port = False"
    by (simp_all add: demo_served_simps demo_port_def port_new_def)
  with server_session_ended [OF demo_ready(1,3,4) demo_served_def refl _ refl, of 0 0
      "[(demo_env, Sv_send_message 0 (Some ''hello'') 5)]"]
  show ?thesis by (simp add: demo_served_simps)
qed

section \<open>Accepting\<close>

text \<open>C34 An acceptor never gives up accepting: after \<^verbatim>\<open>stop\<close> has closed it, every accept that
  Asio completes with an error other than \<^verbatim>\<open>operation_aborted\<close> is reported to the
  handler and followed by another \<^verbatim>\<open>async_accept\<close> on the closed acceptor.\<close>

theorem server_accepts_after_stop:
  assumes "sa_accepts (ac_acceptor w) = 1" and "ac_handler w = Some h"
    and "ec_set ec" and "ec \<noteq> operation_aborted"
    and "w' = server_run (replicate n (env, Sv_accept ec)) (acceptor_stop w)"
  shows "\<not> sa_open (ac_acceptor w') \<and> sa_accepts (ac_acceptor w') = 1 \<and>
    ac_out w' = ac_out (acceptor_stop w) @ replicate n (None, Acceptor_handler h, Sc_accept_failure ec)"
proof -
  have closed: "ac_acceptor (fold stcp_close cs v) = ac_acceptor v \<and>
      ac_handler (fold stcp_close cs v) = ac_handler v" for cs v
    by (induction cs arbitrary: v) (simp_all add: stcp_close_def stcp_disconnect_eq)
  have "\<not> sa_open (ac_acceptor (server_run (replicate n (env, Sv_accept ec)) v)) \<and>
      sa_accepts (ac_acceptor (server_run (replicate n (env, Sv_accept ec)) v)) = 1 \<and>
      ac_out (server_run (replicate n (env, Sv_accept ec)) v) =
        ac_out v @ replicate n (None, Acceptor_handler h, Sc_accept_failure ec)"
    if "\<not> sa_open (ac_acceptor v)" "sa_accepts (ac_acceptor v) = 1" "ac_handler v = Some h" for v
    using that
  proof (induction n arbitrary: v)
    case 0
    then show ?case by simp
  next
    case (Suc n)
    let ?v = "server_step env (Sv_accept ec) v"
    have "?v = v\<lparr>ac_acceptor := (ac_acceptor v)\<lparr>sa_socket := True\<rparr>,
        ac_out := ac_out v @ [(None, Acceptor_handler h, Sc_accept_failure ec)]\<rparr>"
      using Suc.prems assms(3,4)
      by (simp add: server_step_def accept_done_def acceptor_socket_handler_def
          acceptor_accept_failure_def acceptor_call_def sv_emit_def acceptor_async_accept_def Let_def)
    with Suc.prems Suc.IH [of ?v] show ?case by simp
  qed
  moreover have "\<not> sa_open (ac_acceptor (acceptor_stop w))"
      "sa_accepts (ac_acceptor (acceptor_stop w)) = 1" "ac_handler (acceptor_stop w) = Some h"
    using assms(1,2) by (simp_all add: acceptor_stop_def closed acceptor_close_def Let_def)
  ultimately show ?thesis unfolding assms(5) by blast
qed

theorem server_accepts_after_stop_witness:
  "sa_accepts (ac_acceptor (server_run (replicate 3 (demo_env, Sv_accept (error_code_of 24 System)))
     (acceptor_stop demo_accepted))) = 1"
proof -
  have "ac_handler demo_accepted = Some 1"
    by (simp add: only_calls_fields [OF demo_accepts])
      (simp add: accepted_world_def demo_listening_def demo_acceptor_eq acceptor_new_def)
  moreover have "ec_set (error_code_of 24 System)" "error_code_of 24 System \<noteq> operation_aborted"
    by (simp_all add: ec_set_def error_code_of_def operation_aborted_def ECANCELED_def)
  ultimately show ?thesis
    using server_accepts_after_stop [OF _ _ _ _ refl, of demo_accepted 1] by (simp add: demo_accepted_simps)
qed

end
