(* ===== verification/Server_Faults.thy ===== *)
theory Server_Faults
  imports Server_Online
begin

text \<open>
  Two ways a refused login goes wrong, on runs of an acceptor with one port.  With a debug banner
  that is still being written when the request is read, the end of the write of the banner is
  taken for the end of the write of the rejection: the connection is closed and destroyed
  while the socket, which starts to write the next packet of its queue after telling the
  connection, still writes the rejection.  With a write limit of 0 the rejection is never
  written, so nothing ever ends the connection.
\<close>

section \<open>A connection that is refused\<close>

definition refused :: "socket \<Rightarrow> login_timer \<Rightarrow> bool \<Rightarrow> tcp_object" where
  "refused k timer stopped = (waiting k)\<lparr>ct_state := \<lparr>cs_state = Disconnecting, cs_reason = DR_access_denied\<rparr>,
     ct_login_timer := timer, ct_login_timer_stopped := stopped\<rparr>"

definition stranger :: login_request_packet where
  "stranger = login_request_packet_of ''bob'' ''secret'' ''S1'' 1"

definition login_timer_ends :: "(server_env \<times> server_event) list" where
  "login_timer_ends = [(demo_env, Sv_login_wait 0 operation_aborted), (demo_env, Sv_login_post 0)]"

lemma stranger_refused:
  assumes "only_connection (waiting k) w" and "sock_core k" and "Op_read_header \<in> set (sk_ops k)"
    and "length (rp_header (sk_read_packet k)) = packet_header_length"
  shows "\<exists>reject. only_connection (refused
      (socket_maybe_signal_closed (snd (socket_async_write (rejected_packet reject) (packet_taken k))))
      \<lparr>lt_timeout = login_request_timeout, lt_started = False, lt_wait_pending = True,
       lt_stopped_signaled = False, lt_waits = 1, lt_posts = 0\<rparr> False)
    (server_run (login_events stranger) w)"
proof -
  let ?data = "write_login_request stranger"
  have valid: "valid_request stranger"
    by (simp add: stranger_def valid_request_def login_request_packet_of_def fits_def length_defs is_alnum_def)
  have other: "\<not> port_admits session stranger demo_port" for session
    by (simp add: port_admits_def stranger_def login_request_packet_of_def demo_port_def port_new_def)
  have sock: "ct_socket (stcp 0 w) = k" using assms(1) by (simp add: only_connection_def waiting_def)
  let ?w = "upd_stcp 0 (\<lambda>t. t\<lparr>ct_socket := packet_taken (ct_socket t)\<rparr>) w"
  obtain reject where reject: "stcp_process_login_request demo_env 0 ?data login_request_size ?w =
     (PE_none, stcp_reject_login 0 reject (asked 0 ?data ?w))"
  proof -
    have "\<exists>reject. stcp_process_login_request demo_env 0 ?data login_request_size ?w =
       (PE_none, stcp_reject_login 0 reject (asked 0 ?data ?w))"
    using assms(1) by (intro request_refused)
      (simp_all add: only_connection_def waiting_def connection_state_of_def request_read [OF valid] other)
    with that show thesis by blast
  qed
  have "stcp_read_success demo_env 0 (received login_request_type ?data) ?w =
      stcp_reject_login 0 reject (asked 0 ?data ?w)"
    using assms(1) reject by (simp add: stcp_read_success_def stcp_process_packet_def packet_type_defs
        request.enc_length Let_def only_connection_def waiting_def connection_state_of_def is_closing_def
        only_calls_fields [OF reject_login_effect] t_rejected_def initiate_disconnect_def)
  with login_read [OF sock assms(2-4), of stranger] show ?thesis
    using assms(1)
    by (auto simp: only_connection_def refused_def waiting_def connection_state_of_def is_closing_def
        only_calls_fields [OF reject_login_effect] t_rejected_def initiate_disconnect_def
        login_timer_stop_def login_timer_maybe_signal_stopped_def
        intro!: exI [of _ reject])
qed

text \<open>The rest of the connection's life, with the banner still being written.\<close>

lemma refused_timer:
  assumes "only_connection (refused k \<lparr>lt_timeout = login_request_timeout, lt_started = False,
      lt_wait_pending = True, lt_stopped_signaled = False, lt_waits = 1, lt_posts = 0\<rparr> False) w"
  shows "only_connection (refused k \<lparr>lt_timeout = login_request_timeout, lt_started = False,
      lt_wait_pending = False, lt_stopped_signaled = True, lt_waits = 0, lt_posts = 0\<rparr> True)
    (server_run login_timer_ends w)"
  using assms unfolding login_timer_ends_def
  by (simp add: only_connection_def refused_def waiting_def server_step_def login_timer_wait_done_def
      login_timer_on_expiry_def login_timer_post_done_def stcp_login_handler_def
      stcp_login_timer_stopped_def stcp_maybe_signal_closed_def
      login_timer_maybe_signal_stopped_def Let_def)

lemma refused_write:
  assumes w: "only_connection (refused k timer True) w" and timer: "\<not> lt_started timer"
    and k: "sk_write_packets k = [banner, packet]" "wp_size banner = Some n"
      "sk_ops k = [Op_write bs]" "\<not> sk_read_pending k" "\<not> sk_closed_signaled k"
      "\<not> sk_connect_pending k" "\<not> sk_closing k" "sk_open k"
  defines "w' \<equiv> server_run [(demo_env, Sv_socket 0 (Op_write bs) no_error n []),
      (demo_env, Sv_socket 0 Op_post_closed no_error 0 [])] w"
  shows "ac_connections w' = []" and "sk_ops (ct_socket (stcp 0 w')) = [Op_write (wp_wire packet)]"
    and "\<not> sk_open (ct_socket (stcp 0 w'))"
proof -
  let ?k = "k\<lparr>sk_write_packets := [packet], sk_ops := [Op_post_closed, Op_write (wp_wire packet)],
      sk_open := False, sk_closing := True, sk_closed_signaled := True, sk_write_pending := True\<rparr>"
  have close: "socket_close (k\<lparr>sk_ops := [], sk_write_pending := False\<rparr>) =
      k\<lparr>sk_ops := [Op_post_closed], sk_write_pending := False, sk_open := False, sk_closing := True,
        sk_closed_signaled := True\<rparr>"
    using k by (simp add: socket_close_def socket_maybe_signal_closed_def is_idle_def Let_def)
  have "only_connection ((refused ?k timer True)\<lparr>ct_state := \<lparr>cs_state = Disconnected,
      cs_reason = DR_access_denied\<rparr>\<rparr>)
    (socket_complete (stcp_socket_handler demo_env 0) (Op_write bs) no_error n [] w)"
    using w k timer
    by (simp add: only_connection_def refused_def waiting_def socket_complete_def write_done_def
        packet_sent_def stcp_handler_sels stcp_write_success_def stcp_disconnect_eq t_disconnect_def
        cs_disconnect_def close socket_maybe_signal_closed_def is_idle_def
        write_packet_start_def login_timer_stop_def heartbeat_timer_stop_def heartbeat_timer_new_def
        Let_def)
  then have "ac_connections w' = [] \<and> sk_ops (ct_socket (stcp 0 w')) = [Op_write (wp_wire packet)] \<and>
      \<not> sk_open (ct_socket (stcp 0 w'))"
    using w k unfolding w'_def
    by (simp add: only_connection_def refused_def waiting_def server_step_def asio_may_complete_def
        socket_complete_def post_closed_done_def stcp_handler_sels stcp_closed_def
        stcp_maybe_signal_closed_def acceptor_on_closed_def Let_def)
  then show "ac_connections w' = []" "sk_ops (ct_socket (stcp 0 w')) = [Op_write (wp_wire packet)]"
    "\<not> sk_open (ct_socket (stcp 0 w'))"
    by blast+
qed

section \<open>What happens\<close>

text \<open>The events of the two runs: the acceptor is started, a client connects and sends a login
  request with an unknown username, and what is then outstanding completes in turn.\<close>

definition leak_events :: "(server_env \<times> server_event) list" where
  "leak_events = demo_events @ login_events stranger @ login_timer_ends"

definition banner_packet :: "bytes \<Rightarrow> write_packet" where
  "banner_packet banner = write_packet_of debug_type banner (of_nat (length banner))"

definition banner_events :: "bytes \<Rightarrow> (server_env \<times> server_event) list" where
  "banner_events banner = leak_events @
     [(demo_env, Sv_socket 0 (Op_write (wp_wire (banner_packet banner))) no_error
         (length (wp_wire (banner_packet banner))) []),
      (demo_env, Sv_socket 0 Op_post_closed no_error 0 [])]"

text \<open>C33 With a write limit of 0 a refused client stays connected with nothing outstanding: no
  completion will ever close or destroy its connection.\<close>

theorem rejected_login_leaks:
  "ac_connections (server_run leak_events (acceptor_set_write_packets_limit 0 demo_acceptor)) = [0] \<and>
   cs_state (ct_state (stcp 0 (server_run leak_events
     (acceptor_set_write_packets_limit 0 demo_acceptor)))) = Disconnecting \<and>
   \<not> tcp_outstanding (stcp 0 (server_run leak_events (acceptor_set_write_packets_limit 0 demo_acceptor)))"
proof -
  let ?w = "acceptor_set_write_packets_limit 0 demo_acceptor"
  let ?k = "socket_async_read (set_write_packets_limit 0 (socket_new True))"
  have w: "?w = demo_acceptor\<lparr>ac_debug_banner := [], ac_write_packets_limit := 0\<rparr>"
    by (simp add: acceptor_set_write_packets_limit_def demo_acceptor_eq acceptor_new_def)
  have one: "only_connection (waiting ?k) (server_run demo_events ?w)"
    using demo_accepts_with [OF w] by simp
  have "Op_read_header \<in> set (sk_ops ?k)" by (simp add: fresh_read)
  from stranger_refused [OF one fresh_read_ready(1) this fresh_read_ready(2)]
  obtain reject where "only_connection (refused
      (socket_maybe_signal_closed (snd (socket_async_write (rejected_packet reject) (packet_taken ?k))))
      \<lparr>lt_timeout = login_request_timeout, lt_started = False, lt_wait_pending = True,
       lt_stopped_signaled = False, lt_waits = 1, lt_posts = 0\<rparr> False)
    (server_run (login_events stranger) (server_run demo_events ?w))" by blast
  from refused_timer [OF this] show ?thesis
    by (simp add: leak_events_def server_run_append only_connection_def refused_def waiting_def
        tcp_outstanding_def fresh_read socket_async_write_def packet_taken_def
        socket_maybe_signal_closed_def heartbeat_timer_new_def)
qed

text \<open>C32 A debug banner can cost a refused client its connection and the rejection.  For every
  banner that fits in a packet and every write limit above 1 there is a run: a client
  connects and asks for a login that is refused, all read before the write of the banner
  completes; then, when it does, the connection is destroyed while a write of its socket is
  outstanding, whose completion handler runs on the destroyed object, and that write is
  the whole rejection, on a socket that is already closed.\<close>

theorem banner_destroys_writer:
  assumes "banner \<noteq> []" and "length banner \<le> 65534" and "1 < limit"
    and w: "w = server_run (banner_events banner)
      (acceptor_set_write_packets_limit limit (acceptor_set_debug_banner banner demo_acceptor))"
  shows "ac_connections w = [] \<and> \<not> sk_open (ct_socket (stcp 0 w)) \<and>
    (\<exists>r. sk_ops (ct_socket (stcp 0 w)) = [Op_write (frame login_rejected_type (write_login_rejected r))])"
proof -
  let ?w = "acceptor_set_write_packets_limit limit (acceptor_set_debug_banner banner demo_acceptor)"
  let ?r = "socket_async_read (set_write_packets_limit limit (socket_new True))"
  let ?k = "snd (socket_async_write (banner_packet banner) ?r)"
  let ?p = "banner_packet banner"
  have w': "?w = demo_acceptor\<lparr>ac_debug_banner := banner, ac_write_packets_limit := limit\<rparr>"
    by (simp add: acceptor_set_debug_banner_def acceptor_set_write_packets_limit_def
        demo_acceptor_eq acceptor_new_def)
  have one: "only_connection (waiting ?k) (server_run demo_events ?w)"
    using demo_accepts_with [OF w'] assms(1) by (simp add: banner_packet_def)
  have core: "sock_core ?k" by (intro sock_core_async_write fresh_read_ready)
  have "Op_read_header \<in> set (sk_ops ?k)"
      "length (rp_header (sk_read_packet ?k)) = packet_header_length"
    using fresh_read_ready(2) by (simp_all add: fresh_read socket_async_write_def write_packet_start_def
        Let_def)
  from stranger_refused [OF one core this]
  obtain reject where "only_connection (refused
      (socket_maybe_signal_closed (snd (socket_async_write (rejected_packet reject) (packet_taken ?k))))
      \<lparr>lt_timeout = login_request_timeout, lt_started = False, lt_wait_pending = True,
       lt_stopped_signaled = False, lt_waits = 1, lt_posts = 0\<rparr> False)
    (server_run (login_events stranger) (server_run demo_events ?w))" by blast
  note ended = refused_timer [OF this]
  have fits: "unat (of_nat (length banner) :: u16) = length banner"
    using assms(2) by (simp add: unat_of_nat)
  then have size: "wp_size ?p = Some (length (wp_wire ?p))"
    using wp_wire_of [of "of_nat (length banner)" banner debug_type] assms(2)
      unat_frame_size [of banner]
    by (simp add: banner_packet_def wp_size_def write_packet_of_data max_payload_def
        packet_header_length_def packet_type_length_def)
  have wire: "wp_wire (rejected_packet reject) =
      frame login_rejected_type (write_login_rejected (rj_packet reject))"
    using wp_wire_of [of "of_nat login_rejected_size" "write_login_rejected (rj_packet reject)"
        login_rejected_type] rejected.enc_length [of "rj_packet reject"]
    by (simp add: wp_write_payload_eq login_rejected_size_def length_defs max_payload_def)
  have "ac_connections w = [] \<and> \<not> sk_open (ct_socket (stcp 0 w)) \<and>
      sk_ops (ct_socket (stcp 0 w)) = [Op_write (wp_wire (rejected_packet reject))]"
    using refused_write [OF ended, where n = "length (wp_wire ?p)" and bs = "wp_wire ?p"] size assms(3)
    unfolding w
    by (simp add: banner_events_def leak_events_def server_run_append fresh_read
        socket_async_write_def packet_taken_def socket_maybe_signal_closed_def
        write_packet_start_def Let_def)
  then show ?thesis unfolding wire by blast
qed

theorem banner_destroys_writer_witness:
  "ac_connections (server_run (banner_events ''hi'')
     (acceptor_set_write_packets_limit 100 (acceptor_set_debug_banner ''hi'' demo_acceptor))) = []"
  using banner_destroys_writer [of "''hi''" 100, OF _ _ _ refl] by simp

end
