(* ===== verification/Server_System.thy ===== *)
theory Server_System
  imports Server_Main Server_Demo
begin

text \<open>
  What the server promises over all its acceptors, whatever its user calls and whatever
  happens to its acceptors and their connections.
\<close>

section \<open>A server in use\<close>

definition demo_actions :: "server_action list" where
  "demo_actions =
     [Act_set_session ''S1'', Act_add_acceptor (''10.0.0.1'', 4000) (Some 1), Act_start,
      Act_acceptor 0 (quiet_server_env []) (Sv_add_port ''alice'' ''secret'' (Some 7)),
      Act_run_post (\<lambda>_. quiet_server_env []),
      Act_acceptor 0 (quiet_server_env []) (Sv_accept no_error), Act_stop]"

text \<open>Every acceptor of a server holds exactly the connections that something can still
  call, whatever is called and happens, as long as nobody sets a debug banner or a write
  limit of 0.\<close>

theorem server_owns_connections:
  assumes "list_all plain_setting as" and "a \<in> set (sr_acceptors (server_acts as server_new))"
  shows "distinct (ac_connections a) \<and>
    (\<forall>c. c \<in> set (ac_connections a) = tcp_outstanding (stcp c a))"
proof -
  have "srv_ok a"
    using acceptors.always [of server_new "as"] assms by (simp add: server_new_def)
  then show ?thesis
    using st_unfinished_outstanding by (auto simp: srv_ok_def srv_settings_def)
qed

theorem server_owns_connections_witness:
  "list_all (\<lambda>a. distinct (ac_connections a) \<and>
     (\<forall>c. c \<in> set (ac_connections a) = tcp_outstanding (stcp c a)))
   (sr_acceptors (server_acts demo_actions server_new))"
  unfolding list_all_iff using server_owns_connections [of demo_actions]
  by (simp add: demo_actions_def)

section \<open>Stopping\<close>

lemma stop_disconnects:
  "\<not> sa_open (ac_acceptor (acceptor_stop w)) \<and> ac_connections (acceptor_stop w) = ac_connections w \<and>
   (\<forall>c \<in> set (ac_connections w). cs_state (ct_state (stcp c (acceptor_stop w))) = Disconnected)"
proof -
  have keep: "cs_state (ct_state (stcp c v)) = Disconnected \<Longrightarrow>
      cs_state (ct_state (stcp c (fold stcp_close cs v))) = Disconnected" for c cs v
    by (induction cs arbitrary: v) (simp_all add: stcp_close_def stcp_disconnect_eq)
  have rest: "ac_acceptor (fold stcp_close cs v) = ac_acceptor v \<and>
      ac_connections (fold stcp_close cs v) = ac_connections v" for cs v
    by (induction cs arbitrary: v) (simp_all add: stcp_close_def stcp_disconnect_eq)
  have "c \<in> set cs \<Longrightarrow> cs_state (ct_state (stcp c (fold stcp_close cs v))) = Disconnected" for c cs v
  proof (induction cs arbitrary: v)
    case (Cons x xs)
    have "cs_state (ct_state (stcp x (stcp_close x v))) = Disconnected"
      by (simp add: stcp_close_def stcp_disconnect_eq)
    with Cons show ?case by (cases "c = x") (simp_all add: keep)
  qed simp
  then show ?thesis by (simp add: acceptor_stop_def rest acceptor_close_def Let_def)
qed

text \<open>C23 When the function posted by \<^verbatim>\<open>stop\<close> runs on a started server, every acceptor
  stops listening and every connection is down; a second one does nothing.\<close>

theorem server_stops:
  assumes "sr_started s" and "s' = server_posted envs Srv_post_stop s"
  shows "\<not> sr_started s' \<and> server_posted envs Srv_post_stop s' = s' \<and>
    (\<forall>a \<in> set (sr_acceptors s'). \<not> sa_open (ac_acceptor a) \<and>
       (\<forall>c \<in> set (ac_connections a). cs_state (ct_state (stcp c a)) = Disconnected))"
  using assms stop_disconnects by (auto simp: server_stopped_posted_def)

theorem server_stops_witness:
  "\<not> sa_open (ac_acceptor (acceptor_stop demo_accepted)) \<and>
   cs_state (ct_state (stcp 0 (acceptor_stop demo_accepted))) = Disconnected"
  using server_stops [of "server_new\<lparr>sr_started := True, sr_acceptors := [demo_accepted]\<rparr>" _
      "\<lambda>_. demo_env", OF _ refl] stop_disconnects [of demo_accepted]
  by (simp add: server_stopped_posted_def demo_accepted_simps)

end
