(* ===== verification/Posix.thy ===== *)
theory Posix
  imports Types
begin

text \<open>
  The system calls that \<^verbatim>\<open>file_store.cpp\<close> makes.  A file is its bytes, a descriptor a
  file with an offset.  \<open>os_answers\<close> decides, call by call, whether a call fails and how
  many bytes a read or a write moves at most: it is arbitrary, so a call may be interrupted,
  fail, or move less than it was asked for, at any time.  \<open>os_errno\<close> is \<^verbatim>\<open>errno\<close>; a call
  that returns \<^verbatim>\<open>-1\<close> is \<open>None\<close>.
\<close>

datatype sys_answer = Sys_error int | Sys_upto nat

record os =
  os_files :: "string \<Rightarrow> bytes option"
  os_open :: "int \<Rightarrow> (string \<times> nat \<times> bool) option"
  os_next_fd :: int
  os_errno :: int
  os_answers :: "nat \<Rightarrow> sys_answer"
  os_time :: nat

definition ENOENT :: int where "ENOENT = 2"
definition EBADF :: int where "EBADF = 9"

definition sys_fail :: "int \<Rightarrow> os \<Rightarrow> 'r option \<times> os" where
  "sys_fail e os = (None, os\<lparr>os_errno := e\<rparr>)"

text \<open>The next answer; \<open>f\<close> is what the call does when it does not fail.\<close>

definition sys_call :: "(nat \<Rightarrow> os \<Rightarrow> 'r option \<times> os) \<Rightarrow> os \<Rightarrow> 'r option \<times> os" where
  "sys_call f os =
    (let answer = os_answers os (os_time os);
         os = os\<lparr>os_time := os_time os + 1\<rparr>
     in case answer of Sys_error e \<Rightarrow> sys_fail e os | Sys_upto k \<Rightarrow> f k os)"

text \<open>\<open>rw\<close>: \<^verbatim>\<open>O_RDWR | O_CREAT\<close>, otherwise \<^verbatim>\<open>O_RDONLY\<close>.\<close>

definition open_file :: "string \<Rightarrow> bool \<Rightarrow> nat \<Rightarrow> os \<Rightarrow> int option \<times> os" where
  "open_file path rw k os =
    (if os_files os path = None \<and> \<not> rw then sys_fail ENOENT os
     else
       (let fd = os_next_fd os;
            os = (if os_files os path = None then os\<lparr>os_files := (os_files os)(path := Some [])\<rparr> else os)
        in (Some fd, os\<lparr>os_open := (os_open os)(fd := Some (path, 0, rw)), os_next_fd := fd + 1\<rparr>)))"

definition close_file :: "int \<Rightarrow> nat \<Rightarrow> os \<Rightarrow> unit option \<times> os" where
  "close_file fd k os = (case os_open os fd of
     None \<Rightarrow> sys_fail EBADF os
   | Some _ \<Rightarrow> (Some (), os\<lparr>os_open := (os_open os)(fd := None)\<rparr>))"

text \<open>A read of a file moves nothing only at its end.\<close>

definition read_some :: "int \<Rightarrow> nat \<Rightarrow> nat \<Rightarrow> os \<Rightarrow> bytes option \<times> os" where
  "read_some fd n k os = (case os_open os fd of
     None \<Rightarrow> sys_fail EBADF os
   | Some (path, off, rw) \<Rightarrow>
      (let bs = take (min n (max 1 k)) (drop off (the (os_files os path)))
       in (Some bs, os\<lparr>os_open := (os_open os)(fd := Some (path, off + length bs, rw))\<rparr>)))"

text \<open>A write beyond the end fills the gap with zeros.\<close>

definition overwrite :: "nat \<Rightarrow> bytes \<Rightarrow> bytes \<Rightarrow> bytes" where
  "overwrite off bs file =
     take off (file @ replicate (off - length file) (CHR 0x00)) @ bs @ drop (off + length bs) file"

definition write_some :: "int \<Rightarrow> bytes \<Rightarrow> nat \<Rightarrow> os \<Rightarrow> nat option \<times> os" where
  "write_some fd buf k os = (case os_open os fd of
     None \<Rightarrow> sys_fail EBADF os
   | Some (path, off, rw) \<Rightarrow>
      (if \<not> rw then sys_fail EBADF os
       else
         (let bs = take k buf
          in (Some (length bs), os\<lparr>
               os_files := (os_files os)(path := Some (overwrite off bs (the (os_files os path)))),
               os_open := (os_open os)(fd := Some (path, off + length bs, rw))\<rparr>))))"

definition sys_open :: "string \<Rightarrow> bool \<Rightarrow> os \<Rightarrow> int option \<times> os" where
  "sys_open path rw = sys_call (open_file path rw)"

definition sys_close :: "int \<Rightarrow> os \<Rightarrow> unit option \<times> os" where
  "sys_close fd = sys_call (close_file fd)"

definition sys_read :: "int \<Rightarrow> nat \<Rightarrow> os \<Rightarrow> bytes option \<times> os" where
  "sys_read fd n = sys_call (read_some fd n)"

definition sys_write :: "int \<Rightarrow> bytes \<Rightarrow> os \<Rightarrow> nat option \<times> os" where
  "sys_write fd buf = sys_call (write_some fd buf)"

datatype whence = Seek_set | Seek_cur | Seek_end

definition seek :: "int \<Rightarrow> nat \<Rightarrow> whence \<Rightarrow> os \<Rightarrow> nat option \<times> os" where
  "seek fd d whence os = (case os_open os fd of
     None \<Rightarrow> sys_fail EBADF os
   | Some (path, off, rw) \<Rightarrow>
      (let off' = (case whence of Seek_set \<Rightarrow> d | Seek_cur \<Rightarrow> off + d
                   | Seek_end \<Rightarrow> length (the (os_files os path)) + d)
       in (Some off', os\<lparr>os_open := (os_open os)(fd := Some (path, off', rw))\<rparr>)))"

text \<open>A seek is never interrupted.\<close>

definition sys_lseek :: "int \<Rightarrow> nat \<Rightarrow> whence \<Rightarrow> os \<Rightarrow> nat option \<times> os" where
  "sys_lseek fd d whence os =
    (let answer = os_answers os (os_time os);
         os = os\<lparr>os_time := os_time os + 1\<rparr>
     in case answer of
          Sys_error e \<Rightarrow> if e \<noteq> EINTR then sys_fail e os else seek fd d whence os
        | Sys_upto k \<Rightarrow> seek fd d whence os)"

definition sys_fsync :: "int \<Rightarrow> os \<Rightarrow> unit option \<times> os" where
  "sys_fsync fd = sys_call (\<lambda>k os. case os_open os fd of
     None \<Rightarrow> sys_fail EBADF os
   | Some _ \<Rightarrow> (Some (), os))"

end
