(* ===== verification/File_Store.thy ===== *)
theory File_Store
  imports Posix Rw_Packets "HOL-Library.Monad_Syntax"
begin

text \<open>
  \<^verbatim>\<open>file_store.h\<close>/\<^verbatim>\<open>.cpp\<close>: messages in a file, each after its size in network order.
  A loop that may run for ever is a \<open>partial_function\<close>: not returning is \<open>None\<close>, so every
  function that calls one returns an option.
\<close>

section \<open>Partial reads and writes\<close>

datatype read_status = RS_success | RS_end_of_file | RS_failure
datatype write_status = WS_success | WS_failure

text \<open>\<^verbatim>\<open>read_partial_handling\<close> and \<^verbatim>\<open>write_partial_handling\<close>, for any callable.
  The callable returns its \<^verbatim>\<open>int\<close> or \<^verbatim>\<open>ssize_t\<close>, and the one that reads also the bytes of the
  span it has set, as many as its result says.  A result \<open>n\<close> other than \<open>-1\<close> is converted to
  \<^verbatim>\<open>size_t\<close> and taken from the size of the span: for \<open>n < 0\<close> and for \<open>n\<close> above that size the
  difference wraps around to more than the size, and \<^verbatim>\<open>span::last\<close> has no defined
  behaviour.  That is \<open>Some None\<close> here; \<open>None\<close> is a call that does not return.
  The \<^verbatim>\<open>nbyte\<close> of the result of a read is the length of the bytes read into the buffer.\<close>

function read_partial_handling ::
    "(nat \<Rightarrow> 's \<Rightarrow> ((int \<times> bytes) \<times> 's) option) \<Rightarrow> nat \<Rightarrow> 's \<Rightarrow>
     ((read_status \<times> bytes) \<times> 's) option option" where
  "read_partial_handling read left s =
    (if left = 0 then Some (Some ((RS_success, []), s))
     else case read left s of
       None \<Rightarrow> None
     | Some ((n, bs), s) \<Rightarrow>
        (if n = -1 then Some (Some ((RS_failure, []), s))
         else if n = 0 then Some (Some ((RS_end_of_file, []), s))
         else if n < 0 \<or> int left < n then Some None
         else case read_partial_handling read (left - nat n) s of
           None \<Rightarrow> None
         | Some None \<Rightarrow> Some None
         | Some (Some ((status, rest), s)) \<Rightarrow> Some (Some ((status, take (nat n) bs @ rest), s))))"
  by auto
termination
  by (relation "measure (\<lambda>(read, left, s). left)") auto

declare read_partial_handling.simps [simp del]

partial_function (option) write_partial_handling ::
    "(bytes \<Rightarrow> 's \<Rightarrow> (int \<times> 's) option) \<Rightarrow> bytes \<Rightarrow> 's \<Rightarrow>
     ((write_status \<times> nat) \<times> 's) option option" where
  "write_partial_handling write' buf s =
    (if buf = [] then Some (Some ((WS_success, 0), s))
     else do {
       (n, s) \<leftarrow> write' buf s;
       if n = -1 then Some (Some ((WS_failure, 0), s))
       else if n < 0 \<or> int (length buf) < n then Some None
       else do {
         result \<leftarrow> write_partial_handling write' (drop (nat n) buf) s;
         Some (map_option (\<lambda>((status, m), s). ((status, nat n + m), s)) result)
       }
     })"

section \<open>System calls, repeated while interrupted\<close>

partial_function (option) while_interrupted ::
    "(os \<Rightarrow> 'r option \<times> os) \<Rightarrow> os \<Rightarrow> ('r option \<times> os) option" where
  "while_interrupted callable os =
    (let (res, os) = callable os
     in if res = None \<and> os_errno os = EINTR then while_interrupted callable os else Some (res, os))"

definition file_open :: "string \<Rightarrow> bool \<Rightarrow> os \<Rightarrow> (int option \<times> os) option" where
  "file_open path rw = while_interrupted (sys_open path rw)"

definition file_close :: "int \<Rightarrow> os \<Rightarrow> (unit option \<times> os) option" where
  "file_close fd = while_interrupted (sys_close fd)"

text \<open>What the two lambdas return to the loops above.  A read or a write of the system never
  reports more than it was asked for, so the loops are defined on them (\<open>read_call_range\<close>,
  \<open>write_call_range\<close>); \<open>file_read\<close> and \<open>file_write\<close> are \<open>None\<close> only if a call does not
  return.\<close>

definition read_call :: "int \<Rightarrow> nat \<Rightarrow> os \<Rightarrow> ((int \<times> bytes) \<times> os) option" where
  "read_call fd n os = do {
     (res, os) \<leftarrow> while_interrupted (sys_read fd n) os;
     Some (case res of None \<Rightarrow> ((-1, []), os) | Some bs \<Rightarrow> ((int (length bs), bs), os))
   }"

definition write_call :: "int \<Rightarrow> bytes \<Rightarrow> os \<Rightarrow> (int \<times> os) option" where
  "write_call fd buf os = do {
     (res, os) \<leftarrow> while_interrupted (sys_write fd buf) os;
     Some (case res of None \<Rightarrow> (-1, os) | Some n \<Rightarrow> (int n, os))
   }"

definition file_read :: "int \<Rightarrow> nat \<Rightarrow> os \<Rightarrow> ((read_status \<times> bytes) \<times> os) option" where
  "file_read fd nbyte os = do { result \<leftarrow> read_partial_handling (read_call fd) nbyte os; result }"

definition file_write :: "int \<Rightarrow> bytes \<Rightarrow> os \<Rightarrow> ((write_status \<times> nat) \<times> os) option" where
  "file_write fd buf os = do { result \<leftarrow> write_partial_handling (write_call fd) buf os; result }"

section \<open>The store\<close>

text \<open>\<open>fs_fd\<close> is \<open>-1\<close> when no file is open.\<close>

record file_store =
  fs_filename :: string
  fs_fd :: int
  fs_offsets :: "nat list"

definition file_store_new :: "string \<Rightarrow> file_store" where
  "file_store_new filename = \<lparr>fs_filename = filename, fs_fd = -1, fs_offsets = []\<rparr>"

definition store_set_filename :: "string \<Rightarrow> file_store \<Rightarrow> file_store" where
  "store_set_filename filename st = st\<lparr>fs_filename := filename\<rparr>"

definition system_error :: "os \<Rightarrow> error_code" where
  "system_error os = error_code_of (os_errno os) System"

definition store_close :: "file_store \<Rightarrow> os \<Rightarrow> (error_code \<times> file_store \<times> os) option" where
  "store_close st os =
    (if fs_fd st = -1 then Some (no_error, st, os)
     else do {
       (status, os) \<leftarrow> file_close (fs_fd st) os;
       let st = st\<lparr>fs_fd := -1\<rparr>;
       Some (if status = None then system_error os else no_error, st, os)
     })"

definition store_destroy :: "file_store \<Rightarrow> os \<Rightarrow> os option" where
  "store_destroy st os = map_option (\<lambda>(_, _, os). os) (store_close st os)"

partial_function (option) store_set_offsets ::
    "nat \<Rightarrow> file_store \<Rightarrow> os \<Rightarrow> (error_code \<times> file_store \<times> os) option" where
  \<comment> \<open>the loop of \<open>set_offsets\<close>, which starts with \<open>off = 0\<close>\<close>
  "store_set_offsets off st os = do {
     ((status, sz), os) \<leftarrow> file_read (fs_fd st) 2 os;
     if status = RS_failure then Some (system_error os, st, os)
     else if status = RS_end_of_file then Some (no_error, st, os)
     else do {
       let size = unat (unpack_int host sz :: u16);
       let st = st\<lparr>fs_offsets := fs_offsets st @ [off]\<rparr>;
       let (off, os) = sys_lseek (fs_fd st) size Seek_cur os;
       case off of
         None \<Rightarrow> Some (system_error os, st, os)
       | Some off \<Rightarrow> store_set_offsets off st os
     }
   }"

definition store_open :: "file_store \<Rightarrow> os \<Rightarrow> (error_code \<times> file_store \<times> os) option" where
  "store_open st os = do {
     (fd, os) \<leftarrow> file_open (fs_filename st) False os;
     (ec, st, os) \<leftarrow> (case fd of
         None \<Rightarrow> Some (no_error, st\<lparr>fs_fd := -1\<rparr>, os)
       | Some fd \<Rightarrow> do {
           (ec, st, os) \<leftarrow> store_set_offsets 0 (st\<lparr>fs_fd := fd\<rparr>) os;
           (_, st, os) \<leftarrow> store_close st os;
           Some (ec, st, os)
         });
     if ec_set ec then Some (ec, st, os)
     else do {
       (fd, os) \<leftarrow> file_open (fs_filename st) True os;
       case fd of
         None \<Rightarrow> Some (system_error os, st\<lparr>fs_fd := -1\<rparr>, os)
       | Some fd \<Rightarrow> Some (no_error, st\<lparr>fs_fd := fd\<rparr>, os)
     }
   }"

text \<open>\<open>data\<close> is the memory at the pointer, of which \<open>n\<close> bytes are written; the size is
  a \<^verbatim>\<open>std::size_t\<close>, stored in 16 bits.\<close>

definition store_add ::
    "bytes \<Rightarrow> nat \<Rightarrow> file_store \<Rightarrow> os \<Rightarrow> (error_code \<times> file_store \<times> os) option" where
  "store_add data n st os =
    (let (off, os) = sys_lseek (fs_fd st) 0 Seek_end os
     in case off of
       None \<Rightarrow> Some (system_error os, st, os)
     | Some off \<Rightarrow>
        (let st = st\<lparr>fs_offsets := fs_offsets st @ [off]\<rparr>
         in do {
           ((status, _), os) \<leftarrow> file_write (fs_fd st) (pack_int host (of_nat n :: u16)) os;
           if status = WS_failure then Some (system_error os, st, os)
           else do {
             ((status, _), os) \<leftarrow> file_write (fs_fd st) (take n data) os;
             if status = WS_failure then Some (system_error os, st, os)
             else Some (no_error, st, os)
           }
         }))"

text \<open>One message: \<^verbatim>\<open>get(Message&)\<close>, which returns the bytes of the message it fills.\<close>

definition store_get_message ::
    "file_store \<Rightarrow> os \<Rightarrow> (error_code \<times> bytes \<times> os) option" where
  "store_get_message st os = do {
     ((status, sz), os) \<leftarrow> file_read (fs_fd st) 2 os;
     if status = RS_failure then Some (system_error os, [], os)
     else if status = RS_end_of_file then Some (error_code_of EIO System, [], os)
     else do {
       let size = unat (unpack_int host sz :: u16);
       ((status, message), os) \<leftarrow> file_read (fs_fd st) size os;
       if status = RS_failure then Some (system_error os, message, os)
       else if status = RS_end_of_file then Some (error_code_of EIO System, message, os)
       else Some (no_error, message, os)
     }
   }"

text \<open>The loop over the positions \<open>first..last\<close>; \<open>messages\<close> is the caller's vector.\<close>

fun store_get_loop ::
    "nat \<Rightarrow> bytes list \<Rightarrow> file_store \<Rightarrow> os \<Rightarrow> (error_code \<times> bytes list \<times> os) option" where
  "store_get_loop 0 messages st os = Some (no_error, messages, os)"
| "store_get_loop (Suc n) messages st os = do {
     (ec, message, os) \<leftarrow> store_get_message st os;
     if ec_set ec then Some (ec, messages, os)
     else store_get_loop n (messages @ [message]) st os
   }"

definition store_get ::
    "nat \<Rightarrow> nat \<Rightarrow> bytes list \<Rightarrow> file_store \<Rightarrow> os \<Rightarrow> (error_code \<times> bytes list \<times> os) option" where
  "store_get first' last' messages st os =
    (if first' < 1 \<or> first' > length (fs_offsets st)
     then Some (error_code_of EINVAL System, messages, os)
     else if last' < first' \<or> last' > length (fs_offsets st)
     then Some (error_code_of EINVAL System, messages, os)
     else
       (let (off, os) = sys_lseek (fs_fd st) (fs_offsets st ! (first' - 1)) Seek_set os
        in case off of
          None \<Rightarrow> Some (system_error os, messages, os)
        | Some _ \<Rightarrow> store_get_loop (last' + 1 - first') messages st os))"

definition store_sync :: "file_store \<Rightarrow> os \<Rightarrow> error_code \<times> os" where
  "store_sync st os =
    (let (status, os) = sys_fsync (fs_fd st) os
     in (if status = None then system_error os else no_error, os))"

definition store_next_sequence_number :: "file_store \<Rightarrow> nat" where
  "store_next_sequence_number st = length (fs_offsets st) + 1"

text \<open>Moving a store: what the new one and the old one are.  Assignment closes the file the
  left-hand side has open.\<close>

definition store_move :: "file_store \<Rightarrow> file_store \<times> file_store" where
  "store_move other = (other, \<lparr>fs_filename = [], fs_fd = -1, fs_offsets = []\<rparr>)"

definition store_move_assign ::
    "file_store \<Rightarrow> file_store \<Rightarrow> os \<Rightarrow> (file_store \<times> file_store \<times> os) option" where
  "store_move_assign st other os = do {
     (_, _, os) \<leftarrow> store_close st os;
     let (st, other) = store_move other;
     Some (st, other, os)
   }"

end
