(* ===== verification/File_Contents.thy ===== *)
theory File_Contents
  imports File_Store
begin

text \<open>
  What the file store promises when the system keeps working: calls may be interrupted and may
  move fewer bytes than they were asked for, as often as they like, but they do not fail,
  they are not interrupted for ever, and a write moves something (\<open>steady\<close>).  The store then
  refines the list of the messages that were added.
\<close>

section \<open>Repeated system calls\<close>

definition steady :: "os \<Rightarrow> bool" where
  "steady os \<longleftrightarrow> (\<forall>i e. os_answers os i = Sys_error e \<longrightarrow> e = EINTR) \<and>
     (\<forall>i. \<exists>j \<ge> i. os_answers os j \<noteq> Sys_error EINTR) \<and> (\<forall>i. os_answers os i \<noteq> Sys_upto 0)"

definition later :: "nat \<Rightarrow> int \<Rightarrow> os \<Rightarrow> os" where
  "later t e os = os\<lparr>os_time := t, os_errno := e\<rparr>"

definition with_file :: "int \<Rightarrow> string \<Rightarrow> nat \<Rightarrow> bool \<Rightarrow> bytes \<Rightarrow> os \<Rightarrow> os" where
  \<comment> \<open>descriptor \<open>fd\<close> is at \<open>off\<close> in the file \<open>path\<close>, which contains \<open>content\<close>\<close>
  "with_file fd path off rw content os =
     os\<lparr>os_open := (os_open os)(fd := Some (path, off, rw)),
        os_files := (os_files os)(path := Some content)\<rparr>"

lemma later_simps [simp]:
  "os_files (later t e os) = os_files os" "os_open (later t e os) = os_open os"
  "os_answers (later t e os) = os_answers os" "os_next_fd (later t e os) = os_next_fd os"
  "os_time (later t e os) = t" "steady (later t e os) = steady os"
  "later t e (later t' e' os) = later t e os"
  "with_file fd path off rw content (later t e os) = later t e (with_file fd path off rw content os)"
  by (simp_all add: later_def steady_def with_file_def)

lemma with_file_simps [simp]:
  "os_files (with_file fd path off rw content os) = (os_files os)(path := Some content)"
  "os_open (with_file fd path off rw content os) = (os_open os)(fd := Some (path, off, rw))"
  "os_answers (with_file fd path off rw content os) = os_answers os"
  "os_next_fd (with_file fd path off rw content os) = os_next_fd os"
  "steady (with_file fd path off rw content os) = steady os"
  "with_file fd path off rw content (with_file fd path off' rw' content' os) =
     with_file fd path off rw content os"
  by (simp_all add: with_file_def steady_def)

text \<open>An interrupted call is repeated until it is answered.\<close>

lemma interrupted_call:
  assumes "steady os" and own: "\<And>k os. fst (f k os) = None \<Longrightarrow> os_errno (snd (f k os)) \<noteq> EINTR"
  shows "\<exists>k t e. 0 < k \<and> while_interrupted (sys_call f) os = Some (f k (later t e os))"
proof -
  obtain j where "os_time os \<le> j" "os_answers os j \<noteq> Sys_error EINTR"
    using assms(1) unfolding steady_def by blast
  then obtain d where "os_answers os (os_time os + d) \<noteq> Sys_error EINTR"
    by (metis le_Suc_ex)
  with assms(1) show ?thesis
  proof (induction d arbitrary: os)
    case (0 os)
    then obtain k where k: "os_answers os (os_time os) = Sys_upto k" "0 < k"
      unfolding steady_def by (metis add_0_right not_gr_zero sys_answer.exhaust)
    let ?os = "later (os_time os + 1) (os_errno os) os"
    have os: "os\<lparr>os_time := Suc (os_time os)\<rparr> = ?os" by (simp add: later_def)
    have "while_interrupted (sys_call f) os = Some (f k ?os)"
      using own [of k ?os] k
      by (subst while_interrupted.simps) (auto simp: sys_call_def os split: prod.splits)
    with k show ?case by blast
  next
    case (Suc d os)
    show ?case
    proof (cases "os_answers os (os_time os)")
      case (Sys_error e)
      with Suc.prems have e: "e = EINTR" by (auto simp: steady_def)
      let ?os = "later (os_time os + 1) EINTR os"
      have "while_interrupted (sys_call f) os = while_interrupted (sys_call f) ?os"
        by (subst while_interrupted.simps) (simp add: sys_call_def Sys_error e sys_fail_def later_def)
      with Suc.IH [of ?os] Suc.prems show ?thesis by simp
    next
      case (Sys_upto k)
      with Suc.prems have "0 < k" by (auto simp: steady_def intro: gr0I)
      let ?os = "later (os_time os + 1) (os_errno os) os"
      have os: "os\<lparr>os_time := Suc (os_time os)\<rparr> = ?os" by (simp add: later_def)
      have "while_interrupted (sys_call f) os = Some (f k ?os)"
        using own [of k ?os] Sys_upto
        by (subst while_interrupted.simps) (auto simp: sys_call_def os split: prod.splits)
      with \<open>0 < k\<close> show ?thesis by blast
    qed
  qed
qed

lemma errnos: "ENOENT \<noteq> EINTR" "EBADF \<noteq> EINTR"
  by (simp_all add: ENOENT_def EBADF_def EINTR_def)

lemma calls_own:
  "fst (open_file path rw k os) = None \<Longrightarrow> os_errno (snd (open_file path rw k os)) \<noteq> EINTR"
  "fst (close_file fd k os) = None \<Longrightarrow> os_errno (snd (close_file fd k os)) \<noteq> EINTR"
  "fst (read_some fd n k os) = None \<Longrightarrow> os_errno (snd (read_some fd n k os)) \<noteq> EINTR"
  "fst (write_some fd buf k os) = None \<Longrightarrow> os_errno (snd (write_some fd buf k os)) \<noteq> EINTR"
  by (auto simp: open_file_def close_file_def read_some_def write_some_def sys_fail_def errnos
      Let_def split: option.splits if_splits)

lemma repeated:
  assumes "steady os"
  shows "\<exists>k t e. 0 < k \<and> while_interrupted (sys_read fd n) os = Some (read_some fd n k (later t e os))"
    and "\<exists>k t e. 0 < k \<and> while_interrupted (sys_write fd buf) os = Some (write_some fd buf k (later t e os))"
    and "\<exists>k t e. 0 < k \<and> while_interrupted (sys_open path rw) os = Some (open_file path rw k (later t e os))"
    and "\<exists>k t e. 0 < k \<and> while_interrupted (sys_close fd) os = Some (close_file fd k (later t e os))"
  unfolding sys_read_def sys_write_def sys_open_def sys_close_def
  by (rule interrupted_call [OF assms], erule calls_own)+

section \<open>What the loops are given\<close>

lemma while_interrupted_result:
  assumes "while_interrupted f os = Some (res, os')" and P: "\<And>os. P (fst (f os))"
  shows "P res"
proof -
  have "g = f \<longrightarrow> P (fst (res, os'))" if "while_interrupted g os = Some (res, os')" for g
    by (rule while_interrupted.raw_induct [where P = "\<lambda>g os y. g = f \<longrightarrow> P (fst y)", OF _ that])
      (use P in \<open>auto simp: Let_def split: prod.splits if_splits, (metis fst_conv)+\<close>)
  with assms(1) show ?thesis by simp
qed

lemma some_range:
  "fst (sys_read fd n os) = Some bs \<Longrightarrow> length bs \<le> n"
  "fst (sys_write fd buf os) = Some m \<Longrightarrow> m \<le> length buf"
proof -
  have "fst (read_some fd n k os) = Some bs \<Longrightarrow> length bs \<le> n" for k os
    by (cases "os_open os fd") (auto simp: read_some_def sys_fail_def Let_def)
  then show "fst (sys_read fd n os) = Some bs \<Longrightarrow> length bs \<le> n"
    by (cases "os_answers os (os_time os)") (simp_all add: sys_read_def sys_call_def sys_fail_def)
  have "fst (write_some fd buf k os) = Some m \<Longrightarrow> m \<le> length buf" for k os
    by (cases "os_open os fd") (auto simp: write_some_def sys_fail_def Let_def split: if_splits)
  then show "fst (sys_write fd buf os) = Some m \<Longrightarrow> m \<le> length buf"
    by (cases "os_answers os (os_time os)") (simp_all add: sys_write_def sys_call_def sys_fail_def)
qed

lemma read_call_range:
  assumes "read_call fd n os = Some ((r, bs), os')"
  shows "-1 \<le> r \<and> r \<le> int n \<and> nat r \<le> length bs"
proof -
  obtain res where res: "while_interrupted (sys_read fd n) os = Some (res, os')"
    and r: "(r, bs) = (case res of None \<Rightarrow> (-1, []) | Some bs \<Rightarrow> (int (length bs), bs))"
    using assms by (auto simp: read_call_def split: bind_splits option.splits)
  have "\<forall>bs. res = Some bs \<longrightarrow> length bs \<le> n"
    by (rule while_interrupted_result [OF res]) (simp add: some_range)
  with r show ?thesis by (cases res) simp_all
qed

lemma write_call_range:
  assumes "write_call fd buf os = Some (r, os')"
  shows "-1 \<le> r \<and> r \<le> int (length buf)"
proof -
  obtain res where res: "while_interrupted (sys_write fd buf) os = Some (res, os')"
    and r: "r = (case res of None \<Rightarrow> -1 | Some n \<Rightarrow> int n)"
    using assms by (auto simp: write_call_def split: bind_splits option.splits)
  have "\<forall>m. res = Some m \<longrightarrow> m \<le> length buf"
    by (rule while_interrupted_result [OF res]) (simp add: some_range)
  with r show ?thesis by (cases res) simp_all
qed

section \<open>Reading and writing whole blocks\<close>

lemma take_split: "m \<le> n \<Longrightarrow> take n xs = take m xs @ take (n - m) (drop m xs)"
  by (metis le_add_diff_inverse take_add)

lemma moved:
  "os_files os path = Some content \<Longrightarrow>
     os\<lparr>os_open := (os_open os)(fd := Some (path, off, rw))\<rparr> = with_file fd path off rw content os"
  by (simp add: with_file_def fun_upd_idem)

lemma unmoved:
  assumes "os_open os fd = Some (path, off, rw)" and "os_files os path = Some content"
  shows "later (os_time os) (os_errno os) (with_file fd path off rw content os) = os"
proof -
  have "os\<lparr>os_open := (os_open os)(fd := Some (path, off, rw))\<rparr> = os"
    using assms(1) by (cases os) (simp add: fun_upd_idem)
  with moved [OF assms(2), of fd off rw] show ?thesis by (simp add: later_def)
qed

lemma read_some_eq:
  assumes "os_open os fd = Some (path, off, rw)" and "os_files os path = Some content"
  shows "read_some fd n k os = (Some (take (min n (max 1 k)) (drop off content)),
     with_file fd path (off + min (min n (max 1 k)) (length content - off)) rw content os)"
proof -
  have "length (take (min n (max 1 k)) (drop off content)) = min (min n (max 1 k)) (length content - off)"
    by (simp only: length_take length_drop min.commute)
  with moved [OF assms(2)] assms show ?thesis by (simp only: read_some_def Let_def option.case prod.case option.sel)
qed

lemma read_once:
  assumes "steady os" and "os_open os fd = Some (path, off, rw)" and "os_files os path = Some content"
    and "0 < n"
  shows "\<exists>m t e. m \<le> n \<and> (m = 0 \<longleftrightarrow> length content \<le> off) \<and> (0 < m \<longrightarrow> off + m \<le> length content) \<and>
    while_interrupted (sys_read fd n) os = Some (Some (take m (drop off content)),
      later t e (with_file fd path (off + m) rw content os))"
proof -
  obtain k t e where call: "while_interrupted (sys_read fd n) os = Some (read_some fd n k (later t e os))"
    using repeated(1) [OF assms(1)] by blast
  let ?m = "min (min n (max 1 k)) (length content - off)"
  have "read_some fd n k (later t e os) = (Some (take (min n (max 1 k)) (drop off content)),
      later t e (with_file fd path (off + ?m) rw content os))"
    using assms(2,3) by (simp only: read_some_eq later_simps)
  moreover have "take (min n (max 1 k)) (drop off content) = take ?m (drop off content)"
    by (simp add: min_def)
  moreover have "?m \<le> n" "?m = 0 \<longleftrightarrow> length content \<le> off" "0 < ?m \<longrightarrow> off + ?m \<le> length content"
    using assms(4) by auto
  ultimately show ?thesis using call by metis
qed

lemma file_read_whole:
  assumes "steady os" and "os_open os fd = Some (path, off, rw)" and "os_files os path = Some content"
  shows "\<exists>t e. file_read fd n os = Some ((if n = 0 \<or> off + n \<le> length content then RS_success
       else RS_end_of_file, take n (drop off content)),
     later t e (with_file fd path (off + min n (length content - off)) rw content os))"
  using assms
proof (induction n arbitrary: off os rule: less_induct)
  case (less n off os)
  show ?case
  proof (cases "n = 0")
    case True
    with unmoved [OF less.prems(2,3)] show ?thesis
      by (simp add: file_read_def read_partial_handling.simps) metis
  next
    case False
    obtain m t e where m: "m \<le> n" "m = 0 \<longleftrightarrow> length content \<le> off" "0 < m \<longrightarrow> off + m \<le> length content"
      and call: "while_interrupted (sys_read fd n) os = Some (Some (take m (drop off content)),
        later t e (with_file fd path (off + m) rw content os))"
      using read_once [OF less.prems] False by blast
    let ?os = "later t e (with_file fd path (off + m) rw content os)"
    show ?thesis
    proof (cases "m = 0")
      case True
      with m have "length content \<le> off" by simp
      with False call True show ?thesis
        unfolding file_read_def by (subst read_partial_handling.simps) (auto simp: read_call_def)
    next
      case pos: False
      have ne: "take m (drop off content) \<noteq> []" "length (take m (drop off content)) = m"
        using m pos by auto
      have "n - m < n" "steady ?os" "os_open ?os fd = Some (path, off + m, rw)" "os_files ?os path = Some content"
        using m pos less.prems by simp_all
      from less.IH [OF this] obtain t' e' where rest: "file_read fd (n - m) ?os =
          Some ((if n - m = 0 \<or> off + m + (n - m) \<le> length content then RS_success else RS_end_of_file,
            take (n - m) (drop (off + m) content)),
          later t' e' (with_file fd path (off + m + min (n - m) (length content - (off + m))) rw content ?os))"
        by blast
      have step: "file_read fd n os = (case file_read fd (n - m) ?os of None \<Rightarrow> None
          | Some ((status, rest), s) \<Rightarrow> Some ((status, take m (drop off content) @ rest), s))"
        unfolding file_read_def
        by (subst read_partial_handling.simps)
          (use False call ne m pos in \<open>simp add: read_call_def split: option.splits prod.splits\<close>)
      have bs: "take m (drop off content) @ take (n - m) (drop (off + m) content) = take n (drop off content)"
        using take_split [OF m(1), of "drop off content"] by (simp add: add.commute)
      have off': "off + m + min (n - m) (length content - (off + m)) = off + min n (length content - off)"
        and st: "(n - m = 0 \<or> off + m + (n - m) \<le> length content) = (n = 0 \<or> off + n \<le> length content)"
        using m pos by auto
      show ?thesis
        unfolding step rest off' st option.case prod.case bs by simp blast
    qed
  qed
qed

lemma file_read_inside:
  assumes "steady os" and "os_open os fd = Some (path, off, rw)" and "os_files os path = Some content"
    and "off + n \<le> length content"
  shows "\<exists>t e. file_read fd n os = Some ((RS_success, take n (drop off content)),
     later t e (with_file fd path (off + n) rw content os))"
proof -
  have "off + min n (length content - off) = off + n" using assms(4) by auto
  with file_read_whole [OF assms(1-3), of n] assms(4) show ?thesis by simp
qed

text \<open>Appending.\<close>

lemma overwrite_end: "overwrite (length file) bs file = file @ bs"
  by (simp add: overwrite_def)

lemma write_once:
  assumes "steady os" and "os_open os fd = Some (path, length content, True)"
    and "os_files os path = Some content" and "buf \<noteq> []"
  shows "\<exists>m t e. 0 < m \<and> m \<le> length buf \<and> while_interrupted (sys_write fd buf) os = Some (Some m,
      later t e (with_file fd path (length content + m) True (content @ take m buf) os))"
proof -
  obtain k t e where k: "0 < k" and
      call: "while_interrupted (sys_write fd buf) os = Some (write_some fd buf k (later t e os))"
    using repeated(2) [OF assms(1)] by blast
  let ?m = "min k (length buf)"
  have len: "length (take k buf) = ?m" by (simp add: min.commute)
  have "write_some fd buf k (later t e os) = (Some ?m,
      later t e (with_file fd path (length content + ?m) True (content @ take k buf) os))"
    using assms(2,3) len
    by (simp add: write_some_def Let_def overwrite_end) (simp add: later_def with_file_def)
  moreover have "take k buf = take ?m buf" by (simp add: min_def)
  moreover have "0 < ?m" "?m \<le> length buf" using k assms(4) by auto
  ultimately show ?thesis using call by metis
qed

lemma file_write_whole:
  assumes "steady os" and "os_open os fd = Some (path, length content, True)"
    and "os_files os path = Some content"
  shows "\<exists>t e. file_write fd buf os = Some ((WS_success, length buf),
     later t e (with_file fd path (length content + length buf) True (content @ buf) os))"
  using assms
proof (induction "length buf" arbitrary: buf content os rule: less_induct)
  case (less buf content os)
  show ?case
  proof (cases "buf = []")
    case True
    with unmoved [OF less.prems(2,3)] show ?thesis
      by (simp add: file_write_def write_partial_handling.simps) metis
  next
    case False
    obtain m t e where m: "0 < m" "m \<le> length buf" and call: "while_interrupted (sys_write fd buf) os =
        Some (Some m, later t e (with_file fd path (length content + m) True (content @ take m buf) os))"
      using write_once [OF less.prems False] by blast
    let ?os = "later t e (with_file fd path (length content + m) True (content @ take m buf) os)"
    have "length (drop m buf) < length buf" "steady ?os"
        "os_open ?os fd = Some (path, length (content @ take m buf), True)"
        "os_files ?os path = Some (content @ take m buf)"
      using m less.prems by simp_all
    from less.hyps [OF this] obtain t' e' where rest: "file_write fd (drop m buf) ?os =
        Some ((WS_success, length (drop m buf)), later t' e' (with_file fd path
          (length (content @ take m buf) + length (drop m buf)) True
          ((content @ take m buf) @ drop m buf) ?os))"
      by blast
    have "file_write fd buf os = do {
         ((status, n), s) \<leftarrow> file_write fd (drop m buf) ?os; Some ((status, m + n), s) }"
      unfolding file_write_def
      by (subst write_partial_handling.simps)
        (use False call m in \<open>auto simp: write_call_def split: option.splits bind_splits\<close>)
    with m show ?thesis
      unfolding rest by simp blast
  qed
qed

end
