(* ===== verification/File_Messages.thy ===== *)
theory File_Messages
  imports File_Contents
begin

text \<open>
  The file store as a list of messages: \<open>stores st os ms\<close> relates a store with an open file
  to the messages in it, and every operation is related to one on the list.
\<close>

section \<open>Messages in a file\<close>

definition record_of :: "bytes \<Rightarrow> bytes" where
  "record_of m = pack_int host (of_nat (length m) :: u16) @ m"

definition records :: "bytes list \<Rightarrow> bytes" where
  "records ms = concat (map record_of ms)"

definition starts :: "bytes list \<Rightarrow> nat list" where
  "starts ms = map (\<lambda>i. length (records (take i ms))) [0..<length ms]"

definition small :: "bytes \<Rightarrow> bool" where
  "small m \<longleftrightarrow> length m < 2 ^ 16"

definition stores :: "file_store \<Rightarrow> os \<Rightarrow> bytes list \<Rightarrow> bool" where
  "stores st os ms \<longleftrightarrow> steady os \<and> list_all small ms \<and> fs_offsets st = starts ms \<and>
     0 \<le> fs_fd st \<and> fs_fd st < os_next_fd os \<and>
     os_files os (fs_filename st) = Some (records ms) \<and>
     (\<exists>off. os_open os (fs_fd st) = Some (fs_filename st, off, True))"

lemma records_simps [simp]:
  "records [] = []" "records (m # ms) = record_of m @ records ms"
  "records (ms @ ms') = records ms @ records ms'"
  by (simp_all add: records_def)

lemma length_record [simp]: "length (record_of m) = 2 + length m"
  by (simp add: record_of_def)

lemma starts_simps [simp]:
  "starts [] = []" "starts (ms @ [m]) = starts ms @ [length (records ms)]"
  "length (starts ms) = length ms" "i < length ms \<Longrightarrow> starts ms ! i = length (records (take i ms))"
  by (simp_all add: starts_def)

lemma size_read:
  "small m \<Longrightarrow> unat (unpack_int host (take 2 (record_of m @ rest)) :: u16) = length m"
proof -
  assume "small m"
  have "unpack_int host (take 2 (record_of m @ rest)) = (of_nat (length m) :: u16)"
    using unpack_pack_int [where ?'a = 16 and e = host and w = "of_nat (length m)" and rest = "[]"]
    by (simp add: record_of_def packable_size_def)
  with \<open>small m\<close> show ?thesis by (simp add: small_def unat_of_nat)
qed

section \<open>Seeking\<close>

lemma lseek_steady:
  assumes "steady os"
  shows "\<exists>t e. sys_lseek fd d whence os = seek fd d whence (later t e os)"
proof -
  have os: "os\<lparr>os_time := Suc (os_time os)\<rparr> = later (os_time os + 1) (os_errno os) os"
    by (simp add: later_def)
  have "\<not> (\<exists>e. os_answers os (os_time os) = Sys_error e \<and> e \<noteq> EINTR)"
    using assms by (auto simp: steady_def)
  then have "sys_lseek fd d whence os = seek fd d whence (later (os_time os + 1) (os_errno os) os)"
    by (auto simp: sys_lseek_def os Let_def split: sys_answer.splits)
  then show ?thesis by blast
qed

lemma lseek_in_file:
  assumes "steady os" and "os_open os fd = Some (path, off, rw)" and "os_files os path = Some content"
  shows "\<exists>t e. sys_lseek fd d whence os =
    (let off' = (case whence of Seek_set \<Rightarrow> d | Seek_cur \<Rightarrow> off + d | Seek_end \<Rightarrow> length content + d)
     in (Some off', later t e (with_file fd path off' rw content os)))"
proof -
  obtain t e where "sys_lseek fd d whence os = seek fd d whence (later t e os)"
    using lseek_steady [OF assms(1)] by blast
  moreover have "os_files (later t e os) path = Some content" using assms(3) by simp
  ultimately show ?thesis
    using assms(2,3) moved [of "later t e os" path content fd]
    by (intro exI [of _ t] exI [of _ e]) (cases whence, simp_all add: seek_def Let_def)
qed

section \<open>Adding\<close>

lemma add_stores:
  assumes s: "stores st os ms" and n: "n \<le> length data" "n < 2 ^ 16"
  shows "\<exists>st' os'. store_add data n st os = Some (no_error, st', os') \<and>
    stores st' os' (ms @ [take n data])"
proof -
  let ?path = "fs_filename st"
  obtain off where st: "steady os" "os_open os (fs_fd st) = Some (?path, off, True)"
      "os_files os ?path = Some (records ms)" "fs_offsets st = starts ms" "list_all small ms"
      "0 \<le> fs_fd st" "fs_fd st < os_next_fd os"
    using s by (auto simp: stores_def)
  let ?fd = "fs_fd st" and ?c = "records ms" and ?sz = "pack_int host (of_nat n :: u16)"
  obtain t e where seek: "sys_lseek ?fd 0 Seek_end os =
      (Some (length ?c), later t e (with_file ?fd ?path (length ?c) True ?c os))"
    using lseek_in_file [OF st(1-3), of 0 Seek_end] by (auto simp: Let_def)
  let ?os1 = "later t e (with_file ?fd ?path (length ?c) True ?c os)"
  obtain t1 e1 where w1: "file_write ?fd ?sz ?os1 = Some ((WS_success, 2),
      later t1 e1 (with_file ?fd ?path (length ?c + 2) True (?c @ ?sz) ?os1))"
    using file_write_whole [of ?os1 ?fd ?path ?c ?sz] st(1) by auto
  let ?os2 = "later t1 e1 (with_file ?fd ?path (length ?c + 2) True (?c @ ?sz) ?os1)"
  obtain t2 e2 where w2: "file_write ?fd (take n data) ?os2 = Some ((WS_success, n),
      later t2 e2 (with_file ?fd ?path (length ?c + 2 + n) True (?c @ ?sz @ take n data) ?os2))"
    using file_write_whole [of ?os2 ?fd ?path "?c @ ?sz" "take n data"] st(1) n by auto
  have "store_add data n st os = Some (no_error, st\<lparr>fs_offsets := fs_offsets st @ [length ?c]\<rparr>,
      later t2 e2 (with_file ?fd ?path (length ?c + 2 + n) True (?c @ ?sz @ take n data) ?os2))"
    using seek w1 w2 by (simp add: store_add_def Let_def)
  with st n show ?thesis
    by (simp add: stores_def record_of_def small_def min_def)
qed

section \<open>Getting\<close>

lemma get_one:
  assumes "steady os" and "os_open os (fs_fd st) = Some (path, length (records (take i ms)), True)"
    and "os_files os path = Some (records ms)" and "i < length ms" and "list_all small ms"
  shows "\<exists>t e. store_get_message st os = Some (no_error, ms ! i,
     later t e (with_file (fs_fd st) path (length (records (take (Suc i) ms))) True (records ms) os))"
proof -
  let ?fd = "fs_fd st" and ?c = "records ms" and ?off = "length (records (take i ms))" and ?m = "ms ! i"
  have split: "?c = records (take i ms) @ record_of ?m @ records (drop (Suc i) ms)"
    using id_take_nth_drop [OF assms(4)] by (metis records_simps(2,3) append_Cons append_Nil)
  have next': "length (records (take (Suc i) ms)) = ?off + 2 + length ?m"
    using assms(4) by (simp add: take_Suc_conv_app_nth)
  have len: "?off + 2 + length ?m \<le> length ?c" by (subst split) simp
  have at: "drop ?off ?c = record_of ?m @ records (drop (Suc i) ms)" by (subst split) simp
  obtain t e where r1: "file_read ?fd 2 os = Some ((RS_success, take 2 (record_of ?m @ records (drop (Suc i) ms))),
      later t e (with_file ?fd path (?off + 2) True ?c os))"
    using file_read_inside [OF assms(1-3), of 2] len unfolding at by auto
  let ?os = "later t e (with_file ?fd path (?off + 2) True ?c os)"
  have pl: "take (length ?m) (drop (?off + 2) ?c) = ?m"
    by (subst split) (simp add: record_of_def)
  obtain t' e' where r2: "file_read ?fd (length ?m) ?os = Some ((RS_success, ?m),
      later t' e' (with_file ?fd path (?off + 2 + length ?m) True ?c ?os))"
    using file_read_inside [of ?os ?fd path "?off + 2" True ?c "length ?m"] assms(1) len pl by auto
  have "small ?m" using assms(4,5) by (simp add: list_all_length)
  from size_read [OF this, of "records (drop (Suc i) ms)"] r1 r2 show ?thesis
    unfolding next' by (simp add: store_get_message_def) blast
qed

lemma get_loop:
  assumes "steady os" and "os_open os (fs_fd st) = Some (path, length (records (take i ms)), True)"
    and "os_files os path = Some (records ms)" and "i + n \<le> length ms" and "list_all small ms"
  shows "\<exists>t e off. store_get_loop n messages st os = Some (no_error, messages @ take n (drop i ms),
     later t e (with_file (fs_fd st) path off True (records ms) os))"
  using assms
proof (induction n arbitrary: i messages os)
  case 0
  from unmoved [OF "0.prems"(2,3)] show ?case by (simp, metis)
next
  case (Suc n)
  have i: "i < length ms" using Suc.prems(4) by simp
  obtain t e where one: "store_get_message st os = Some (no_error, ms ! i,
     later t e (with_file (fs_fd st) path (length (records (take (Suc i) ms))) True (records ms) os))"
    using get_one [OF Suc.prems(1-3) i Suc.prems(5)] by blast
  let ?os = "later t e (with_file (fs_fd st) path (length (records (take (Suc i) ms))) True (records ms) os)"
  have "steady ?os" "os_open ?os (fs_fd st) = Some (path, length (records (take (Suc i) ms)), True)"
      "os_files ?os path = Some (records ms)" "Suc i + n \<le> length ms"
    using Suc.prems by simp_all
  from Suc.IH [OF this Suc.prems(5), of "messages @ [ms ! i]"] obtain t' e' off where
    "store_get_loop n (messages @ [ms ! i]) st ?os = Some (no_error,
       (messages @ [ms ! i]) @ take n (drop (Suc i) ms),
       later t' e' (with_file (fs_fd st) path off True (records ms) ?os))" by blast
  moreover have "take (Suc n) (drop i ms) = ms ! i # take n (drop (Suc i) ms)"
    using i by (simp add: Cons_nth_drop_Suc [symmetric])
  ultimately show ?case by (simp add: one) blast
qed

lemma get_stores:
  assumes s: "stores st os ms" and range: "1 \<le> i" "i \<le> j" "j \<le> length ms"
  shows "\<exists>os'. store_get i j messages st os =
      Some (no_error, messages @ take (j + 1 - i) (drop (i - 1) ms), os') \<and> stores st os' ms"
proof -
  let ?path = "fs_filename st"
  obtain off where st: "steady os" "os_open os (fs_fd st) = Some (?path, off, True)"
      "os_files os ?path = Some (records ms)" "fs_offsets st = starts ms" "list_all small ms"
      "0 \<le> fs_fd st" "fs_fd st < os_next_fd os"
    using s by (auto simp: stores_def)
  let ?off = "length (records (take (i - 1) ms))"
  obtain t e where seek: "sys_lseek (fs_fd st) ?off Seek_set os =
      (Some ?off, later t e (with_file (fs_fd st) ?path ?off True (records ms) os))"
    using lseek_in_file [OF st(1-3), of ?off Seek_set] by (auto simp: Let_def)
  let ?os = "later t e (with_file (fs_fd st) ?path ?off True (records ms) os)"
  have "i - 1 + (j + 1 - i) \<le> length ms" using range by simp
  then obtain t' e' off' where "store_get_loop (j + 1 - i) messages st ?os =
      Some (no_error, messages @ take (j + 1 - i) (drop (i - 1) ms),
        later t' e' (with_file (fs_fd st) ?path off' True (records ms) ?os))"
    using get_loop [of ?os st ?path "i - 1" ms "j + 1 - i" messages] st by auto
  with seek st range show ?thesis
    by (auto simp: store_get_def stores_def Let_def)
qed

section \<open>Opening\<close>

lemma set_offsets_scan:
  assumes "steady os" and "os_open os (fs_fd st) = Some (path, length (records (take i ms)), rw)"
    and "os_files os path = Some (records ms)" and "i \<le> length ms" and "list_all small ms"
  shows "\<exists>t e off. store_set_offsets (length (records (take i ms))) st os =
     Some (no_error, st\<lparr>fs_offsets := fs_offsets st @ drop i (starts ms)\<rparr>,
       later t e (with_file (fs_fd st) path off rw (records ms) os))"
  using assms
proof (induction "length ms - i" arbitrary: i st os)
  case 0
  then have i: "i = length ms" by simp
  obtain t e where "file_read (fs_fd st) 2 os = Some ((RS_end_of_file, []),
      later t e (with_file (fs_fd st) path (length (records ms)) rw (records ms) os))"
    using file_read_whole [OF "0.prems"(1-3), of 2] i by auto
  then show ?case
    by (subst store_set_offsets.simps) (simp add: i, blast)
next
  case (Suc k)
  then have i: "i < length ms" by simp
  let ?fd = "fs_fd st" and ?c = "records ms" and ?off = "length (records (take i ms))" and ?m = "ms ! i"
  have split: "?c = records (take i ms) @ record_of ?m @ records (drop (Suc i) ms)"
    using id_take_nth_drop [OF i] by (metis records_simps(2,3) append_Cons append_Nil)
  have next': "length (records (take (Suc i) ms)) = ?off + 2 + length ?m"
    using i by (simp add: take_Suc_conv_app_nth)
  have len: "?off + 2 \<le> length ?c" by (subst split) simp
  have at: "drop ?off ?c = record_of ?m @ records (drop (Suc i) ms)" by (subst split) simp
  obtain t e where r: "file_read ?fd 2 os = Some ((RS_success, take 2 (record_of ?m @ records (drop (Suc i) ms))),
      later t e (with_file ?fd path (?off + 2) rw ?c os))"
    using file_read_inside [OF Suc.prems(1-3), of 2] len unfolding at by auto
  let ?os = "later t e (with_file ?fd path (?off + 2) rw ?c os)"
  obtain t' e' where seek: "sys_lseek ?fd (length ?m) Seek_cur ?os =
      (Some (length (records (take (Suc i) ms))),
       later t' e' (with_file ?fd path (length (records (take (Suc i) ms))) rw ?c ?os))"
    using lseek_in_file [of ?os ?fd path "?off + 2" rw ?c "length ?m" Seek_cur] Suc.prems(1)
    unfolding next' by (auto simp: Let_def)
  let ?os' = "later t' e' (with_file ?fd path (length (records (take (Suc i) ms))) rw ?c ?os)"
  let ?st = "st\<lparr>fs_offsets := fs_offsets st @ [?off]\<rparr>"
  have "k = length ms - Suc i" "steady ?os'" "Suc i \<le> length ms" "os_files ?os' path = Some ?c"
      "os_open ?os' (fs_fd ?st) = Some (path, length (records (take (Suc i) ms)), rw)"
    using Suc.hyps(2) Suc.prems i by simp_all
  from Suc.hyps(1) [OF this(1,2,5,4,3) Suc.prems(5)] obtain t'' e'' off where rest:
    "store_set_offsets (length (records (take (Suc i) ms))) ?st ?os' =
       Some (no_error, ?st\<lparr>fs_offsets := fs_offsets ?st @ drop (Suc i) (starts ms)\<rparr>,
         later t'' e'' (with_file (fs_fd ?st) path off rw ?c ?os'))" by blast
  have "small ?m" using i Suc.prems(5) by (simp add: list_all_length)
  from size_read [OF this, of "records (drop (Suc i) ms)"] r seek
  have "store_set_offsets ?off st os = store_set_offsets (length (records (take (Suc i) ms))) ?st ?os'"
    by (subst store_set_offsets.simps) (simp add: Let_def)
  moreover have "?off # drop (Suc i) (starts ms) = drop i (starts ms)"
    using i by (simp add: Cons_nth_drop_Suc [symmetric])
  ultimately show ?case unfolding rest by simp blast
qed

lemma file_open_existing:
  assumes "steady os" and "os_files os path = Some content"
  shows "\<exists>t e. file_open path rw os = Some (Some (os_next_fd os),
     later t e (with_file (os_next_fd os) path 0 rw content (os\<lparr>os_next_fd := os_next_fd os + 1\<rparr>)))"
proof -
  obtain k t e where "while_interrupted (sys_open path rw) os = Some (open_file path rw k (later t e os))"
    using repeated(3) [OF assms(1)] by blast
  moreover have "open_file path rw k (later t e os) = (Some (os_next_fd os),
      later t e (with_file (os_next_fd os) path 0 rw content (os\<lparr>os_next_fd := os_next_fd os + 1\<rparr>)))"
    using assms(2) by (simp add: open_file_def Let_def)
      (simp add: later_def with_file_def fun_upd_idem)
  ultimately show ?thesis unfolding file_open_def by metis
qed

lemma file_open_missing:
  assumes "steady os" and "os_files os path = None"
  shows "\<exists>t e. file_open path False os = Some (None, later t e os)"
    and "\<exists>t e. file_open path True os = Some (Some (os_next_fd os),
     later t e (with_file (os_next_fd os) path 0 True [] (os\<lparr>os_next_fd := os_next_fd os + 1\<rparr>)))"
proof -
  obtain k t e where "while_interrupted (sys_open path False) os = Some (open_file path False k (later t e os))"
    using repeated(3) [OF assms(1)] by blast
  moreover have "open_file path False k (later t e os) = (None, later t ENOENT os)"
    using assms(2) by (simp add: open_file_def sys_fail_def) (simp add: later_def)
  ultimately show "\<exists>t e. file_open path False os = Some (None, later t e os)"
    unfolding file_open_def by metis
next
  obtain k t e where "while_interrupted (sys_open path True) os = Some (open_file path True k (later t e os))"
    using repeated(3) [OF assms(1)] by blast
  moreover have "open_file path True k (later t e os) = (Some (os_next_fd os),
      later t e (with_file (os_next_fd os) path 0 True [] (os\<lparr>os_next_fd := os_next_fd os + 1\<rparr>)))"
    using assms(2) by (simp add: open_file_def Let_def) (simp add: later_def with_file_def)
  ultimately show "\<exists>t e. file_open path True os = Some (Some (os_next_fd os),
     later t e (with_file (os_next_fd os) path 0 True [] (os\<lparr>os_next_fd := os_next_fd os + 1\<rparr>)))"
    unfolding file_open_def by metis
qed

lemma file_close_open:
  assumes "steady os" and "os_open os fd \<noteq> None"
  shows "\<exists>t e. file_close fd os = Some (Some (), later t e (os\<lparr>os_open := (os_open os)(fd := None)\<rparr>))"
proof -
  obtain k t e where "while_interrupted (sys_close fd) os = Some (close_file fd k (later t e os))"
    using repeated(4) [OF assms(1)] by blast
  moreover have "close_file fd k (later t e os) =
      (Some (), later t e (os\<lparr>os_open := (os_open os)(fd := None)\<rparr>))"
    using assms(2) by (auto simp: close_file_def) (simp add: later_def)
  ultimately show ?thesis unfolding file_close_def by metis
qed

text \<open>What \<^verbatim>\<open>open\<close> leaves: the offsets found in the file are appended to those the store
  had.\<close>

lemma open_existing:
  assumes "steady os" and there: "os_files os (fs_filename st) = Some (records ms)"
    and small: "list_all small ms" and fd: "0 \<le> os_next_fd os"
  shows "\<exists>fd os'. store_open st os = Some (no_error,
      st\<lparr>fs_offsets := fs_offsets st @ starts ms, fs_fd := fd\<rparr>, os') \<and> steady os' \<and> os_next_fd os \<le> fd \<and> fd < os_next_fd os' \<and>
     os_open os' fd = Some (fs_filename st, 0, True) \<and> os_files os' (fs_filename st) = Some (records ms) \<and>
     (\<forall>x < os_next_fd os. os_open os' x = os_open os x)"
proof -
  let ?path = "fs_filename st" and ?fd = "os_next_fd os" and ?c = "records ms"
  let ?base = "os\<lparr>os_next_fd := ?fd + 1\<rparr>"
  obtain t e where open1: "file_open ?path False os = Some (Some ?fd,
      later t e (with_file ?fd ?path 0 False ?c ?base))"
    using file_open_existing [OF assms(1) there] by blast
  let ?os1 = "later t e (with_file ?fd ?path 0 False ?c ?base)"
  have st1: "steady ?os1" using assms(1) by (simp add: steady_def)
  obtain t' e' off where scan: "store_set_offsets 0 (st\<lparr>fs_fd := ?fd\<rparr>) ?os1 = Some (no_error,
      st\<lparr>fs_fd := ?fd, fs_offsets := fs_offsets st @ starts ms\<rparr>,
      later t' e' (with_file ?fd ?path off False ?c ?os1))"
    using set_offsets_scan [of ?os1 "st\<lparr>fs_fd := ?fd\<rparr>" ?path 0 ms False] st1 small by auto
  let ?os2 = "later t' e' (with_file ?fd ?path off False ?c ?os1)"
  have "steady ?os2" "os_open ?os2 ?fd \<noteq> None" using st1 by simp_all
  from file_close_open [OF this] obtain t2 e2 where close: "file_close ?fd ?os2 =
      Some (Some (), later t2 e2 (?os2\<lparr>os_open := (os_open ?os2)(?fd := None)\<rparr>))" by blast
  let ?os3 = "later t2 e2 (?os2\<lparr>os_open := (os_open ?os2)(?fd := None)\<rparr>)"
  have st3: "steady ?os3" "os_files ?os3 ?path = Some ?c"
    using assms(1) by (simp_all add: steady_def)
  from file_open_existing [OF this, of True] obtain t3 e3 where open2:
    "file_open ?path True ?os3 = Some (Some (os_next_fd ?os3),
      later t3 e3 (with_file (os_next_fd ?os3) ?path 0 True ?c (?os3\<lparr>os_next_fd := os_next_fd ?os3 + 1\<rparr>)))"
    by blast
  let ?os4 = "later t3 e3 (with_file (os_next_fd ?os3) ?path 0 True ?c (?os3\<lparr>os_next_fd := os_next_fd ?os3 + 1\<rparr>))"
  have closed: "store_close (st\<lparr>fs_fd := ?fd, fs_offsets := fs_offsets st @ starts ms\<rparr>) ?os2 =
      Some (no_error, st\<lparr>fs_fd := -1, fs_offsets := fs_offsets st @ starts ms\<rparr>, ?os3)"
    unfolding store_close_def using fd close by (simp add: Let_def)
  have "store_open st os = Some (no_error,
      st\<lparr>fs_offsets := fs_offsets st @ starts ms, fs_fd := os_next_fd ?os3\<rparr>, ?os4)"
    unfolding store_open_def using open1 scan closed open2 by (simp del: later_simps with_file_simps)
  moreover have "steady ?os4" "os_open ?os4 (os_next_fd ?os3) = Some (?path, 0, True)"
      "os_files ?os4 ?path = Some ?c" "?fd \<le> os_next_fd ?os3" "os_next_fd ?os3 < os_next_fd ?os4"
      "\<forall>x < ?fd. os_open ?os4 x = os_open os x"
    using assms(1) fd by (simp_all add: steady_def)
  ultimately show ?thesis by blast
qed

lemma open_missing:
  assumes "steady os" and there: "os_files os (fs_filename st) = None" and fd: "0 \<le> os_next_fd os"
  shows "\<exists>fd os'. store_open st os = Some (no_error, st\<lparr>fs_fd := fd\<rparr>, os') \<and> steady os' \<and>
     0 \<le> fd \<and> fd < os_next_fd os' \<and>
     os_open os' fd = Some (fs_filename st, 0, True) \<and> os_files os' (fs_filename st) = Some []"
proof -
  let ?path = "fs_filename st"
  obtain t e where open1: "file_open ?path False os = Some (None, later t e os)"
    using file_open_missing(1) [OF assms(1,2)] by blast
  let ?os1 = "later t e os"
  have "steady ?os1" "os_files ?os1 ?path = None" using assms by simp_all
  from file_open_missing(2) [OF this] obtain t' e' where open2:
    "file_open ?path True ?os1 = Some (Some (os_next_fd ?os1),
      later t' e' (with_file (os_next_fd ?os1) ?path 0 True [] (?os1\<lparr>os_next_fd := os_next_fd ?os1 + 1\<rparr>)))"
    by blast
  let ?os2 = "later t' e' (with_file (os_next_fd ?os1) ?path 0 True [] (?os1\<lparr>os_next_fd := os_next_fd ?os1 + 1\<rparr>))"
  have "store_open st os = Some (no_error, st\<lparr>fs_fd := os_next_fd ?os1\<rparr>, ?os2)"
    unfolding store_open_def using open1 open2 by (simp del: later_simps with_file_simps)
  moreover have "steady ?os2" "os_open ?os2 (os_next_fd ?os1) = Some (?path, 0, True)"
      "os_files ?os2 ?path = Some []" "0 \<le> os_next_fd ?os1" "os_next_fd ?os1 < os_next_fd ?os2"
    using assms(1) fd by (simp_all add: steady_def)
  ultimately show ?thesis by blast
qed

section \<open>The store as a list of messages\<close>

text \<open>Adding one after the other, up to the first error.\<close>

fun add_all :: "('m \<Rightarrow> 's \<Rightarrow> (error_code \<times> 's) option) \<Rightarrow> 'm list \<Rightarrow> 's \<Rightarrow> (error_code \<times> 's) option" where
  "add_all add [] s = Some (no_error, s)"
| "add_all add (m # ms) s = do {
     (ec, s) \<leftarrow> add m s;
     if ec_set ec then Some (ec, s) else add_all add ms s
   }"

text \<open>An abstract store: a state, related to a list, on which messages are added at the end,
  read by position from 1, and which survives being closed and opened again.\<close>

locale message_store =
  fixes holds :: "'s \<Rightarrow> 'm list \<Rightarrow> bool"
    and fits :: "'m \<Rightarrow> bool"
    and add :: "'m \<Rightarrow> 's \<Rightarrow> (error_code \<times> 's) option"
    and get :: "nat \<Rightarrow> nat \<Rightarrow> 's \<Rightarrow> (error_code \<times> 'm list \<times> 's) option"
    and reopen :: "'s \<Rightarrow> (error_code \<times> 's) option"
  assumes add: "holds s ms \<Longrightarrow> fits m \<Longrightarrow> \<exists>s'. add m s = Some (no_error, s') \<and> holds s' (ms @ [m])"
    and get: "holds s ms \<Longrightarrow> 1 \<le> i \<Longrightarrow> i \<le> j \<Longrightarrow> j \<le> length ms \<Longrightarrow>
      \<exists>s'. get i j s = Some (no_error, take (j + 1 - i) (drop (i - 1) ms), s') \<and> holds s' ms"
    and reopen: "holds s ms \<Longrightarrow> \<exists>s'. reopen s = Some (no_error, s') \<and> holds s' ms"
begin

lemma adds:
  "holds s ms \<Longrightarrow> list_all fits ms' \<Longrightarrow> \<exists>s'. add_all add ms' s = Some (no_error, s') \<and> holds s' (ms @ ms')"
proof (induction ms' arbitrary: s ms)
  case Nil
  then show ?case by simp
next
  case (Cons m ms')
  then obtain s' where "add m s = Some (no_error, s')" "holds s' (ms @ [m])"
    using add [of s ms m] by auto
  with Cons.IH [of s' "ms @ [m]"] Cons.prems(2) show ?case by auto
qed

lemma range_back:
  assumes "holds s []" and "list_all fits ms" and ij: "1 \<le> i" "i \<le> j" "j \<le> length ms"
  shows "\<exists>s1 s2 s3 s4. add_all add ms s = Some (no_error, s1) \<and>
    get i j s1 = Some (no_error, take (j + 1 - i) (drop (i - 1) ms), s2) \<and>
    reopen s2 = Some (no_error, s3) \<and>
    get i j s3 = Some (no_error, take (j + 1 - i) (drop (i - 1) ms), s4) \<and> holds s4 ms"
proof -
  obtain s1 where s1: "add_all add ms s = Some (no_error, s1)" "holds s1 ms"
    using adds [OF assms(1,2)] by auto
  obtain s2 where s2: "get i j s1 = Some (no_error, take (j + 1 - i) (drop (i - 1) ms), s2)" "holds s2 ms"
    using get [OF s1(2) ij] by blast
  obtain s3 where s3: "reopen s2 = Some (no_error, s3)" "holds s3 ms" using reopen [OF s2(2)] by blast
  from get [OF s3(2) ij] s1 s2 s3 show ?thesis by blast
qed

end

text \<open>The store with the system around it.\<close>

definition store_add_whole :: "bytes \<Rightarrow> file_store \<times> os \<Rightarrow> (error_code \<times> file_store \<times> os) option" where
  "store_add_whole m = (\<lambda>(st, os). store_add m (length m) st os)"

definition store_get_new ::
    "nat \<Rightarrow> nat \<Rightarrow> file_store \<times> os \<Rightarrow> (error_code \<times> bytes list \<times> file_store \<times> os) option" where
  "store_get_new i j = (\<lambda>(st, os). map_option (\<lambda>(ec, ms, os). (ec, ms, st, os)) (store_get i j [] st os))"

definition store_reopen :: "file_store \<times> os \<Rightarrow> (error_code \<times> file_store \<times> os) option" where
  \<comment> \<open>the store is closed, and a new one of the same name is opened\<close>
  "store_reopen = (\<lambda>(st, os). do {
     (ec, _, os) \<leftarrow> store_close st os;
     store_open (file_store_new (fs_filename st)) os
   })"

lemma reopen_stores:
  assumes "stores st os ms"
  shows "\<exists>st' os'. store_reopen (st, os) = Some (no_error, st', os') \<and> stores st' os' ms"
proof -
  let ?path = "fs_filename st"
  obtain off where st: "steady os" "os_open os (fs_fd st) = Some (?path, off, True)"
      "os_files os ?path = Some (records ms)" "list_all small ms" "0 \<le> fs_fd st" "fs_fd st < os_next_fd os"
    using assms by (auto simp: stores_def)
  obtain t e where close: "file_close (fs_fd st) os =
      Some (Some (), later t e (os\<lparr>os_open := (os_open os)(fs_fd st := None)\<rparr>))"
    using file_close_open [of os "fs_fd st"] st by auto
  let ?os = "later t e (os\<lparr>os_open := (os_open os)(fs_fd st := None)\<rparr>)"
  have "steady ?os" "os_files ?os (fs_filename (file_store_new ?path)) = Some (records ms)" "0 \<le> os_next_fd ?os"
    using st by (simp_all add: steady_def file_store_new_def)
  from open_existing [OF this(1,2) st(4) this(3)] obtain fd os' where
    "store_open (file_store_new ?path) ?os = Some (no_error,
       (file_store_new ?path)\<lparr>fs_offsets := fs_offsets (file_store_new ?path) @ starts ms, fs_fd := fd\<rparr>, os')"
    "steady os'" "os_next_fd os \<le> fd" "fd < os_next_fd os'" "os_open os' fd = Some (?path, 0, True)"
    "os_files os' ?path = Some (records ms)"
    by (auto simp: file_store_new_def)
  with st close show ?thesis
    by (auto simp: store_reopen_def store_close_def stores_def file_store_new_def)
qed

interpretation messages: message_store
  "\<lambda>(st, os). stores st os" small store_add_whole store_get_new store_reopen
proof
  fix s :: "file_store \<times> os" and ms m
  assume "(\<lambda>(st, os). stores st os) s ms" "small m"
  then show "\<exists>s'. store_add_whole m s = Some (no_error, s') \<and> (\<lambda>(st, os). stores st os) s' (ms @ [m])"
    using add_stores [of "fst s" "snd s" ms "length m" m]
    by (auto simp: store_add_whole_def small_def split_def)
next
  fix s :: "file_store \<times> os" and ms i j
  assume "(\<lambda>(st, os). stores st os) s ms" "1 \<le> i" "i \<le> j" "j \<le> length ms"
  then show "\<exists>s'. store_get_new i j s = Some (no_error, take (j + 1 - i) (drop (i - 1) ms), s') \<and>
      (\<lambda>(st, os). stores st os) s' ms"
    using get_stores [of "fst s" "snd s" ms i j "[]"] by (auto simp: store_get_new_def split_def)
next
  fix s :: "file_store \<times> os" and ms
  assume "(\<lambda>(st, os). stores st os) s ms"
  then show "\<exists>s'. store_reopen s = Some (no_error, s') \<and> (\<lambda>(st, os). stores st os) s' ms"
    using reopen_stores [of "fst s" "snd s" ms] by (auto simp: split_def)
qed

end
