(* ===== verification/File_Properties.thy ===== *)
theory File_Properties
  imports File_Messages
begin

text \<open>
  What the file store promises: messages come back as they were added, also from another
  process's store on the same file; its loops end; and where it does not keep its promises.
\<close>

section \<open>A system for the witnesses\<close>

text \<open>No file yet, and calls that are interrupted and partial now and then.\<close>

definition busy_os :: os where
  "busy_os = \<lparr>os_files = (\<lambda>_. None), os_open = (\<lambda>_. None), os_next_fd = 3, os_errno = 0,
     os_answers = (\<lambda>i. if i mod 3 = 1 then Sys_error EINTR else Sys_upto (i mod 3 + 1)), os_time = 0\<rparr>"

lemma busy_steady: "steady busy_os"
proof -
  have "\<exists>j \<ge> i. os_answers busy_os j \<noteq> Sys_error EINTR" for i
    by (intro exI [of _ "3 * i"]) (simp add: busy_os_def)
  then show ?thesis by (auto simp: steady_def busy_os_def split: if_splits)
qed

definition demo_messages :: "bytes list" where
  "demo_messages = [''hello'', [], ''world'']"

section \<open>Round trip\<close>

lemma opened_empty:
  assumes "steady os" and "os_files os name = None" and "0 \<le> os_next_fd os"
  shows "\<exists>s. store_open (file_store_new name) os = Some (no_error, s) \<and> (\<lambda>(st, os). stores st os) s []"
  using open_missing [of os "file_store_new name"] assms
  by (auto simp: stores_def file_store_new_def starts_def)

text \<open>C24 Messages added to a new store come back, in order and unchanged, any range of them: from
  the store they were added to, and from another one opened on the file after the first was
  closed.  It holds for any messages shorter than \<open>2 ^ 16\<close> bytes, empty ones included, however
  often the system interrupts calls and moves less than it was asked for.  Every call
  returns.\<close>

theorem store_roundtrip:
  assumes "steady os" and "os_files os name = None" and "0 \<le> os_next_fd os"
    and "list_all (\<lambda>m. length m < 2 ^ 16) ms" and ij: "1 \<le> i" "i \<le> j" "j \<le> length ms"
  shows "\<exists>s s1 s2 s3 s4. store_open (file_store_new name) os = Some (no_error, s) \<and>
    add_all store_add_whole ms s = Some (no_error, s1) \<and>
    store_get_new i j s1 = Some (no_error, take (j + 1 - i) (drop (i - 1) ms), s2) \<and>
    store_reopen s2 = Some (no_error, s3) \<and>
    store_get_new i j s3 = Some (no_error, take (j + 1 - i) (drop (i - 1) ms), s4)"
proof -
  obtain s where s: "store_open (file_store_new name) os = Some (no_error, s)"
      "(\<lambda>(st, os). stores st os) s []"
    using opened_empty [OF assms(1-3)] by blast
  have "list_all small ms" using assms(4) by (simp add: list_all_iff small_def)
  from messages.range_back [OF s(2) this ij] s(1) show ?thesis by blast
qed

theorem store_roundtrip_witness:
  "\<exists>s s1 s2 s3 s4. store_open (file_store_new ''log'') busy_os = Some (no_error, s) \<and>
    add_all store_add_whole demo_messages s = Some (no_error, s1) \<and>
    store_get_new 1 3 s1 = Some (no_error, demo_messages, s2) \<and>
    store_reopen s2 = Some (no_error, s3) \<and>
    store_get_new 1 3 s3 = Some (no_error, demo_messages, s4)"
proof -
  have "os_files busy_os ''log'' = None" "0 \<le> os_next_fd busy_os"
    "list_all (\<lambda>m. length m < 2 ^ 16) demo_messages" "(3 :: nat) \<le> length demo_messages"
    "take (3 + 1 - 1) (drop (1 - 1) demo_messages) = demo_messages"
    by (simp_all add: busy_os_def demo_messages_def)
  with store_roundtrip [OF busy_steady, of "''log''" demo_messages 1 3] show ?thesis by simp
qed

text \<open>C25 The store refines the list of its messages: related to a list, \<^verbatim>\<open>add\<close> is related
  to appending the bytes it is given, and the next sequence number is the number of messages
  plus one.\<close>

theorem store_add_refines:
  assumes "stores st os ms" and "n \<le> length data" and "n < 2 ^ 16"
  shows "\<exists>st' os'. store_add data n st os = Some (no_error, st', os') \<and>
    stores st' os' (ms @ [take n data]) \<and> store_next_sequence_number st' = length ms + 2"
  using add_stores [OF assms] by (auto simp: stores_def store_next_sequence_number_def)

theorem store_add_refines_witness:
  "\<exists>st os st' os'. store_add ''hello!'' 5 st os = Some (no_error, st', os') \<and>
    stores st' os' [''hello''] \<and> store_next_sequence_number st' = 2"
proof -
  obtain st os where "stores st os []"
    using opened_empty [OF busy_steady, of "''log''"] by (auto simp: busy_os_def)
  from store_add_refines [OF this, of 5 "''hello!''"] show ?thesis
    by simp (metis numeral_2_eq_2)
qed

section \<open>Loops\<close>

text \<open>C26 The loop of \<^verbatim>\<open>read\<close> is equivalent to one read of the whole: it returns the
  bytes of the file from the descriptor's offset on, as many as were asked for or as there are,
  and end of file exactly when there are fewer; the offset moves past them.\<close>

theorem read_loop_whole:
  assumes "steady os" and "os_open os fd = Some (path, off, rw)" and "os_files os path = Some content"
    and "n \<noteq> 0"
  shows "\<exists>os'. file_read fd n os = Some ((if off + n \<le> length content then RS_success
       else RS_end_of_file, take n (drop off content)), os') \<and>
     os_open os' fd = Some (path, off + min n (length content - off), rw) \<and> os_files os' path = Some content"
  using file_read_whole [OF assms(1-3), of n] assms(4) by auto

theorem read_loop_whole_witness:
  "\<exists>os'. file_read 3 4 (busy_os\<lparr>os_open := [3 \<mapsto> (''log'', 2, False)], os_files := [''log'' \<mapsto> ''hello'']\<rparr>) =
     Some ((RS_end_of_file, ''llo''), os')"
proof -
  have "steady (busy_os\<lparr>os_open := [3 \<mapsto> (''log'', 2, False)], os_files := [''log'' \<mapsto> ''hello'']\<rparr>)"
    using busy_steady by (simp add: steady_def)
  from read_loop_whole [OF this, of 3 "''log''" 2 False "''hello''" 4] show ?thesis by auto
qed

text \<open>C27 The loop of \<^verbatim>\<open>read_partial_handling\<close> ends, with defined behaviour, for every callable
  that always returns what \<^verbatim>\<open>read\<close> may return: \<open>-1\<close>, or a count up to what it was asked
  for, which it has then put into the span.  The result is a success exactly when the whole
  buffer was read, and never more than that is read.\<close>

theorem read_loop_ends:
  assumes "\<forall>n s. \<exists>r bs s'. read n s = Some ((r, bs), s') \<and> -1 \<le> r \<and> r \<le> int n \<and> nat r \<le> length bs"
  shows "\<exists>status bs s'. read_partial_handling read n s = Some (Some ((status, bs), s')) \<and>
    length bs \<le> n \<and> (status = RS_success \<longleftrightarrow> length bs = n)"
proof (induction n arbitrary: s rule: less_induct)
  case (less n s)
  obtain r bs s' where r: "read n s = Some ((r, bs), s')" "-1 \<le> r" "r \<le> int n" "nat r \<le> length bs"
    using assms by blast
  show ?case
  proof (cases "n = 0 \<or> r \<le> 0")
    case True
    with r show ?thesis by (subst read_partial_handling.simps) auto
  next
    case False
    then have "n - nat r < n" by simp
    from less.IH [OF this] obtain status bs' s'' where
      "read_partial_handling read (n - nat r) s' = Some (Some ((status, bs'), s''))"
      "length bs' \<le> n - nat r" "status = RS_success \<longleftrightarrow> length bs' = n - nat r" by blast
    with r False show ?thesis
      by (subst read_partial_handling.simps) (auto simp: min_absorb2)
  qed
qed

theorem read_loop_ends_witness:
  "\<exists>status bs s'. read_partial_handling
     (\<lambda>n s. Some ((int (min n 2), take n ''ab''), s :: unit)) 5 () = Some (Some ((status, bs), s')) \<and>
     length bs \<le> 5 \<and> (status = RS_success \<longleftrightarrow> length bs = 5)"
  by (rule read_loop_ends) (simp add: min_def)

text \<open>C28 The loop of \<^verbatim>\<open>write_partial_handling\<close> ends, with defined behaviour, for every callable
  whose calls all fail or move something, and no more than they were given.  The result is
  a success exactly when the whole buffer was written.\<close>

theorem write_loop_ends:
  assumes "\<forall>buf s. buf \<noteq> [] \<longrightarrow> (\<exists>r s'. write' buf s = Some (r, s') \<and> r \<noteq> 0 \<and> -1 \<le> r \<and> r \<le> int (length buf))"
  shows "\<exists>status m s'. write_partial_handling write' buf s = Some (Some ((status, m), s')) \<and>
    m \<le> length buf \<and> (status = WS_success \<longleftrightarrow> m = length buf)"
proof (induction "length buf" arbitrary: buf s rule: less_induct)
  case (less buf s)
  show ?case
  proof (cases "buf = []")
    case True
    then show ?thesis by (subst write_partial_handling.simps) simp
  next
    case more: False
    then obtain r s' where r: "write' buf s = Some (r, s')" "r \<noteq> 0" "-1 \<le> r" "r \<le> int (length buf)"
      using assms by blast
    show ?thesis
    proof (cases "r = -1")
      case True
      with r more show ?thesis by (subst write_partial_handling.simps) simp
    next
      case False
      with r have n: "0 < r" by simp
      with more have "length (drop (nat r) buf) < length buf" by simp
      from less.hyps [OF this] obtain status m s'' where
        "write_partial_handling write' (drop (nat r) buf) s' = Some (Some ((status, m), s''))"
        "m \<le> length (drop (nat r) buf)" "status = WS_success \<longleftrightarrow> m = length (drop (nat r) buf)"
        by blast
      with r more False n show ?thesis
        by (subst write_partial_handling.simps) auto
    qed
  qed
qed

theorem write_loop_ends_witness:
  "\<exists>status m s'. write_partial_handling (\<lambda>buf s. Some (1, s :: unit)) ''ab'' () =
     Some (Some ((status, m), s')) \<and> m \<le> length ''ab'' \<and> (status = WS_success \<longleftrightarrow> m = length ''ab'')"
proof (rule write_loop_ends, intro allI impI)
  fix buf :: bytes and s :: unit
  assume "buf \<noteq> []"
  then have "1 \<le> int (length buf)" by (cases buf) simp_all
  then show "\<exists>r s'. Some (1 :: int, s) = Some (r, s') \<and> r \<noteq> 0 \<and> -1 \<le> r \<and> r \<le> int (length buf)"
    by simp
qed

text \<open>C29 It does not return when the calls keep moving nothing: unlike the loop that reads, it
  does not stop at a result of 0.\<close>

theorem write_loop_stuck:
  assumes "buf \<noteq> []"
  shows "write_partial_handling (\<lambda>_ s. Some (0, s)) buf s = None"
proof (rule ccontr)
  assume "write_partial_handling (\<lambda>_ s. Some (0, s)) buf s \<noteq> None"
  then obtain y where y: "write_partial_handling (\<lambda>_ s. Some (0, s)) buf s = Some y" by blast
  have "(\<lambda>(_ :: bytes) s :: 'a. Some (0 :: int, s)) = (\<lambda>_ s. Some (0, s)) \<longrightarrow> buf = []"
    by (rule write_partial_handling.raw_induct
        [where P = "\<lambda>w b s y. w = (\<lambda>_ s. Some (0, s)) \<longrightarrow> b = []", OF _ y])
      (auto split: if_splits option.splits bind_splits)
  then have "buf = []" by simp
  with assms show False by simp
qed

theorem write_loop_stuck_witness:
  "write_partial_handling (\<lambda>_ s. Some (0, s)) ''ab'' () = None"
  by (rule write_loop_stuck) simp

section \<open>Errors\<close>

text \<open>\<^verbatim>\<open>get\<close> refuses a range that is empty or reaches outside the stored messages,
  without a system call and without touching the caller's vector.\<close>

theorem store_get_range:
  assumes "i < 1 \<or> j < i \<or> length (fs_offsets st) < j"
  shows "store_get i j messages st os = Some (error_code_of EINVAL System, messages, os)"
  using assms by (auto simp: store_get_def)

theorem store_get_range_witness:
  "store_get 1 1 [] (file_store_new ''log'') busy_os = Some (error_code_of EINVAL System, [], busy_os)"
  by (rule store_get_range) (simp add: file_store_new_def)

text \<open>C30 What \<^verbatim>\<open>get\<close> answers, on a store that holds any messages: for a range within them, no
  error, and exactly these messages, appended to the caller's vector, with the store as it
  was; for every other range, 0 and empty ranges included, \<^verbatim>\<open>EINVAL\<close>, without a system call and
  without touching the vector.\<close>

theorem store_get_answer:
  assumes "stores st os ms"
  shows "if 1 \<le> i \<and> i \<le> j \<and> j \<le> length ms
    then \<exists>os'. store_get i j messages st os =
        Some (no_error, messages @ take (j + 1 - i) (drop (i - 1) ms), os') \<and> stores st os' ms
    else store_get i j messages st os = Some (error_code_of EINVAL System, messages, os)"
proof (cases "1 \<le> i \<and> i \<le> j \<and> j \<le> length ms")
  case True
  with get_stores [OF assms, of i j messages] show ?thesis by simp
next
  case False
  have "length (fs_offsets st) = length ms" using assms by (auto simp: stores_def starts_def)
  with False store_get_range [of i j st messages os] show ?thesis by auto
qed

theorem store_get_answer_witness:
  "\<exists>st os os'. store_get 1 2 [''x''] st os = Some (no_error, [''x'', ''hello'', []], os') \<and>
     store_get 2 4 [''x''] st os = Some (error_code_of EINVAL System, [''x''], os)"
proof -
  obtain s where "(\<lambda>(st, os). stores st os) s []"
    using opened_empty [OF busy_steady, of "''log''"] by (auto simp: busy_os_def)
  from messages.adds [OF this, of demo_messages] obtain st os where s: "stores st os demo_messages"
    by (auto simp: small_def demo_messages_def)
  from store_get_answer [OF s, of 1 2 "[''x'']"] store_get_answer [OF s, of 2 4 "[''x'']"] show ?thesis
    by (auto simp: demo_messages_def)
qed

text \<open>C31 \<^verbatim>\<open>open\<close> on a store that was open before does not forget its offsets: it appends
  the offsets of all messages in the file to them, so the store then counts every message twice,
  and the old descriptor is not closed.\<close>

theorem store_open_twice:
  assumes "stores st os ms"
  shows "\<exists>st' os'. store_open st os = Some (no_error, st', os') \<and>
    store_next_sequence_number st' = 2 * length ms + 1 \<and> fs_fd st' \<noteq> fs_fd st \<and>
    os_open os' (fs_fd st) \<noteq> None"
proof -
  obtain off where st: "steady os" "os_files os (fs_filename st) = Some (records ms)" "list_all small ms"
      "0 \<le> fs_fd st" "fs_fd st < os_next_fd os" "fs_offsets st = starts ms"
      "os_open os (fs_fd st) = Some (fs_filename st, off, True)"
    using assms by (auto simp: stores_def)
  from st have "0 \<le> os_next_fd os" by simp
  from open_existing [OF st(1-3) this] obtain fd os' where
    "store_open st os = Some (no_error, st\<lparr>fs_offsets := fs_offsets st @ starts ms, fs_fd := fd\<rparr>, os')"
    "os_next_fd os \<le> fd" "\<forall>x < os_next_fd os. os_open os' x = os_open os x"
    by blast
  with st show ?thesis by (auto simp: store_next_sequence_number_def)
qed

theorem store_open_twice_witness:
  "\<exists>st os st' os'. stores st os [''hello''] \<and> store_open st os = Some (no_error, st', os') \<and>
     store_next_sequence_number st' = 3"
proof -
  obtain s where "(\<lambda>(st, os). stores st os) s []"
    using opened_empty [OF busy_steady, of "''log''"] by (auto simp: busy_os_def)
  from messages.adds [OF this, of "[''hello'']"] obtain st os where s: "stores st os [''hello'']"
    by (auto simp: small_def)
  from store_open_twice [OF this] show ?thesis using s by (simp add: numeral_3_eq_3) blast
qed

end
