(* ===== verification/Options.thy ===== *)
theory Options
  imports Packing
begin

text \<open>
  \<^verbatim>\<open>example/utility/option_error.cpp\<close> and \<^verbatim>\<open>option_convert.cpp\<close>: the errors of
  command line options and the conversion of their arguments to numbers and endpoints.
  An exception is the value on the left of a sum; an \<^verbatim>\<open>int\<close> and a \<^verbatim>\<open>long\<close> are integers
  within the bounds of 32 and 64 bits.
\<close>

section \<open>Errors\<close>

datatype option_error =
    Illegal_option (what: string)
  | Missing_argument (what: string)
  | Invalid_argument (what: string)

definition quoted_option :: "int \<Rightarrow> string" where
  \<comment> \<open>\<open>static_cast<char>(option)\<close> between quotes\<close>
  "quoted_option option = [CHR 0x27, char_of option, CHR 0x27]"

definition illegal_option :: "int \<Rightarrow> option_error" where
  "illegal_option option = Illegal_option (''illegal option '' @ quoted_option option)"

definition missing_argument :: "int \<Rightarrow> option_error" where
  "missing_argument option =
     Missing_argument (''option '' @ quoted_option option @ '' requires an argument'')"

definition invalid_argument :: "int \<Rightarrow> option_error" where
  "invalid_argument option =
     Invalid_argument (''option '' @ quoted_option option @ '' has an invalid argument'')"

definition invalid_argument_because :: "int \<Rightarrow> string \<Rightarrow> option_error" where
  "invalid_argument_because option error =
     Invalid_argument (''option '' @ quoted_option option @
       '' has an invalid argument ('' @ error @ '')'')"

section \<open>Numbers\<close>

text \<open>\<^verbatim>\<open>std::from_chars\<close> for \<^verbatim>\<open>long\<close> in base 10: an optional minus sign and the longest run of
  digits, no space and no plus sign before them.  The result is the error, what is left of
  the text and the number, which keeps its initial 0 when there is an error.\<close>

datatype from_chars_errc = FC_none | FC_invalid_argument | FC_result_out_of_range

definition in_long :: "int \<Rightarrow> bool" where
  "in_long i \<longleftrightarrow> - (2 ^ 63) \<le> i \<and> i < 2 ^ 63"

definition in_int :: "int \<Rightarrow> bool" where
  "in_int i \<longleftrightarrow> - (2 ^ 31) \<le> i \<and> i < 2 ^ 31"

fun minus_sign :: "bytes \<Rightarrow> bool \<times> bytes" where
  "minus_sign (c # cs) = (if c = CHR ''-'' then (True, cs) else (False, c # cs))"
| "minus_sign [] = (False, [])"

definition from_chars :: "bytes \<Rightarrow> from_chars_errc \<times> bytes \<times> int" where
  "from_chars arg =
    (let (negative, body) = minus_sign arg;
         digits = takeWhile is_digit body;
         i = (if negative then - int (decimal digits) else int (decimal digits))
     in if digits = [] then (FC_invalid_argument, arg, 0)
        else if in_long i then (FC_none, dropWhile is_digit body, i)
        else (FC_result_out_of_range, dropWhile is_digit body, 0))"

definition to_long :: "bytes \<Rightarrow> int \<Rightarrow> option_error + int" where
  "to_long arg opt =
    (case from_chars arg of (ec, rest, i) \<Rightarrow>
       if ec \<noteq> FC_none \<or> rest \<noteq> [] then
         (if ec = FC_invalid_argument then Inl (invalid_argument_because opt ''no conversion'')
          else if ec = FC_result_out_of_range
          then Inl (invalid_argument_because opt ''out of range'')
          else Inl (invalid_argument_because opt ''trailing characters''))
       else Inr i)"

definition to_int :: "bytes \<Rightarrow> int \<Rightarrow> option_error + int" where
  "to_int arg opt =
    (case to_long arg opt of
       Inl e \<Rightarrow> Inl e
     | Inr i \<Rightarrow> if i < - (2 ^ 31) \<or> i > 2 ^ 31 - 1
               then Inl (invalid_argument_because opt ''out of range'') else Inr i)"

section \<open>Endpoints\<close>

text \<open>An address that was never set is a null \<^verbatim>\<open>string_view\<close>, which is not the same as an
  empty one: \<open>None\<close>.\<close>

record option_endpoint =
  oe_address :: "bytes option"
  oe_port :: int

definition option_endpoint_of_port :: "int \<Rightarrow> option_endpoint" where
  "option_endpoint_of_port port = \<lparr>oe_address = None, oe_port = port\<rparr>"

definition option_endpoint_of :: "bytes \<Rightarrow> int \<Rightarrow> option_endpoint" where
  "option_endpoint_of address port = \<lparr>oe_address = Some address, oe_port = port\<rparr>"

definition to_endpoint :: "bytes \<Rightarrow> int \<Rightarrow> option_error + option_endpoint" where
  "to_endpoint arg opt =
    (if CHR '':'' \<notin> set arg then
       (case to_int arg opt of
          Inl e \<Rightarrow> Inl e
        | Inr port \<Rightarrow> if port < 0 then Inl (invalid_argument_because opt ''negative'')
                     else Inr (option_endpoint_of_port port))
     else
       (let address = takeWhile (\<lambda>c. c \<noteq> CHR '':'') arg;
            arg = drop (length address + 1) arg
        in case to_int arg opt of
             Inl e \<Rightarrow> Inl e
           | Inr port \<Rightarrow> if port < 0 then Inl (invalid_argument_because opt ''negative'')
                        else Inr (option_endpoint_of address port)))"

section \<open>The text of a number\<close>

inductive number_text :: "bytes \<Rightarrow> int \<Rightarrow> bool" where
  unsigned: "ds \<noteq> [] \<Longrightarrow> list_all is_digit ds \<Longrightarrow> number_text ds (int (decimal ds))"
| negative: "ds \<noteq> [] \<Longrightarrow> list_all is_digit ds \<Longrightarrow>
    number_text (CHR ''-'' # ds) (- int (decimal ds))"

inductive_simps number_text_simps: "number_text s i"

lemma minus_not_digit [simp]: "\<not> is_digit (CHR ''-'')"
  by (simp add: is_digit_def)

lemma minus_sign_cases:
  obtains (signed) cs where "s = CHR ''-'' # cs" "minus_sign s = (True, cs)"
    | (bare) "minus_sign s = (False, s)" "hd s \<noteq> CHR ''-'' \<or> s = []"
  by (cases s rule: minus_sign.cases) (auto split: if_splits)

lemma digit_run:
  "list_all P xs \<Longrightarrow> takeWhile P xs = xs" "list_all P xs \<Longrightarrow> dropWhile P xs = []"
  "\<not> list_all P xs \<Longrightarrow> dropWhile P xs \<noteq> []"
  by (induction xs) auto

lemma from_chars_number:
  "from_chars s = (FC_none, [], i) \<longleftrightarrow> number_text s i \<and> in_long i"
proof (cases s rule: minus_sign_cases)
  case (signed cs)
  have "number_text s i \<longleftrightarrow> cs \<noteq> [] \<and> list_all is_digit cs \<and> i = - int (decimal cs)"
    by (auto simp: number_text_simps signed)
  then show ?thesis
    by (cases "list_all is_digit cs") (auto simp: from_chars_def signed digit_run Let_def simp del: dropWhile_eq_Nil_conv)
next
  case bare
  then have "number_text s i \<longleftrightarrow> s \<noteq> [] \<and> list_all is_digit s \<and> i = int (decimal s)"
    by (auto simp: number_text_simps)
  with bare show ?thesis
    by (cases "list_all is_digit s") (auto simp: from_chars_def digit_run Let_def simp del: dropWhile_eq_Nil_conv)
qed

lemma to_long_Inr: "to_long s opt = Inr i \<longleftrightarrow> from_chars s = (FC_none, [], i)"
  by (cases "from_chars s") (auto simp: to_long_def)

lemma to_int_Inr: "to_int s opt = Inr i \<longleftrightarrow> number_text s i \<and> in_int i"
proof -
  have "to_int s opt = Inr i \<longleftrightarrow> to_long s opt = Inr i \<and> in_int i"
    by (auto simp: to_int_def in_int_def split: sum.splits)
  then show ?thesis
    by (auto simp: to_long_Inr from_chars_number in_int_def in_long_def)
qed

lemma split_at_colon:
  assumes "CHR '':'' \<notin> set a"
  shows "takeWhile (\<lambda>c. c \<noteq> CHR '':'') (a @ CHR '':'' # p) = a"
    and "drop (length a + 1) (a @ CHR '':'' # p) = p"
  using assms by (induction a) auto

lemma to_endpoint_port:
  assumes "CHR '':'' \<notin> set arg"
  shows "to_endpoint arg opt = Inr e \<longleftrightarrow>
    oe_address e = None \<and> number_text arg (oe_port e) \<and> 0 \<le> oe_port e \<and> in_int (oe_port e)"
proof -
  have "to_endpoint arg opt = Inr e \<longleftrightarrow>
      (\<exists>i. to_int arg opt = Inr i \<and> 0 \<le> i \<and> e = option_endpoint_of_port i)"
    using assms by (auto simp: to_endpoint_def split: sum.splits)
  then show ?thesis
    by (cases e) (auto simp: to_int_Inr option_endpoint_of_port_def)
qed

lemma to_endpoint_address:
  assumes "CHR '':'' \<notin> set a"
  shows "to_endpoint (a @ CHR '':'' # p) opt = Inr e \<longleftrightarrow>
    oe_address e = Some a \<and> number_text p (oe_port e) \<and> 0 \<le> oe_port e \<and> in_int (oe_port e)"
proof -
  have "to_endpoint (a @ CHR '':'' # p) opt = Inr e \<longleftrightarrow>
      (\<exists>i. to_int p opt = Inr i \<and> 0 \<le> i \<and> e = option_endpoint_of a i)"
    using split_at_colon [OF assms, of p] by (auto simp: to_endpoint_def split: sum.splits)
  then show ?thesis
    by (cases e) (auto simp: to_int_Inr option_endpoint_of_def)
qed

section \<open>What is accepted\<close>

text \<open>\<^verbatim>\<open>to_long\<close> and \<^verbatim>\<open>to_int\<close> accept exactly the decimal texts (an optional minus sign
  and at least one digit, nothing before or after) whose value is in the range of the type,
  and return that value; every other text is an \<^verbatim>\<open>Invalid_argument\<close>.\<close>

lemma option_numbers:
  "(to_long arg opt = Inr i \<longleftrightarrow> number_text arg i \<and> in_long i) \<and>
   (to_int arg opt = Inr j \<longleftrightarrow> number_text arg j \<and> in_int j) \<and>
   (case to_long arg opt of Inl e \<Rightarrow> is_Invalid_argument e | Inr _ \<Rightarrow> True)"
proof (intro conjI)
  show "to_long arg opt = Inr i \<longleftrightarrow> number_text arg i \<and> in_long i"
    unfolding to_long_Inr by (rule from_chars_number)
  show "to_int arg opt = Inr j \<longleftrightarrow> number_text arg j \<and> in_int j" by (rule to_int_Inr)
  show "case to_long arg opt of Inl e \<Rightarrow> is_Invalid_argument e | Inr _ \<Rightarrow> True"
    by (cases "from_chars arg") (simp add: to_long_def invalid_argument_because_def)
qed

text \<open>\<^verbatim>\<open>to_endpoint\<close> accepts exactly a port, or an address without a colon, a colon and a
  port, where a port is the text of a number from 0 to \<open>2 ^ 31 - 1\<close> (not \<open>65535\<close>); the
  address and the number are what it returns, and no address is not an empty address.\<close>

lemma option_endpoints:
  "to_endpoint arg opt = Inr e \<longleftrightarrow>
     (\<exists>p. number_text p (oe_port e) \<and> 0 \<le> oe_port e \<and> oe_port e < 2 ^ 31 \<and>
        (case oe_address e of
           None \<Rightarrow> arg = p \<and> CHR '':'' \<notin> set arg
         | Some a \<Rightarrow> arg = a @ CHR '':'' # p \<and> CHR '':'' \<notin> set a))"
proof (cases "CHR '':'' \<in> set arg")
  case False
  then show ?thesis
    by (auto simp: to_endpoint_port in_int_def split: option.splits)
next
  case True
  then obtain a p where arg: "arg = a @ CHR '':'' # p" and a: "CHR '':'' \<notin> set a"
    by (meson split_list_first)
  have same: "a' = a \<and> p' = p" if "arg = a' @ CHR '':'' # p'" "CHR '':'' \<notin> set a'" for a' p'
    using split_at_colon [OF a, of p] split_at_colon [OF that(2), of p'] that(1) arg by simp
  show ?thesis
    unfolding arg to_endpoint_address [OF a]
    using same arg a by (auto simp: in_int_def split: option.splits)
qed

text \<open>C38 The conversions of option arguments accept exactly what they should: \<^verbatim>\<open>to_long\<close> and
  \<^verbatim>\<open>to_int\<close> the decimal texts (an optional minus sign and at least one digit, nothing before
  or after) of a number in their range, and they return that number; \<^verbatim>\<open>to_endpoint\<close> such a
  text of a number from 0 to \<open>2 ^ 31 - 1\<close> (not \<open>65535\<close>), alone or after an address without a
  colon and a colon; every other argument is an \<^verbatim>\<open>Invalid_argument\<close>.\<close>

theorem option_conversions:
  "(to_long arg opt = Inr i \<longleftrightarrow> number_text arg i \<and> in_long i) \<and>
   (to_int arg opt = Inr j \<longleftrightarrow> number_text arg j \<and> in_int j) \<and>
   (to_endpoint arg opt = Inr e \<longleftrightarrow>
     (\<exists>p. number_text p (oe_port e) \<and> 0 \<le> oe_port e \<and> oe_port e < 2 ^ 31 \<and>
        (case oe_address e of
           None \<Rightarrow> arg = p \<and> CHR '':'' \<notin> set arg
         | Some a \<Rightarrow> arg = a @ CHR '':'' # p \<and> CHR '':'' \<notin> set a))) \<and>
   (case to_long arg opt of Inl e \<Rightarrow> is_Invalid_argument e | Inr _ \<Rightarrow> True) \<and>
   (case to_int arg opt of Inl e \<Rightarrow> is_Invalid_argument e | Inr _ \<Rightarrow> True) \<and>
   (case to_endpoint arg opt of Inl e \<Rightarrow> is_Invalid_argument e | Inr _ \<Rightarrow> True)"
proof (intro conjI)
  have int: "case to_int arg opt of Inl e \<Rightarrow> is_Invalid_argument e | Inr _ \<Rightarrow> True" for arg
    using option_numbers [of arg opt] by (auto simp: to_int_def invalid_argument_because_def split: sum.splits)
  then show "case to_int arg opt of Inl e \<Rightarrow> is_Invalid_argument e | Inr _ \<Rightarrow> True" .
  show "case to_endpoint arg opt of Inl e \<Rightarrow> is_Invalid_argument e | Inr _ \<Rightarrow> True"
    using int [of arg] int [of "drop (length (takeWhile (\<lambda>c. c \<noteq> CHR '':'') arg) + 1) arg"]
    by (auto simp: to_endpoint_def invalid_argument_because_def Let_def split: sum.splits)
qed (use option_numbers [of arg opt] option_endpoints [of arg opt] in blast)+

end
