(* ===== verification/Printing.thy ===== *)
theory Printing
  imports Options Client_Types
begin

text \<open>
  What the example programs print of numbers, endpoints and error codes.
\<close>

fun print_nat :: "nat \<Rightarrow> string" where
  "print_nat n = (if n < 10 then [char_of (48 + n)]
                  else print_nat (n div 10) @ [char_of (48 + n mod 10)])"

declare print_nat.simps [simp del]

definition print_int :: "int \<Rightarrow> string" where
  "print_int i = (if i < 0 then ''-'' @ print_nat (nat (- i)) else print_nat (nat i))"

text \<open>Names and messages of error codes that are not the library's own, and what
  \<^verbatim>\<open>std::system_error::what\<close> makes of its two parts.\<close>

record error_texts =
  et_name :: "category \<Rightarrow> string"
  et_message :: "error_code \<Rightarrow> string"
  et_what :: "string \<Rightarrow> string \<Rightarrow> string"

definition code_name :: "error_texts \<Rightarrow> error_code \<Rightarrow> string" where
  "code_name t ec = (if ec_category ec = Soup then category_name else et_name t (ec_category ec))"

definition code_message :: "error_texts \<Rightarrow> error_code \<Rightarrow> string" where
  "code_message t ec =
     (if ec_category ec = Soup then error_message (ec_value ec) else et_message t ec)"

definition print_code :: "error_texts \<Rightarrow> error_code \<Rightarrow> string" where
  "print_code t ec = code_name t ec @ '':'' @ print_int (ec_value ec) @ '' '' @ code_message t ec"

definition print_endpoint :: "endpoint \<Rightarrow> string" where
  "print_endpoint ep = fst ep @ '':'' @ print_nat (snd ep)"

end
