(* ===== verification/Io_Runner.thy ===== *)
theory Io_Runner
  imports Printing
begin

text \<open>
  \<^verbatim>\<open>Io_context_runner\<close> (\<^verbatim>\<open>example/utility/io_context_runner.h\<close>/\<^verbatim>\<open>.cpp\<close>), which runs an
  \<^verbatim>\<open>io_context\<close> in a thread until it is stopped and waits for one signal; and what reaches
  the main thread of a program that reads the console meanwhile.  The state of the program
  that the signal handler changes is of type \<^typ>\<open>'s\<close>.  The lines that a thread prints are strings in the
  order in which that thread prints them.
\<close>

section \<open>The runner\<close>

text \<open>The signal set is the signals in it and the waits outstanding, those that were cancelled
  counted apart; a thread is whether it can be joined; and \<open>io_terminated\<close> whether \<^verbatim>\<open>std::terminate\<close> has
  been called.\<close>

record 's io_runner =
  io_work_guard :: bool
  io_signals :: "int list"
  io_waits :: nat
  io_cancelled :: nat
  io_signal_handler :: "('s \<Rightarrow> 's) option"
  io_thread :: bool
  io_terminated :: bool

definition runner_new :: "'s io_runner" where
  "runner_new = \<lparr>io_work_guard = False, io_signals = [], io_waits = 0, io_cancelled = 0,
     io_signal_handler = None, io_thread = False, io_terminated = False\<rparr>"

definition runner_add_signal ::
    "error_texts \<Rightarrow> error_code \<Rightarrow> int \<Rightarrow> 's io_runner \<Rightarrow> string list \<times> 's io_runner" where
  \<comment> \<open>the first argument that is an error code is what \<open>signals_.add\<close> sets\<close>
  "runner_add_signal t ec signal_number r =
    (if ec_set ec
     then ([''add signal to signal set failure: '' @ code_message t ec @ '' ('' @ print_int (ec_value ec) @ '')''], r)
     else ([], r\<lparr>io_signals := io_signals r @ [signal_number]\<rparr>))"

definition sigint :: int where "sigint = 2"

definition sigterm :: int where "sigterm = 15"

definition runner_set_signal_handler ::
    "error_texts \<Rightarrow> error_code \<times> error_code \<Rightarrow> ('s \<Rightarrow> 's) \<Rightarrow> 's io_runner \<Rightarrow> string list \<times> 's io_runner" where
  "runner_set_signal_handler t adds signal_handler r =
    (let r = r\<lparr>io_signal_handler := Some signal_handler\<rparr>;
         (out1, r) = runner_add_signal t (fst adds) sigint r;
         (out2, r) = runner_add_signal t (snd adds) sigterm r
     in (out1 @ out2, r\<lparr>io_waits := io_waits r + 1\<rparr>))"

definition signal_to_string :: "int \<Rightarrow> string" where
  "signal_to_string signal_number =
    (if signal_number = sigint then ''SIGINT''
     else if signal_number = sigterm then ''SIGTERM'' else ''?'')"

definition runner_signal_done ::
    "error_texts \<Rightarrow> error_code \<Rightarrow> int \<Rightarrow> 's io_runner \<Rightarrow> 's \<Rightarrow> string list \<times> 's" where
  \<comment> \<open>the completion handler of \<open>async_wait\<close>\<close>
  "runner_signal_done t ec signal_number r s =
    (if ec_set ec
     then (if ec \<noteq> operation_aborted
           then [''asynchronous wait against signal set failure: '' @ code_message t ec @ '' ('' @
                   print_int (ec_value ec) @ '')'']
           else [], s)
     else ([''signal received: '' @ signal_to_string signal_number @ '' ('' @ print_int signal_number @
              ''), shutting down''],
           case io_signal_handler r of Some f \<Rightarrow> f s | None \<Rightarrow> s))"

text \<open>\<open>start\<close> assigns to the thread, which ends the program when the thread it held has not been
  joined.\<close>

definition runner_start :: "'s io_runner \<Rightarrow> 's io_runner" where
  "runner_start r = r\<lparr>io_work_guard := True, io_terminated := io_terminated r \<or> io_thread r,
     io_thread := True\<rparr>"

definition runner_thread_done :: "nat \<Rightarrow> string list" where
  \<comment> \<open>what the thread prints when \<open>io_context_.run()\<close> has returned\<close>
  "runner_thread_done count = [''number of IO context handlers executed = '' @ print_nat count]"

definition runner_cancel :: "'s io_runner \<Rightarrow> 's io_runner" where
  \<comment> \<open>\<open>signals_.cancel()\<close>\<close>
  "runner_cancel r = r\<lparr>io_waits := 0, io_cancelled := io_cancelled r + io_waits r\<rparr>"

definition runner_stop :: "nat \<Rightarrow> 's io_runner \<Rightarrow> string list \<times> 's io_runner" where
  \<comment> \<open>a thread that is joined has run all handlers, those of the cancelled waits among them;
      they print nothing\<close>
  "runner_stop count r =
    (let r = (runner_cancel r)\<lparr>io_work_guard := False\<rparr>
     in if io_thread r
        then (runner_thread_done count, r\<lparr>io_cancelled := 0, io_thread := False\<rparr>)
        else ([], r))"

definition runner_destroy :: "nat \<Rightarrow> 's io_runner \<Rightarrow> string list \<times> 's io_runner" where
  "runner_destroy count r = (if io_thread r then runner_stop count r else ([], r))"

section \<open>What keeps the thread running\<close>

text \<open>\<^verbatim>\<open>io_context::run\<close> returns when there is no work: no guard, no wait or handler of the signal
  set, and nothing of the library (\<open>others\<close>) that is outstanding.\<close>

definition run_returns :: "'s io_runner \<Rightarrow> nat \<Rightarrow> bool" where
  "run_returns r others \<longleftrightarrow>
     \<not> io_work_guard r \<and> io_waits r = 0 \<and> io_cancelled r = 0 \<and> others = 0"

lemma started_runs: "\<not> run_returns (runner_start r) others"
  by (simp add: run_returns_def runner_start_def)

text \<open>The guard alone would not be enough: a runner that waits for a signal does not let the
  thread end either, so that \<open>stop\<close> has to cancel the wait before it joins.  Then the thread ends
  as soon as the library is done.\<close>

lemma waiting_runs: "0 < io_waits r \<Longrightarrow> \<not> run_returns (r\<lparr>io_work_guard := False\<rparr>) others"
  by (simp add: run_returns_def)

lemma stopped_returns:
  "run_returns (snd (runner_stop count (runner_start r))) others \<longleftrightarrow> others = 0"
  by (simp add: run_returns_def runner_stop_def runner_cancel_def runner_start_def Let_def)

text \<open>A runner is started again only after it has been stopped.\<close>

lemma starts_once: "\<not> io_terminated (runner_start runner_new)"
  "io_terminated (runner_start (snd (runner_stop count r))) = io_terminated r"
  by (simp_all add: runner_start_def runner_new_def runner_stop_def runner_cancel_def Let_def)

lemma destroyed_joined: "\<not> io_thread (snd (runner_destroy count r))"
  by (simp add: runner_destroy_def runner_stop_def Let_def)

section \<open>The console\<close>

text \<open>A signal that arrives completes the wait, if one is outstanding; the set waits only once, so
  later signals are swallowed.  A signal that is not in the set ends the program.\<close>

definition signal_arrives ::
    "error_texts \<Rightarrow> int \<Rightarrow> 's io_runner \<Rightarrow> 's \<Rightarrow> string list \<times> 's io_runner \<times> 's" where
  "signal_arrives t signal_number r s =
    (if 0 < io_waits r
     then (case runner_signal_done t no_error signal_number r s of
             (out, s) \<Rightarrow> (out, r\<lparr>io_waits := io_waits r - 1\<rparr>, s))
     else ([], r, s))"

fun signals_arrive ::
    "error_texts \<Rightarrow> int list \<Rightarrow> 's io_runner \<Rightarrow> 's \<Rightarrow> string list \<times> 's io_runner \<times> 's" where
  "signals_arrive t [] r s = ([], r, s)"
| "signals_arrive t (n # ns) r s =
    (let (out, r, s) = signal_arrives t n r s;
         (out', r, s) = signals_arrive t ns r s
     in (out @ out', r, s))"

text \<open>What reaches the main thread while it is in \<^verbatim>\<open>std::getline\<close>: a line, or a signal,
  which the thread of the runner handles; the list ends with the input.\<close>

datatype console = Typed bytes | Signalled int

text \<open>What the runner and the program become does not depend on what is printed.\<close>

lemma runner_set_texts:
  "snd (runner_set_signal_handler t adds f r) = snd (runner_set_signal_handler t' adds f r)"
  by (simp add: runner_set_signal_handler_def runner_add_signal_def Let_def)

lemma signal_arrives_texts:
  "fst (snd (signal_arrives t n r s)) = fst (snd (signal_arrives t' n r s))"
  "snd (snd (signal_arrives t n r s)) = snd (snd (signal_arrives t' n r s))"
  by (simp_all add: signal_arrives_def runner_signal_done_def split_def)

lemma signals_arrive_texts:
  "fst (snd (signals_arrive t ns r s)) = fst (snd (signals_arrive t' ns r s)) \<and>
   snd (snd (signals_arrive t ns r s)) = snd (snd (signals_arrive t' ns r s))"
proof (induction ns arbitrary: r s)
  case (Cons n ns)
  show ?case
    using Cons.IH [of "fst (snd (signal_arrives t n r s))" "snd (snd (signal_arrives t n r s))"]
      signal_arrives_texts [of t n r s t'] by (simp add: Let_def split_def)
qed simp

end
