(* ===== verification/Exchange.thy ===== *)
theory Exchange
  imports Client_Demo Server_Demo
begin

text \<open>
  Client and server together: the bytes one of them queues on its socket are what the other
  reads from the stream.  \<open>feed\<close> is the stream: it completes the reads the client's
  socket has outstanding, each with exactly the bytes it asked for, as long as there are
  enough of them.
\<close>

section \<open>The stream\<close>

text \<open>The read that is outstanding, and how many bytes it asked for.\<close>

definition wanted :: "socket \<Rightarrow> (sock_op \<times> nat) option" where
  "wanted k =
    (if Op_read_header \<in> set (sk_ops k) then Some (Op_read_header, packet_header_length)
     else if Op_read_payload \<in> set (sk_ops k)
     then Some (Op_read_payload, rp_payload_size (sk_read_packet k))
     else None)"

function feed :: "client_env \<Rightarrow> bytes \<Rightarrow> cw \<Rightarrow> bytes \<times> cw" where
  "feed env bs w =
    (case wanted (ct_socket (tcp w)) of
       None \<Rightarrow> (bs, w)
     | Some (op, n) \<Rightarrow>
        if n = 0 \<or> length bs < n then (bs, w)
        else feed env (drop n bs) (client_step env (Ev_socket op no_error 0 (take n bs)) w))"
  by pat_completeness auto

termination by (relation "measure (\<lambda>(env, bs, w). length bs)") auto

declare feed.simps [simp del]

lemma header_once:
  assumes "sock_core k" and "Op_read_header \<in> set (sk_ops k)"
  shows "Op_read_header \<notin> set (remove1 Op_read_header (sk_ops k))"
proof
  assume "Op_read_header \<in> set (remove1 Op_read_header (sk_ops k))"
  then have "0 < length (filter is_read_op (remove1 Op_read_header (sk_ops k)))"
    by (metis filter_empty_conv is_read_op.simps(1) length_greater_0_conv)
  with assms show False
    by (simp add: length_filter_remove1 sock_core_def n_ops_def split: if_splits)
qed

text \<open>The world when the socket hands over a packet, and when its handler has returned.\<close>

definition taken :: "client_env \<Rightarrow> byte \<Rightarrow> bytes \<Rightarrow> cw \<Rightarrow> cw" where
  "taken env t pl w =
     upd_tcp (\<lambda>t. t\<lparr>ct_socket := socket_maybe_signal_closed (ct_socket t)\<rparr>)
       (tcp_read_success env (received t pl)
          (upd_tcp (\<lambda>t. t\<lparr>ct_socket := packet_taken (ct_socket t)\<rparr>) w))"

definition awaits_packet :: "socket \<Rightarrow> bool" where
  "awaits_packet k \<longleftrightarrow> sock_core k \<and> Op_read_header \<in> set (sk_ops k) \<and>
     length (rp_header (sk_read_packet k)) = packet_header_length"

lemma feed_packet:
  assumes "awaits_packet (ct_socket (tcp w))" and pl: "length pl \<le> max_payload" "pl \<noteq> []"
  shows "feed env (frame t pl @ rest) w = feed env rest (taken env t pl w)"
proof -
  let ?h = "tcp_socket_handler env" and ?hd = "take packet_header_length (frame t pl)"
  let ?k = "ct_socket (tcp w)"
  have core: "sock_core ?k" and op: "Op_read_header \<in> set (sk_ops ?k)"
    and hdr: "length (rp_header (sk_read_packet ?k)) = packet_header_length"
    using assms(1) by (simp_all add: awaits_packet_def)
  note step = client_socket.packet_received
    [where s = w and env = env and pl = pl and t = t, unfolded sh_socket_eq lens_upd_tcp,
      OF core op hdr pl]
  note ann = client_socket.payload_announced
    [where s = w and env = env and pl = pl and t = t, unfolded sh_socket_eq lens_upd_tcp, OF hdr pl]
  let ?w1 = "read_header_done ?h no_error ?hd w"
  have one: "client_step env (Ev_socket Op_read_header no_error 0 ?hd) w = ?w1"
    using op by (simp add: client_step_def asio_may_complete_def socket_complete_def sh_socket_eq)
  have two: "client_step env (Ev_socket Op_read_payload no_error 0 pl) ?w1 =
      read_payload_done ?h no_error pl ?w1"
    unfolding ann by (simp add: client_step_def asio_may_complete_def socket_complete_def sh_socket_eq)
  have w1: "wanted (ct_socket (tcp ?w1)) = Some (Op_read_payload, length pl)"
    unfolding ann using header_once [OF core op]
    by (simp add: wanted_def rp_payload_size_def buffer_sized_def)
  have drop1: "drop packet_header_length (frame t pl) = pl"
    by (simp add: frame_def packet_header_length_def packet_size_length_def packet_type_length_def)
  have "feed env (frame t pl @ rest) w = feed env (pl @ rest) ?w1"
    using op one drop1 by (subst feed.simps)
      (simp add: wanted_def packet_header_length_def packet_size_length_def packet_type_length_def)
  also have "\<dots> = feed env rest (read_payload_done ?h no_error pl ?w1)"
    using pl(2) two by (subst feed.simps) (simp add: w1)
  finally show ?thesis
    unfolding step taken_def by (simp add: tcp_socket_handler_def)
qed

section \<open>Sequenced data\<close>

text \<open>The client is logged in, waits for a packet, and the connection and the client agree that
  \<open>n\<close> is the next sequence number.\<close>

definition in_step :: "u64 \<Rightarrow> cw \<Rightarrow> bool" where
  "in_step n w \<longleftrightarrow> awaits_packet (ct_socket (tcp w)) \<and> \<not> sk_closing (ct_socket (tcp w)) \<and>
     cs_state (ct_state (tcp w)) = Logged_in \<and> \<not> cc_has_session_ended (cw_conn w) \<and>
     cc_next_sequence_number (cw_conn w) = n \<and> cl_next_sequence_number (cw_core w) = n"

text \<open>Messages with the numbers they get, and the calls they become.\<close>

fun numbered :: "u64 \<Rightarrow> bytes list \<Rightarrow> (u64 \<times> bytes) list" where
  "numbered n [] = []"
| "numbered n (m # ms) = (n, m) # numbered (n + 1) ms"

definition data_calls :: "nat \<Rightarrow> (u64 \<times> bytes) list \<Rightarrow> (nat \<times> client_cb) list" where
  "data_calls i xs = map (\<lambda>(n, m). (i, Cb_sequenced_data n m)) xs"

lemma awaits_again:
  assumes "awaits_packet k" and "\<not> sk_closing k"
  shows "awaits_packet (socket_maybe_signal_closed (socket_async_read (packet_taken k)))"
    and "\<not> sk_closing (socket_maybe_signal_closed (socket_async_read (packet_taken k)))"
proof -
  let ?k = "packet_taken k"
  have core: "sock_core k" and op: "Op_read_header \<in> set (sk_ops k)"
    using assms(1) by (simp_all add: awaits_packet_def)
  have "?k = k\<lparr>sk_ops := remove1 Op_read_header (sk_ops k), sk_read_packet := read_packet_new,
      sk_read_pending := False\<rparr>"
    by (cases k) (simp add: packet_taken_def)
  with cleared_core(2) [OF core op, of read_packet_new]
  have "sock_core ?k" "\<not> sk_read_pending ?k" "\<not> sk_connect_pending ?k"
    by simp_all
  then have "sock_core (socket_maybe_signal_closed (socket_async_read ?k))"
    using sock_core_maybe_signal [OF sock_core_async_read] by (simp add: sock_rest_def)
  with assms(2) show "awaits_packet (socket_maybe_signal_closed (socket_async_read ?k))"
    and "\<not> sk_closing (socket_maybe_signal_closed (socket_async_read ?k))"
    by (simp_all add: awaits_packet_def socket_async_read_def read_header_def packet_taken_def
        read_packet_new_def socket_maybe_signal_closed_def is_idle_def)
qed

lemma taken_data:
  assumes "in_step n w"
  shows "in_step (n + 1) (taken env sequenced_data_type m w)"
    and "cw_out (taken env sequenced_data_type m w) = cw_out w @ [(cw_id w, Cb_sequenced_data n m)]"
    and "cw_id (taken env sequenced_data_type m w) = cw_id w"
  using assms awaits_again [of "ct_socket (tcp w)"]
  by (simp_all add: in_step_def taken_def tcp_read_success_def tcp_process_packet_def
      packet_type_defs tcp_process_sequenced_data_def tcp_increment_receive_count_def
      conn_on_sequenced_data_def client_on_sequenced_data_def is_closing_def Let_def)

lemma feed_nothing: "feed env [] w = ([], w)"
  by (subst feed.simps) (simp split: option.splits prod.splits)

lemma feed_data:
  assumes "in_step n w" and "list_all (\<lambda>m. m \<noteq> [] \<and> length m \<le> max_payload) ms"
  shows "\<exists>w'. feed env (concat (map (frame sequenced_data_type) ms)) w = ([], w') \<and>
    in_step (n + of_nat (length ms)) w' \<and>
    cw_out w' = cw_out w @ data_calls (cw_id w) (numbered n ms)"
  using assms
proof (induction ms arbitrary: n w)
  case Nil
  then show ?case by (simp add: feed_nothing data_calls_def)
next
  case (Cons m ms)
  note next' = taken_data [OF Cons.prems(1), of env m]
  from Cons.IH [OF next'(1)] Cons.prems(2) next'(2,3) obtain w' where
    "feed env (concat (map (frame sequenced_data_type) ms)) (taken env sequenced_data_type m w) = ([], w')"
    "in_step (n + 1 + of_nat (length ms)) w'"
    "cw_out w' = cw_out w @ data_calls (cw_id w) (numbered n (m # ms))"
    by (auto simp: data_calls_def)
  moreover have "awaits_packet (ct_socket (tcp w))" using Cons.prems(1) by (simp add: in_step_def)
  ultimately show ?case
    using feed_packet [of w m env sequenced_data_type] Cons.prems(2) by (simp add: add.assoc)
qed

text \<open>Messages a port has accepted, one after the other.\<close>

fun sent_all :: "nat \<Rightarrow> bytes list \<Rightarrow> sw \<Rightarrow> sw option" where
  "sent_all p [] v = Some v"
| "sent_all p (m # ms) v = (case port_send_message p (Some m) (length m) v of (e, v') \<Rightarrow>
     if e = WE_none then sent_all p ms v' else None)"

definition message_packet :: "bytes \<Rightarrow> write_packet" where
  "message_packet m = write_packet_of sequenced_data_type m (of_nat (length m))"

lemma send_one:
  assumes send: "port_send_message p (Some m) (length m) v = (WE_none, v')" and p: "p < length (ac_ports v)"
    and c: "po_connection (ac_ports v ! p) = Some c"
  shows "ac_ports v' = (ac_ports v)[p := (ac_ports v ! p)
      \<lparr>po_next_sequence_number := po_next_sequence_number (ac_ports v ! p) + 1\<rparr>]"
    and "sk_write_packets (ct_socket (stcp c v')) =
      sk_write_packets (ct_socket (stcp c v)) @ [message_packet m]"
  using assms
  by (auto simp: port_send_message_def port_send_counted_def port_send_packet_def
      stcp_send_packet_def socket_async_write_def write_packet_start_def message_packet_def Let_def
      split: if_splits)

lemma sent_all_queue:
  assumes "sent_all p ms v = Some v'" and "p < length (ac_ports v)"
    and "po_connection (ac_ports v ! p) = Some c"
  shows "sk_write_packets (ct_socket (stcp c v')) =
      sk_write_packets (ct_socket (stcp c v)) @ map message_packet ms \<and>
    po_next_sequence_number (ac_ports v' ! p) =
      po_next_sequence_number (ac_ports v ! p) + of_nat (length ms)"
  using assms
proof (induction ms arbitrary: v)
  case (Cons m ms)
  obtain v1 where send: "port_send_message p (Some m) (length m) v = (WE_none, v1)"
    and rest: "sent_all p ms v1 = Some v'"
    using Cons.prems(1) by (auto split: prod.splits if_splits)
  note one = send_one [OF send Cons.prems(2,3)]
  from Cons.IH [OF rest] one Cons.prems show ?case by simp
qed simp

lemma message_wire:
  "length m \<le> max_payload \<Longrightarrow> wp_wire (message_packet m) = frame sequenced_data_type m"
  unfolding message_packet_def
  by (rule wp_wire_of) (simp_all add: max_payload_def unat_of_nat)

text \<open>C4 What a server's port sends is what the client's user gets: when the connection of a port
  and the client's connection agree on the next sequence number, and \<^verbatim>\<open>send_message\<close> of the
  port has accepted a list of messages, then the bytes of the packets it queued, read by
  the client from the stream, are consumed to the last one and become one
  \<^verbatim>\<open>sequenced_data\<close> call for each message, in order, numbered from the agreed number on; and
  the two ends agree on the next number again.\<close>

theorem data_exchange:
  assumes "p < length (ac_ports v)" and c: "po_connection (ac_ports v ! p) = Some c"
    and client: "in_step (po_next_sequence_number (ac_ports v ! p)) w"
    and ms: "list_all (\<lambda>m. m \<noteq> [] \<and> length m \<le> 65534) ms"
    and sent: "sent_all p ms v = Some v'"
    and queued: "sk_write_packets (ct_socket (stcp c v')) =
      sk_write_packets (ct_socket (stcp c v)) @ packets"
  shows "\<exists>w'. feed env (concat (map wp_wire packets)) w = ([], w') \<and>
    cw_out w' = cw_out w @ data_calls (cw_id w) (numbered (po_next_sequence_number (ac_ports v ! p)) ms) \<and>
    in_step (po_next_sequence_number (ac_ports v' ! p)) w'"
proof -
  have packets: "packets = map message_packet ms"
    and number: "po_next_sequence_number (ac_ports v' ! p) =
      po_next_sequence_number (ac_ports v ! p) + of_nat (length ms)"
    using sent_all_queue [OF sent assms(1) c] queued by simp_all
  have wire: "map wp_wire packets = map (frame sequenced_data_type) ms"
    unfolding packets using ms by (simp add: message_wire max_payload_def list_all_iff)
  show ?thesis
    using feed_data [OF client, of ms env] ms unfolding wire number
    by (auto simp: max_payload_def)
qed

section \<open>The login\<close>

text \<open>A client whose TCP connection has just come about, with credentials its setters accept.\<close>

definition about_to_log_in :: "cw \<Rightarrow> bool" where
  "about_to_log_in w \<longleftrightarrow>
     (let k = ct_socket (tcp w) in
      sock_core k \<and> \<not> sk_connect_pending k \<and> \<not> sk_read_pending k \<and> \<not> sk_closing k \<and>
      sk_write_packets k = [] \<and> 0 < sk_write_packets_limit k) \<and>
     cs_reason (ct_state (tcp w)) = DR_none \<and>
     \<not> cc_has_session_ended (cw_conn w) \<and>
     \<not> ec_set (validate_username (cc_username (cw_conn w))) \<and>
     \<not> ec_set (validate_password (cc_password (cw_conn w))) \<and>
     \<not> ec_set (validate_session (cc_session (cw_conn w)))"

definition login_request_of :: "cw \<Rightarrow> login_request_packet" where
  "login_request_of w = login_request_packet_of (cc_username (cw_conn w)) (cc_password (cw_conn w))
     (cc_session (cw_conn w)) (cl_next_sequence_number (cw_core w))"

text \<open>Waiting for the answer to a request with number \<open>n\<close>.\<close>

definition asks :: "u64 \<Rightarrow> bytes \<Rightarrow> cw \<Rightarrow> bool" where
  "asks n session w \<longleftrightarrow> awaits_packet (ct_socket (tcp w)) \<and> \<not> sk_closing (ct_socket (tcp w)) \<and>
     ct_state (tcp w) = connection_state_of Connected \<and> \<not> cc_has_session_ended (cw_conn w) \<and>
     cc_next_sequence_number (cw_conn w) = n \<and> cl_next_sequence_number (cw_core w) = n \<and>
     cc_session (cw_conn w) = session"

lemma upd_tcp_credentials [simp]:
  "cc_username (cw_conn (upd_tcp f w)) = cc_username (cw_conn w)"
  "cc_password (cw_conn (upd_tcp f w)) = cc_password (cw_conn w)"
  by (simp_all add: upd_tcp_def)

lemma wire_sized:
  assumes "length bs = unat n" and "unat n \<le> max_payload"
  shows "wp_wire (wp_write_payload bs (write_packet_sized t n)) = frame t bs"
  using wp_wire_of [of n bs t] assms by (simp add: wp_write_payload_eq)

lemma request_wire:
  "valid_request r \<Longrightarrow> wp_wire (wp_write_payload (write_login_request r)
     (write_packet_sized login_request_type (of_nat login_request_size))) =
   frame login_request_type (write_login_request r)"
  by (rule wire_sized)
    (simp_all add: request.enc_length login_request_size_def length_defs max_payload_def)

lemma answer_wire:
  "wp_wire (wp_write_payload (write_login_accepted a)
     (write_packet_sized login_accepted_type (of_nat login_accepted_size))) =
   frame login_accepted_type (write_login_accepted a)"
  by (rule wire_sized)
    (simp_all add: accepted.enc_length login_accepted_size_def length_defs max_payload_def)

lemma asks_server:
  assumes ready: "about_to_log_in w" and quiet: "ce_login_throws env = None"
  shows "asks (cl_next_sequence_number (cw_core w)) (cc_session (cw_conn w)) (tcp_connect_success env w)"
    and "sk_write_packets (ct_socket (tcp (tcp_connect_success env w))) =
      [wp_write_payload (write_login_request (login_request_of w))
        (write_packet_sized login_request_type (of_nat login_request_size))]"
proof -
  let ?k = "ct_socket (tcp w)"
  let ?p = "wp_write_payload (write_login_request (login_request_of w))
        (write_packet_sized login_request_type (of_nat login_request_size))"
  have k: "sock_core ?k" "\<not> sk_connect_pending ?k" "\<not> sk_read_pending ?k" "\<not> sk_closing ?k"
      "sk_write_packets ?k = []" "0 < sk_write_packets_limit ?k"
    using ready by (simp_all add: about_to_log_in_def Let_def)
  have "sock_core (snd (socket_async_write ?p (socket_async_read ?k)))"
    using k by (intro sock_core_async_write sock_core_async_read)
  with k have sock: "awaits_packet (snd (socket_async_write ?p (socket_async_read ?k)))"
    "\<not> sk_closing (snd (socket_async_write ?p (socket_async_read ?k)))"
    "sk_write_packets (snd (socket_async_write ?p (socket_async_read ?k))) = [?p]"
    by (simp_all add: awaits_packet_def sock_op_defs read_packet_new_def)
  have "ct_socket (tcp (tcp_connect_success env w)) = snd (socket_async_write ?p (socket_async_read ?k))"
    and "ct_state (tcp (tcp_connect_success env w)) = set_state Connected (ct_state (tcp w))"
    using quiet by (simp_all add: tcp_connect_success_def Let_def split_def login_timer_start_def
        tcp_login_handler_def conn_on_connect_success_def login_request_of_def)
  with sock ready quiet show
    "asks (cl_next_sequence_number (cw_core w)) (cc_session (cw_conn w)) (tcp_connect_success env w)"
    "sk_write_packets (ct_socket (tcp (tcp_connect_success env w))) = [?p]"
    by (simp_all add: asks_def about_to_log_in_def tcp_connect_success_def Let_def split_def
        login_timer_start_def tcp_login_handler_def conn_on_connect_success_def set_state_def
        connection_state_of_def)
qed

text \<open>The server's answer.\<close>

lemma queued_write:
  "\<not> sk_closing k \<Longrightarrow> length (sk_write_packets k) \<noteq> sk_write_packets_limit k \<Longrightarrow>
   sk_write_packets (snd (socket_async_write p k)) = sk_write_packets k @ [p]"
  by (auto simp: socket_async_write_def write_packet_start_def Let_def)

lemma reply_login_effect:
  assumes quiet: "se_heartbeat_throws env = None" "se_heartbeat_throws' env = None"
  shows "ct_socket (stcp c (stcp_accept_login env c response w)) =
      snd (socket_async_write (wp_write_payload (write_login_accepted response)
        (write_packet_sized login_accepted_type (of_nat login_accepted_size))) (ct_socket (stcp c w)))"
    and "ac_ports (stcp_accept_login env c response w) = ac_ports w"
  using quiet
  by (simp_all add: stcp_accept_login_def Let_def heartbeat_timer_start_def
      heartbeat_timer_schedule_def stcp_heartbeat_handler_def)

lemma answers:
  assumes "cs_state (ct_state (stcp c v)) = Connected" and "distinct (map po_username (ac_ports v))"
    and p: "p < length (ac_ports v)" and admits: "port_admits (se_session env) r (ac_ports v ! p)"
    and r: "valid_request r" and others: "po_connection (ac_ports v ! p) \<noteq> Some c"
    and quiet: "se_heartbeat_throws env = None" "se_heartbeat_throws' env = None"
    and k: "\<not> sk_closing (ct_socket (stcp c v))"
      "length (sk_write_packets (ct_socket (stcp c v))) \<noteq> sk_write_packets_limit (ct_socket (stcp c v))"
    and v': "v' = snd (stcp_process_packet env c (received login_request_type (write_login_request r)) v)"
  shows "sk_write_packets (ct_socket (stcp c v')) = sk_write_packets (ct_socket (stcp c v)) @
      [wp_write_payload (write_login_accepted (login_accepted_packet_of (se_session env)
          (offered_number r (ac_ports v ! p))))
        (write_packet_sized login_accepted_type (of_nat login_accepted_size))]"
    and "ac_ports v' = (ac_ports v)[p := (ac_ports v ! p)\<lparr>po_connection := Some c,
      po_next_sequence_number := offered_number r (ac_ports v ! p)\<rparr>]"
proof -
  let ?data = "write_login_request r"
  let ?a = "login_accepted_packet_of (se_session env) (offered_number r (ac_ports v ! p))"
  have read: "read_login_request login_request_default ?data = r"
    using request.dec_enc_append [OF r, of "[]"] by simp
  have len: "length ?data = login_request_size" by (rule request.enc_length)
  have "stcp_process_packet env c (received login_request_type ?data) v =
      stcp_process_login_request env c ?data login_request_size v"
    by (simp add: stcp_process_packet_def packet_type_defs Let_def len)
  also have "\<dots> = (PE_none, stcp_accept_login env c ?a (port_taken p c r (asked c ?data v)))"
    using request_granted [OF assms(1,2) p, of env ?data] admits by (simp add: read)
  finally have eq: "v' = stcp_accept_login env c ?a (port_taken p c r (asked c ?data v))"
    unfolding v' by simp
  let ?u = "asked c ?data v"
  have taken: "ct_socket (stcp c (port_taken p c r ?u)) = ct_socket (stcp c v)"
    "ac_ports (port_taken p c r ?u) = (ac_ports v)[p := (ac_ports v ! p)\<lparr>po_connection := Some c,
      po_next_sequence_number := offered_number r (ac_ports v ! p)\<rparr>]"
    using p others by (auto simp: port_bound_def Let_def split: option.splits)
  show "sk_write_packets (ct_socket (stcp c v')) = sk_write_packets (ct_socket (stcp c v)) @
      [wp_write_payload (write_login_accepted ?a)
        (write_packet_sized login_accepted_type (of_nat login_accepted_size))]"
    unfolding eq reply_login_effect(1) [OF quiet] taken using k by (rule queued_write)
  show "ac_ports v' = (ac_ports v)[p := (ac_ports v ! p)\<lparr>po_connection := Some c,
      po_next_sequence_number := offered_number r (ac_ports v ! p)\<rparr>]"
    unfolding eq reply_login_effect(2) [OF quiet] taken ..
qed

text \<open>The client reads it.\<close>

lemma login_granted:
  assumes "cc_session (cw_conn w) = [] \<or> la_session a = cc_session (cw_conn w)"
    and "cc_next_sequence_number (cw_conn w) = cl_next_sequence_number (cw_core w)"
    and n: "cl_next_sequence_number (cw_core w) = 0 \<or>
      cl_next_sequence_number (cw_core w) = la_next_sequence_number a"
  shows "conn_on_login_success a w = (DR_none,
    upd_conn (\<lambda>c. c\<lparr>cc_session := la_session a,
        cc_next_sequence_number := la_next_sequence_number a, cc_reconnect_next_delay := 0\<rparr>)
      (upd_core (\<lambda>c. c\<lparr>cl_next_sequence_number := la_next_sequence_number a\<rparr>) w))"
proof -
  have "upd_core (\<lambda>c. c\<lparr>cl_next_sequence_number := la_next_sequence_number a\<rparr>) w = w"
    if "cl_next_sequence_number (cw_core w) = la_next_sequence_number a"
    using that by (cases w; cases "cw_core w") (simp add: upd_core_def)
  with assms show ?thesis by (auto simp: conn_on_login_success_def Let_def)
qed

lemma reads_answer:
  assumes asks: "asks n session w" and a: "valid_accepted a" "la_next_sequence_number a \<noteq> 0"
    and s: "session = [] \<or> la_session a = session"
    and quiet: "ce_heartbeat_throws env = None" "ce_heartbeat_throws' env = None"
    and number: "n = 0 \<or> la_next_sequence_number a \<le> n"
    and w': "w' = taken env login_accepted_type (write_login_accepted a) w"
  shows "if n \<noteq> 0 \<and> la_next_sequence_number a < n
    then cs_state (ct_state (tcp w')) = Disconnected \<and>
      cs_reason (ct_state (tcp w')) = DR_sequence_number_too_low
    else in_step (la_next_sequence_number a) w' \<and>
      cw_out w' = cw_out w @ [(cw_id w, Cb_login_success a)]"
proof -
  have read: "read_login_accepted login_accepted_default (write_login_accepted a) = a"
    using accepted.dec_enc [OF a(1)] .
  have len: "length (write_login_accepted a) = login_accepted_size" by (rule accepted.enc_length)
  note start = heartbeat_timer_start_def heartbeat_timer_schedule_def tcp_heartbeat_handler_def
  note packet = taken_def tcp_read_success_def tcp_process_packet_def packet_type_defs
    tcp_process_login_accepted_def is_closing_def read len Let_def
  have st: "ct_state (tcp w) = connection_state_of Connected" "\<not> cc_has_session_ended (cw_conn w)"
    and nums: "cc_next_sequence_number (cw_conn w) = n" "cl_next_sequence_number (cw_core w) = n"
      "cc_session (cw_conn w) = session"
    using asks by (simp_all add: asks_def)
  show ?thesis
  proof (cases "n \<noteq> 0 \<and> la_next_sequence_number a < n")
    case True
    then show ?thesis
      using st nums a s unfolding w'
      by (simp add: packet conn_on_login_success_def connection_state_of_def set_state_def
          tcp_disconnect_eq t_disconnect_def cs_disconnect_def)
  next
    case False
    then have eq: "n = 0 \<or> n = la_next_sequence_number a" using number by auto
    have again: "awaits_packet (socket_maybe_signal_closed (socket_async_read (packet_taken (ct_socket (tcp w)))))"
      "\<not> sk_closing (socket_maybe_signal_closed (socket_async_read (packet_taken (ct_socket (tcp w)))))"
      using awaits_again asks by (simp_all add: asks_def)
    show ?thesis
      using st nums a s quiet eq again unfolding w' if_not_P [OF False]
      by (simp add: packet start login_granted connection_state_of_def set_state_def in_step_def)
  qed
qed

text \<open>C5 The login, end to end.  A client with credentials its setters accept connects and queues
  one packet; a server connection that reads it, with a port of that name and password and
  the same session, binds the port and queues one answer; and the client, reading that from
  the stream, is logged in and agrees with the port on the next sequence number, or, when it
  has already seen more of the session than the server has sent, ends the connection with
  \<^verbatim>\<open>sequence_number_too_low\<close>.\<close>

theorem login_exchange:
  assumes client: "about_to_log_in w" and w1: "w1 = tcp_connect_success cenv w"
    and "ce_login_throws cenv = None"
    and cquiet: "ce_heartbeat_throws cenv = None" "ce_heartbeat_throws' cenv = None"
    and server: "cs_state (ct_state (stcp c v)) = Connected" "distinct (map po_username (ac_ports v))"
    and p: "p < length (ac_ports v)" "po_connection (ac_ports v ! p) \<noteq> Some c"
      "po_next_sequence_number (ac_ports v ! p) \<noteq> 0"
    and names: "po_username (ac_ports v ! p) = cc_username (cw_conn w)"
      "po_password (ac_ports v ! p) = cc_password (cw_conn w)"
    and session: "cc_session (cw_conn w) = [] \<or> cc_session (cw_conn w) = se_session senv"
      "\<not> ec_set (validate_session (se_session senv))"
    and squiet: "se_heartbeat_throws senv = None" "se_heartbeat_throws' senv = None"
    and k: "\<not> sk_closing (ct_socket (stcp c v))"
      "length (sk_write_packets (ct_socket (stcp c v))) \<noteq> sk_write_packets_limit (ct_socket (stcp c v))"
  shows "\<exists>q data v' r w2. sk_write_packets (ct_socket (tcp w1)) = [q] \<and>
    wp_wire q = frame login_request_type data \<and>
    v' = snd (stcp_process_packet senv c (received login_request_type data) v) \<and>
    sk_write_packets (ct_socket (stcp c v')) = sk_write_packets (ct_socket (stcp c v)) @ [r] \<and>
    po_connection (ac_ports v' ! p) = Some c \<and> feed cenv (wp_wire r) w1 = ([], w2) \<and>
    (if po_next_sequence_number (ac_ports v ! p) < cl_next_sequence_number (cw_core w)
     then cs_state (ct_state (tcp w2)) = Disconnected \<and>
       cs_reason (ct_state (tcp w2)) = DR_sequence_number_too_low
     else in_step (po_next_sequence_number (ac_ports v' ! p)) w2 \<and>
       cw_out w2 = cw_out w1 @ [(cw_id w1, Cb_login_success (login_accepted_packet_of (se_session senv)
         (po_next_sequence_number (ac_ports v' ! p))))])"
proof -
  let ?r = "login_request_of w" and ?n = "cl_next_sequence_number (cw_core w)"
  let ?data = "write_login_request ?r"
  let ?q = "wp_write_payload ?data (write_packet_sized login_request_type (of_nat login_request_size))"
  let ?a = "login_accepted_packet_of (se_session senv) (offered_number ?r (ac_ports v ! p))"
  let ?reply = "wp_write_payload (write_login_accepted ?a)
      (write_packet_sized login_accepted_type (of_nat login_accepted_size))"
  let ?v' = "snd (stcp_process_packet senv c (received login_request_type ?data) v)"
  let ?w2 = "taken cenv login_accepted_type (write_login_accepted ?a) w1"
  have valid: "valid_request ?r"
    using client by (simp add: about_to_log_in_def validate_fits valid_request_def
        login_request_of_def login_request_packet_of_def)
  have admits: "port_admits (se_session senv) ?r (ac_ports v ! p)"
    using names session(1)
    by (simp add: port_admits_def login_request_of_def login_request_packet_of_def)
  have asks: "asks ?n (cc_session (cw_conn w)) w1"
    unfolding w1 using asks_server(1) [OF client] assms(3) by simp
  have queued: "sk_write_packets (ct_socket (tcp w1)) = [?q]"
    unfolding w1 using asks_server(2) [OF client] assms(3) by simp
  note reply = answers [OF server p(1) admits valid p(2) squiet k refl]
  have fit: "valid_accepted ?a"
    using session(2) by (simp add: valid_accepted_def login_accepted_packet_of_def validate_fits)
  have number: "la_next_sequence_number ?a = offered_number ?r (ac_ports v ! p)"
    "la_session ?a = se_session senv" "lq_next_sequence_number ?r = ?n"
    by (simp_all add: login_accepted_packet_of_def login_request_of_def login_request_packet_of_def)
  have offered: "la_next_sequence_number ?a \<noteq> 0" "?n = 0 \<or> la_next_sequence_number ?a \<le> ?n"
    "?n \<noteq> 0 \<and> la_next_sequence_number ?a < ?n \<longleftrightarrow>
       po_next_sequence_number (ac_ports v ! p) < ?n"
    using p(3) unfolding number(1) unfolding offered_number_def number(3) by (auto simp: word_gt_0)
  have "write_login_accepted ?a \<noteq> []" "length (write_login_accepted ?a) \<le> max_payload"
    using accepted.enc_length [of ?a]
    by (auto simp: login_accepted_size_def length_defs max_payload_def)
  then have fed: "feed cenv (wp_wire ?reply) w1 = ([], ?w2)"
    using feed_packet [of w1 "write_login_accepted ?a" cenv login_accepted_type "[]"] asks
    by (simp add: answer_wire feed_nothing asks_def)
  have s: "cc_session (cw_conn w) = [] \<or> la_session ?a = cc_session (cw_conn w)"
    using session(1) number(2) by auto
  note final = reads_answer [OF asks fit offered(1) s cquiet offered(2) refl,
      unfolded offered(3), unfolded number(1)]
  have bound: "po_connection (ac_ports ?v' ! p) = Some c"
    "po_next_sequence_number (ac_ports ?v' ! p) = offered_number ?r (ac_ports v ! p)"
    unfolding reply(2) using p(1) by simp_all
  show ?thesis
    by (rule exI [of _ ?q], rule exI [of _ ?data], rule exI [of _ ?v'], rule exI [of _ ?reply],
        rule exI [of _ ?w2], unfold bound(2))
      (use queued request_wire [OF valid] reply(1) bound(1) fed final in \<open>simp only: simp_thms\<close>)
qed

section \<open>Concrete ends\<close>

text \<open>A client that has connected, with the credentials of the port of \<open>demo_accepted\<close>.\<close>

definition demo_asker :: cw where
  "demo_asker = \<lparr>cw_core = ck_core (client_new True),
     cw_conn = (client_connection_new demo_endpoint True)
       \<lparr>cc_username := ''alice'', cc_password := ''secret'', cc_session := ''S1'', cc_engaged := True,
         cc_tcp := client_tcp_new\<lparr>ct_socket := socket_new True\<rparr>\<rparr>,
     cw_id = 0, cw_out = []\<rparr>"

lemma demo_about: "about_to_log_in demo_asker"
  by (simp add: about_to_log_in_def demo_asker_def client_connection_new_def client_tcp_new_def
      socket_new_def sock_core_def n_ops_def is_idle_def validate_fits fits_def length_defs
      is_alnum_def connection_state_default_def Let_def)

theorem login_exchange_witness:
  "\<exists>bs w2. feed quiet_env bs (tcp_connect_success quiet_env demo_asker) = ([], w2) \<and>
     (\<exists>v' :: sw. in_step (po_next_sequence_number (ac_ports v' ! 0)) w2 \<and>
        po_connection (ac_ports v' ! 0) = Some 0)"
proof -
  have k: "\<not> sk_closing (ct_socket (stcp 0 demo_accepted))"
    "length (sk_write_packets (ct_socket (stcp 0 demo_accepted))) \<noteq>
      sk_write_packets_limit (ct_socket (stcp 0 demo_accepted))"
    by (simp_all add: demo_accepted_simps t_accepted_def set_write_packets_limit_def socket_new_def
        server_tcp_new_def sock_op_defs Let_def)
  have port: "distinct (map po_username (ac_ports demo_accepted))" "0 < length (ac_ports demo_accepted)"
    "po_connection (ac_ports demo_accepted ! 0) \<noteq> Some 0"
    "po_next_sequence_number (ac_ports demo_accepted ! 0) \<noteq> 0"
    "po_username (ac_ports demo_accepted ! 0) = cc_username (cw_conn demo_asker)"
    "po_password (ac_ports demo_accepted ! 0) = cc_password (cw_conn demo_asker)"
    "\<not> po_next_sequence_number (ac_ports demo_accepted ! 0) < cl_next_sequence_number (cw_core demo_asker)"
    by (simp_all add: demo_accepted_simps demo_port_def port_new_def demo_asker_def client_new_def
        client_connection_new_def)
  have session: "cc_session (cw_conn demo_asker) = [] \<or>
      cc_session (cw_conn demo_asker) = se_session demo_env"
    "\<not> ec_set (validate_session (se_session demo_env))"
    by (simp_all add: demo_asker_def demo_env_def quiet_server_env_def validate_fits fits_def
        length_defs is_alnum_def)
  have quiet: "ce_login_throws quiet_env = None" "ce_heartbeat_throws quiet_env = None"
    "ce_heartbeat_throws' quiet_env = None" "se_heartbeat_throws demo_env = None"
    "se_heartbeat_throws' demo_env = None"
    by (simp_all add: quiet_env_def demo_env_def quiet_server_env_def)
  obtain q data and v' :: sw and r w2 where
    "feed quiet_env (wp_wire r) (tcp_connect_success quiet_env demo_asker) = ([], w2)"
    "in_step (po_next_sequence_number (ac_ports v' ! 0)) w2" "po_connection (ac_ports v' ! 0) = Some 0"
    using login_exchange [OF demo_about refl quiet(1-3) demo_connected port(1-6) session quiet(4-5) k]
    unfolding if_not_P [OF port(7)] by (elim exE conjE) (rule that)
  then show ?thesis by blast
qed

text \<open>A client that is logged in, and a port with its connection.\<close>

definition demo_sender :: sw where
  "demo_sender = demo_acceptor\<lparr>ac_ports := [demo_port\<lparr>po_connection := Some 0\<rparr>],
     ac_objects := \<lambda>_. (server_tcp_new 1 (socket_new True))
       \<lparr>st_tcp := (st_tcp (server_tcp_new 1 (socket_new True)))
          \<lparr>ct_state := connection_state_of Logged_in\<rparr>\<rparr>\<rparr>"

lemma demo_sends: "\<exists>v'. sent_all 0 [''hello'', ''world''] demo_sender = Some v'"
  by (simp add: demo_sender_def demo_acceptor_eq acceptor_new_def demo_port_def port_new_def
      port_send_message_def port_send_counted_def port_send_packet_def stcp_send_packet_def
      server_tcp_new_def connection_state_of_def socket_new_def socket_async_write_def
      write_packet_start_def upd_port_def upd_stcp_def upd_object_def Let_def)

lemma demo_in_step: "in_step 1 (connection_world 0 demo_online)"
  using demo_sock_core(2)
  by (simp add: in_step_def awaits_packet_def connection_world_def demo_online_def demo_connected_def
      demo_client_def client_new_def client_connection_new_def connection_state_of_def socket_new_def
      read_packet_new_def client_add_connection_def)

theorem data_exchange_witness:
  "\<exists>bs w'. feed quiet_env bs (connection_world 0 demo_online) = ([], w') \<and>
     cw_out w' = ck_out demo_online @
       [(0, Cb_sequenced_data 1 ''hello''), (0, Cb_sequenced_data 2 ''world'')]"
proof -
  obtain v' where sent: "sent_all 0 [''hello'', ''world''] demo_sender = Some v'"
    using demo_sends by blast
  have p: "0 < length (ac_ports demo_sender)" "po_connection (ac_ports demo_sender ! 0) = Some 0"
    "po_next_sequence_number (ac_ports demo_sender ! 0) = 1"
    by (simp_all add: demo_sender_def demo_port_def port_new_def)
  have ready: "in_step (po_next_sequence_number (ac_ports demo_sender ! 0)) (connection_world 0 demo_online)"
    using demo_in_step by (simp only: p(3))
  have "list_all (\<lambda>m. m \<noteq> [] \<and> length m \<le> 65534) [''hello'', ''world'']" by simp
  from data_exchange [OF p(1,2) ready this sent conjunct1 [OF sent_all_queue [OF sent p(1,2)]], of quiet_env]
  show ?thesis by (auto simp: p(3) data_calls_def connection_world_def)
qed

end
