(* ===== verification/Example_Programs.thy ===== *)
theory Example_Programs
  imports Io_Runner Client_Main Server_Main Exchange
begin

text \<open>
  The two command line programs, \<^verbatim>\<open>example/server/main.cpp\<close> and
  \<^verbatim>\<open>example/client/main.cpp\<close>: the options they take, how they set the library up, what they
  print for every call of the library to one of their handlers, and the calls their main
  thread makes until \<^verbatim>\<open>run\<close> returns.  A line printed is a string; an exception that leaves a function is the
  value on the left of a sum.  What \<^verbatim>\<open>getopt\<close> returns, and the text of the error codes of
  other libraries, is an argument.
\<close>

section \<open>The server's handlers\<close>

text \<open>The handlers of class \<^verbatim>\<open>Port\<close>, and of class \<^verbatim>\<open>Acceptor\<close>; the other's calls are
  \<open>None\<close>.\<close>

fun port_line :: "error_texts \<Rightarrow> server_cb \<Rightarrow> string option" where
  "port_line t (Sc_login_success p) = Some (''login success: session = '' @ la_session p @
     '', next sequence number = '' @ print_nat (unat (la_next_sequence_number p)))"
| "port_line t (Sc_unsequenced_data message) = Some (''unsequenced data: data = '' @ message @
     '', size = '' @ print_nat (length message))"
| "port_line t Sc_logout_request = Some ''logout request''"
| "port_line t Sc_write_buffer_empty = Some ''write buffer empty''"
| "port_line t (Sc_debug text') = Some (''debug: text = '' @ text')"
| "port_line t (Sc_transport_error ec operation) =
     Some (''transport error: error = '' @ print_code t ec @ '', operation = '' @ operation)"
| "port_line t (Sc_protocol_violation e) =
     Some (''protocol violation: error = '' @ packet_error_to_string e)"
| "port_line t (Sc_disconnect reason) =
     Some (''disconnect: reason = '' @ disconnect_reason_to_string reason)"
| "port_line t _ = None"

fun acceptor_line :: "error_texts \<Rightarrow> server_cb \<Rightarrow> string option" where
  "acceptor_line t (Sc_listen_setup_failure ec operation) =
     Some (''listen setup failure: error = '' @ print_code t ec @ '', operation = '' @ operation)"
| "acceptor_line t (Sc_listen_setup_success ep) =
     Some (''listen setup success: endpoint = '' @ print_endpoint ep)"
| "acceptor_line t (Sc_accept_failure ec) = Some (''accept failure: error = '' @ print_code t ec)"
| "acceptor_line t (Sc_accept_success local_ep remote_ep) =
     Some (''accept success: local endpoint = '' @ print_endpoint local_ep @
       '', remote endpoint = '' @ print_endpoint remote_ep)"
| "acceptor_line t (Sc_login_request p) = Some (''login request: username = '' @ lq_username p @
     '', password = '' @ lq_password p @ '', session = '' @ lq_session p @
     '', next sequence number = '' @ print_nat (unat (lq_next_sequence_number p)))"
| "acceptor_line t (Sc_login_failure reason) =
     Some (''login failure: reason = '' @ login_reject_reason_to_string reason)"
| "acceptor_line t (Sc_debug text') = Some (''debug: text = '' @ text')"
| "acceptor_line t (Sc_transport_error ec operation) =
     Some (''transport error: error = '' @ print_code t ec @ '', operation = '' @ operation)"
| "acceptor_line t (Sc_protocol_violation e) =
     Some (''protocol violation: error = '' @ packet_error_to_string e)"
| "acceptor_line t (Sc_disconnect reason) =
     Some (''disconnect: reason = '' @ disconnect_reason_to_string reason)"
| "acceptor_line t _ = None"

definition server_example_send :: "sw \<Rightarrow> string list \<times> sw" where
  \<comment> \<open>\<open>Server::send_message\<close> down to that of \<open>Port\<close>: the port is the acceptor's first\<close>
  "server_example_send w =
    (let message = ''hello client'';
         (error, w) = port_send_message 0 (Some message) (length message) w
     in (if error \<noteq> WE_none then [''send message: error = '' @ write_error_to_string error] else [], w))"

section \<open>Setting the server up\<close>

record example_settings =
  es_username :: bytes
  es_password :: bytes
  es_session :: bytes

text \<open>A \<^verbatim>\<open>std::system_error\<close>: its code and what it says.\<close>

type_synonym system_error = "error_code \<times> string"

text \<open>The handlers of the program are number 0.\<close>

definition acceptor_initialize :: "bytes \<Rightarrow> bytes \<Rightarrow> sw \<Rightarrow> system_error + sw" where
  "acceptor_initialize username password w =
    (case acceptor_add_port username password None w of (result, w) \<Rightarrow>
       (case deref result of
          None \<Rightarrow> Inl (the (error_of result), ''add_port'')
        | Some p \<Rightarrow> Inr (upd_port p (port_set_handler 0) w)))"

definition server_initialize :: "example_settings \<Rightarrow> server \<Rightarrow> system_error + server" where
  "server_initialize es s =
    (case server_set_session (es_session es) s of (ec, s) \<Rightarrow>
       if ec_set ec then Inl (ec, ''set_session'')
       else
         (case server_add_acceptor (''0.0.0.0'', 5050) None s of (result, s) \<Rightarrow>
            (case deref result of
               None \<Rightarrow> Inl (the (error_of result), ''add_acceptor'')
             | Some i \<Rightarrow>
                 (let a = acceptor_set_debug_banner ''hello from acceptor''
                        (acceptor_set_handler 0 (sr_acceptors s ! i))
                  in case acceptor_initialize (es_username es) (es_password es) a of
                       Inl e \<Rightarrow> Inl e
                     | Inr a \<Rightarrow> Inr (s\<lparr>sr_acceptors := (sr_acceptors s)[i := a]\<rparr>)))))"

definition server_example_start :: "server \<Rightarrow> system_error + server" where
  "server_example_start s =
    (case server_start s of (ec, s) \<Rightarrow> if ec_set ec then Inl (ec, ''start'') else Inr s)"

section \<open>The client's handlers\<close>

text \<open>The handlers of class \<^verbatim>\<open>Connection\<close>, and of class \<^verbatim>\<open>Client\<close>.\<close>

fun connection_line :: "error_texts \<Rightarrow> client_cb \<Rightarrow> string option" where
  "connection_line t (Cb_connecting ep) = Some (''connecting: endpoint = '' @ print_endpoint ep)"
| "connection_line t (Cb_connect_failure ec operation) =
     Some (''connect failure: error = '' @ print_code t ec @ '', operation = '' @ operation)"
| "connection_line t (Cb_connect_success local_ep remote_ep) =
     Some (''connect success: local endpoint = '' @ print_endpoint local_ep @
       '', remote endpoint = '' @ print_endpoint remote_ep)"
| "connection_line t (Cb_logging_in p) = Some (''logging in: username = '' @ lq_username p @
     '', password = '' @ lq_password p @ '', session = '' @ lq_session p @
     '', next sequence number = '' @ print_nat (unat (lq_next_sequence_number p)))"
| "connection_line t (Cb_login_failure reason) =
     Some (''login failure: reason = '' @ login_reject_reason_to_string reason)"
| "connection_line t (Cb_login_success p) = Some (''login success: session = '' @ la_session p @
     '', next sequence number = '' @ print_nat (unat (la_next_sequence_number p)))"
| "connection_line t Cb_write_buffer_empty = Some ''write buffer empty''"
| "connection_line t (Cb_debug text') = Some (''debug: text = '' @ text')"
| "connection_line t (Cb_transport_error ec operation) =
     Some (''transport error: error = '' @ print_code t ec @ '', operation = '' @ operation)"
| "connection_line t (Cb_protocol_violation e) =
     Some (''protocol violation: error = '' @ packet_error_to_string e)"
| "connection_line t (Cb_disconnect reason) =
     Some (''disconnect: reason = '' @ disconnect_reason_to_string reason)"
| "connection_line t (Cb_reconnect_scheduled delay) =
     Some (''reconnect scheduled: delay = '' @ print_nat delay @ ''s'')"
| "connection_line t _ = None"

fun client_line :: "client_cb \<Rightarrow> string option" where
  "client_line (Cb_sequenced_data n message) =
     Some (''sequenced data: sequence number = '' @ print_nat (unat n) @ '', data = '' @ message @
       '', size = '' @ print_nat (length message))"
| "client_line Cb_end_of_session = Some ''end of session''"
| "client_line _ = None"

text \<open>Every call of the client has a handler that prints it.\<close>

lemma client_prints: "(connection_line t cb = None) = (client_line cb \<noteq> None)"
  by (cases cb) simp_all

definition client_example_send :: "client \<Rightarrow> string list \<times> client" where
  \<comment> \<open>\<open>Client::send_message\<close> down to that of \<open>Connection\<close>\<close>
  "client_example_send cl =
    (let message = ''hello server'';
         (error, cl) = on_connection 0 (conn_send_message (Some message) (length message)) cl
     in (if error \<noteq> WE_none then [''send message: error = '' @ write_error_to_string error] else [], cl))"

section \<open>Setting the client up\<close>

definition connection_initialize ::
    "example_settings \<Rightarrow> client_connection \<Rightarrow> system_error + client_connection" where
  \<comment> \<open>the constructor of \<open>Connection\<close>\<close>
  "connection_initialize es c =
    (case conn_set_username (es_username es) (conn_set_handler c) of (ec, c) \<Rightarrow>
     if ec_set ec then Inl (ec, ''set_username'')
     else case conn_set_password (es_password es) c of (ec, c) \<Rightarrow>
     if ec_set ec then Inl (ec, ''set_password'')
     else case conn_set_session (es_session es) c of (ec, c) \<Rightarrow>
     if ec_set ec then Inl (ec, ''set_session'') else Inr c)"

definition client_initialize :: "example_settings \<Rightarrow> client \<Rightarrow> system_error + client" where
  "client_initialize es cl =
    (case client_add_connection (''127.0.0.1'', 5050) False cl of (result, cl) \<Rightarrow>
       (case deref result of
          None \<Rightarrow> Inl (the (error_of result), ''add_connection'')
        | Some i \<Rightarrow>
            (case connection_initialize es (ck_connections cl ! i) of
               Inl e \<Rightarrow> Inl e
             | Inr c \<Rightarrow> Inr (cl\<lparr>ck_connections := (ck_connections cl)[i := c]\<rparr>))))"

definition client_example_start :: "client \<Rightarrow> system_error + client" where
  "client_example_start cl =
    (case client_start cl of (ec, cl) \<Rightarrow> if ec_set ec then Inl (ec, ''start'') else Inr cl)"

section \<open>Options\<close>

text \<open>What a call of \<^verbatim>\<open>getopt\<close> with \<^verbatim>\<open>:hp:s:u:v\<close> returns: the option, \<^verbatim>\<open>optarg\<close> and
  \<^verbatim>\<open>optopt\<close>; the list ends where it returns -1.\<close>

record option_found =
  of_opt :: char
  of_optarg :: bytes
  of_optopt :: int

datatype options = Run_with example_settings | Usage | Version | Wrong option_error

text \<open>What the main thread asks of the library after \<^verbatim>\<open>start\<close>.  The messages are posted, so
  they are sent by the thread that runs the \<^verbatim>\<open>io_context\<close>.\<close>

datatype server_call = Server_send_posted | Server_session_end | Server_program_stop
datatype client_call = Client_send_posted | Client_logout | Client_program_stop

fun server_example_call :: "server_call \<Rightarrow> server \<Rightarrow> string list \<times> server" where
  "server_example_call Server_send_posted s =
     (case server_example_send (sr_acceptors s ! 0) of (out, a) \<Rightarrow>
        (out, s\<lparr>sr_acceptors := (sr_acceptors s)[0 := a]\<rparr>))"
| "server_example_call Server_session_end s = ([], server_end_session s)"
| "server_example_call Server_program_stop s = ([], server_stop s)"

fun client_example_call :: "client_call \<Rightarrow> client \<Rightarrow> string list \<times> client" where
  "client_example_call Client_send_posted cl = client_example_send cl"
| "client_example_call Client_logout cl = ([], client_send_logout_request cl)"
| "client_example_call Client_program_stop cl = ([], client_stop cl)"

text \<open>What happens around a run: the results of adding the two signals, the signals that arrive
  before the loop, the console while it runs, and the number of handlers that the
  \<^verbatim>\<open>io_context\<close> has run in the end.\<close>

record surroundings =
  su_adds :: "error_code \<times> error_code"
  su_early :: "int list"
  su_console :: "console list"
  su_count :: nat

section \<open>The server program\<close>

text \<open>The value of \<^verbatim>\<open>run\<close>: the lines of its own threads, and the exception that leaves it or
  the library's object, started, with the calls that follow.  An exception leaves through the
  destructor of the runner.  The value of \<^verbatim>\<open>main\<close>: the lines printed, and the exit status
  or what \<^verbatim>\<open>run\<close> did with the library.\<close>

definition server_defaults :: example_settings where
  "server_defaults = \<lparr>es_username = ''user'', es_password = ''pass'', es_session = ''sess''\<rparr>"

fun server_options :: "option_found list \<Rightarrow> example_settings \<Rightarrow> options" where
  "server_options [] es = Run_with es"
| "server_options (f # fs) es =
    (if of_opt f = CHR ''h'' then Usage
     else if of_opt f = CHR ''p'' then server_options fs (es\<lparr>es_password := of_optarg f\<rparr>)
     else if of_opt f = CHR ''s'' then server_options fs (es\<lparr>es_session := of_optarg f\<rparr>)
     else if of_opt f = CHR ''u'' then server_options fs (es\<lparr>es_username := of_optarg f\<rparr>)
     else if of_opt f = CHR ''v'' then Version
     else if of_opt f = CHR '':'' then Wrong (missing_argument (of_optopt f))
     else Wrong (illegal_option (of_optopt f)))"

definition server_usage :: "string list" where
  "server_usage = [''usage: bc_soup_server [options]'', ''options:'', ''  -h  help'',
     ''  -p  password [pass]'', ''  -s  session [sess]'', ''  -u  username [user]'', ''  -v  version'']"

definition server_version :: "nat \<Rightarrow> nat \<Rightarrow> string" where
  "server_version major minor = ''version '' @ print_nat major @ ''.'' @ print_nat minor"

text \<open>The loop of \<^verbatim>\<open>run\<close>, and its rest from within \<^verbatim>\<open>getline\<close>: \<open>keep_going\<close> is looked at
  again only after a line has been read.  The result is what was printed and the lines for
  which a message is posted.\<close>

fun server_reads ::
    "error_texts \<Rightarrow> bool io_runner \<Rightarrow> bool \<Rightarrow> console list \<Rightarrow> string list \<times> bytes list \<times> bool io_runner" where
  "server_reads t r keep_going [] = ([], [], r)"
| "server_reads t r keep_going (Signalled n # cs) =
    (let (out, r, keep_going) = signal_arrives t n r keep_going;
         (out', ls, r) = server_reads t r keep_going cs
     in (out @ out', ls, r))"
| "server_reads t r keep_going (Typed line # cs) =
    (if line = ''q'' then ([], [], r)
     else if keep_going
     then (let (out, ls, r) = server_reads t r keep_going cs in (out, line # ls, r))
     else ([], [line], r))"

definition server_console ::
    "error_texts \<Rightarrow> bool io_runner \<Rightarrow> bool \<Rightarrow> console list \<Rightarrow> string list \<times> bytes list \<times> bool io_runner" where
  "server_console t r keep_going cs = (if keep_going then server_reads t r keep_going cs else ([], [], r))"

definition server_program_run ::
    "error_texts \<Rightarrow> surroundings \<Rightarrow> example_settings \<Rightarrow>
     string list \<times> (system_error + server \<times> server_call list)" where
  "server_program_run t su es =
    (let (added, r) = runner_set_signal_handler t (su_adds su) (\<lambda>_. False) runner_new
     in case server_initialize es server_new of
          Inl e \<Rightarrow> (added @ fst (runner_destroy (su_count su) r), Inl e)
        | Inr s \<Rightarrow>
            (let r = runner_start r in
             case server_example_start s of
               Inl e \<Rightarrow> (added @ fst (runner_destroy (su_count su) r), Inl e)
             | Inr s \<Rightarrow>
                 (let (early, r, keep_going) = signals_arrive t (su_early su) r True;
                      (out, ls, r) = server_console t r keep_going (su_console su);
                      (ended, r) = runner_stop (su_count su) r
                  in (added @ early @ [''press enter to send a message, q to quit''] @ out @ ended,
                      Inr (s, map (\<lambda>_. Server_send_posted) ls @ [Server_session_end, Server_program_stop])))))"

definition server_error_line :: "error_texts \<Rightarrow> system_error \<Rightarrow> string" where
  "server_error_line t e = ''system error: '' @ code_name t (fst e) @ '':'' @
     print_int (ec_value (fst e)) @ '' '' @ et_what t (snd e) (code_message t (fst e))"

definition server_main ::
    "error_texts \<Rightarrow> surroundings \<Rightarrow> nat \<Rightarrow> nat \<Rightarrow> option_found list \<Rightarrow>
     string list \<times> (nat + server \<times> server_call list)" where
  "server_main t su major minor fs =
    (case server_options fs server_defaults of
       Usage \<Rightarrow> (server_usage, Inl 0)
     | Version \<Rightarrow> ([server_version major minor], Inl 0)
     | Wrong e \<Rightarrow> ([what e], Inl 1)
     | Run_with es \<Rightarrow>
         (case server_program_run t su es of
            (out, Inl e) \<Rightarrow> (out @ [server_error_line t e], Inl 1)
          | (out, Inr result) \<Rightarrow> (out, Inr result)))"

section \<open>The client program\<close>

text \<open>The two programs have no code in common but the runner and the option errors, so the
  client's is translated on its own.\<close>

definition client_defaults :: example_settings where
  "client_defaults = \<lparr>es_username = ''user'', es_password = ''pass'', es_session = ''sess''\<rparr>"

fun client_options :: "option_found list \<Rightarrow> example_settings \<Rightarrow> options" where
  "client_options [] es = Run_with es"
| "client_options (f # fs) es =
    (if of_opt f = CHR ''h'' then Usage
     else if of_opt f = CHR ''p'' then client_options fs (es\<lparr>es_password := of_optarg f\<rparr>)
     else if of_opt f = CHR ''s'' then client_options fs (es\<lparr>es_session := of_optarg f\<rparr>)
     else if of_opt f = CHR ''u'' then client_options fs (es\<lparr>es_username := of_optarg f\<rparr>)
     else if of_opt f = CHR ''v'' then Version
     else if of_opt f = CHR '':'' then Wrong (missing_argument (of_optopt f))
     else Wrong (illegal_option (of_optopt f)))"

definition client_usage :: "string list" where
  "client_usage = [''usage: bc_soup_client [options]'', ''options:'', ''  -h  help'',
     ''  -p  password [pass]'', ''  -s  session [sess]'', ''  -u  username [user]'', ''  -v  version'']"

definition client_version :: "nat \<Rightarrow> nat \<Rightarrow> string" where
  "client_version major minor = ''version '' @ print_nat major @ ''.'' @ print_nat minor"

text \<open>The loop of \<^verbatim>\<open>run\<close>, and its rest from within \<^verbatim>\<open>getline\<close>: \<open>keep_going\<close> is looked at
  again only after a line has been read.  The result is what was printed and the lines for
  which a message is posted.\<close>

fun client_reads ::
    "error_texts \<Rightarrow> bool io_runner \<Rightarrow> bool \<Rightarrow> console list \<Rightarrow> string list \<times> bytes list \<times> bool io_runner" where
  "client_reads t r keep_going [] = ([], [], r)"
| "client_reads t r keep_going (Signalled n # cs) =
    (let (out, r, keep_going) = signal_arrives t n r keep_going;
         (out', ls, r) = client_reads t r keep_going cs
     in (out @ out', ls, r))"
| "client_reads t r keep_going (Typed line # cs) =
    (if line = ''q'' then ([], [], r)
     else if keep_going
     then (let (out, ls, r) = client_reads t r keep_going cs in (out, line # ls, r))
     else ([], [line], r))"

definition client_console ::
    "error_texts \<Rightarrow> bool io_runner \<Rightarrow> bool \<Rightarrow> console list \<Rightarrow> string list \<times> bytes list \<times> bool io_runner" where
  "client_console t r keep_going cs = (if keep_going then client_reads t r keep_going cs else ([], [], r))"

definition client_program_run ::
    "error_texts \<Rightarrow> surroundings \<Rightarrow> example_settings \<Rightarrow>
     string list \<times> (system_error + client \<times> client_call list)" where
  "client_program_run t su es =
    (let (added, r) = runner_set_signal_handler t (su_adds su) (\<lambda>_. False) runner_new
     in case client_initialize es (client_set_handler (client_new False)) of
          Inl e \<Rightarrow> (added @ fst (runner_destroy (su_count su) r), Inl e)
        | Inr cl \<Rightarrow>
            (let r = runner_start r in
             case client_example_start cl of
               Inl e \<Rightarrow> (added @ fst (runner_destroy (su_count su) r), Inl e)
             | Inr cl \<Rightarrow>
                 (let (early, r, keep_going) = signals_arrive t (su_early su) r True;
                      (out, ls, r) = client_console t r keep_going (su_console su);
                      (ended, r) = runner_stop (su_count su) r
                  in (added @ early @ [''press enter to send a message, q to quit''] @ out @ ended,
                      Inr (cl, map (\<lambda>_. Client_send_posted) ls @ [Client_logout, Client_program_stop])))))"

definition client_error_line :: "error_texts \<Rightarrow> system_error \<Rightarrow> string" where
  "client_error_line t e = ''system error: '' @ code_name t (fst e) @ '':'' @
     print_int (ec_value (fst e)) @ '' '' @ et_what t (snd e) (code_message t (fst e))"

definition client_main ::
    "error_texts \<Rightarrow> surroundings \<Rightarrow> nat \<Rightarrow> nat \<Rightarrow> option_found list \<Rightarrow>
     string list \<times> (nat + client \<times> client_call list)" where
  "client_main t su major minor fs =
    (case client_options fs client_defaults of
       Usage \<Rightarrow> (client_usage, Inl 0)
     | Version \<Rightarrow> ([client_version major minor], Inl 0)
     | Wrong e \<Rightarrow> ([what e], Inl 1)
     | Run_with es \<Rightarrow>
         (case client_program_run t su es of
            (out, Inl e) \<Rightarrow> (out @ [client_error_line t e], Inl 1)
          | (out, Inr result) \<Rightarrow> (out, Inr result)))"

section \<open>What the two programs set up\<close>

definition settings_ok :: "example_settings \<Rightarrow> bool" where
  "settings_ok es \<longleftrightarrow> \<not> ec_set (validate_username (es_username es)) \<and>
     \<not> ec_set (validate_password (es_password es)) \<and> \<not> ec_set (validate_session (es_session es))"

definition example_port :: "example_settings \<Rightarrow> port" where
  "example_port es = port_new (es_username es) (es_password es) (Some 0)"

definition example_acceptor :: "example_settings \<Rightarrow> sw" where
  "example_acceptor es = (acceptor_new (''0.0.0.0'', 5050) (Some 0))
     \<lparr>ac_debug_banner := ''hello from acceptor'', ac_ports := [example_port es]\<rparr>"

lemma no_error_unset [simp]: "\<not> ec_set no_error"
  by (simp add: ec_defs)

lemma server_sets_up:
  "if settings_ok es
   then server_initialize es server_new = Inr (server_new
          \<lparr>sr_session := es_session es, sr_acceptors := [example_acceptor es]\<rparr>)
   else isl (server_initialize es server_new)"
  by (simp add: settings_ok_def server_initialize_def server_set_session_def Let_def server_new_def
      server_add_acceptor_def acceptor_initialize_def acceptor_add_port_def acceptor_new_def deref_def
      acceptor_set_handler_def acceptor_set_debug_banner_def upd_port_def port_set_handler_def
      example_acceptor_def example_port_def port_new_def)

definition example_connection :: "example_settings \<Rightarrow> client_connection" where
  "example_connection es = (client_connection_new (''127.0.0.1'', 5050) True)
     \<lparr>cc_username := es_username es, cc_password := es_password es, cc_session := es_session es\<rparr>"

lemma client_sets_up:
  "if settings_ok es
   then client_initialize es (client_set_handler (client_new False)) =
          Inr ((client_new True)\<lparr>ck_connections := [example_connection es]\<rparr>)
   else isl (client_initialize es (client_set_handler (client_new False)))"
  by (simp add: settings_ok_def client_initialize_def deref_def client_set_handler_def client_new_def
      client_add_connection_def connection_initialize_def conn_set_username_def conn_set_password_def
      conn_set_session_def conn_set_handler_def client_connection_new_def example_connection_def Let_def)

section \<open>What the options choose\<close>

text \<open>Of each of the three options the last one counts; without it, a default.\<close>

definition last_arg :: "char \<Rightarrow> bytes \<Rightarrow> option_found list \<Rightarrow> bytes" where
  "last_arg c d fs =
    (let found = filter (\<lambda>f. of_opt f = c) fs in if found = [] then d else of_optarg (last found))"

definition chosen :: "option_found list \<Rightarrow> example_settings" where
  "chosen fs = \<lparr>es_username = last_arg CHR ''u'' ''user'' fs,
     es_password = last_arg CHR ''p'' ''pass'' fs, es_session = last_arg CHR ''s'' ''sess'' fs\<rparr>"

definition plain :: "option_found \<Rightarrow> bool" where
  "plain f \<longleftrightarrow> of_opt f \<in> {CHR ''p'', CHR ''s'', CHR ''u''}"

text \<open>The exit status when the library is not started: 0 for the first other option when that
  asks for help or the version, otherwise 1.\<close>

definition early_status :: "option_found list \<Rightarrow> nat" where
  "early_status fs = (case dropWhile plain fs of
     [] \<Rightarrow> 1 | f # _ \<Rightarrow> if of_opt f = CHR ''h'' \<or> of_opt f = CHR ''v'' then 0 else 1)"

lemma last_arg_simps [simp]:
  "last_arg c d [] = d" "last_arg c d (f # fs) = last_arg c (if of_opt f = c then of_optarg f else d) fs"
  by (simp_all add: last_arg_def Let_def)

lemma options_plain:
  assumes "list_all plain fs"
  shows "server_options fs es = Run_with \<lparr>es_username = last_arg CHR ''u'' (es_username es) fs,
      es_password = last_arg CHR ''p'' (es_password es) fs, es_session = last_arg CHR ''s'' (es_session es) fs\<rparr>"
    and "client_options fs es = Run_with \<lparr>es_username = last_arg CHR ''u'' (es_username es) fs,
      es_password = last_arg CHR ''p'' (es_password es) fs, es_session = last_arg CHR ''s'' (es_session es) fs\<rparr>"
  using assms by (induction fs arbitrary: es) (auto simp: plain_def)

text \<open>What the options give when the library is not started.\<close>

fun status_of :: "options \<Rightarrow> nat option" where
  "status_of (Run_with es) = None"
| "status_of Usage = Some 0"
| "status_of Version = Some 0"
| "status_of (Wrong e) = Some 1"

lemma options_other:
  assumes "\<not> list_all plain fs"
  shows "status_of (server_options fs es) = Some (early_status fs)"
    and "status_of (client_options fs es) = Some (early_status fs)"
  using assms by (induction fs arbitrary: es) (auto simp: plain_def early_status_def)

lemma main_other:
  "status_of (server_options fs server_defaults) = Some n \<Longrightarrow> snd (server_main t su major minor fs) = Inl n"
  "status_of (client_options fs client_defaults) = Some n \<Longrightarrow> snd (client_main t su major minor fs) = Inl n"
  by (auto simp: server_main_def client_main_def elim!: status_of.elims)

section \<open>What the console posts\<close>

text \<open>The same lines in both programs, whatever is printed.\<close>

lemma reads_agree:
  "fst (snd (client_reads t' r k cs)) = fst (snd (server_reads t r k cs))"
proof (induction t r k cs rule: server_reads.induct)
  case (2 t r k n cs)
  obtain out r1 k1 where s: "signal_arrives t n r k = (out, r1, k1)" by (cases "signal_arrives t n r k") auto
  with signal_arrives_texts [of t' n r k t] have "snd (signal_arrives t' n r k) = (r1, k1)"
    by (simp add: prod_eq_iff)
  with s 2 [OF s [symmetric] refl refl] show ?case by (simp add: Let_def split_def)
qed (auto simp: Let_def split_def)

definition posted_lines :: "error_texts \<Rightarrow> surroundings \<Rightarrow> bytes list" where
  "posted_lines t su =
    (let r = runner_start (snd (runner_set_signal_handler t (su_adds su) (\<lambda>_. False) runner_new));
         (_, r, keep_going) = signals_arrive t (su_early su) r True
     in fst (snd (server_console t r keep_going (su_console su))))"

lemma posted_same:
  "posted_lines t su =
    (let r = runner_start (snd (runner_set_signal_handler t' (su_adds su) (\<lambda>_. False) runner_new));
         (_, r, keep_going) = signals_arrive t' (su_early su) r True
     in fst (snd (client_console t' r keep_going (su_console su))))"
proof -
  note same = runner_set_texts [of t' _ _ _ t]
    signals_arrive_texts [of t' _ _ _ t, THEN conjunct1] signals_arrive_texts [of t' _ _ _ t, THEN conjunct2]
  show ?thesis
    by (simp add: posted_lines_def Let_def split_def same server_console_def client_console_def
        reads_agree [of t' _ _ _ t])
qed

lemma reads_lines:
  "fst (snd (server_reads t r True (map Typed ls))) = takeWhile (\<lambda>l. l \<noteq> ''q'') ls"
  by (induction ls) (simp_all add: Let_def split_def)

lemma posted_unsignalled:
  "su_early su = [] \<Longrightarrow> su_console su = map Typed ls \<Longrightarrow> posted_lines t su = takeWhile (\<lambda>l. l \<noteq> ''q'') ls"
  by (simp add: posted_lines_def server_console_def reads_lines Let_def split_def)

text \<open>After a signal the line that \<^verbatim>\<open>getline\<close> is waiting for is still read, and its message is
  posted, although the program has said that it is shutting down.\<close>

lemma line_after_signal:
  assumes "r = snd (runner_set_signal_handler t (no_error, no_error) (\<lambda>_. False) runner_new)"
    and "line \<noteq> ''q''"
  shows "fst (snd (server_console t r True (Signalled sigint # Typed line # cs))) = [line]"
  using assms(2)
  by (simp add: assms(1) server_console_def signal_arrives_def runner_signal_done_def
      runner_set_signal_handler_def runner_add_signal_def runner_new_def Let_def ec_defs)

section \<open>The two programs\<close>

lemma main_runs:
  assumes "server_options fs server_defaults = Run_with es" and "server_initialize es server_new = Inr s"
    and "server_example_start s = Inr s'"
  shows "snd (server_main t su major minor fs) = Inr (s', map (\<lambda>_. Server_send_posted) (posted_lines t su) @
      [Server_session_end, Server_program_stop])"
  using assms by (simp add: server_main_def server_program_run_def posted_lines_def Let_def split_def)

lemma client_main_runs:
  assumes "client_options fs client_defaults = Run_with es"
    and "client_initialize es (client_set_handler (client_new False)) = Inr cl"
    and "client_example_start cl = Inr cl'"
  shows "snd (client_main t su major minor fs) = Inr (cl', map (\<lambda>_. Client_send_posted) (posted_lines t su) @
      [Client_logout, Client_program_stop])"
  using assms posted_same [of t su t]
  by (simp add: client_main_def client_program_run_def Let_def split_def)

lemma main_throws:
  "server_options fs server_defaults = Run_with es \<Longrightarrow> isl (server_initialize es server_new) \<Longrightarrow>
     snd (server_main t su major minor fs) = Inl 1"
  "client_options fs client_defaults = Run_with es \<Longrightarrow>
     isl (client_initialize es (client_set_handler (client_new False))) \<Longrightarrow>
     snd (client_main t su major minor fs) = Inl 1"
  by (auto simp: server_main_def server_program_run_def client_main_def client_program_run_def
      Let_def split_def isl_def)

text \<open>C39 Given the same options, the two example programs fit together.  Both take the last
  argument of each of \<open>-u\<close>, \<open>-p\<close> and \<open>-s\<close>, or \<open>user\<close>, \<open>pass\<close> and \<open>sess\<close>.  When there is
  another option or one of the three texts is not valid, both end without starting the
  library, with the same exit status.  Otherwise both start it with every handler set and
  these credentials, the server's one port admits the login request that the client will
  send; and then, given the same console and the same signals, both post the same number of
  messages, one for each line before the first \<open>q\<close> when no signal comes, end the session and
  stop.\<close>

theorem example_programs_agree:
  "case (snd (server_main t su major minor fs), snd (client_main t' su major' minor' fs)) of
     (Inl status, Inl status') \<Rightarrow> \<not> (list_all plain fs \<and> settings_ok (chosen fs)) \<and>
       status = early_status fs \<and> status' = early_status fs
   | (Inr (s, calls), Inr (cl, calls')) \<Rightarrow> list_all plain fs \<and> settings_ok (chosen fs) \<and>
       (\<exists>n. calls = replicate n Server_send_posted @ [Server_session_end, Server_program_stop] \<and>
          calls' = replicate n Client_send_posted @ [Client_logout, Client_program_stop] \<and>
          (su_early su = [] \<and> su_console su = map Typed ls \<longrightarrow>
             n = length (takeWhile (\<lambda>l. l \<noteq> ''q'') ls))) \<and>
       sr_posts s = [Srv_post_start] \<and> ck_posts cl = [Post_start] \<and>
       sr_session s = es_session (chosen fs) \<and>
       (\<exists>a po c. sr_acceptors s = [a] \<and> acceptor_is_handler_set a \<and> ac_ports a = [po] \<and>
          po_username po = es_username (chosen fs) \<and> po_password po = es_password (chosen fs) \<and>
          ck_connections cl = [c] \<and> conn_is_handler_set c \<and> cc_username c = es_username (chosen fs) \<and>
          cc_password c = es_password (chosen fs) \<and> cc_session c = es_session (chosen fs) \<and>
          valid_request (login_request_of (connection_world 0 cl)) \<and>
          port_admits (sr_session s) (login_request_of (connection_world 0 cl)) po)
   | _ \<Rightarrow> False"
proof (cases "list_all plain fs")
  case False
  from main_other(1) [OF options_other(1) [OF False]] main_other(2) [OF options_other(2) [OF False]] False
  show ?thesis by simp
next
  case plain: True
  let ?es = "chosen fs"
  have opts: "server_options fs server_defaults = Run_with ?es" "client_options fs client_defaults = Run_with ?es"
    using options_plain [OF plain] by (simp_all add: chosen_def server_defaults_def client_defaults_def)
  have "dropWhile plain fs = []" using plain by (simp add: list_all_iff dropWhile_eq_Nil_conv)
  then have status: "early_status fs = 1" by (simp only: early_status_def list.case)
  show ?thesis
  proof (cases "settings_ok ?es")
    case False
    with server_sets_up [of ?es] client_sets_up [of ?es]
    show ?thesis by (simp add: main_throws(1) [OF opts(1)] main_throws(2) [OF opts(2)] status)
  next
    case True
    let ?s = "server_new\<lparr>sr_session := es_session ?es, sr_acceptors := [example_acceptor ?es]\<rparr>"
    let ?c = "(client_new True)\<lparr>ck_connections := [example_connection ?es]\<rparr>"
    let ?n = "length (posted_lines t su)"
    have "server_example_start ?s = Inr (?s\<lparr>sr_posts := [Srv_post_start]\<rparr>)"
      using True by (simp add: server_example_start_def server_start_def settings_ok_def
          acceptor_is_handler_set_def example_acceptor_def example_port_def acceptor_new_def
          port_new_def port_is_handler_set_def server_new_def validate_fits)
    then have s: "snd (server_main t su major minor fs) = Inr (?s\<lparr>sr_posts := [Srv_post_start]\<rparr>,
        replicate ?n Server_send_posted @ [Server_session_end, Server_program_stop])"
      using True server_sets_up [of ?es] by (simp add: main_runs [OF opts(1)] map_replicate_const)
    have "client_example_start ?c = Inr (?c\<lparr>ck_posts := [Post_start]\<rparr>)"
      by (simp add: client_example_start_def client_start_def client_new_def conn_is_handler_set_def
          example_connection_def client_connection_new_def)
    moreover have "posted_lines t' su = posted_lines t su"
      using posted_same [of t su t'] posted_same [of t' su t'] by simp
    ultimately have c: "snd (client_main t' su major' minor' fs) = Inr (?c\<lparr>ck_posts := [Post_start]\<rparr>,
        replicate ?n Client_send_posted @ [Client_logout, Client_program_stop])"
      using True client_sets_up [of ?es] by (simp add: client_main_runs [OF opts(2)] map_replicate_const)
    have "su_early su = [] \<and> su_console su = map Typed ls \<longrightarrow> ?n = length (takeWhile (\<lambda>l. l \<noteq> ''q'') ls)"
      by (auto simp: posted_unsignalled)
    with True plain show ?thesis unfolding s c
      by (simp add: acceptor_is_handler_set_def example_acceptor_def example_port_def acceptor_new_def
          port_new_def port_is_handler_set_def example_connection_def client_connection_new_def
          server_new_def client_new_def login_request_of_def connection_world_def
          login_request_packet_of_def port_admits_def valid_request_def settings_ok_def validate_fits
          conn_is_handler_set_def)
  qed
qed

definition demo_texts :: error_texts where
  "demo_texts = \<lparr>et_name = \<lambda>_. [], et_message = \<lambda>_. [], et_what = \<lambda>a _. a\<rparr>"

definition demo_options :: "option_found list" where
  "demo_options = [\<lparr>of_opt = CHR ''u'', of_optarg = ''alice'', of_optopt = 0\<rparr>,
     \<lparr>of_opt = CHR ''s'', of_optarg = ''S1'', of_optopt = 0\<rparr>,
     \<lparr>of_opt = CHR ''u'', of_optarg = ''bob'', of_optopt = 0\<rparr>]"

definition demo_surroundings :: surroundings where
  "demo_surroundings = \<lparr>su_adds = (no_error, no_error), su_early = [],
     su_console = map Typed [''a'', [], ''q'', ''b''], su_count = 7\<rparr>"

theorem example_programs_agree_witness:
  "\<exists>s cl calls calls'. snd (server_main demo_texts demo_surroundings 0 1 demo_options) = Inr (s, calls) \<and>
     snd (client_main demo_texts demo_surroundings 0 1 demo_options) = Inr (cl, calls') \<and>
     calls = [Server_send_posted, Server_send_posted, Server_session_end, Server_program_stop] \<and>
     calls' = [Client_send_posted, Client_send_posted, Client_logout, Client_program_stop] \<and>
     sr_session s = ''S1''"
proof -
  have chosen: "chosen demo_options = \<lparr>es_username = ''bob'', es_password = ''pass'', es_session = ''S1''\<rparr>"
    by (simp add: chosen_def demo_options_def)
  have ok: "list_all plain demo_options" "settings_ok (chosen demo_options)"
    unfolding chosen
    by (simp_all add: demo_options_def plain_def settings_ok_def validate_fits fits_def length_defs is_alnum_def)
  have su: "su_early demo_surroundings = []" "su_console demo_surroundings = map Typed [''a'', [], ''q'', ''b'']"
    by (simp_all add: demo_surroundings_def)
  show ?thesis
    using example_programs_agree [where t = demo_texts and t' = demo_texts and su = demo_surroundings
        and major = 0 and minor = 1 and major' = 0 and minor' = 1 and fs = demo_options
        and ls = "[''a'', [], ''q'', ''b'']"] ok su
    by (cases "snd (server_main demo_texts demo_surroundings 0 1 demo_options)";
        cases "snd (client_main demo_texts demo_surroundings 0 1 demo_options)")
      (auto simp: chosen numeral_2_eq_2)
qed

end
