(* ===== verification/Stages.thy ===== *)
theory Stages
  imports Connection_State
begin

text \<open>
  The life of a connection.  \<open>phase\<close> and \<open>life_step\<close> are the abstract machine: what a user
  of the library is promised of a connection, stated with no function of the code.
  \<open>moves\<close> is what the code's own functions do to the member \<^verbatim>\<open>state_\<close> of a connection; each of
  them is shown to be a step of the abstract machine (\<open>moves_life\<close>).  The states are ordered by
  how far a connection has come; no move goes back, and the first cause of the end stays.
\<close>

section \<open>The order of the states\<close>

fun stage :: "state \<Rightarrow> nat" where
  "stage Connecting = 0"
| "stage Connected = 1"
| "stage Logged_in = 2"
| "stage Disconnecting = 3"
| "stage Disconnected = 4"

lemma stage_inj [simp]: "stage a = stage b \<longleftrightarrow> a = b"
  by (cases a; cases b) simp_all

instantiation state :: linorder
begin

definition less_eq_state :: "state \<Rightarrow> state \<Rightarrow> bool" where
  "less_eq_state a b \<longleftrightarrow> stage a \<le> stage b"

definition less_state :: "state \<Rightarrow> state \<Rightarrow> bool" where
  "less_state a b \<longleftrightarrow> stage a < stage b"

instance
  by standard (auto simp: less_eq_state_def less_state_def)

end

lemma Disconnected_top [simp]: "st \<le> Disconnected"
  by (cases st) (simp_all add: less_eq_state_def)

lemma is_closing_stage: "is_closing cs \<longleftrightarrow> Disconnecting \<le> cs_state cs"
  by (cases "cs_state cs") (simp_all add: is_closing_def less_eq_state_def)

section \<open>Moves\<close>

inductive moves :: "connection_state \<Rightarrow> connection_state \<Rightarrow> bool" where
  connected: "cs_state cs = Connecting \<Longrightarrow> moves cs (set_state Connected cs)"
| logged_in: "cs_state cs = Connected \<Longrightarrow> moves cs (set_state Logged_in cs)"
| initiated: "r \<noteq> DR_none \<Longrightarrow> \<not> is_closing cs \<Longrightarrow> moves cs (snd (initiate_disconnect r cs))"
| ended: "r \<noteq> DR_none \<Longrightarrow> cs_state cs \<noteq> Disconnected \<Longrightarrow> moves cs (snd (cs_disconnect r cs))"

inductive_cases moves_elim: "moves cs cs'"

abbreviation eventually_moves :: "connection_state \<Rightarrow> connection_state \<Rightarrow> bool" where
  "eventually_moves \<equiv> moves\<^sup>*\<^sup>*"

lemmas stage_defs = less_eq_state_def less_state_def set_state_def is_closing_def
  initiate_disconnect_def cs_disconnect_def Let_def

lemma moves_forward: "moves cs cs' \<Longrightarrow> cs_state cs < cs_state cs'"
  by (cases "cs_state cs") (auto simp: stage_defs elim!: moves_elim)

lemma moves_reason:
  "moves cs cs' \<Longrightarrow> cs_reason cs \<noteq> DR_none \<Longrightarrow> is_closing cs \<Longrightarrow> cs_reason cs' = cs_reason cs"
  by (auto simp: stage_defs elim!: moves_elim)

text \<open>A reason is recorded exactly when the connection is closing.\<close>

definition reason_ok :: "connection_state \<Rightarrow> bool" where
  "reason_ok cs \<longleftrightarrow> (cs_reason cs \<noteq> DR_none \<longleftrightarrow> is_closing cs)"

lemma moves_reason_ok: "moves cs cs' \<Longrightarrow> reason_ok cs \<Longrightarrow> reason_ok cs'"
  by (auto simp: stage_defs reason_ok_def elim!: moves_elim split: if_splits)

lemma reason_ok_new [simp]:
  "reason_ok connection_state_default" "st < Disconnecting \<Longrightarrow> reason_ok (connection_state_of st)"
  by (auto simp: reason_ok_def connection_state_default_def connection_state_of_def stage_defs)

text \<open>What the connections call is such a move, or nothing.\<close>

lemma disconnect_moves:
  assumes "r \<noteq> DR_none"
  shows "eventually_moves cs (snd (cs_disconnect r cs))"
proof (cases "cs_state cs = Disconnected")
  case True
  then show ?thesis by (simp add: cs_disconnect_def)
next
  case False
  show ?thesis by (rule r_into_rtranclp, rule moves.ended [OF assms False])
qed

lemma initiate_moves:
  assumes "r \<noteq> DR_none"
  shows "eventually_moves cs (snd (initiate_disconnect r cs))"
proof (cases "is_closing cs")
  case True
  then show ?thesis by (simp add: initiate_disconnect_def)
next
  case False
  show ?thesis by (rule r_into_rtranclp, rule moves.initiated [OF assms False])
qed

lemma eventually_forward: "eventually_moves cs cs' \<Longrightarrow> cs_state cs \<le> cs_state cs'"
proof (induction rule: rtranclp_induct)
  case (step y z)
  from moves_forward [OF step.hyps(2)] step.IH show ?case by simp
qed simp

lemma eventually_reason_ok: "eventually_moves cs cs' \<Longrightarrow> reason_ok cs \<Longrightarrow> reason_ok cs'"
  by (induction rule: rtranclp_induct) (simp_all add: moves_reason_ok)

lemma eventually_reason:
  assumes "eventually_moves cs cs'" and "reason_ok cs" and "is_closing cs"
  shows "cs_reason cs' = cs_reason cs"
  using assms(1)
proof (induction rule: rtranclp_induct)
  case base
  show ?case by (rule refl)
next
  case (step y z)
  have "reason_ok y" using step.hyps(1) assms(2) by (rule eventually_reason_ok)
  moreover have "is_closing y"
    using eventually_forward [OF step.hyps(1)] assms(3) by (simp add: is_closing_stage)
  ultimately show ?case using moves_reason [OF step.hyps(2)] step.IH by (simp add: reason_ok_def)
qed

section \<open>The abstract life\<close>

text \<open>A client's connection is dialing first; a server's is born waiting for a login.  A
  connection that ends, ends for a reason, at once or after a graceful part; and the reason
  it was leaving for is the one it is over for.\<close>

datatype phase = Dialing | Waiting | Online | Leaving disconnect_reason | Over disconnect_reason

inductive life_step :: "phase \<Rightarrow> phase \<Rightarrow> bool" where
  reached: "life_step Dialing Waiting"
| let_in: "life_step Waiting Online"
| leaves: "p \<in> {Dialing, Waiting, Online} \<Longrightarrow> r \<noteq> DR_none \<Longrightarrow> life_step p (Leaving r)"
| breaks: "p \<in> {Dialing, Waiting, Online} \<Longrightarrow> r \<noteq> DR_none \<Longrightarrow> life_step p (Over r)"
| left: "life_step (Leaving r) (Over r)"

inductive_simps life_step_simps [simp]: "life_step p Waiting" "life_step p Online"
  "life_step (Leaving r) p" "life_step (Over r) p"

fun phase_of :: "connection_state \<Rightarrow> phase" where
  "phase_of cs = (case cs_state cs of
     Connecting \<Rightarrow> Dialing | Connected \<Rightarrow> Waiting | Logged_in \<Rightarrow> Online
   | Disconnecting \<Rightarrow> Leaving (cs_reason cs) | Disconnected \<Rightarrow> Over (cs_reason cs))"

text \<open>The code's moves refine it, as long as reasons are recorded only by an end.\<close>

lemma moves_life:
  assumes "moves cs cs'" and "reason_ok cs"
  shows "life_step (phase_of cs) (phase_of cs')"
  using assms
  by (cases "cs_state cs")
    (auto simp: stage_defs reason_ok_def elim!: moves_elim intro: life_step.intros split: if_splits)

lemma eventually_life:
  assumes "eventually_moves cs cs'" and "reason_ok cs"
  shows "life_step\<^sup>*\<^sup>* (phase_of cs) (phase_of cs')"
  using assms(1)
proof (induction rule: rtranclp_induct)
  case (step y z)
  have "reason_ok y" using step.hyps(1) assms(2) by (rule eventually_reason_ok)
  from step.IH moves_life [OF step.hyps(2) this] show ?case by (rule rtranclp.rtrancl_into_rtrancl)
qed simp

end
