(* ===== verification/Server_Stages.thy ===== *)
theory Server_Stages
  imports Server_Main Server_Demo Stages
begin

text \<open>
  The connections of the server refine the abstract life of \<open>Stages\<close>: whatever happens to
  an acceptor, with any banner and any limit, the state of each of its connections only
  makes the moves of that machine.
  The step that needs an argument is the login: it sets the state of the connection that
  asks after the port has disconnected the one it had, so the two must differ.
\<close>

section \<open>What is kept\<close>

text \<open>No port has a connection that is still waiting for its login; nothing is outstanding
  for a number that is not given yet; each connection named in \<open>S\<close> exists and has moved on
  from the state given with it.\<close>

definition given :: "(nat \<times> connection_state) set \<Rightarrow> nat \<Rightarrow> nat \<Rightarrow> connection_state \<Rightarrow> bool" where
  \<comment> \<open>a connection is born connected\<close>
  "given S n x cs \<longleftrightarrow> (x, cs) \<in> S \<or> x < n \<and> cs = connection_state_of Connected"

definition tracks :: "(nat \<times> connection_state) set \<Rightarrow> sw \<Rightarrow> bool" where
  "tracks S w \<longleftrightarrow>
     (\<forall>p x. p < length (ac_ports w) \<longrightarrow> po_connection (ac_ports w ! p) = Some x \<longrightarrow>
        x < ac_next w \<and> cs_state (ct_state (stcp x w)) \<noteq> Connected) \<and>
     (\<forall>x. ac_next w \<le> x \<longrightarrow> \<not> tcp_outstanding (stcp x w)) \<and>
     (\<forall>x. x \<in> set (ac_connections w) \<longrightarrow> x < ac_next w) \<and>
     (\<forall>x cs. given S (ac_next w) x cs \<longrightarrow> x < ac_next w \<and> eventually_moves cs (ct_state (stcp x w)))"

lemma tracksD:
  assumes "tracks S w"
  shows "p < length (ac_ports w) \<Longrightarrow> po_connection (ac_ports w ! p) = Some x \<Longrightarrow>
      x < ac_next w \<and> cs_state (ct_state (stcp x w)) \<noteq> Connected"
    and "ac_next w \<le> x \<Longrightarrow> \<not> tcp_outstanding (stcp x w)"
    and "x \<in> set (ac_connections w) \<Longrightarrow> x < ac_next w"
    and "given S (ac_next w) x cs \<Longrightarrow> x < ac_next w \<and> eventually_moves cs (ct_state (stcp x w))"
  using assms unfolding tracks_def by blast+

lemma tracks_one: "tracks S w \<Longrightarrow> (x, cs) \<in> S \<Longrightarrow> x < ac_next w \<and> eventually_moves cs (ct_state (stcp x w))"
  unfolding tracks_def given_def by blast

lemma tracksI:
  assumes "\<And>p x. p < length (ac_ports w) \<Longrightarrow> po_connection (ac_ports w ! p) = Some x \<Longrightarrow>
      x < ac_next w \<and> cs_state (ct_state (stcp x w)) \<noteq> Connected"
    and "\<And>x. ac_next w \<le> x \<Longrightarrow> \<not> tcp_outstanding (stcp x w)"
    and "\<And>x. x \<in> set (ac_connections w) \<Longrightarrow> x < ac_next w"
    and "\<And>x cs. given S (ac_next w) x cs \<Longrightarrow> x < ac_next w \<and> eventually_moves cs (ct_state (stcp x w))"
  shows "tracks S w"
  using assms unfolding tracks_def by blast

lemma tracks_same:
  assumes "tracks S w" and "ac_next w' = ac_next w" and "\<And>x. stcp x w' = stcp x w"
    and "set (ac_connections w') \<subseteq> set (ac_connections w)"
    and "\<And>p x. p < length (ac_ports w') \<Longrightarrow> po_connection (ac_ports w' ! p) = Some x \<Longrightarrow>
      p < length (ac_ports w) \<and> po_connection (ac_ports w ! p) = Some x"
  shows "tracks S w'"
  using tracksD [OF assms(1)] assms(2-5) by (intro tracksI) (simp_all, blast, blast)

lemma tracks_calls [simp]:
  "tracks S (sv_emit x h cb w) = tracks S w"
  "tracks S (acceptor_call x cb w) = tracks S w" "tracks S (port_call c cb w) = tracks S w"
  "tracks S (acceptor_handler_call c cb w) = tracks S w"
  "tracks S (handler_call c cb w) = tracks S w" "tracks S (undefined_behaviour w) = tracks S w"
  "tracks S (w\<lparr>ac_acceptor := a\<rparr>) = tracks S w"
  by (simp_all add: tracks_def)

lemma tracks_drop [simp]: "tracks S w \<Longrightarrow> tracks S (w\<lparr>ac_connections := filter P (ac_connections w)\<rparr>)"
  by (erule tracks_same) auto

lemma tracks_object [simp]:
  "tracks S w \<Longrightarrow> tracks S (upd_object c (\<lambda>t. t\<lparr>st_port := p, st_handler := h\<rparr>) w)"
  by (erule tracks_same) simp_all

lemma tracks_upd_port:
  assumes "tracks S w" and "\<And>po x. po_connection (f po) = Some x \<Longrightarrow> po_connection po = Some x"
  shows "tracks S (upd_port p f w)"
  using assms(1)
proof (rule tracks_same)
  fix q x
  assume "q < length (ac_ports (upd_port p f w))"
    and "po_connection (ac_ports (upd_port p f w) ! q) = Some x"
  with assms(2) [of "ac_ports w ! p" x]
  show "q < length (ac_ports w) \<and> po_connection (ac_ports w ! q) = Some x"
    by (cases "q = p") simp_all
qed simp_all

text \<open>A change of an object that makes moves, none of them back to connected.\<close>

definition onward :: "(tcp_object \<Rightarrow> tcp_object) \<Rightarrow> bool" where
  "onward g \<longleftrightarrow> (\<forall>t. eventually_moves (ct_state t) (ct_state (g t)) \<and>
     (cs_state (ct_state (g t)) = Connected \<longrightarrow> cs_state (ct_state t) = Connected))"

lemma onward_same: "(\<And>t. ct_state (g t) = ct_state t) \<Longrightarrow> onward g"
  by (simp add: onward_def)

lemma onward_ends:
  "r \<noteq> DR_none \<Longrightarrow> onward (t_disconnect r)"
  "r \<noteq> DR_none \<Longrightarrow> onward (\<lambda>t. t\<lparr>ct_state := snd (initiate_disconnect r (ct_state t))\<rparr>)"
  using disconnect_moves [of r] initiate_moves [of r]
  by (auto simp: onward_def t_disconnect_def split_def Let_def cs_disconnect_def initiate_disconnect_def)

lemma tracks_upd:
  assumes ok: "tracks S w" and c: "c < ac_next w" and "onward g"
  shows "tracks S (upd_stcp c g w)"
proof -
  have g: "eventually_moves (ct_state (stcp c w)) (ct_state (g (stcp c w)))"
    and "cs_state (ct_state (g (stcp c w))) = Connected \<Longrightarrow> cs_state (ct_state (stcp c w)) = Connected"
    using assms(3) by (simp_all add: onward_def)
  with tracksD(1,2,3) [OF ok] c show ?thesis
  proof (intro tracksI)
    fix x cs assume "given S (ac_next (upd_stcp c g w)) x cs"
    then have "given S (ac_next w) x cs" by simp
    with tracksD(4) [OF ok this] g
    show "x < ac_next (upd_stcp c g w) \<and> eventually_moves cs (ct_state (stcp x (upd_stcp c g w)))"
      by (auto elim: rtranclp_trans)
  qed auto
qed

lemma tracks_set:
  assumes "tracks S w" and "(c, cs0) \<in> S" and "onward g"
  shows "tracks S (upd_stcp c g w)"
  using tracks_one [OF assms(1,2)] assms by (simp add: tracks_upd)

lemma tracks_set_same [simp]:
  "(c, cs0) \<in> S \<Longrightarrow> (\<And>t. ct_state (g t) = ct_state t) \<Longrightarrow> tracks S w \<Longrightarrow> tracks S (upd_stcp c g w)"
  by (rule tracks_set) (simp_all add: onward_same)

section \<open>The functions of a connection\<close>

lemma tracks_errors [simp]:
  assumes "(c, cs0) \<in> S" and "tracks S w"
  shows "r \<noteq> DR_none \<Longrightarrow> tracks S (stcp_disconnect c r w)"
    "tracks S (stcp_handle_transport_error c ec operation w)"
    "tracks S (stcp_handle_protocol_violation c pe w)"
  using assms tracks_set [OF _ assms(1)]
  by (simp_all add: stcp_disconnect_eq stcp_handle_transport_error_def onward_ends
      stcp_handle_protocol_violation_def)

text \<open>An accepted login: the port's old connection ends, then the new one is logged in.\<close>

lemma tracks_login:
  assumes ok: "tracks S w" and c: "(c, cs0) \<in> S" and p: "p < length (ac_ports w)"
    and st: "cs_state (ct_state (stcp c w)) = Connected"
  shows "tracks S (upd_stcp c (\<lambda>t. t\<lparr>ct_state := set_state Logged_in (ct_state t)\<rparr>) (port_bound p c w))"
    (is "tracks S ?w")
proof -
  let ?old = "po_connection (ac_ports w ! p)"
  have nc: "po_connection (ac_ports w ! q) \<noteq> Some c" if "q < length (ac_ports w)" for q
    using tracksD(1) [OF ok that] st by blast
  have objs: "stcp x ?w =
      (if x = c then (stcp c w)\<lparr>ct_state := set_state Logged_in (ct_state (stcp c w))\<rparr>
       else if ?old = Some x then t_disconnect DR_superseded (stcp x w) else stcp x w)" for x
    using nc [OF p] by (auto simp: port_bound_def Let_def split: option.splits)
  have rest: "ac_connections ?w = ac_connections w" "ac_next ?w = ac_next w"
      "ac_ports ?w = (ac_ports w)[p := (ac_ports w ! p)\<lparr>po_connection := Some c\<rparr>]"
    by (simp_all add: port_bound_def Let_def split: option.splits)
  have cn: "c < ac_next w" using tracks_one [OF ok c] by simp
  show ?thesis
  proof (rule tracksI)
    fix q x assume q: "q < length (ac_ports ?w)" "po_connection (ac_ports ?w ! q) = Some x"
    show "x < ac_next ?w \<and> cs_state (ct_state (stcp x ?w)) \<noteq> Connected"
    proof (cases "q = p")
      case True
      with q [unfolded rest] p have "x = c" by simp
      with cn show ?thesis unfolding rest objs by (simp add: set_state_def)
    next
      case False
      with q [unfolded rest] tracksD(1) [OF ok, of q x] show ?thesis
        unfolding rest objs by (simp add: set_state_def)
    qed
  next
    fix x assume x: "ac_next ?w \<le> x"
    then have le: "ac_next w \<le> x" unfolding rest .
    with cn tracksD(1) [OF ok p, of x] have "x \<noteq> c" "?old \<noteq> Some x" by auto
    with tracksD(2) [OF ok le] show "\<not> tcp_outstanding (stcp x ?w)" unfolding objs by simp
  next
    fix x assume "x \<in> set (ac_connections ?w)"
    then show "x < ac_next ?w" unfolding rest by (rule tracksD(3) [OF ok])
  next
    fix x cs assume "given S (ac_next ?w) x cs"
    then have "given S (ac_next w) x cs" unfolding rest .
    note moved = tracksD(4) [OF ok this]
    have "eventually_moves (ct_state (stcp x w)) (ct_state (stcp x ?w))"
      using onward_ends(1) [of DR_superseded] moves.logged_in [OF st]
      unfolding objs by (auto simp: onward_def)
    with moved show "x < ac_next ?w \<and> eventually_moves cs (ct_state (stcp x ?w))"
      unfolding rest by (blast intro: rtranclp_trans)
  qed
qed

lemma tracks_heartbeat_start:
  "(c, cs0) \<in> S \<Longrightarrow> tracks S w \<Longrightarrow>
   tracks S (heartbeat_timer_start (stcp_heartbeat_handler c) now throws throws' w)"
  by (simp add: heartbeat_timer_start_def heartbeat_timer_schedule_def stcp_heartbeat_handler_def
      stcp_heartbeat_timer_error_def Let_def split: option.splits)

lemma tracks_process_login_request:
  assumes c: "(c, cs0) \<in> S" and ok: "tracks S w"
  shows "tracks S (snd (stcp_process_login_request env c data sz w))"
proof (cases "sz = login_request_size \<and> cs_state (ct_state (stcp c w)) = Connected")
  case False
  with ok show ?thesis by (auto simp: stcp_process_login_request_def)
next
  case True
  let ?request = "read_login_request login_request_default data" and ?w = "asked c data w"
  have w: "tracks S ?w" using c ok by simp
  have st: "cs_state (ct_state (stcp c ?w)) = Connected" using True by simp
  obtain result w' where run: "acceptor_on_login_request env c ?request ?w = (result, w')" by fastforce
  show ?thesis
  proof (cases "deref result")
    case None
    with acceptor_reject [OF run] obtain reject where "w' = ?w" "error_of result = Some reject" by blast
    with True run None w c show ?thesis
      by (simp add: stcp_process_login_request_def Let_def stcp_reject_login_def
          stcp_prepare_graceful_disconnect_def tracks_set onward_ends)
  next
    case (Some response)
    from acceptor_accept [OF run this] obtain p where p: "p < length (ac_ports ?w)"
      and port: "port_on_login_request p c ?request (se_session env) ?w = (result, w')" by blast
    let ?log = "upd_stcp c (\<lambda>t. t\<lparr>ct_state := set_state Logged_in (ct_state t)\<rparr>)"
    note login = tracks_login [OF w c p st]
    have commute: "?log (upd_port p (\<lambda>po. po\<lparr>po_next_sequence_number := n\<rparr>) v) =
        upd_port p (\<lambda>po. po\<lparr>po_next_sequence_number := n\<rparr>) (?log v)" for n v
      by (simp add: upd_port_def upd_stcp_def upd_object_def)
    have "tracks S (?log w')"
      using port_accept [OF port Some p] login by (auto simp: commute intro!: tracks_upd_port)
    with c have "tracks S (stcp_accept_login env c response w')"
      by (simp add: stcp_accept_login_def Let_def tracks_heartbeat_start)
    with True run Some show ?thesis by (simp add: stcp_process_login_request_def Let_def)
  qed
qed

lemma tracks_read_success [simp]:
  assumes c: "(c, cs0) \<in> S" and ok: "tracks S w"
  shows "tracks S (stcp_read_success env c packet w)"
proof -
  have "tracks S (snd (stcp_process_packet env c packet w))"
    using c ok
    by (auto simp: stcp_process_packet_def Let_def tracks_process_login_request [OF c]
        stcp_process_debug_def stcp_process_unsequenced_data_def stcp_process_client_heartbeat_def
        stcp_process_logout_request_def stcp_increment_receive_count_def split: option.splits)
  with c ok show ?thesis by (simp add: stcp_read_success_def Let_def split_def)
qed

lemma tracks_signal_closed [simp]:
  assumes "tracks S w"
  shows "tracks S (stcp_maybe_signal_closed c w)"
proof -
  have "tracks S (port_on_closed p c w)" for p
    using assms tracks_upd_port [OF assms, of "\<lambda>po. po\<lparr>po_connection := None\<rparr>" p]
    by (simp add: port_on_closed_def)
  with assms show ?thesis
    by (simp add: stcp_maybe_signal_closed_def acceptor_on_closed_def Let_def split: option.splits)
qed

section \<open>Every event\<close>

lemma tracks_socket:
  assumes c: "(c, cs0) \<in> S" and ok: "tracks S w"
  shows "tracks S (socket_complete (stcp_socket_handler env c) op ec n data w)"
proof -
  note set' = tracks_set [OF _ c]
  have error: "tracks S (read_error (stcp_socket_handler env c) ec w')" if "tracks S w'" for w'
    using that c by (simp add: read_error_def stcp_socket_handler_def stcp_read_aborted_def
        stcp_read_end_of_file_def stcp_read_failure_def)
  have sent: "tracks S (packet_sent (stcp_socket_handler env c) ec n w')" if "tracks S w'" for w'
    using that c
    by (simp add: packet_sent_def Let_def stcp_socket_handler_def stcp_write_failure_def
        stcp_write_success_def stcp_write_buffer_empty_def)
  have header: "tracks S (header_received (stcp_socket_handler env c) ec m w')" if "tracks S w'" for w' m
    using that c error
    by (simp add: header_received_def Let_def split_def stcp_socket_handler_def read_packet_move_def
        stcp_read_failure_def stcp_read_packet_failure_def split: read_resize.splits)
  have payload: "tracks S (payload_received (stcp_socket_handler env c) ec m w')" if "tracks S w'" for w' m
    using that c error
    by (simp add: payload_received_def Let_def split_def stcp_socket_handler_def
        read_packet_move_def stcp_read_failure_def)
  have l: "sh_socket (stcp_socket_handler env c) = stcp_socket_lens c"
      "sh_closed (stcp_socket_handler env c) = stcp_closed c"
      "sh_connect_failure (stcp_socket_handler env c) = stcp_connect_failure"
      "sh_connect_success (stcp_socket_handler env c) = stcp_connect_success"
    by (simp_all add: stcp_socket_handler_def)
  have "tracks S (connect_done (stcp_socket_handler env c) ec w)"
    using c ok by (simp add: connect_done_def Let_def l stcp_connect_failure_def stcp_connect_success_def)
  moreover have "tracks S (read_header_done (stcp_socket_handler env c) ec data w)"
    using c ok by (simp add: read_header_done_def Let_def l header)
  moreover have "tracks S (read_payload_done (stcp_socket_handler env c) ec data w)"
    using c ok by (simp add: read_payload_done_def Let_def l payload)
  moreover have "tracks S (write_done (stcp_socket_handler env c) bs ec n w)" for bs
    using c ok by (simp add: write_done_def Let_def l sent)
  moreover have "tracks S (post_closed_done (stcp_socket_handler env c) w)"
    using c ok by (simp add: post_closed_done_def l stcp_closed_def)
  ultimately show ?thesis
    using ok by (cases op) (simp_all add: socket_complete_def)
qed

lemma tracks_timers:
  assumes "(c, cs0) \<in> S" and "tracks S w"
  shows "tracks S (login_timer_wait_done (stcp_login_handler c) ec w)"
    "tracks S (login_timer_post_done (stcp_login_handler c) w)"
    "tracks S (heartbeat_timer_wait_done (stcp_heartbeat_handler c) throws ec w)"
    "tracks S (heartbeat_timer_post_done (stcp_heartbeat_handler c) w)"
  using assms
  by (simp_all add: login_timer_wait_done_def login_timer_on_expiry_def login_timer_post_done_def
      heartbeat_timer_wait_done_def heartbeat_timer_on_expiry_def heartbeat_timer_schedule_def
      heartbeat_timer_post_done_def stcp_login_handler_def stcp_heartbeat_handler_def
      stcp_login_timer_error_def stcp_login_timer_expired_def stcp_login_timer_stopped_def
      stcp_heartbeat_timer_error_def stcp_heartbeat_send_due_def
      stcp_heartbeat_receive_timeout_def stcp_heartbeat_timer_stopped_def Let_def
      split: option.splits)

text \<open>What reaches a connection through a port or the list of the acceptor: the connection
  is one more that is tracked, from its own state on.\<close>

lemma tracks_more:
  "tracks (insert (c, ct_state (stcp c w)) S) w \<longleftrightarrow> c < ac_next w \<and> tracks S w"
  unfolding tracks_def given_def by auto

lemma tracks_fewer: "tracks S' w \<Longrightarrow> S \<subseteq> S' \<Longrightarrow> tracks S w"
  unfolding tracks_def given_def by blast

lemma tracks_visit:
  assumes "c < ac_next w" and "tracks S w"
    and "\<And>S. (c, ct_state (stcp c w)) \<in> S \<Longrightarrow> tracks S w \<Longrightarrow> tracks S w'"
  shows "tracks S w'"
proof -
  have "tracks (insert (c, ct_state (stcp c w)) S) w" using assms(1,2) by (simp add: tracks_more)
  from assms(3) [OF _ this] show ?thesis by (rule tracks_fewer) auto
qed

lemma tracks_send:
  assumes "c < ac_next w" and "tracks S w"
  shows "tracks S (snd (stcp_send_packet c packet w))" "tracks S (snd (stcp_send_debug_packet c bs w))"
    and "r \<noteq> DR_none \<Longrightarrow> tracks S (stcp_disconnect c r w)"
  by (rule tracks_visit [OF assms], simp add: stcp_send_packet_def stcp_send_debug_packet_def
      Let_def split_def stored_write)+

lemma tracks_sends:
  assumes "tracks S w" and p: "p < length (ac_ports w)"
  shows "tracks S (snd (port_send_packet p packet w))" "tracks S (snd (port_send_counted p packet w))"
    "tracks S (snd (port_send_debug p bs w))"
proof -
  have c: "c < ac_next w" if "po_connection (ac_ports w ! p) = Some c" for c
    using tracksD(1) [OF assms(1) p that] by blast
  show "tracks S (snd (port_send_packet p packet w))"
    using assms c tracks_send by (simp add: port_send_packet_def split: option.splits)
  then show "tracks S (snd (port_send_counted p packet w))"
    by (auto simp: port_send_counted_def Let_def split_def intro!: tracks_upd_port)
  show "tracks S (snd (port_send_debug p bs w))"
    using assms c tracks_send by (simp add: port_send_debug_def split: option.splits)
qed

lemma tracks_end_session:
  assumes "tracks S w" and p: "p < length (ac_ports w)"
  shows "tracks S (port_end_session p w)"
proof -
  let ?w = "upd_port p (\<lambda>po. po\<lparr>po_has_session_ended := True\<rparr>) w"
  have w: "tracks S ?w" by (rule tracks_upd_port [OF assms(1)]) simp
  have "c < ac_next ?w" if "po_connection (ac_ports w ! p) = Some c" for c
    using tracksD(1) [OF assms(1) p that] by simp
  with w assms(1) p show ?thesis
    using tracks_send(1) [OF _ w] by (simp add: port_end_session_def Let_def split: option.splits)
qed

lemma tracks_end_sessions:
  "tracks S w \<Longrightarrow> \<forall>p \<in> set ps. p < length (ac_ports w) \<Longrightarrow> tracks S (fold port_end_session ps w)"
proof (induction ps arbitrary: w)
  case Nil
  then show ?case by simp
next
  case (Cons p ps)
  have "length (ac_ports (port_end_session p w)) = length (ac_ports w)"
    by (simp add: port_end_session_def stcp_send_packet_def Let_def split_def split: option.splits)
  with Cons tracks_end_session [of S w p] show ?case by simp
qed

lemma tracks_stop: "tracks S w \<Longrightarrow> \<forall>c \<in> set cs. c < ac_next w \<Longrightarrow> tracks S (fold stcp_close cs w)"
proof (induction cs arbitrary: w)
  case (Cons c cs)
  have "ac_next (stcp_close c w) = ac_next w" by (simp add: stcp_close_def stcp_disconnect_eq)
  with Cons show ?case by (simp add: stcp_close_def tracks_send)
qed simp

lemma tracks_start: "tracks S w \<Longrightarrow> tracks S (acceptor_start env w)"
  by (simp add: acceptor_start_def Let_def split_def)

lemma tracks_add_port:
  "tracks S w \<Longrightarrow> tracks S (snd (acceptor_add_port username password handler w))"
  by (erule tracks_same)
    (auto simp: acceptor_add_port_def Let_def port_new_def nth_append split: if_splits)

lemma tracks_born:
  assumes ok: "tracks S w"
  shows "tracks S (upd_object (ac_next w) (\<lambda>_. server_tcp_new h k) (w\<lparr>ac_next := Suc (ac_next w)\<rparr>))"
    (is "tracks S ?w")
proof (rule tracksI)
  fix p x assume "p < length (ac_ports ?w)" "po_connection (ac_ports ?w ! p) = Some x"
  with tracksD(1) [OF ok, of p x]
  show "x < ac_next ?w \<and> cs_state (ct_state (stcp x ?w)) \<noteq> Connected" by auto
next
  fix x cs assume "given S (ac_next ?w) x cs"
  then have "x = ac_next w \<and> cs = connection_state_of Connected \<or> given S (ac_next w) x cs"
    by (auto simp: given_def)
  with tracksD(4) [OF ok, of x cs]
  show "x < ac_next ?w \<and> eventually_moves cs (ct_state (stcp x ?w))"
    by (auto simp: server_tcp_new_def)
qed (use tracksD(2,3) [OF ok] in \<open>fastforce+\<close>)

lemma tracks_connections:
  "tracks S w \<Longrightarrow> (\<And>x. x \<in> set cs \<Longrightarrow> x < ac_next w) \<Longrightarrow> tracks S (w\<lparr>ac_connections := cs\<rparr>)"
  by (simp add: tracks_def)

lemma tracks_accept:
  assumes "tracks S w"
  shows "tracks S (acceptor_accept_success env w)"
proof (cases "ac_handler w")
  case None
  with assms show ?thesis by (simp add: acceptor_accept_success_def Let_def)
next
  case (Some h)
  let ?k = "set_write_packets_limit (ac_write_packets_limit w) (socket_new True)"
  let ?w = "acceptor_call None (Sc_accept_success (se_local env) (se_remote env)) w"
  let ?born = "upd_object (ac_next w) (\<lambda>_. server_tcp_new h ?k) (?w\<lparr>ac_next := Suc (ac_next w)\<rparr>)"
  have born: "tracks S ?born" using tracks_born [of S ?w h ?k] assms by simp
  have below: "ac_next w < ac_next ?born" by simp
  have built: "tracks S (stcp_construct env (ac_next w) h ?k (?w\<lparr>ac_next := Suc (ac_next w)\<rparr>))"
  proof (rule tracks_visit [OF below born])
    fix S assume "(ac_next w, ct_state (stcp (ac_next w) ?born)) \<in> S" "tracks S ?born"
    then show "tracks S (stcp_construct env (ac_next w) h ?k (?w\<lparr>ac_next := Suc (ac_next w)\<rparr>))"
      by (simp add: stcp_construct_def Let_def login_timer_start_def stcp_login_handler_def
          stcp_login_timer_error_def split: option.splits)
  qed
  let ?c = "stcp_construct env (ac_next w) h ?k (?w\<lparr>ac_next := Suc (ac_next w)\<rparr>)"
  have next': "ac_next ?c = Suc (ac_next w)" "ac_connections ?c = ac_connections w"
      "ac_debug_banner ?c = ac_debug_banner w"
    by (simp_all add: stcp_construct_def Let_def login_timer_start_def stcp_login_handler_def
        stcp_login_timer_error_def stcp_handle_transport_error_def stcp_disconnect_eq
        split: option.splits)
  have "tracks S (?c\<lparr>ac_connections := ac_connections w @ [ac_next w]\<rparr>)"
    by (rule tracks_connections [OF built]) (use tracksD(3) [OF assms] in \<open>auto simp: next' less_Suc_eq\<close>)
  then show ?thesis
    using Some by (simp add: acceptor_accept_success_def Let_def next' tracks_send)
qed

theorem tracks_step:
  assumes ok: "tracks S w"
  shows "tracks S (server_step env ev w)"
proof (cases "server_event_enabled w ev")
  case False
  with ok show ?thesis by (simp add: server_step_def)
next
  case True
  have at: "tracks S w'" if "tcp_outstanding (stcp c w)"
    "\<And>S. (c, ct_state (stcp c w)) \<in> S \<Longrightarrow> tracks S w \<Longrightarrow> tracks S w'" for w' c
    using tracks_visit [OF _ ok, of c w'] tracksD(2) [OF ok, of c] that by (meson not_less)
  have socket: "tracks S (socket_complete (stcp_socket_handler env c) op ec n data w)"
    if "op \<in> set (sk_ops (ct_socket (stcp c w)))" for c op ec n data
    using that by (intro at [of c] tracks_socket) (auto simp: tcp_outstanding_def)
  have timers: "0 < lt_waits (ct_login_timer (stcp c w)) \<Longrightarrow>
      tracks S (login_timer_wait_done (stcp_login_handler c) ec w)"
    "0 < lt_posts (ct_login_timer (stcp c w)) \<Longrightarrow>
      tracks S (login_timer_post_done (stcp_login_handler c) w)"
    "0 < hb_waits (ct_heartbeat_timer (stcp c w)) \<Longrightarrow>
      tracks S (heartbeat_timer_wait_done (stcp_heartbeat_handler c) throws ec w)"
    "0 < hb_posts (ct_heartbeat_timer (stcp c w)) \<Longrightarrow>
      tracks S (heartbeat_timer_post_done (stcp_heartbeat_handler c) w)" for c ec throws
    by (rule at [of c], simp add: tcp_outstanding_def, rule tracks_timers; assumption)+
  have accept: "tracks S (accept_done (acceptor_socket_handler env) ec w)" for ec
    using ok by (simp add: accept_done_def acceptor_socket_handler_def acceptor_accept_failure_def
        tracks_accept Let_def)
  have message: "tracks S (snd (port_send_message p data n w))"
    and packet: "tracks S (case port_send_message_packet p m w of None \<Rightarrow> w | Some (_, w) \<Rightarrow> w)"
    if "p < length (ac_ports w)" for p data n m
    using tracks_sends(2) [OF ok that] ok
    by (auto simp: port_send_message_def port_send_message_packet_def split: option.splits prod.splits)
      (metis snd_conv)
  have stop: "tracks S (acceptor_stop w)"
    using tracks_stop [of S "w\<lparr>ac_acceptor := acceptor_close (ac_acceptor w)\<rparr>" "ac_connections w"]
      tracksD(3) [OF ok] ok
    by (simp add: acceptor_stop_def Let_def)
  have number: "tracks S (upd_port p (port_set_next_sequence_number n) w)" for p n
    by (rule tracks_upd_port [OF ok]) (simp add: port_set_next_sequence_number_def)
  from True ok show ?thesis
    by (cases ev) (simp_all add: server_step_def accept message packet stop number
        tracks_sends tracks_add_port tracks_start acceptor_end_session_def tracks_end_sessions
        socket timers asio_may_complete_def)
qed

theorem tracks_run: "tracks S w \<Longrightarrow> tracks S (server_run evs w)"
proof (induction evs arbitrary: w)
  case (Cons e evs)
  then show ?case by (cases e) (simp add: tracks_step)
qed simp

lemma fresh_tracks: "fresh_acceptor w \<Longrightarrow> ac_next w = 0 \<Longrightarrow> tracks {} w"
  by (simp add: fresh_acceptor_def tracks_def given_def blank_object)

section \<open>Properties\<close>


lemma demo_born: "ac_next demo_acceptor = 0" "0 < ac_next (server_run demo_events demo_acceptor)"
proof -
  show zero: "ac_next demo_acceptor = 0" by (simp add: demo_acceptor_eq acceptor_new_def)
  show "0 < ac_next (server_run demo_events demo_acceptor)"
    using tracksD(3) [OF tracks_run [OF fresh_tracks [OF demo_ready(1) zero]], of 0 demo_events]
      demo_accepted_simps(1)
    by (simp flip: demo_accepted_def)
qed


text \<open>C14 The state of a connection of the server never goes back (connected, logged in,
  disconnecting, disconnected), a reason is recorded exactly from the moment the connection
  begins to end, and whatever happens afterwards the first reason stays: it is the one the
  user is told.\<close>

theorem server_first_reason:
  assumes "fresh_acceptor w0" and "ac_next w0 = 0" and w: "w = server_run evs w0"
    and x: "x < ac_next w" and w': "w' = server_run evs' w"
  shows "Connected \<le> cs_state (ct_state (stcp x w)) \<and>
    cs_state (ct_state (stcp x w)) \<le> cs_state (ct_state (stcp x w')) \<and>
    (cs_reason (ct_state (stcp x w)) \<noteq> DR_none \<longleftrightarrow> is_closing (ct_state (stcp x w))) \<and>
    (is_closing (ct_state (stcp x w)) \<longrightarrow>
       cs_reason (ct_state (stcp x w')) = cs_reason (ct_state (stcp x w)))"
proof -
  have ok: "tracks {} w" unfolding w by (rule tracks_run [OF fresh_tracks [OF assms(1,2)]])
  have born: "eventually_moves (connection_state_of Connected) (ct_state (stcp x w))"
    using tracksD(4) [OF ok, of x] x by (simp add: given_def)
  have "tracks {(x, ct_state (stcp x w))} w" using ok x by (simp add: tracks_more)
  then have moved: "eventually_moves (ct_state (stcp x w)) (ct_state (stcp x w'))"
    using tracks_one [OF tracks_run] by (simp add: w')
  have "reason_ok (ct_state (stcp x w))"
    by (rule eventually_reason_ok [OF born]) (simp add: less_state_def)
  with eventually_forward [OF born] eventually_forward [OF moved] eventually_reason [OF moved]
  show ?thesis by (simp add: reason_ok_def connection_state_of_def)
qed

theorem server_first_reason_witness:
  "cs_reason (ct_state (stcp 0 (server_run demo_events demo_acceptor))) \<noteq> DR_none
     \<longleftrightarrow> is_closing (ct_state (stcp 0 (server_run demo_events demo_acceptor)))"
  using server_first_reason [OF demo_ready(1) demo_born(1) refl demo_born(2) refl] by blast

end
