(* ===== verification/Winding.thy ===== *)
theory Winding
  imports Tcp_Object
begin

text \<open>
  The object of a TCP connection that is disconnected: \<open>work\<close> bounds the completions that are
  left for it, and \<open>quiet n\<close> says that there are at most \<open>n\<close> of them and that nothing
  but a queued write, the read of a payload or a notification is still started.
\<close>

section \<open>The work that is left\<close>

text \<open>A header that arrives on a closed socket still starts the read of its payload.\<close>

fun op_work :: "sock_op \<Rightarrow> nat" where
  "op_work Op_read_header = 2"
| "op_work _ = 1"

definition socket_work :: "socket \<Rightarrow> nat" where
  "socket_work k = sum_list (map op_work (sk_ops k)) + length (sk_write_packets k) +
     (if sk_closed_signaled k then 0 else 1)"

definition login_work :: "login_timer \<Rightarrow> nat" where
  "login_work t = lt_waits t + lt_posts t +
     (if 0 < lt_waits t \<and> \<not> lt_stopped_signaled t then 1 else 0)"

definition heartbeat_work :: "heartbeat_timer \<Rightarrow> nat" where
  "heartbeat_work t = hb_waits t + hb_posts t +
     (if 0 < hb_waits t \<and> \<not> hb_stopped_signaled t then 1 else 0)"

definition work :: "tcp_object \<Rightarrow> nat" where
  "work t = socket_work (ct_socket t) + login_work (ct_login_timer t) +
     heartbeat_work (ct_heartbeat_timer t)"

definition quiet :: "nat \<Rightarrow> tcp_object \<Rightarrow> bool" where
  "quiet n t \<longleftrightarrow> cs_state (ct_state t) = Disconnected \<and> sk_closing (ct_socket t) \<and>
     \<not> lt_started (ct_login_timer t) \<and> \<not> hb_started (ct_heartbeat_timer t) \<and> work t \<le> n"

lemmas work_defs = work_def socket_work_def login_work_def heartbeat_work_def

lemma quietD:
  assumes "quiet n t"
  shows "cs_state (ct_state t) = Disconnected" "sk_closing (ct_socket t)" "is_closing (ct_state t)"
    "\<not> lt_started (ct_login_timer t)" "\<not> hb_started (ct_heartbeat_timer t)"
  using assms by (simp_all add: quiet_def is_closing_def)

lemma op_work_pos [simp]: "op_work op \<noteq> 0" "0 < op_work op"
  by (cases op; simp)+

lemma no_work: "work t = 0 \<Longrightarrow> \<not> tcp_outstanding t"
  by (cases "sk_ops (ct_socket t)") (simp_all add: work_defs tcp_outstanding_def)

lemma sum_list_taken:
  "op \<in> set ops \<Longrightarrow> sum_list (map op_work (remove1 op ops)) = sum_list (map op_work ops) - op_work op"
  "op \<in> set ops \<Longrightarrow> op_work op \<le> sum_list (map op_work ops)"
  by (induction ops) auto

text \<open>A change that does not add to the work of its part, or takes one off it.\<close>

lemma quiet_socket:
  "quiet n t \<Longrightarrow> sk_closing k \<Longrightarrow> socket_work k \<le> socket_work (ct_socket t) \<Longrightarrow>
     quiet n (t\<lparr>ct_socket := k\<rparr>)"
  "quiet (n + m) t \<Longrightarrow> sk_closing k \<Longrightarrow> socket_work k + m \<le> socket_work (ct_socket t) \<Longrightarrow>
     quiet n (t\<lparr>ct_socket := k\<rparr>)"
  by (simp_all add: quiet_def work_def)

lemma quiet_login:
  "quiet (Suc n) t \<Longrightarrow> \<not> lt_started l \<Longrightarrow> login_work l < login_work (ct_login_timer t) \<Longrightarrow>
     quiet n (t\<lparr>ct_login_timer := l\<rparr>)"
  by (simp add: quiet_def work_def)

lemma quiet_heartbeat:
  "quiet (Suc n) t \<Longrightarrow> \<not> hb_started l \<Longrightarrow> heartbeat_work l < heartbeat_work (ct_heartbeat_timer t) \<Longrightarrow>
     quiet n (t\<lparr>ct_heartbeat_timer := l\<rparr>)"
  by (simp add: quiet_def work_def)

text \<open>What is still called on such an object leaves it so.\<close>

lemma quiet_disconnect [simp]: "quiet n t \<Longrightarrow> quiet n (t_disconnect r t)"
  by (simp add: quiet_def t_disconnect_def cs_disconnect_def work_def Let_def split_def)

lemma quiet_flags [simp]:
  "quiet n (t\<lparr>ct_socket_closed := b\<rparr>) = quiet n t"
  "quiet n (t\<lparr>ct_login_timer_stopped := b\<rparr>) = quiet n t"
  "quiet n (t\<lparr>ct_heartbeat_timer_stopped := b\<rparr>) = quiet n t"
  "quiet n (t\<lparr>ct_socket := (ct_socket t)\<lparr>sk_read_packet := rp\<rparr>\<rparr>) = quiet n t"
  "quiet n (t\<lparr>ct_socket := (ct_socket t)\<lparr>sk_write_buffer_was_full := b\<rparr>\<rparr>) = quiet n t"
  by (simp_all add: quiet_def work_def socket_work_def)

lemma quiet_calls [simp]:
  assumes "quiet n t"
  shows "quiet n (t\<lparr>ct_socket := socket_async_read (ct_socket t)\<rparr>)"
    "quiet n (t\<lparr>ct_socket := snd (socket_async_write p (ct_socket t))\<rparr>)"
    "quiet n (t\<lparr>ct_socket := socket_maybe_signal_closed (ct_socket t)\<rparr>)"
  using assms quietD(2) [OF assms]
  by (simp_all add: quiet_socket socket_async_read_def socket_async_write_def
      socket_maybe_signal_closed_def socket_work_def)

text \<open>The completion of a write takes its packet off and may start the next.\<close>

lemma quiet_next_write:
  assumes "quiet n t"
  shows "quiet n (t\<lparr>ct_socket := (ct_socket t)\<lparr>sk_write_packets := tl (sk_write_packets (ct_socket t))\<rparr>\<rparr>)"
    and "tl (sk_write_packets (ct_socket t)) \<noteq> [] \<Longrightarrow>
      quiet n (t\<lparr>ct_socket := write_packet_start
        ((ct_socket t)\<lparr>sk_write_packets := tl (sk_write_packets (ct_socket t))\<rparr>)\<rparr>)"
proof -
  show "quiet n (t\<lparr>ct_socket := (ct_socket t)\<lparr>sk_write_packets := tl (sk_write_packets (ct_socket t))\<rparr>\<rparr>)"
    using assms quietD(2) [OF assms] by (intro quiet_socket(1)) (simp_all add: socket_work_def)
  assume "tl (sk_write_packets (ct_socket t)) \<noteq> []"
  then have "0 < length (sk_write_packets (ct_socket t))" by (cases "sk_write_packets (ct_socket t)") auto
  with assms quietD(2) [OF assms]
  show "quiet n (t\<lparr>ct_socket := write_packet_start
      ((ct_socket t)\<lparr>sk_write_packets := tl (sk_write_packets (ct_socket t))\<rparr>)\<rparr>)"
    by (intro quiet_socket(1)) (simp_all add: socket_work_def write_packet_start_def)
qed

text \<open>Completions take one off; a timer that is stopped is not armed again.\<close>

lemma quiet_op_taken:
  assumes "quiet (n + op_work op) t" and "op \<in> set (sk_ops (ct_socket t))"
    and "sk_closing k" and "sk_ops k = remove1 op (sk_ops (ct_socket t))"
    and "sk_write_packets k = sk_write_packets (ct_socket t)"
    and "sk_closed_signaled k = sk_closed_signaled (ct_socket t)"
  shows "quiet n (t\<lparr>ct_socket := k\<rparr>)"
  using assms sum_list_taken [OF assms(2)]
  by (intro quiet_socket(2) [OF assms(1)]) (simp_all add: socket_work_def)

lemma quiet_taken:
  assumes "quiet (Suc n) t"
  shows "0 < lt_posts (ct_login_timer t) \<Longrightarrow>
      quiet n (t\<lparr>ct_login_timer := (ct_login_timer t)\<lparr>lt_posts := lt_posts (ct_login_timer t) - 1\<rparr>\<rparr>)"
    and "0 < hb_posts (ct_heartbeat_timer t) \<Longrightarrow>
      quiet n (t\<lparr>ct_heartbeat_timer :=
        (ct_heartbeat_timer t)\<lparr>hb_posts := hb_posts (ct_heartbeat_timer t) - 1\<rparr>\<rparr>)"
    and "0 < lt_waits (ct_login_timer t) \<Longrightarrow>
      quiet n (t\<lparr>ct_login_timer := login_timer_maybe_signal_stopped ((ct_login_timer t)
        \<lparr>lt_waits := lt_waits (ct_login_timer t) - 1, lt_wait_pending := False\<rparr>)\<rparr>)"
    and "0 < hb_waits (ct_heartbeat_timer t) \<Longrightarrow>
      quiet n (t\<lparr>ct_heartbeat_timer := heartbeat_timer_maybe_signal_stopped ((ct_heartbeat_timer t)
        \<lparr>hb_waits := hb_waits (ct_heartbeat_timer t) - 1, hb_wait_pending := False\<rparr>)\<rparr>)"
proof -
  note stopped = quietD(4,5) [OF assms]
  show "0 < lt_posts (ct_login_timer t) \<Longrightarrow>
      quiet n (t\<lparr>ct_login_timer := (ct_login_timer t)\<lparr>lt_posts := lt_posts (ct_login_timer t) - 1\<rparr>\<rparr>)"
    by (rule quiet_login [OF assms]) (simp_all add: stopped login_work_def)
  show "0 < hb_posts (ct_heartbeat_timer t) \<Longrightarrow>
      quiet n (t\<lparr>ct_heartbeat_timer :=
        (ct_heartbeat_timer t)\<lparr>hb_posts := hb_posts (ct_heartbeat_timer t) - 1\<rparr>\<rparr>)"
    by (rule quiet_heartbeat [OF assms]) (simp_all add: stopped heartbeat_work_def)
  show "0 < lt_waits (ct_login_timer t) \<Longrightarrow>
      quiet n (t\<lparr>ct_login_timer := login_timer_maybe_signal_stopped ((ct_login_timer t)
        \<lparr>lt_waits := lt_waits (ct_login_timer t) - 1, lt_wait_pending := False\<rparr>)\<rparr>)"
    by (rule quiet_login [OF assms])
      (auto simp: stopped login_work_def login_timer_maybe_signal_stopped_def)
  show "0 < hb_waits (ct_heartbeat_timer t) \<Longrightarrow>
      quiet n (t\<lparr>ct_heartbeat_timer := heartbeat_timer_maybe_signal_stopped ((ct_heartbeat_timer t)
        \<lparr>hb_waits := hb_waits (ct_heartbeat_timer t) - 1, hb_wait_pending := False\<rparr>)\<rparr>)"
    by (rule quiet_heartbeat [OF assms])
      (auto simp: stopped heartbeat_work_def heartbeat_timer_maybe_signal_stopped_def)
qed

lemma quiet_more: "quiet n t \<Longrightarrow> quiet (Suc n) t"
  by (simp add: quiet_def)

end
