(* ===== verification/Server_Winding.thy ===== *)
theory Server_Winding
  imports Winding Server_Demo
begin

text \<open>
  How a connection of the server winds down.  Once it is disconnected, everything that is
  still outstanding for it is completed, and nothing is started but the writes that are
  queued and one notification each of the socket and the timers: \<open>work\<close> bounds the
  completions that are left, every completion takes one off it, and nothing else that
  happens to the acceptor adds to it.
\<close>

section \<open>The connection in its acceptor\<close>

definition settled :: "nat \<Rightarrow> nat \<Rightarrow> sw \<Rightarrow> bool" where
  "settled n c w \<longleftrightarrow> c < ac_next w \<and> quiet n (stcp c w)"

lemma settled_calls [simp]:
  "settled n c (sv_emit x h cb w) = settled n c w"
  "settled n c (acceptor_call x cb w) = settled n c w" "settled n c (port_call d cb w) = settled n c w"
  "settled n c (acceptor_handler_call d cb w) = settled n c w"
  "settled n c (handler_call d cb w) = settled n c w"
  "settled n c (undefined_behaviour w) = settled n c w"
  "settled n c (w\<lparr>ac_acceptor := a\<rparr>) = settled n c w"
  "settled n c (w\<lparr>ac_connections := cs\<rparr>) = settled n c w"
  "settled n c (w\<lparr>ac_ports := ps\<rparr>) = settled n c w"
  "settled n c (upd_port p f w) = settled n c w"
  "settled n c (upd_object d (\<lambda>t. t\<lparr>st_port := q, st_handler := h'\<rparr>) w) = settled n c w"
  by (simp_all add: settled_def)

lemma settled_other [simp]: "d \<noteq> c \<Longrightarrow> settled n c (upd_stcp d g w) = settled n c w"
  by (simp add: settled_def)

lemma settled_upd:
  "settled n c w \<Longrightarrow> (d = c \<Longrightarrow> quiet n (g (stcp c w))) \<Longrightarrow> settled n c (upd_stcp d g w)"
  by (cases "d = c") (simp_all add: settled_def)

lemma settled_same [simp]:
  "settled n c w \<Longrightarrow> (\<And>t. quiet n t \<Longrightarrow> quiet n (g t)) \<Longrightarrow> settled n c (upd_stcp d g w)"
  by (rule settled_upd) (simp_all add: settled_def)

lemma settledD:
  assumes "settled n c w"
  shows "c < ac_next w" "quiet n (stcp c w)" "cs_state (ct_state (stcp c w)) = Disconnected"
    "is_closing (ct_state (stcp c w))" "sk_closing (ct_socket (stcp c w))"
    "\<not> lt_started (ct_login_timer (stcp c w))" "\<not> hb_started (ct_heartbeat_timer (stcp c w))"
  using assms quietD [of n "stcp c w"] by (simp_all add: settled_def)

lemma settled_ends [simp]:
  assumes "settled n c w"
  shows "settled n c (stcp_disconnect d r w)"
    "settled n c (stcp_handle_transport_error d ec operation w)"
    "settled n c (stcp_handle_protocol_violation d pe w)"
  using assms
  by (simp_all add: stcp_disconnect_eq stcp_handle_transport_error_def stcp_handle_protocol_violation_def)

text \<open>Other connections: what happens to them reaches this one only by taking it over.\<close>

lemma settled_login:
  assumes "settled n c w"
  shows "settled n c (snd (port_on_login_request p d request session w))"
    "settled n c (snd (acceptor_on_login_request env d request w))"
proof -
  show *: "settled n c (snd (port_on_login_request p d request session w))" for p session
    using assms by (simp add: port_on_login_request_def stcp_supersede_def Let_def split: option.splits)
  show "settled n c (snd (acceptor_on_login_request env d request w))"
    using assms * by (simp add: acceptor_on_login_request_def split: option.splits)
qed

lemma settled_heartbeat_start:
  "d \<noteq> c \<Longrightarrow> settled n c w \<Longrightarrow>
   settled n c (heartbeat_timer_start (stcp_heartbeat_handler d) now throws throws' w)"
  by (simp add: heartbeat_timer_start_def heartbeat_timer_schedule_def stcp_heartbeat_handler_def
      stcp_heartbeat_timer_error_def Let_def split: option.splits)

lemma settled_answer:
  assumes "d \<noteq> c" and "settled n c w"
  shows "settled n c (stcp_accept_login env d response w)" "settled n c (stcp_reject_login d reject w)"
  using assms
  by (simp_all add: stcp_accept_login_def stcp_reject_login_def stcp_prepare_graceful_disconnect_def
      settled_heartbeat_start Let_def)

lemma settled_process_packet:
  assumes "d \<noteq> c" and "settled n c w"
  shows "settled n c (snd (stcp_process_packet env d packet w))"
proof -
  have "settled n c (snd (stcp_process_login_request env d data sz w))" for data sz
    using assms settled_login(2)
    by (simp add: stcp_process_login_request_def Let_def split_def settled_answer split: option.splits)
  with assms show ?thesis
    by (auto simp: stcp_process_packet_def Let_def stcp_process_debug_def
        stcp_process_unsequenced_data_def stcp_process_client_heartbeat_def
        stcp_process_logout_request_def stcp_increment_receive_count_def split: option.splits)
qed

lemma settled_read_success [simp]:
  assumes "settled n c w"
  shows "settled n c (stcp_read_success env d packet w)"
  using assms settledD(4) [OF assms]
  by (cases "d = c") (simp_all add: stcp_read_success_def settled_process_packet Let_def split_def)

lemma settled_signal_closed [simp]:
  "settled n c w \<Longrightarrow> settled n c (stcp_maybe_signal_closed d w)"
  by (simp add: stcp_maybe_signal_closed_def acceptor_on_closed_def port_on_closed_def Let_def
      split: option.splits)

section \<open>Completions of the socket\<close>

text \<open>What the handlers do once the operation that completed has been taken off.\<close>

lemma settled_read_error [simp]:
  "settled n c w \<Longrightarrow> settled n c (read_error (stcp_socket_handler env d) ec w)"
  by (simp add: read_error_def stcp_socket_handler_def stcp_read_aborted_def
      stcp_read_end_of_file_def stcp_read_failure_def)

lemma handler_parts [simp]:
  "sh_socket (stcp_socket_handler env d) = stcp_socket_lens d"
  "sh_connect_failure (stcp_socket_handler env d) = stcp_connect_failure"
  "sh_connect_success (stcp_socket_handler env d) = stcp_connect_success"
  "sh_read_failure (stcp_socket_handler env d) = stcp_read_failure d"
  "sh_read_packet_failure (stcp_socket_handler env d) = stcp_read_packet_failure d"
  "sh_read_success (stcp_socket_handler env d) = stcp_read_success env d"
  "sh_write_failure (stcp_socket_handler env d) = stcp_write_failure d"
  "sh_write_success (stcp_socket_handler env d) = stcp_write_success d"
  "sh_write_buffer_empty (stcp_socket_handler env d) = stcp_write_buffer_empty d"
  "sh_closed (stcp_socket_handler env d) = stcp_closed d"
  by (simp_all add: stcp_socket_handler_def)

lemma settled_payload [simp]:
  "settled n c w \<Longrightarrow> settled n c (payload_received (stcp_socket_handler env d) ec m w)"
  by (simp add: payload_received_def Let_def split_def read_packet_move_def stcp_read_failure_def)

lemma settled_more: "settled n c w \<Longrightarrow> settled (Suc n) c w"
  by (simp add: settled_def quiet_more)

lemma settled_header:
  assumes ok: "settled n c w" and budget: "N = (if d = c then Suc n else n)"
  shows "settled N c (header_received (stcp_socket_handler env d) ec m w)"
proof -
  have more: "settled N c w" if "settled n c w" for w
    using that settled_more budget by simp
  have payload: "settled N c (upd_stcp d (\<lambda>t. t\<lparr>ct_socket := read_payload (ct_socket t)\<rparr>) w)"
    if "settled n c w" for w
  proof (cases "d = c")
    case True
    have "quiet (Suc n) ((stcp c w)\<lparr>ct_socket := read_payload (ct_socket (stcp c w))\<rparr>)"
      using that by (simp add: settled_def quiet_def work_def socket_work_def read_payload_def)
    with True settled_more [OF that] budget show ?thesis by (simp add: settled_upd)
  qed (use that budget in simp)
  show ?thesis
    using ok more payload
    by (simp add: header_received_def Let_def split_def read_packet_move_def
        stcp_read_failure_def stcp_read_packet_failure_def split: read_resize.splits)
qed

lemma settled_sent [simp]:
  assumes ok: "settled n c w"
  shows "settled n c (packet_sent (stcp_socket_handler env d) ec m w)"
proof -
  let ?k = "\<lambda>w. ct_socket (stcp d w)"
  have next': "settled n c (upd_stcp d (\<lambda>t. t\<lparr>ct_socket := write_packet_start (ct_socket t)\<rparr>)
      (upd_stcp d (\<lambda>t. t\<lparr>ct_socket := (ct_socket t)\<lparr>sk_write_packets := tl (sk_write_packets (ct_socket t))\<rparr>\<rparr>) w))"
    if "settled n c w" "tl (sk_write_packets (?k w)) \<noteq> []" for w
    using that by (cases "d = c") (simp_all add: settled_def quiet_next_write)
  show ?thesis
    using ok next' by (simp add: packet_sent_def Let_def stcp_write_failure_def
        stcp_write_success_def stcp_write_buffer_empty_def quiet_next_write)
qed

lemma settled_op_taken:
  assumes "settled (if d = c then n + op_work op else n) c w"
    and "op \<in> set (sk_ops (ct_socket (stcp d w)))"
    and "\<And>k. sk_closing (g k) = sk_closing k \<and> sk_ops (g k) = remove1 op (sk_ops k) \<and>
      sk_write_packets (g k) = sk_write_packets k \<and> sk_closed_signaled (g k) = sk_closed_signaled k"
  shows "settled n c (upd_stcp d (\<lambda>t. t\<lparr>ct_socket := g (ct_socket t)\<rparr>) w)"
proof (cases "d = c")
  case True
  with assms quiet_op_taken [of n op "stcp c w" "g (ct_socket (stcp c w))"]
    quietD(2) [of "n + op_work op" "stcp c w"]
  show ?thesis by (simp add: settled_def)
qed (use assms in simp)

theorem settled_complete:
  assumes ok: "settled (if d = c then Suc n else n) c w"
    and op: "op \<in> set (sk_ops (ct_socket (stcp d w)))"
  shows "settled n c (socket_complete (stcp_socket_handler env d) op ec m data w)"
proof -
  have one: "settled n c (upd_stcp d (\<lambda>t. t\<lparr>ct_socket := g (ct_socket t)\<rparr>) w)"
    if "op \<noteq> Op_read_header"
      "\<And>k. sk_closing (g k) = sk_closing k \<and> sk_ops (g k) = remove1 op (sk_ops k) \<and>
        sk_write_packets (g k) = sk_write_packets k \<and> sk_closed_signaled (g k) = sk_closed_signaled k"
    for g
  proof (rule settled_op_taken [OF _ op that(2)])
    have "op_work op = 1" using that(1) by (cases op) simp_all
    with ok show "settled (if d = c then n + op_work op else n) c w" by (simp split: if_splits)
  qed
  show ?thesis
  proof (cases op)
    case Op_read_header
    obtain b where b: "settled (if d = c then b + 2 else b) c w" "n = (if d = c then Suc b else b)"
    proof (cases "d = c")
      case True
      have "op_work op \<le> work (stcp c w)"
        using sum_list_taken(2) [OF op] True by (simp add: work_def socket_work_def)
      with ok True Op_read_header obtain b where "n = Suc b"
        by (cases n) (simp_all add: settled_def quiet_def)
      with ok True that [of b] show thesis by simp
    qed (use ok that [of n] in simp)
    let ?g = "\<lambda>k. k\<lparr>sk_ops := remove1 Op_read_header (sk_ops k), sk_read_packet := (sk_read_packet k)
        \<lparr>rp_header := poke 0 data (rp_header (sk_read_packet k))\<rparr>, sk_read_pending := False\<rparr>"
    have "settled b c (upd_stcp d (\<lambda>t. t\<lparr>ct_socket := ?g (ct_socket t)\<rparr>) w)"
      using b(1) by (intro settled_op_taken [OF _ op]) (simp_all add: Op_read_header split: if_splits)
    from settled_header [OF this b(2)]
    have "settled n c (read_header_done (stcp_socket_handler env d) ec data w)"
      by (simp add: read_header_done_def Let_def)
    with op Op_read_header show ?thesis by (simp add: socket_complete_def)
  next
    case Op_connect
    note k = one [of "\<lambda>k. k\<lparr>sk_ops := remove1 Op_connect (sk_ops k), sk_connect_pending := False\<rparr>"]
    with op Op_connect show ?thesis
      by (simp add: socket_complete_def connect_done_def stcp_connect_failure_def
          stcp_connect_success_def Let_def)
  next
    case Op_read_payload
    note k = one [of "\<lambda>k. k\<lparr>sk_ops := remove1 Op_read_payload (sk_ops k), sk_read_packet :=
        (sk_read_packet k)\<lparr>rp_payload := buffer_poke 0 data (rp_payload (sk_read_packet k))\<rparr>,
        sk_read_pending := False\<rparr>"]
    with op Op_read_payload show ?thesis
      by (simp add: socket_complete_def read_payload_done_def Let_def)
  next
    case (Op_write bs)
    note k = one [of "\<lambda>k. k\<lparr>sk_ops := remove1 (Op_write bs) (sk_ops k), sk_write_pending := False\<rparr>"]
    with op Op_write show ?thesis by (simp add: socket_complete_def write_done_def Let_def)
  next
    case Op_post_closed
    note k = one [of "\<lambda>k. k\<lparr>sk_ops := remove1 Op_post_closed (sk_ops k)\<rparr>"]
    with op Op_post_closed show ?thesis
      by (simp add: socket_complete_def post_closed_done_def stcp_closed_def)
  qed
qed

section \<open>Every event\<close>

text \<open>The completions that belong to a connection.\<close>

fun completes :: "nat \<Rightarrow> server_event \<Rightarrow> bool" where
  "completes c (Sv_socket d op ec n data) \<longleftrightarrow> d = c"
| "completes c (Sv_login_wait d ec) \<longleftrightarrow> d = c"
| "completes c (Sv_login_post d) \<longleftrightarrow> d = c"
| "completes c (Sv_heartbeat_wait d ec) \<longleftrightarrow> d = c"
| "completes c (Sv_heartbeat_post d) \<longleftrightarrow> d = c"
| "completes c _ \<longleftrightarrow> False"

text \<open>How many of the events of a run completed something that was outstanding for it.\<close>

fun completions :: "nat \<Rightarrow> (server_env \<times> server_event) list \<Rightarrow> sw \<Rightarrow> nat" where
  "completions c [] w = 0"
| "completions c ((env, ev) # evs) w =
     (if server_event_enabled w ev \<and> completes c ev then 1 else 0) +
     completions c evs (server_step env ev w)"

lemma settled_timers:
  assumes ok: "settled (if d = c then Suc n else n) c w"
  shows "0 < lt_waits (ct_login_timer (stcp d w)) \<Longrightarrow>
      settled n c (login_timer_wait_done (stcp_login_handler d) ec w)"
    "0 < lt_posts (ct_login_timer (stcp d w)) \<Longrightarrow>
      settled n c (login_timer_post_done (stcp_login_handler d) w)"
    "0 < hb_waits (ct_heartbeat_timer (stcp d w)) \<Longrightarrow>
      settled n c (heartbeat_timer_wait_done (stcp_heartbeat_handler d) throws ec w)"
    "0 < hb_posts (ct_heartbeat_timer (stcp d w)) \<Longrightarrow>
      settled n c (heartbeat_timer_post_done (stcp_heartbeat_handler d) w)"
proof -
  have other: "settled n c (login_timer_wait_done (stcp_login_handler d) ec w)"
    "settled n c (heartbeat_timer_wait_done (stcp_heartbeat_handler d) throws ec w)" if "d \<noteq> c"
    using that ok
    by (simp_all add: login_timer_wait_done_def login_timer_on_expiry_def
        heartbeat_timer_wait_done_def heartbeat_timer_on_expiry_def heartbeat_timer_schedule_def
        stcp_login_handler_def stcp_heartbeat_handler_def
        stcp_login_timer_error_def stcp_login_timer_expired_def
        stcp_heartbeat_timer_error_def stcp_heartbeat_send_due_def
        stcp_heartbeat_receive_timeout_def Let_def split: option.splits)
  show "settled n c (login_timer_wait_done (stcp_login_handler d) ec w)"
    if "0 < lt_waits (ct_login_timer (stcp d w))"
  proof (cases "d = c")
    case True
    with ok that quiet_taken(3) [of n "stcp c w"] settledD(6) [of "Suc n" c w] show ?thesis
      by (simp add: login_timer_wait_done_def login_timer_on_expiry_def stcp_login_handler_def
          Let_def settled_def)
  qed (rule other)
  show "settled n c (heartbeat_timer_wait_done (stcp_heartbeat_handler d) throws ec w)"
    if "0 < hb_waits (ct_heartbeat_timer (stcp d w))"
  proof (cases "d = c")
    case True
    with ok that quiet_taken(4) [of n "stcp c w"] settledD(7) [of "Suc n" c w] show ?thesis
      by (simp add: heartbeat_timer_wait_done_def heartbeat_timer_on_expiry_def
          stcp_heartbeat_handler_def Let_def settled_def)
  qed (rule other)
  show "settled n c (login_timer_post_done (stcp_login_handler d) w)"
    if "0 < lt_posts (ct_login_timer (stcp d w))"
  proof -
    have "settled n c (upd_stcp d (\<lambda>t. t\<lparr>ct_login_timer := (ct_login_timer t)
        \<lparr>lt_posts := lt_posts (ct_login_timer t) - 1\<rparr>\<rparr>) w)"
      using ok that quiet_taken(1) [of n "stcp c w"] by (cases "d = c") (simp_all add: settled_def)
    then show ?thesis
      by (simp add: login_timer_post_done_def stcp_login_handler_def stcp_login_timer_stopped_def)
  qed
  show "settled n c (heartbeat_timer_post_done (stcp_heartbeat_handler d) w)"
    if "0 < hb_posts (ct_heartbeat_timer (stcp d w))"
  proof -
    have "settled n c (upd_stcp d (\<lambda>t. t\<lparr>ct_heartbeat_timer := (ct_heartbeat_timer t)
        \<lparr>hb_posts := hb_posts (ct_heartbeat_timer t) - 1\<rparr>\<rparr>) w)"
      using ok that quiet_taken(2) [of n "stcp c w"] by (cases "d = c") (simp_all add: settled_def)
    then show ?thesis
      by (simp add: heartbeat_timer_post_done_def stcp_heartbeat_handler_def
          stcp_heartbeat_timer_stopped_def)
  qed
qed

text \<open>What the user and the server call.\<close>

lemma settled_write:
  "settled n c w \<Longrightarrow>
   settled n c (upd_stcp d (\<lambda>t. t\<lparr>ct_socket := snd (socket_async_write p (ct_socket (stcp d w)))\<rparr>) w)"
  by (rule settled_upd) (simp_all add: settled_def)

lemma settled_sends:
  assumes "settled n c w"
  shows "settled n c (snd (stcp_send_packet d packet w))"
    "settled n c (snd (stcp_send_debug_packet d bs w))"
  using assms settledD(3,4) [OF assms]
  by (cases "d = c"; simp add: stcp_send_packet_def stcp_send_debug_packet_def Let_def split_def)+

lemma settled_port_sends:
  assumes "settled n c w"
  shows "settled n c (snd (port_send_packet p packet w))" "settled n c (snd (port_send_counted p packet w))"
    "settled n c (snd (port_send_debug p bs w))" "settled n c (port_end_session p w)"
    "settled n c (snd (port_send_message p data m w))"
    "settled n c (case port_send_message_packet p packet w of None \<Rightarrow> w | Some (_, w) \<Rightarrow> w)"
proof -
  show packet: "settled n c (snd (port_send_packet p packet w))"
    using assms settled_sends(1) by (simp add: port_send_packet_def split: option.splits)
  have counted: "settled n c (snd (port_send_counted p packet w))" for packet
    using assms settled_sends(1)
    by (simp add: port_send_counted_def port_send_packet_def Let_def split_def split: option.splits)
  then show "settled n c (snd (port_send_counted p packet w))" .
  show "settled n c (snd (port_send_message p data m w))"
    using assms counted by (simp add: port_send_message_def split: option.splits)
  show "settled n c (case port_send_message_packet p packet w of None \<Rightarrow> w | Some (_, w) \<Rightarrow> w)"
    using assms counted
    by (auto simp: port_send_message_packet_def split: option.splits prod.splits) (metis snd_conv)
  show "settled n c (snd (port_send_debug p bs w))"
    using assms settled_sends(2) by (simp add: port_send_debug_def split: option.splits)
  show "settled n c (port_end_session p w)"
    using assms settled_sends(1) by (simp add: port_end_session_def Let_def split: option.splits)
qed

lemma settled_folds:
  "settled n c w \<Longrightarrow> settled n c (fold port_end_session ps w)"
  "settled n c w \<Longrightarrow> settled n c (fold stcp_close cs w)"
  by (induction ps arbitrary: w) (simp_all add: settled_port_sends,
      induction cs arbitrary: w, simp_all add: stcp_close_def)

lemma settled_accept:
  assumes "settled n c w"
  shows "settled n c (accept_done (acceptor_socket_handler env) ec w)"
proof -
  have built: "settled n c (stcp_construct env (ac_next w) h k
      ((acceptor_call x cb w)\<lparr>ac_next := Suc (ac_next w)\<rparr>))" if "settled n c w" for h k x cb w
  proof -
    have "settled n c (upd_object (ac_next w) f ((acceptor_call x cb w)\<lparr>ac_next := Suc (ac_next w)\<rparr>))"
      "ac_next w \<noteq> c" for f
      using that by (auto simp: settled_def)
    then show ?thesis
      by (simp add: stcp_construct_def Let_def login_timer_start_def stcp_login_handler_def
          stcp_login_timer_error_def split: option.splits)
  qed
  have "settled n c (acceptor_accept_success env w)" if "settled n c w" for w
    using built settled_sends(2) that
    by (simp add: acceptor_accept_success_def Let_def split: option.splits)
  with assms show ?thesis
    by (simp add: accept_done_def acceptor_socket_handler_def acceptor_accept_failure_def Let_def)
qed

theorem settled_step:
  assumes ok: "settled (if server_event_enabled w ev \<and> completes c ev then Suc n else n) c w"
  shows "settled n c (server_step env ev w)"
proof (cases "server_event_enabled w ev")
  case True
  note timers = settled_timers [of _ c n w] and complete = settled_complete [of _ c n w]
  show ?thesis
  proof (cases "\<exists>d. completes d ev")
    case True
    with \<open>server_event_enabled w ev\<close> ok timers complete show ?thesis
      by (cases ev) (simp_all add: server_step_def asio_may_complete_def)
  next
    case False
    with ok have "settled n c w" by (simp split: if_splits)
    with True False show ?thesis
      by (cases ev) (simp_all add: server_step_def settled_accept settled_port_sends settled_folds
          acceptor_end_session_def acceptor_stop_def acceptor_start_def acceptor_add_port_def Let_def
          split_def)
  qed
qed (use ok in \<open>simp add: server_step_def\<close>)

lemma completes_work:
  assumes "server_event_enabled w ev" and "completes c ev"
  shows "work (stcp c w) \<noteq> 0"
proof -
  have "tcp_outstanding (stcp c w)"
    using assms by (cases ev) (auto simp: tcp_outstanding_def asio_may_complete_def)
  with no_work show ?thesis by blast
qed

theorem settled_run:
  "settled n c w \<Longrightarrow> completions c evs w + work (stcp c (server_run evs w)) \<le> n"
proof (induction evs arbitrary: n w)
  case Nil
  then show ?case by (simp add: settled_def quiet_def)
next
  case (Cons e evs)
  obtain env ev where e: "e = (env, ev)" by fastforce
  show ?case
  proof (cases "server_event_enabled w ev \<and> completes c ev")
    case True
    with completes_work [of w ev c] Cons.prems obtain m where m: "n = Suc m"
      by (cases n) (auto simp: settled_def quiet_def)
    have "settled m c (server_step env ev w)"
      by (rule settled_step) (use True Cons.prems in \<open>simp add: m\<close>)
    from Cons.IH [OF this] True show ?thesis by (simp add: e m)
  next
    case False
    have "settled n c (server_step env ev w)"
      by (rule settled_step) (unfold if_not_P [OF False], rule Cons.prems)
    from Cons.IH [OF this] False show ?thesis by (auto simp: e)
  qed
qed

section \<open>The property\<close>

lemma disconnected_settled:
  assumes "srv_ok w" and "c \<in> set (ac_connections w)"
    and "cs_state (ct_state (stcp c w)) = Disconnected"
  shows "settled (work (stcp c w)) c w"
proof -
  have "tcp_mid (stcp c w)" "c < ac_next w"
    using assms(1,2) st_ok_D(2) by (auto simp: srv_ok_def srv_settings_def)
  with assms(3) show ?thesis by (simp add: settled_def quiet_def tcp_mid_def)
qed

text \<open>C6 A connection of the server that is disconnected winds down: after at most \<open>work\<close> more
  completions of what is outstanding for it (the operations of its socket, the writes still
  queued, the waits of its timers and one notification each), whatever else happens to the
  acceptor in between, it is destroyed; and until then something is outstanding, so a
  system that completes what it was asked for always gets there.  It takes a write limit
  above 0 and no debug banner, as \<open>server_object_lifetime\<close> does.\<close>

theorem server_winds_down:
  assumes "fresh_acceptor w0" and "ac_debug_banner w0 = []" and "0 < ac_write_packets_limit w0"
    and w: "w = server_run evs w0" and c: "c \<in> set (ac_connections w)"
    and down: "cs_state (ct_state (stcp c w)) = Disconnected"
  shows "completions c evs' w + work (stcp c (server_run evs' w)) \<le> work (stcp c w) \<and>
    (completions c evs' w = work (stcp c w) \<longrightarrow> c \<notin> set (ac_connections (server_run evs' w))) \<and>
    (c \<in> set (ac_connections (server_run evs' w)) \<longrightarrow> tcp_outstanding (stcp c (server_run evs' w)))"
proof -
  have ok: "srv_ok w" unfolding w by (intro srv_ok_run fresh_srv_ok assms)
  have held: "c \<in> set (ac_connections (server_run evs' w)) \<Longrightarrow> tcp_outstanding (stcp c (server_run evs' w))"
    using srv_ok_run [OF ok, of evs'] st_unfinished_outstanding by (auto simp: srv_ok_def)
  have bound: "completions c evs' w + work (stcp c (server_run evs' w)) \<le> work (stcp c w)"
    by (rule settled_run [OF disconnected_settled [OF ok c down]])
  with held no_work [of "stcp c (server_run evs' w)"] show ?thesis by auto
qed

text \<open>The connection of \<open>demo_accepted\<close> after a stop: its read, the wait of its login timer,
  and the two notifications.\<close>

theorem server_winds_down_witness:
  "completions 0 [(demo_env, Sv_login_wait 0 operation_aborted)]
      (server_run [(demo_env, Sv_stop)] demo_accepted) \<le> 5 \<and>
   0 \<in> set (ac_connections (server_run [(demo_env, Sv_stop)] demo_accepted))"
proof -
  let ?w = "server_run [(demo_env, Sv_stop)] demo_accepted"
  have w: "?w = server_run (demo_events @ [(demo_env, Sv_stop)]) demo_acceptor"
    by (simp add: demo_accepted_def demo_events_def)
  have stopped: "stcp 0 ?w = t_disconnect DR_user_initiated (stcp 0 demo_accepted)"
    "ac_connections ?w = [0]"
    by (simp_all add: server_step_def acceptor_stop_def demo_accepted_simps stcp_close_def
        stcp_disconnect_eq)
  have "work (stcp 0 ?w) = 5"
    unfolding stopped
    by (simp add: demo_accepted_simps t_accepted_def server_tcp_new_def Let_def t_disconnect_def
        connection_state_of_def cs_disconnect_def work_defs socket_close_def socket_async_read_def
        socket_new_def set_write_packets_limit_def read_header_def socket_maybe_signal_closed_def
        is_idle_def login_timer_stop_def login_timer_maybe_signal_stopped_def login_timer_new_def
        heartbeat_timer_stop_def heartbeat_timer_new_def)
  with server_winds_down [OF demo_ready(1,3,4) w, of 0 "[(demo_env, Sv_login_wait 0 operation_aborted)]"]
    stopped show ?thesis by simp
qed

end
