(* ===== verification/Client_Sending.thy ===== *)
theory Client_Sending
  imports Client_Demo
begin

text \<open>
  Sending over several connections.  The client offers a packet to every connection and
  answers the least severe of their errors: the errors are ordered by how far the packet
  got, and \<open>priority_error\<close> is the minimum of that order.
\<close>

section \<open>The order of the errors\<close>

fun severity :: "write_error \<Rightarrow> nat" where
  "severity WE_none = 0"
| "severity WE_buffer_full = 1"
| "severity WE_not_logged_in = 2"
| "severity WE_disconnected = 3"
| "severity WE_session_ended = 4"
| "severity WE_empty_buffer = 5"
| "severity WE_null_buffer = 6"

lemma severity_inj [simp]: "severity a = severity b \<longleftrightarrow> a = b"
  by (cases a; cases b) simp_all

instantiation write_error :: linorder
begin

definition less_eq_write_error :: "write_error \<Rightarrow> write_error \<Rightarrow> bool" where
  "less_eq_write_error a b \<longleftrightarrow> severity a \<le> severity b"

definition less_write_error :: "write_error \<Rightarrow> write_error \<Rightarrow> bool" where
  "less_write_error a b \<longleftrightarrow> severity a < severity b"

instance
  by standard (auto simp: less_eq_write_error_def less_write_error_def)

end

text \<open>The answers of a connection that is not ended.\<close>

definition connection_errors :: "write_error set" where
  "connection_errors = {e. e \<le> WE_disconnected}"

lemma connection_errors_eq:
  "connection_errors = {WE_none, WE_buffer_full, WE_not_logged_in, WE_disconnected}"
proof -
  have "e \<le> WE_disconnected \<longleftrightarrow> e \<in> {WE_none, WE_buffer_full, WE_not_logged_in, WE_disconnected}" for e
    by (cases e) (simp_all add: less_eq_write_error_def)
  then show ?thesis by (auto simp: connection_errors_def)
qed

lemma severity_le:
  "WE_none \<le> e" "e \<noteq> WE_none \<Longrightarrow> WE_buffer_full \<le> e"
  "e \<noteq> WE_none \<Longrightarrow> e \<noteq> WE_buffer_full \<Longrightarrow> WE_not_logged_in \<le> e"
  "e \<noteq> WE_none \<Longrightarrow> e \<noteq> WE_buffer_full \<Longrightarrow> e \<noteq> WE_not_logged_in \<Longrightarrow> WE_disconnected \<le> e"
  by (cases e; simp add: less_eq_write_error_def)+

lemma priority_error_Min:
  assumes "es \<noteq> []" and "set es \<subseteq> connection_errors"
  shows "priority_error es = Min (set es)"
proof (rule Min_eqI [symmetric])
  show "finite (set es)" by simp
  show "priority_error es \<le> e" if "e \<in> set es" for e
    using that by (auto simp: priority_error_def intro!: severity_le)
  show "priority_error es \<in> set es"
  proof (cases es)
    case (Cons e es')
    with assms(2) show ?thesis by (auto simp: priority_error_def connection_errors_eq)
  qed (use assms(1) in simp)
qed

section \<open>One connection\<close>

text \<open>The answer, and the connection afterwards.\<close>

definition conn_answer :: "client_connection \<Rightarrow> write_error" where
  "conn_answer c =
    (let k = ct_socket (cc_tcp c) in
     if cc_has_session_ended c then WE_session_ended
     else if \<not> cc_engaged c then WE_disconnected
     else if cs_state (ct_state (cc_tcp c)) \<noteq> Logged_in then WE_not_logged_in
     else if sk_closing k then WE_disconnected
     else if length (sk_write_packets k) = sk_write_packets_limit k then WE_buffer_full
     else WE_none)"

definition conn_sent :: "write_packet \<Rightarrow> client_connection \<Rightarrow> client_connection" where
  "conn_sent packet c = cw_conn (snd (conn_send_packet packet
     \<lparr>cw_core = ck_core (client_new True), cw_conn = c, cw_id = 0, cw_out = []\<rparr>))"

lemma conn_send_packet_eq:
  "conn_send_packet packet w = (conn_answer (cw_conn w), w\<lparr>cw_conn := conn_sent packet (cw_conn w)\<rparr>)"
  by (cases w) (simp add: conn_send_packet_def conn_answer_def conn_sent_def tcp_send_packet_def
      socket_async_write_def upd_tcp_def Let_def)

lemma conn_answer_errors: "\<not> cc_has_session_ended c \<Longrightarrow> conn_answer c \<in> connection_errors"
  by (simp add: conn_answer_def connection_errors_eq Let_def)

lemma conn_sent_queue:
  "sk_write_packets (ct_socket (cc_tcp (conn_sent packet c))) =
     sk_write_packets (ct_socket (cc_tcp c)) @ (if conn_answer c = WE_none then [packet] else [])"
  by (simp add: conn_sent_def conn_answer_def conn_send_packet_def tcp_send_packet_def
      socket_async_write_def write_packet_start_def upd_tcp_def Let_def)

section \<open>All connections\<close>

lemma on_connection_send:
  "on_connection i (conn_send_packet packet) cl =
    (conn_answer (ck_connections cl ! i),
     cl\<lparr>ck_connections := (ck_connections cl)[i := conn_sent packet (ck_connections cl ! i)]\<rparr>)"
  by (simp add: on_connection_def conn_send_packet_eq)

lemma on_connections_send:
  "on_connection i (conn_send_packet packet) (cl\<lparr>ck_connections := cs\<rparr>) =
    (conn_answer (cs ! i), cl\<lparr>ck_connections := cs[i := conn_sent packet (cs ! i)]\<rparr>)"
  by (simp add: on_connection_send)

lemma send_copies:
  assumes "distinct is" and "\<forall>i \<in> set is. i < length (ck_connections cl)"
    and copy: "write_packet_clone packet = packet"
  shows "client_send_copies is packet cl = (map (\<lambda>i. conn_answer (ck_connections cl ! i)) is,
    cl\<lparr>ck_connections := map (\<lambda>j. if j \<in> set is then conn_sent packet (ck_connections cl ! j)
        else ck_connections cl ! j) [0..<length (ck_connections cl)]\<rparr>)"
  using assms(1,2)
proof (induction "is" arbitrary: cl)
  case Nil
  then show ?case by (simp add: map_nth)
next
  case (Cons i "is")
  let ?cl = "cl\<lparr>ck_connections := (ck_connections cl)[i := conn_sent packet (ck_connections cl ! i)]\<rparr>"
  from Cons.IH [of ?cl] Cons.prems show ?case
    by (auto simp: on_connection_send copy nth_list_update intro!: nth_equalityI)
qed

text \<open>C16 A packet sent by the client goes to every connection that can take it, one copy each, and
  to no other; the client answers the least severe of what its connections answer (sent,
  buffer full, not logged in, disconnected, in this order), \<^verbatim>\<open>disconnected\<close> when it has no
  connection, and \<^verbatim>\<open>session_ended\<close> without sending when the session has ended.  The
  condition \<open>ended\<close> is that a session which has ended for a connection has ended for the
  client too: \<^verbatim>\<open>on_end_of_session\<close> tells the client in the same call.\<close>

theorem client_send_packet_answer:
  assumes copy: "buffer_ok (wp_packet packet)"
    and ended: "cl_has_session_ended (ck_core cl) \<or>
      list_all (\<lambda>c. \<not> cc_has_session_ended c) (ck_connections cl)"
    and sent: "client_send_packet packet cl = (e, cl')"
  shows "if cl_has_session_ended (ck_core cl) then e = WE_session_ended \<and> cl' = cl
    else if ck_connections cl = [] then e = WE_disconnected \<and> cl' = cl
    else e = Min (set (map conn_answer (ck_connections cl))) \<and>
      cl' = cl\<lparr>ck_connections := map (conn_sent packet) (ck_connections cl)\<rparr> \<and>
      list_all (\<lambda>c. sk_write_packets (ct_socket (cc_tcp (conn_sent packet c))) =
        sk_write_packets (ct_socket (cc_tcp c)) @ (if conn_answer c = WE_none then [packet] else []))
        (ck_connections cl)"
proof (cases "cl_has_session_ended (ck_core cl) \<or> ck_connections cl = []")
  case True
  with sent show ?thesis
    by (auto simp: client_send_packet_def client_send_multiple_def)
next
  case False
  let ?cs = "ck_connections cl" and ?sent = "cl\<lparr>ck_connections := map (conn_sent packet) (ck_connections cl)\<rparr>"
  note copy' = wp_clone_eq [OF copy]
  have going: "list_all (\<lambda>c. \<not> cc_has_session_ended c) ?cs" using ended False by simp
  have errors: "set (map conn_answer ?cs) \<subseteq> connection_errors"
    using going conn_answer_errors by (auto simp: list_all_iff)
  have "client_send_packet packet cl = (priority_error (map conn_answer ?cs), ?sent)"
  proof -
    consider (one) c where "?cs = [c]" | (two) c d where "?cs = [c, d]" | (more) "2 < length ?cs"
      using False by (cases ?cs; cases "tl ?cs"; cases "tl (tl ?cs)") auto
    then show ?thesis
    proof cases
      case one
      with False going show ?thesis
        by (auto simp: client_send_packet_def client_send_one_def on_connection_send
            priority_error_Min connection_errors_eq dest: conn_answer_errors)
    next
      case two
      with False show ?thesis
        by (simp add: client_send_packet_def client_send_two_def on_connection_send copy')
    next
      case more
      let ?final = "length ?cs - 1"
      have final: "?final < length ?cs" "[0..<length ?cs] = [0..<?final] @ [?final]"
        using more by (simp, cases "length ?cs") simp_all
      have "map conn_answer ?cs = map (\<lambda>i. conn_answer (?cs ! i)) [0..<length ?cs]"
        by (rule nth_equalityI) simp_all
      then have answers: "map conn_answer ?cs =
          map (\<lambda>i. conn_answer (?cs ! i)) [0..<?final] @ [conn_answer (?cs ! ?final)]"
        by (simp only: final(2) map_append list.map)
      let ?M = "map (\<lambda>j. if j \<in> set [0..<?final] then conn_sent packet (?cs ! j) else ?cs ! j) [0..<length ?cs]"
      have copies: "client_send_copies [0..<?final] packet cl =
          (map (\<lambda>i. conn_answer (?cs ! i)) [0..<?final], cl\<lparr>ck_connections := ?M\<rparr>)"
        by (rule send_copies [OF _ _ copy']) auto
      have at: "?M ! ?final = ?cs ! ?final" using final(1) by simp
      have all: "?M[?final := conn_sent packet (?cs ! ?final)] = map (conn_sent packet) ?cs"
        by (rule nth_equalityI) (auto simp: nth_list_update)
      have "client_send_packet packet cl = client_send_multiple packet cl"
        using False more by (simp add: client_send_packet_def)
      also have "\<dots> = (priority_error (map (\<lambda>i. conn_answer (?cs ! i)) [0..<?final] @ [conn_answer (?M ! ?final)]),
          cl\<lparr>ck_connections := ?M[?final := conn_sent packet (?M ! ?final)]\<rparr>)"
        using False
        by (simp only: client_send_multiple_def Let_def copies prod.case on_connections_send if_False
            de_Morgan_disj simp_thms)
      also have "\<dots> = (priority_error (map conn_answer ?cs), ?sent)"
        unfolding at all answers ..
      finally show ?thesis .
    qed
  qed
  with False sent errors priority_error_Min [of "map conn_answer ?cs"] show ?thesis
    by (simp add: conn_sent_queue list_all_iff)
qed

text \<open>A client with two connections: one logged in, one not.\<close>

definition demo_pair :: client where
  "demo_pair = demo_online\<lparr>ck_connections := ck_connections demo_online @
     [client_connection_new (''10.0.0.2'', 4000) True]\<rparr>"

theorem client_send_packet_answer_witness:
  "fst (client_send_packet (write_packet_of unsequenced_data_type ''hi'' 2) demo_pair) = WE_none"
proof -
  let ?p = "write_packet_of unsequenced_data_type ''hi'' 2"
  obtain e cl' where sent: "client_send_packet ?p demo_pair = (e, cl')" by fastforce
  have ok: "buffer_ok (wp_packet ?p)" by (simp add: write_packet_of_data buffer_ok_def)
  have going: "list_all (\<lambda>c. \<not> cc_has_session_ended c) (ck_connections demo_pair)"
    "\<not> cl_has_session_ended (ck_core demo_pair)" "ck_connections demo_pair \<noteq> []"
    by (simp_all add: demo_pair_def demo_online_def demo_connected_def demo_client_def
        client_add_connection_def client_new_def client_connection_new_def)
  have answers: "map conn_answer (ck_connections demo_pair) = [WE_none, WE_disconnected]"
    by (simp add: demo_pair_def demo_online_def conn_answer_def client_connection_new_def
        connection_state_of_def socket_new_def Let_def)
  have "Min {WE_none, WE_disconnected} = WE_none"
    by (rule Min_eqI) (auto intro: severity_le)
  with client_send_packet_answer [OF ok disjI2 [OF going(1)] sent] going(2,3) sent answers show ?thesis by simp
qed

end
