(* ===== verification/Result_Properties.thy ===== *)
theory Result_Properties
  imports Expected Client_Main Server_Main
begin

text \<open>
  The results of type \<^verbatim>\<open>expected\<close>: the class represents a sum, and what the library
  returns in it is always one of the two.
\<close>

text \<open>C37 On objects that hold exactly one of a value and an error, \<^verbatim>\<open>expected\<close> is the sum of the
  two types: \<^verbatim>\<open>has_value\<close> is the side, \<^verbatim>\<open>value()\<close> returns the value or throws the error,
  the unchecked accessors are defined on their own side only, and the six comparison
  operators compare the sums.\<close>

theorem expected_is_sum:
  assumes "expected_ok x" and "expected_ok y"
  shows "(has_value x \<longleftrightarrow> \<not> isl (expected_abs x)) \<and>
    value_of x = Some (map_sum Bad_expected_access id (expected_abs x)) \<and>
    (deref x = (case expected_abs x of Inl _ \<Rightarrow> None | Inr v \<Rightarrow> Some v)) \<and>
    (error_of x = (case expected_abs x of Inl e \<Rightarrow> Some e | Inr _ \<Rightarrow> None)) \<and>
    (expected_eq x y \<longleftrightarrow> expected_abs x = expected_abs y) \<and>
    (expected_neq x y \<longleftrightarrow> expected_abs x \<noteq> expected_abs y) \<and>
    (expected_eq_value x v \<longleftrightarrow> expected_abs x = Inr v) \<and>
    (expected_neq_value x v \<longleftrightarrow> expected_abs x \<noteq> Inr v) \<and>
    (expected_eq_unexpected x e \<longleftrightarrow> expected_abs x = Inl e) \<and>
    (expected_neq_unexpected x e \<longleftrightarrow> expected_abs x \<noteq> Inl e)"
  using assms by (elim expected_ok_cases) (simp_all add: expected_cmp_defs value_of_def deref_def error_of_def)

theorem expected_is_sum_witness:
  "expected_eq (expected_of (3 :: nat)) (expected_of 3 :: (nat, bool) expected) \<and>
   expected_neq (expected_of (3 :: nat)) (unexpected_of True)"
  using expected_is_sum [of "expected_of (3 :: nat)" "expected_of 3 :: (nat, bool) expected"]
    expected_is_sum [of "expected_of (3 :: nat)" "unexpected_of True"]
  by simp

text \<open>Everything the library returns as an \<^verbatim>\<open>expected\<close> holds exactly one of a value and an
  error, and a value is a place in the list it names: the new connection of a client, the new
  acceptor of a server, the new port of an acceptor, and the answer to a login request.\<close>

theorem results_well_formed:
  "expected_ok (fst (client_add_connection ep ch cl)) \<and>
   expected_ok (fst (server_add_acceptor ep ah s)) \<and>
   expected_ok (fst (acceptor_add_port username password ph w)) \<and>
   expected_ok (fst (acceptor_on_login_request env c request w)) \<and>
   (case expected_abs (fst (client_add_connection ep ch cl)) of Inl _ \<Rightarrow> True
      | Inr i \<Rightarrow> i < length (ck_connections (snd (client_add_connection ep ch cl)))) \<and>
   (case expected_abs (fst (server_add_acceptor ep ah s)) of Inl _ \<Rightarrow> True
      | Inr i \<Rightarrow> i < length (sr_acceptors (snd (server_add_acceptor ep ah s)))) \<and>
   (case expected_abs (fst (acceptor_add_port username password ph w)) of Inl _ \<Rightarrow> True
      | Inr p \<Rightarrow> p < length (ac_ports (snd (acceptor_add_port username password ph w))))"
  by (simp add: client_add_connection_def server_add_acceptor_def acceptor_add_port_def
      acceptor_on_login_request_def port_on_login_request_def Let_def split: option.splits)

end
