(* ===== verification/Socket_Queue.thy ===== *)
theory Socket_Queue
  imports Client_Demo
begin

text \<open>
  The write queue of a socket as a first-in first-out queue: the one write that may be
  outstanding carries the bytes of the packet at its front, a completed write takes that
  packet off and starts the next, and everything else only appends.
\<close>

definition writes_front :: "socket \<Rightarrow> bool" where
  "writes_front k \<longleftrightarrow> (\<forall>bs. Op_write bs \<in> set (sk_ops k) \<longrightarrow>
     sk_write_packets k \<noteq> [] \<and> bs = wp_wire (hd (sk_write_packets k)))"

lemma front_new [simp]: "writes_front (socket_new b)"
  by (simp add: writes_front_def socket_new_def)

lemma front_ops [simp]:
  "writes_front (set_write_packets_limit n k) = writes_front k"
  "writes_front (socket_async_connect k) = writes_front k"
  "writes_front (socket_async_read k) = writes_front k"
  "writes_front (read_payload k) = writes_front k"
  "writes_front (socket_maybe_signal_closed k) = writes_front k"
  "writes_front (socket_close k) = writes_front k"
  "writes_front (snd (socket_open ec k)) = writes_front k"
  "writes_front (k\<lparr>sk_read_packet := p\<rparr>) = writes_front k"
  "writes_front (k\<lparr>sk_write_buffer_was_full := f\<rparr>) = writes_front k"
  by (auto simp: writes_front_def set_write_packets_limit_def socket_async_connect_def
      socket_async_read_def read_header_def read_payload_def socket_maybe_signal_closed_def
      socket_close_def socket_open_def Let_def)

lemma front_write [simp]:
  "writes_front k \<Longrightarrow> writes_front (snd (socket_async_write p k))"
  by (auto simp: writes_front_def socket_async_write_def write_packet_start_def Let_def)

lemma front_evolve: "sock_evolve k k' \<Longrightarrow> writes_front k \<Longrightarrow> writes_front k'"
  by (induction rule: sock_evolve.induct) simp_all

lemma front_fewer:
  "writes_front k \<Longrightarrow> set (sk_ops k') \<subseteq> set (sk_ops k) \<Longrightarrow>
   sk_write_packets k' = sk_write_packets k \<Longrightarrow> writes_front k'"
  by (auto simp: writes_front_def)

text \<open>A socket with no write pending has none outstanding.\<close>

lemma no_write_front:
  assumes "sock_core k" and "\<not> sk_write_pending k"
  shows "Op_write bs \<notin> set (sk_ops k)"
proof
  assume "Op_write bs \<in> set (sk_ops k)"
  then have "0 < n_ops is_write_op k"
    unfolding n_ops_def by (metis filter_empty_conv is_write_op.simps(1) length_greater_0_conv)
  with assms show False by (simp add: sock_core_def)
qed

section \<open>Completions\<close>

text \<open>The write that completes has been made whole.\<close>

definition write_whole :: "sock_op \<Rightarrow> error_code \<Rightarrow> nat \<Rightarrow> socket \<Rightarrow> bool" where
  "write_whole op ec n k \<longleftrightarrow> is_write_op op \<and> op \<in> set (sk_ops k) \<and> \<not> ec_set ec \<and>
     Some n = wp_size (hd (sk_write_packets k))"

context socket_owner
begin

lemma packet_sent_front:
  assumes core: "sock_core (sock s)" and idle: "\<not> sk_write_pending (sock s)"
    and ne: "sk_write_packets (sock s) \<noteq> []"
  shows "writes_front (sock (packet_sent h ec n s))"
proof -
  let ?s = "sh_write_success h (hd (sk_write_packets (sock s))) s"
  have front: "writes_front (sock s)"
    using no_write_front [OF core idle] by (simp add: writes_front_def)
  have "sock_core (sock ?s)" "\<not> sk_write_pending (sock ?s)"
    using evolve_core [OF on_write_success core] evolve_write_pending [OF on_write_success ne] idle
    by simp_all
  then have none: "Op_write bs \<notin> set (sk_ops (sock ?s))" for bs by (rule no_write_front)
  then have popped: "writes_front ((sock ?s)\<lparr>sk_write_packets := q\<rparr>)" for q
    by (simp add: writes_front_def)
  have start: "q \<noteq> [] \<Longrightarrow> writes_front (write_packet_start ((sock ?s)\<lparr>sk_write_packets := q\<rparr>))" for q
    using none by (simp add: writes_front_def write_packet_start_def)
  show ?thesis
    using front by (auto simp: packet_sent_def Let_def popped start
        intro!: front_evolve [OF on_write_failure] front_evolve [OF on_write_buffer_empty])
qed

lemma header_received_front:
  assumes "writes_front (sock s)" and "\<not> sk_connect_pending (sock s)" "\<not> sk_read_pending (sock s)"
  shows "writes_front (sock (header_received h ec n s))"
  using assms unfolding header_received_def Let_def
  by (auto simp: read_packet_move_def Let_def split_def split: read_resize.splits
      intro!: front_evolve [OF read_error_evolve] front_evolve [OF on_read_failure]
        front_evolve [OF on_read_success] front_evolve [OF on_read_packet_failure])

lemma payload_received_front:
  assumes "writes_front (sock s)" and "\<not> sk_connect_pending (sock s)" "\<not> sk_read_pending (sock s)"
  shows "writes_front (sock (payload_received h ec n s))"
  using assms
  by (auto simp: payload_received_def read_packet_move_def Let_def split_def
      intro!: front_evolve [OF read_error_evolve] front_evolve [OF on_read_failure]
        front_evolve [OF on_read_success])

theorem complete_front:
  assumes core: "sock_core (sock s)" and front: "writes_front (sock s)"
  shows "writes_front (sock (socket_complete h op ec n data s))"
proof (cases "op \<in> set (sk_ops (sock s))")
  case False
  with front show ?thesis by (simp add: socket_complete_def)
next
  case True
  note cleared = cleared_core [OF core True]
  have fewer: "set (remove1 op (sk_ops (sock s))) \<subseteq> set (sk_ops (sock s))" by (rule set_remove1_subset)
  have dropped: "writes_front ((sock s)\<lparr>sk_ops := remove1 op (sk_ops (sock s))\<rparr>)"
    "writes_front ((sock s)\<lparr>sk_ops := remove1 op (sk_ops (sock s)), sk_connect_pending := b\<rparr>)"
    "writes_front ((sock s)\<lparr>sk_ops := remove1 op (sk_ops (sock s)), sk_read_packet := p,
       sk_read_pending := b\<rparr>)" for b p
    by (rule front_fewer [OF front]; simp add: fewer)+
  show ?thesis
  proof (cases op)
    case Op_connect
    with cleared(1) True dropped(2) show ?thesis
      by (auto simp: socket_complete_def connect_done_def Let_def
          intro!: front_evolve [OF on_connect_failure] front_evolve [OF on_connect_success])
  next
    case Op_read_header
    with cleared(2) True dropped(3) show ?thesis
      by (auto simp: socket_complete_def read_header_done_def Let_def
          intro!: header_received_front)
  next
    case Op_read_payload
    with cleared(2) True dropped(3) show ?thesis
      by (auto simp: socket_complete_def read_payload_done_def Let_def
          intro!: payload_received_front)
  next
    case (Op_write bs)
    with cleared(3) True show ?thesis
      by (auto simp: socket_complete_def write_done_def Let_def intro!: packet_sent_front)
  next
    case Op_post_closed
    with True dropped(1) show ?thesis
      by (auto simp: socket_complete_def post_closed_done_def on_closed)
  qed
qed

text \<open>What a completion does to the queue.\<close>

lemma queue_after:
  "sock_evolve (sock s) (sock s') \<Longrightarrow> sk_write_packets (sock s) = q \<Longrightarrow>
   \<exists>ps. sk_write_packets (sock s') = q @ ps"
  using evolve_queue [of "sock s" "sock s'"] by simp

lemma read_error_queue: "\<exists>ps. sk_write_packets (sock (read_error h ec s)) = sk_write_packets (sock s) @ ps"
  by (rule queue_after [OF read_error_evolve refl])

lemma header_received_queue:
  assumes "\<not> sk_connect_pending (sock s)" "\<not> sk_read_pending (sock s)"
  shows "\<exists>ps. sk_write_packets (sock (header_received h ec n s)) = sk_write_packets (sock s) @ ps"
  using assms unfolding header_received_def Let_def
  by (auto simp: read_packet_move_def Let_def split_def read_error_queue read_payload_def
      split: read_resize.splits
      intro!: queue_after [OF on_read_failure] queue_after [OF on_read_success]
        queue_after [OF on_read_packet_failure])

lemma payload_received_queue:
  assumes "\<not> sk_connect_pending (sock s)" "\<not> sk_read_pending (sock s)"
  shows "\<exists>ps. sk_write_packets (sock (payload_received h ec n s)) = sk_write_packets (sock s) @ ps"
  using assms
  by (auto simp: payload_received_def read_packet_move_def Let_def split_def read_error_queue
      intro!: queue_after [OF on_read_failure] queue_after [OF on_read_success])

lemma packet_sent_queue:
  "\<exists>ps. sk_write_packets (sock (packet_sent h ec n s)) =
     (if \<not> ec_set ec \<and> Some n = wp_size (hd (sk_write_packets (sock s)))
      then tl (sk_write_packets (sock s)) else sk_write_packets (sock s)) @ ps"
  by (auto simp: packet_sent_def Let_def write_success_queue write_packet_start_def
      intro!: queue_after [OF on_write_failure] queue_after [OF on_write_buffer_empty])

theorem complete_fifo:
  assumes core: "sock_core (sock s)"
  shows "\<exists>ps. sk_write_packets (sock (socket_complete h op ec n data s)) =
    (if write_whole op ec n (sock s) then tl (sk_write_packets (sock s))
     else sk_write_packets (sock s)) @ ps"
proof (cases "op \<in> set (sk_ops (sock s))")
  case False
  then show ?thesis by (simp add: socket_complete_def write_whole_def)
next
  case True
  note cleared = cleared_core [OF core True]
  have signal: "sk_write_packets (socket_maybe_signal_closed k) = sk_write_packets k" for k
    by (simp add: socket_maybe_signal_closed_def)
  show ?thesis
  proof (cases op)
    case Op_connect
    with cleared(1) True show ?thesis
      by (auto simp: socket_complete_def connect_done_def write_whole_def signal Let_def
          intro!: queue_after [OF on_connect_failure] queue_after [OF on_connect_success])
  next
    case Op_read_header
    let ?s = "lens_upd (sh_socket h) (\<lambda>k. k\<lparr>sk_ops := remove1 Op_read_header (sk_ops k),
      sk_read_packet := (sk_read_packet k)\<lparr>rp_header := poke 0 data (rp_header (sk_read_packet k))\<rparr>,
      sk_read_pending := False\<rparr>) s"
    from Op_read_header cleared(2) header_received_queue [of ?s ec "length data"] True show ?thesis
      by (simp add: socket_complete_def read_header_done_def write_whole_def signal Let_def)
  next
    case Op_read_payload
    let ?s = "lens_upd (sh_socket h) (\<lambda>k. k\<lparr>sk_ops := remove1 Op_read_payload (sk_ops k),
      sk_read_packet := (sk_read_packet k)
        \<lparr>rp_payload := buffer_poke 0 data (rp_payload (sk_read_packet k))\<rparr>,
      sk_read_pending := False\<rparr>) s"
    from Op_read_payload cleared(2) payload_received_queue [of ?s ec "length data"] True show ?thesis
      by (simp add: socket_complete_def read_payload_done_def write_whole_def signal Let_def)
  next
    case (Op_write bs)
    let ?s = "lens_upd (sh_socket h)
      (\<lambda>k. k\<lparr>sk_ops := remove1 (Op_write bs) (sk_ops k), sk_write_pending := False\<rparr>) s"
    from Op_write packet_sent_queue [of ec n ?s] True show ?thesis
      by (auto simp: socket_complete_def write_done_def write_whole_def signal Let_def split: if_splits)
  next
    case Op_post_closed
    with True show ?thesis
      by (simp add: socket_complete_def post_closed_done_def on_closed write_whole_def)
  qed
qed

end

section \<open>The client's connections\<close>

lemma front_construct: "writes_front (ct_socket (tcp (tcp_construct env w)))"
  by (simp add: tcp_construct_def client_tcp_new_def tcp_handle_connect_failure_def
      tcp_disconnect_eq t_disconnect_def Let_def split_def)

lemma conn_ok_core: "conn_ok w \<Longrightarrow> sk_ops (ct_socket (tcp w)) \<noteq> [] \<Longrightarrow> sock_core (ct_socket (tcp w))"
  using ok_rest [of "tcp w"]
  by (auto simp: conn_ok_def tcp_outstanding_def sock_rest_def split: if_splits)

lemma front_step:
  assumes ok: "conn_ok w" and front: "writes_front (ct_socket (tcp w))"
  shows "writes_front (ct_socket (tcp (client_step env ev w)))"
proof (cases "client_event_enabled w ev")
  case False
  with front show ?thesis by (simp add: client_step_def)
next
  case True
  have ended: "writes_front (ct_socket (t_disconnect r t)) = writes_front (ct_socket t)" for r t
    by (simp add: t_disconnect_def Let_def split_def)
  have socket: "writes_front (ct_socket (tcp (socket_complete (tcp_socket_handler env) op ec n data w)))"
    for op ec n data
  proof (cases "op \<in> set (sk_ops (ct_socket (tcp w)))")
    case True
    then have "sock_core (ct_socket (tcp w))" using conn_ok_core [OF ok] by fastforce
    with front client_socket.complete_front [where s = w and env = env] show ?thesis
      by (simp add: sh_socket_eq)
  next
    case False
    with front show ?thesis by (simp add: socket_complete_def sh_socket_eq)
  qed
  have sends: "writes_front (ct_socket (tcp (snd (tcp_send_packet p w))))"
    "writes_front (ct_socket (tcp (snd (tcp_send_debug_packet bs w))))" for p bs
    using front by (simp_all add: tcp_send_packet_def tcp_send_debug_packet_def Let_def split_def)
  from True front sends show ?thesis
    by (cases ev) (simp_all add: client_step_def socket ended front_construct login_timer_wait_done_def
        login_timer_on_expiry_def tcp_login_handler_def tcp_login_timer_error_def
        tcp_login_timer_expired_def tcp_handle_transport_error_def login_timer_post_done_def
        tcp_login_timer_stopped_def heartbeat_timer_wait_done_def heartbeat_timer_on_expiry_def
        heartbeat_timer_schedule_def tcp_heartbeat_handler_def tcp_heartbeat_timer_error_def
        tcp_heartbeat_send_due_def tcp_heartbeat_receive_timeout_def heartbeat_timer_post_done_def
        tcp_heartbeat_timer_stopped_def reconnect_timer_wait_done_def reconnect_timer_on_expiry_def
        conn_reconnect_handler_def conn_reconnect_timer_error_def conn_reconnect_timer_expired_def
        conn_connect_def conn_close_def tcp_close_def conn_send_packet_def closed_socket
        tcp_disconnect_eq conn_send_logout_request_def conn_send_debug_def Let_def split: option.splits)
qed

interpretation front: connection_property "\<lambda>w. conn_ok w \<and> writes_front (ct_socket (tcp w))"
  by unfold_locales (simp_all add: conn_ok_step front_step)

text \<open>C15 The write queue of every connection of a client is a first-in first-out queue, in
  every state the client can reach: the one write that may be outstanding carries the bytes
  of the packet at the front, and any completion takes exactly that packet off when it
  reports the write whole, takes nothing off otherwise, and at most appends; so packets
  reach the stream whole, one after the other, in the order they were accepted.\<close>

theorem client_writes_in_order:
  assumes "fresh_client cl" and "i < length (ck_connections cl)"
    and "w = connection_world i (client_acts as cl)"
    and "w' = socket_complete (tcp_socket_handler env) op ec n data w"
  shows "writes_front (ct_socket (tcp w)) \<and> writes_front (ct_socket (tcp w')) \<and>
    n_ops is_write_op (ct_socket (tcp w)) \<le> 1 \<and>
    (\<exists>ps. sk_write_packets (ct_socket (tcp w')) =
       (if write_whole op ec n (ct_socket (tcp w)) then tl (sk_write_packets (ct_socket (tcp w)))
        else sk_write_packets (ct_socket (tcp w))) @ ps)"
proof -
  have "writes_front (ct_socket (cc_tcp c))" if "fresh_connection c" for c
  proof -
    obtain ep h u p s where "c = (client_connection_new ep h)
        \<lparr>cc_username := u, cc_password := p, cc_session := s\<rparr>"
      using \<open>fresh_connection c\<close> unfolding fresh_connection_def by blast
    then show ?thesis by (simp add: client_connection_new_def client_tcp_new_def)
  qed
  then have "front.all_ok cl"
    using fresh_all_ok [OF assms(1)] assms(1)
    by (simp add: front.all_ok_def life.all_ok_def fresh_client_def list_all_length)
  then have ok: "conn_ok w" and front: "writes_front (ct_socket (tcp w))"
    using front.acts_ok [of cl "as"] assms(2,3) by (simp_all add: front.all_ok_def acts_length)
  show ?thesis
  proof (cases "sk_ops (ct_socket (tcp w)) = []")
    case True
    with front show ?thesis
      by (simp add: assms(4) socket_complete_def sh_socket_eq n_ops_def write_whole_def)
  next
    case False
    then have core: "sock_core (ct_socket (tcp w))" using conn_ok_core [OF ok] by simp
    then have one: "n_ops is_write_op (ct_socket (tcp w)) \<le> 1" by (simp add: sock_core_def)
    note front' = client_socket.complete_front [where s = w and env = env and op = op and ec = ec
        and n = n and data = data, unfolded sh_socket_eq lens_upd_tcp, OF core front]
    note fifo = client_socket.complete_fifo [where s = w and env = env and op = op and ec = ec
        and n = n and data = data, unfolded sh_socket_eq lens_upd_tcp, OF core]
    show ?thesis unfolding assms(4) using front front' fifo one by blast
  qed
qed

theorem client_writes_in_order_witness:
  "writes_front (ct_socket (tcp (connection_world 0 (client_acts demo_data demo_client)))) \<and>
   n_ops is_write_op (ct_socket (tcp (connection_world 0 (client_acts demo_data demo_client)))) \<le> 1"
proof -
  have "0 < length (ck_connections demo_client)"
    by (simp add: demo_client_def client_add_connection_def client_new_def)
  from client_writes_in_order [OF demo_fresh this refl refl, of demo_data] show ?thesis by blast
qed

end
