(* ===== verification/Packet_Types.thy ===== *)
theory Packet_Types
  imports Tcp_Object
begin

text \<open>
  The packets that either side may send, as a typing judgement on a packet type and a payload,
  and what it is for a socket to write nothing else: every packet of its queue, and the
  bytes of a write that is outstanding, are the frame of a packet of the judgement.
\<close>

section \<open>The packets of the protocol\<close>

inductive server_packet :: "byte \<Rightarrow> bytes \<Rightarrow> bool" where
  debug: "length d \<le> max_payload \<Longrightarrow> server_packet debug_type d"
| accepted: "server_packet login_accepted_type (write_login_accepted a)"
| rejected: "server_packet login_rejected_type (write_login_rejected r)"
| data: "length d \<le> max_payload \<Longrightarrow> server_packet sequenced_data_type d"
| heartbeat: "server_packet server_heartbeat_type []"
| ended: "server_packet end_of_session_type []"

inductive client_packet :: "byte \<Rightarrow> bytes \<Rightarrow> bool" where
  debug: "length d \<le> max_payload \<Longrightarrow> client_packet debug_type d"
| request: "client_packet login_request_type (write_login_request r)"
| data: "length d \<le> max_payload \<Longrightarrow> client_packet unsequenced_data_type d"
| heartbeat: "client_packet client_heartbeat_type []"
| logout: "client_packet logout_request_type []"

declare server_packet.intros [intro] client_packet.intros [intro]

inductive_cases server_packetE: "server_packet t d"
inductive_cases client_packetE: "client_packet t d"

lemma payload_lengths:
  "length (write_login_accepted a) = login_accepted_size"
  "length (write_login_rejected r) = login_rejected_size"
  "length (write_login_request q) = login_request_size"
  by (simp_all add: accepted.enc_length rejected.enc_length request.enc_length)

lemma sizes_fit [simp]:
  "unat (of_nat login_accepted_size :: u16) = login_accepted_size"
  "unat (of_nat login_rejected_size :: u16) = login_rejected_size"
  "unat (of_nat login_request_size :: u16) = login_request_size"
  "login_accepted_size \<le> max_payload" "login_rejected_size \<le> max_payload"
  "login_request_size \<le> max_payload"
  by (simp_all add: login_accepted_size_def login_rejected_size_def login_request_size_def
      length_defs max_payload_def)

lemma packet_fits:
  "server_packet t d \<Longrightarrow> length d \<le> max_payload" "client_packet t d \<Longrightarrow> length d \<le> max_payload"
  by (auto elim!: server_packetE client_packetE simp: payload_lengths)

section \<open>Typed packets and sockets\<close>

definition typed_bytes :: "(byte \<Rightarrow> bytes \<Rightarrow> bool) \<Rightarrow> bytes \<Rightarrow> bool" where
  "typed_bytes T bs \<longleftrightarrow> (\<exists>t d. T t d \<and> bs = frame t d)"

definition typed_packet :: "(byte \<Rightarrow> bytes \<Rightarrow> bool) \<Rightarrow> write_packet \<Rightarrow> bool" where
  "typed_packet T p \<longleftrightarrow> buffer_ok (wp_packet p) \<and> typed_bytes T (wp_wire p)"

definition typed_socket :: "(byte \<Rightarrow> bytes \<Rightarrow> bool) \<Rightarrow> socket \<Rightarrow> bool" where
  "typed_socket T k \<longleftrightarrow> list_all (typed_packet T) (sk_write_packets k) \<and>
     (\<forall>bs. Op_write bs \<in> set (sk_ops k) \<longrightarrow> typed_bytes T bs)"

text \<open>What the two sides build is typed.\<close>

lemma typed_of:
  assumes "T t (take (unat n) payload)" and "unat n \<le> length payload" and "unat n \<le> max_payload"
  shows "typed_packet T (write_packet_of t payload n)"
proof -
  have "write_packet_of t payload n = write_packet_of t (take (unat n) payload) n"
    by (simp add: write_packet_of_def)
  moreover have "wp_wire (write_packet_of t (take (unat n) payload) n) = frame t (take (unat n) payload)"
    by (rule wp_wire_of) (use assms(2,3) in simp_all)
  moreover have "buffer_ok (wp_packet (write_packet_of t (take (unat n) payload) n))"
    using assms(2) by (simp add: write_packet_of_data buffer_ok_def)
  ultimately show ?thesis using assms(1) by (auto simp: typed_packet_def typed_bytes_def)
qed

lemma typed_empty: "T t [] \<Longrightarrow> typed_packet T (write_packet_empty t)"
  using wp_wire_empty [of t]
  by (auto simp: typed_packet_def typed_bytes_def write_packet_empty_def write_packet_sized_data
      buffer_ok_def)

lemma typed_sized:
  assumes "T t d" and "length d = unat n" and "unat n \<le> max_payload"
  shows "typed_packet T (wp_write_payload d (write_packet_sized t n))"
  using typed_of [of T t n d] assms by (simp add: wp_write_payload_eq)

lemma typed_clone: "typed_packet T p \<Longrightarrow> typed_packet T (write_packet_clone p)"
  by (simp add: typed_packet_def wp_clone_eq)

text \<open>Every operation of a socket keeps it typed.\<close>

lemma typed_new [simp]: "typed_socket T (socket_new b)"
  by (simp add: typed_socket_def socket_new_def)

lemma typed_ops [simp]:
  "typed_socket T (set_write_packets_limit n k) = typed_socket T k"
  "typed_socket T (socket_async_connect k) = typed_socket T k"
  "typed_socket T (socket_async_read k) = typed_socket T k"
  "typed_socket T (read_payload k) = typed_socket T k"
  "typed_socket T (socket_maybe_signal_closed k) = typed_socket T k"
  "typed_socket T (socket_close k) = typed_socket T k"
  "typed_socket T (snd (socket_open ec k)) = typed_socket T k"
  "typed_socket T (k\<lparr>sk_read_packet := p\<rparr>) = typed_socket T k"
  "typed_socket T (k\<lparr>sk_write_buffer_was_full := f\<rparr>) = typed_socket T k"
  by (auto simp: typed_socket_def set_write_packets_limit_def socket_async_connect_def
      socket_async_read_def read_header_def read_payload_def socket_maybe_signal_closed_def
      socket_close_def socket_open_def Let_def)

lemma typed_write [simp]:
  "typed_socket T k \<Longrightarrow> typed_packet T p \<Longrightarrow> typed_socket T (snd (socket_async_write p k))"
  by (auto simp: typed_socket_def typed_packet_def socket_async_write_def write_packet_start_def Let_def)

lemma typed_sent [simp]:
  "typed_socket T k \<Longrightarrow> typed_socket T (k\<lparr>sk_write_packets := tl (sk_write_packets k)\<rparr>)"
  by (cases "sk_write_packets k") (simp_all add: typed_socket_def)

lemma typed_start:
  "typed_socket T k \<Longrightarrow> sk_write_packets k \<noteq> [] \<Longrightarrow> typed_socket T (write_packet_start k)"
  by (cases "sk_write_packets k") (auto simp: typed_socket_def write_packet_start_def typed_packet_def)

lemma typed_fewer:
  "typed_socket T k \<Longrightarrow> set (sk_ops k') \<subseteq> set (sk_ops k) \<Longrightarrow>
   sk_write_packets k' = sk_write_packets k \<Longrightarrow> typed_socket T k'"
  by (auto simp: typed_socket_def)

lemma t_disconnect_typed [simp]:
  "typed_socket T (ct_socket t) \<Longrightarrow> typed_socket T (ct_socket (t_disconnect r t))"
  by (simp add: t_disconnect_def Let_def split_def)

section \<open>The owner of a typed socket\<close>

text \<open>An owner whose handlers keep an invariant \<open>I\<close> that only asks of the socket that it is typed:
  every completion of the socket keeps it.\<close>

locale typed_owner = sub_object "sh_socket h" for h :: "'s socket_handler" +
  fixes T :: "byte \<Rightarrow> bytes \<Rightarrow> bool" and I :: "'s \<Rightarrow> bool"
  assumes socket_typed: "I s \<Longrightarrow> typed_socket T (lens_get (sh_socket h) s)"
    and socket_put: "I s \<Longrightarrow> typed_socket T k \<Longrightarrow> I (lens_put (sh_socket h) k s)"
    and handlers: "I s \<Longrightarrow> I (sh_connect_failure h ec s)" "I s \<Longrightarrow> I (sh_connect_success h s)"
      "I s \<Longrightarrow> I (sh_read_failure h ec s)" "I s \<Longrightarrow> I (sh_read_packet_failure h pe s)"
      "I s \<Longrightarrow> I (sh_read_success h rp s)" "I s \<Longrightarrow> I (sh_read_aborted h s)"
      "I s \<Longrightarrow> I (sh_read_end_of_file h s)" "I s \<Longrightarrow> I (sh_write_failure h ec s)"
      "I s \<Longrightarrow> I (sh_write_success h wp s)" "I s \<Longrightarrow> I (sh_write_buffer_empty h s)"
      "I s \<Longrightarrow> I (sh_closed h s)"
begin

lemma socket_upd: "I s \<Longrightarrow> typed_socket T (f (lens_get (sh_socket h) s)) \<Longrightarrow> I (lens_upd (sh_socket h) f s)"
  by (simp add: lens_upd_def socket_put)

lemma socket_keep [simp]:
  "I s \<Longrightarrow> (\<And>k. typed_socket T k \<Longrightarrow> typed_socket T (f k)) \<Longrightarrow> I (lens_upd (sh_socket h) f s)"
  by (simp add: socket_upd socket_typed)

lemma read_error_typed [simp]: "I s \<Longrightarrow> I (read_error h ec s)"
  by (simp add: read_error_def handlers)

lemma header_typed [simp]: "I s \<Longrightarrow> I (header_received h ec n s)"
  by (simp add: header_received_def Let_def split_def handlers split: read_resize.splits)

lemma payload_typed [simp]: "I s \<Longrightarrow> I (payload_received h ec n s)"
  by (simp add: payload_received_def Let_def split_def handlers)

lemma sent_typed [simp]:
  assumes "I s"
  shows "I (packet_sent h ec n s)"
proof -
  have start: "I (lens_upd (sh_socket h) write_packet_start s')"
    if "I s'" "sk_write_packets (lens_get (sh_socket h) s') \<noteq> []" for s'
    using that by (simp add: socket_upd socket_typed typed_start)
  show ?thesis
    using assms by (simp add: packet_sent_def Let_def handlers start)
qed

lemma fewer_typed:
  assumes "I s" and "\<And>k. sk_ops (f k) = remove1 op (sk_ops k) \<and> sk_write_packets (f k) = sk_write_packets k"
  shows "I (lens_upd (sh_socket h) f s)"
  using assms(1)
  by (rule socket_keep) (rule typed_fewer, assumption, simp_all add: assms(2) set_remove1_subset)

theorem complete_typed:
  assumes "I s"
  shows "I (socket_complete h op ec n data s)"
proof -
  have "I (connect_done h ec s)" "I (read_header_done h ec data s)" "I (read_payload_done h ec data s)"
    "I (write_done h bs ec n s)" "I (post_closed_done h s)" for bs
    unfolding connect_done_def read_header_done_def read_payload_done_def write_done_def
      post_closed_done_def Let_def
    by (simp_all add: handlers fewer_typed [OF assms])
  then show ?thesis using assms by (simp add: socket_complete_def split: sock_op.splits)
qed

end

end
