(* ===== verification/Streams.thy ===== *)
theory Streams
  imports Exchange Server_Contract Packet_Types
begin

text \<open>
  Reading a whole packet off the stream, at either end: the header, its size, the payload and
  the handlers, as the socket runs them.  What a reader can hold against a packet that
  should not exist at all is among the calls to its user.
\<close>

section \<open>Complaints\<close>

definition alien :: "packet_error \<Rightarrow> bool" where
  "alien e \<longleftrightarrow> e \<in> {PE_malformed_header, PE_invalid_message_type, PE_incorrect_length}"

fun complains :: "client_cb \<Rightarrow> bool" where
  "complains (Cb_protocol_violation e) = alien e"
| "complains _ = False"

fun server_complains :: "server_cb \<Rightarrow> bool" where
  "server_complains (Sc_protocol_violation e) = alien e"
| "server_complains _ = False"

definition complaints :: "cw \<Rightarrow> (nat \<times> client_cb) list" where
  "complaints w = filter (\<lambda>(i, cb). complains cb) (cw_out w)"

definition server_complaints :: "sw \<Rightarrow> (nat option \<times> server_handler \<times> server_cb) list" where
  "server_complaints w = filter (\<lambda>(x, h, cb). server_complains cb) (ac_out w)"

section \<open>The client reads\<close>

lemma complaints_emit [simp]:
  "\<not> complains cb \<Longrightarrow> complaints (emit cb w) = complaints w"
  "complaints (upd_tcp f w) = complaints w" "complaints (upd_conn g w) = complaints w"
  "complaints (upd_core k w) = complaints w"
  by (simp_all add: complaints_def)

lemma complaints_ends [simp]:
  "complaints (tcp_disconnect r w) = complaints w"
  "complaints (tcp_handle_transport_error ec operation w) = complaints w"
  "\<not> alien pe \<Longrightarrow> complaints (tcp_handle_protocol_violation pe w) = complaints w"
  by (simp_all add: tcp_disconnect_eq tcp_handle_transport_error_def
      tcp_handle_protocol_violation_def)

lemma complaints_heartbeat [simp]:
  "complaints (heartbeat_timer_start (tcp_heartbeat_handler env) now throws throws' w) = complaints w"
  by (simp add: heartbeat_timer_start_def heartbeat_timer_schedule_def tcp_heartbeat_handler_def
      tcp_heartbeat_timer_error_def Let_def split: option.splits)

lemma complaints_process [simp]:
  "complaints (snd (tcp_process_packet env packet w)) = complaints w"
proof -
  have login: "complaints (snd (conn_on_login_success a w)) = complaints w" for a w
    by (simp add: conn_on_login_success_def Let_def)
  have accepted: "complaints (snd (tcp_process_login_accepted env data n w)) = complaints w" for data n
    by (simp add: tcp_process_login_accepted_def Let_def split_def login)
  have data: "complaints (conn_on_sequenced_data d w) = complaints w"
    "complaints (conn_on_end_of_session w) = complaints w" for d w
    by (simp_all add: conn_on_sequenced_data_def client_on_sequenced_data_def
        conn_on_end_of_session_def client_on_end_of_session_def Let_def)
  show ?thesis
    by (simp add: tcp_process_packet_def tcp_process_debug_def accepted data
        tcp_process_login_rejected_def tcp_process_sequenced_data_def
        tcp_process_server_heartbeat_def tcp_process_end_of_session_def
        tcp_increment_receive_count_def Let_def)
qed

lemma client_understands:
  assumes "server_packet t d"
  shows "\<not> alien (fst (tcp_process_packet env (received t d) w))"
  using assms
  by cases (simp_all add: tcp_process_packet_def packet_type_defs alien_def payload_lengths
      tcp_process_login_accepted_def tcp_process_login_rejected_def tcp_process_sequenced_data_def
      tcp_process_server_heartbeat_def tcp_process_end_of_session_def server_heartbeat_size_def
      end_of_session_size_def Let_def split_def)

lemma taken_complaints:
  assumes "server_packet t d"
  shows "complaints (taken env t d w) = complaints w"
  using client_understands [OF assms]
  by (simp add: taken_def tcp_read_success_def Let_def split_def)

text \<open>Any packet of the stream is taken off it whole, an empty one too.\<close>

lemma feed_frame:
  assumes ready: "awaits_packet (ct_socket (tcp w))" and pl: "length pl \<le> max_payload"
  shows "feed env (frame t pl @ rest) w = feed env rest (taken env t pl w)"
proof (cases "pl = []")
  case False
  with ready pl show ?thesis by (intro feed_packet)
next
  case True
  let ?h = "tcp_socket_handler env" and ?hd = "take packet_header_length (frame t [])"
  let ?k = "ct_socket (tcp w)"
  have op: "Op_read_header \<in> set (sk_ops ?k)"
    and hdr: "length (rp_header (sk_read_packet ?k)) = packet_header_length"
    using ready by (simp_all add: awaits_packet_def)
  note step = client_socket.no_payload_received
    [where s = w and env = env and t = t, unfolded sh_socket_eq lens_upd_tcp, OF hdr]
  have one: "client_step env (Ev_socket Op_read_header no_error 0 ?hd) w = read_header_done ?h no_error ?hd w"
    using op by (simp add: client_step_def asio_may_complete_def socket_complete_def sh_socket_eq)
  have "drop packet_header_length (frame t []) = []" by simp
  then have "feed env (frame t [] @ rest) w = feed env rest (read_header_done ?h no_error ?hd w)"
    using op one by (subst feed.simps)
      (simp add: wanted_def packet_header_length_def packet_size_length_def packet_type_length_def)
  then show ?thesis
    unfolding step taken_def True by (simp add: tcp_socket_handler_def)
qed

lemma client_reads:
  assumes "server_packet t d" and "awaits_packet (ct_socket (tcp w))"
  shows "\<exists>w'. feed env (frame t d) w = ([], w') \<and> complaints w' = complaints w"
  using feed_frame [OF assms(2) packet_fits(1) [OF assms(1)], of env t "[]"]
    taken_complaints [OF assms(1)]
  by (simp add: feed_nothing)

section \<open>The server reads\<close>

function server_feed :: "server_env \<Rightarrow> nat \<Rightarrow> bytes \<Rightarrow> sw \<Rightarrow> bytes \<times> sw" where
  "server_feed env c bs w =
    (case wanted (ct_socket (stcp c w)) of
       None \<Rightarrow> (bs, w)
     | Some (op, n) \<Rightarrow>
        if n = 0 \<or> length bs < n then (bs, w)
        else server_feed env c (drop n bs) (server_step env (Sv_socket c op no_error 0 (take n bs)) w))"
  by pat_completeness auto

termination by (relation "measure (\<lambda>(env, c, bs, w). length bs)") auto

declare server_feed.simps [simp del]

lemma server_feed_nothing: "server_feed env c [] w = ([], w)"
  by (subst server_feed.simps) (simp split: option.splits prod.splits)

definition server_taken :: "server_env \<Rightarrow> nat \<Rightarrow> byte \<Rightarrow> bytes \<Rightarrow> sw \<Rightarrow> sw" where
  "server_taken env c t pl w =
     upd_stcp c (\<lambda>t. t\<lparr>ct_socket := socket_maybe_signal_closed (ct_socket t)\<rparr>)
       (stcp_read_success env c (received t pl)
          (upd_stcp c (\<lambda>t. t\<lparr>ct_socket := packet_taken (ct_socket t)\<rparr>) w))"

lemma server_feed_frame:
  assumes ready: "awaits_packet (ct_socket (stcp c w))" and pl: "length pl \<le> max_payload"
  shows "server_feed env c (frame t pl @ rest) w = server_feed env c rest (server_taken env c t pl w)"
proof -
  let ?h = "stcp_socket_handler env c" and ?hd = "take packet_header_length (frame t pl)"
  let ?k = "ct_socket (stcp c w)" and ?w1 = "read_header_done (stcp_socket_handler env c) no_error
    (take packet_header_length (frame t pl)) w"
  have core: "sock_core ?k" and op: "Op_read_header \<in> set (sk_ops ?k)"
    and hdr: "length (rp_header (sk_read_packet ?k)) = packet_header_length"
    using ready by (simp_all add: awaits_packet_def)
  have h: "sh_socket ?h = stcp_socket_lens c" "sh_read_success ?h = stcp_read_success env c"
    by (simp_all add: stcp_socket_handler_def)
  have one: "server_step env (Sv_socket c Op_read_header no_error 0 ?hd) w = ?w1"
    using op by (simp add: server_step_def asio_may_complete_def socket_complete_def h)
  have drop1: "drop packet_header_length (frame t pl) = pl"
    by (simp add: frame_def packet_header_length_def packet_size_length_def packet_type_length_def)
  have first: "server_feed env c (frame t pl @ rest) w = server_feed env c (pl @ rest) ?w1"
    using op one drop1 by (subst server_feed.simps)
      (simp add: wanted_def packet_header_length_def packet_size_length_def packet_type_length_def)
  show ?thesis
  proof (cases "pl = []")
    case True
    note step = server_socket.no_payload_received
      [where s = w and env = env and c = c and t = t, unfolded h stcp_lenses, OF hdr]
    from first show ?thesis unfolding True step server_taken_def by simp
  next
    case False
    note step = server_socket.packet_received [where s = w and env = env and c = c and t = t and
        pl = pl, unfolded h stcp_lenses, OF core op hdr pl False]
    note ann = server_socket.payload_announced [where s = w and env = env and c = c and t = t and
        pl = pl, unfolded h stcp_lenses, OF hdr pl False]
    have two: "server_step env (Sv_socket c Op_read_payload no_error 0 pl) ?w1 =
        read_payload_done ?h no_error pl ?w1"
      unfolding ann by (simp add: server_step_def asio_may_complete_def socket_complete_def h)
    have w1: "wanted (ct_socket (stcp c ?w1)) = Some (Op_read_payload, length pl)"
      unfolding ann using header_once [OF core op]
      by (simp add: wanted_def rp_payload_size_def buffer_sized_def)
    have "server_feed env c (pl @ rest) ?w1 = server_feed env c rest (read_payload_done ?h no_error pl ?w1)"
      using False two by (subst server_feed.simps) (simp add: w1)
    with first show ?thesis unfolding step server_taken_def by simp
  qed
qed

lemma server_complaints_calls [simp]:
  "\<not> server_complains cb \<Longrightarrow> server_complaints (sv_emit x h cb w) = server_complaints w"
  "server_complaints (undefined_behaviour w) = server_complaints w"
  "server_complaints (upd_stcp c f w) = server_complaints w"
  "server_complaints (upd_object c g w) = server_complaints w"
  "server_complaints (upd_port p k w) = server_complaints w"
  by (simp_all add: server_complaints_def sv_emit_def undefined_behaviour_def)

lemma server_complaints_handlers [simp]:
  assumes "\<not> server_complains cb"
  shows "server_complaints (acceptor_call x cb w) = server_complaints w"
    "server_complaints (port_call c cb w) = server_complaints w"
    "server_complaints (acceptor_handler_call c cb w) = server_complaints w"
    "server_complaints (handler_call c cb w) = server_complaints w"
  using assms by (simp_all add: acceptor_call_def port_call_def acceptor_handler_call_def
      handler_call_def split: option.splits)

lemma server_complaints_ends [simp]:
  "server_complaints (stcp_disconnect c r w) = server_complaints w"
  "server_complaints (stcp_handle_transport_error c ec operation w) = server_complaints w"
  "\<not> alien pe \<Longrightarrow> server_complaints (stcp_handle_protocol_violation c pe w) = server_complaints w"
  "server_complaints (stcp_prepare_graceful_disconnect c r w) = server_complaints w"
  by (simp_all add: stcp_disconnect_eq stcp_handle_transport_error_def
      stcp_handle_protocol_violation_def stcp_prepare_graceful_disconnect_def)

lemma server_complaints_heartbeat [simp]:
  "server_complaints (heartbeat_timer_start (stcp_heartbeat_handler c) now throws throws' w) =
   server_complaints w"
  by (simp add: heartbeat_timer_start_def heartbeat_timer_schedule_def stcp_heartbeat_handler_def
      stcp_heartbeat_timer_error_def Let_def split: option.splits)

lemma server_complaints_process [simp]:
  "server_complaints (snd (stcp_process_packet env c packet w)) = server_complaints w"
proof -
  have port: "server_complaints (snd (port_on_login_request p c request session w)) = server_complaints w"
    for p request session w
    by (simp add: port_on_login_request_def stcp_supersede_def Let_def split: option.splits)
  have asked: "server_complaints (snd (acceptor_on_login_request env c request w)) = server_complaints w"
    for request w
    by (simp add: acceptor_on_login_request_def port split: option.splits)
  have login: "server_complaints (snd (stcp_process_login_request env c data n w)) = server_complaints w"
    for data n
    by (simp add: stcp_process_login_request_def stcp_accept_login_def stcp_reject_login_def
        Let_def split_def asked split: option.splits)
  show ?thesis
    by (simp add: stcp_process_packet_def stcp_process_debug_def login
        stcp_process_unsequenced_data_def stcp_process_client_heartbeat_def
        stcp_process_logout_request_def stcp_increment_receive_count_def Let_def
        split: option.splits)
qed

lemma server_understands:
  assumes "client_packet t d"
  shows "\<not> alien (fst (stcp_process_packet env c (received t d) w))"
  using assms
  by cases (simp_all add: stcp_process_packet_def packet_type_defs alien_def payload_lengths
      stcp_process_login_request_def stcp_process_unsequenced_data_def
      stcp_process_client_heartbeat_def stcp_process_logout_request_def client_heartbeat_size_def
      logout_request_size_def Let_def split_def)

lemma server_taken_complaints:
  assumes "client_packet t d"
  shows "server_complaints (server_taken env c t d w) = server_complaints w"
  using server_understands [OF assms]
  by (simp add: server_taken_def stcp_read_success_def Let_def split_def)

lemma server_reads:
  assumes "client_packet t d" and "awaits_packet (ct_socket (stcp c w))"
  shows "\<exists>w'. server_feed env c (frame t d) w = ([], w') \<and> server_complaints w' = server_complaints w"
  using server_feed_frame [OF assms(2) packet_fits(2) [OF assms(1)], of env t "[]"]
    server_taken_complaints [OF assms(1)]
  by (simp add: server_feed_nothing)

end
