(* ===== verification/Server_Packets.thy ===== *)
theory Server_Packets
  imports Packet_Types Streams Server_Online
begin

text \<open>
  A server only ever writes packets of the server's side of the protocol, and a client reads
  each of them off the stream whole, header and payload, without calling it malformed, of an
  unknown type or of a wrong length.
\<close>

section \<open>Typed acceptors\<close>

definition server_typed :: "sw \<Rightarrow> bool" where
  "server_typed w \<longleftrightarrow> (\<forall>x. typed_socket server_packet (ct_socket (stcp x w))) \<and>
     length (ac_debug_banner w) \<le> max_payload"

lemma server_typedD:
  "server_typed w \<Longrightarrow> typed_socket server_packet (ct_socket (stcp x w))"
  "server_typed w \<Longrightarrow> length (ac_debug_banner w) \<le> max_payload"
  by (simp_all add: server_typed_def)

lemma server_typed_calls [simp]:
  "server_typed (sv_emit x h cb w) = server_typed w"
  "server_typed (acceptor_call x cb w) = server_typed w" "server_typed (port_call d cb w) = server_typed w"
  "server_typed (acceptor_handler_call d cb w) = server_typed w"
  "server_typed (handler_call d cb w) = server_typed w"
  "server_typed (undefined_behaviour w) = server_typed w"
  "server_typed (w\<lparr>ac_acceptor := a\<rparr>) = server_typed w"
  "server_typed (w\<lparr>ac_connections := cs\<rparr>) = server_typed w"
  "server_typed (w\<lparr>ac_ports := ps\<rparr>) = server_typed w"
  "server_typed (w\<lparr>ac_next := n\<rparr>) = server_typed w"
  "server_typed (upd_port p f w) = server_typed w"
  "server_typed (upd_object d (\<lambda>t. t\<lparr>st_port := q, st_handler := h'\<rparr>) w) = server_typed w"
  by (simp_all add: server_typed_def) (metis server_typed_def)

lemma server_typed_upd:
  "server_typed w \<Longrightarrow> typed_socket server_packet (ct_socket (g (stcp d w))) \<Longrightarrow> server_typed (upd_stcp d g w)"
  by (simp add: server_typed_def)

lemma server_typed_same [simp]:
  "server_typed w \<Longrightarrow> (\<And>t. typed_socket server_packet (ct_socket t) \<Longrightarrow>
     typed_socket server_packet (ct_socket (g t))) \<Longrightarrow> server_typed (upd_stcp d g w)"
  by (rule server_typed_upd) (simp_all add: server_typed_def)

lemma server_typed_ends [simp]:
  assumes "server_typed w"
  shows "server_typed (stcp_disconnect d r w)"
    "server_typed (stcp_handle_transport_error d ec operation w)"
    "server_typed (stcp_handle_protocol_violation d pe w)"
    "server_typed (stcp_prepare_graceful_disconnect d r w)"
  using assms
  by (simp_all add: stcp_disconnect_eq stcp_handle_transport_error_def
      stcp_handle_protocol_violation_def stcp_prepare_graceful_disconnect_def)

section \<open>The packets a connection writes\<close>

lemma typed_answers [simp]:
  "typed_packet server_packet (wp_write_payload (write_login_accepted a)
     (write_packet_sized login_accepted_type (of_nat login_accepted_size)))"
  "typed_packet server_packet (wp_write_payload (write_login_rejected r)
     (write_packet_sized login_rejected_type (of_nat login_rejected_size)))"
  "typed_packet server_packet (write_packet_empty server_heartbeat_type)"
  "typed_packet server_packet (write_packet_empty end_of_session_type)"
  by (auto intro!: typed_sized typed_empty simp: payload_lengths)

lemma typed_text:
  assumes "server_packet t d" and "length d \<le> max_payload"
  shows "typed_packet server_packet (write_packet_of t d (of_nat (length d)))"
proof -
  have "unat (of_nat (length d) :: u16) = length d"
    using assms(2) by (simp add: max_payload_def unat_of_nat)
  with assms show ?thesis by (intro typed_of) simp_all
qed

lemma server_typed_heartbeat_start [simp]:
  "server_typed w \<Longrightarrow>
   server_typed (heartbeat_timer_start (stcp_heartbeat_handler d) now throws throws' w)"
  by (simp add: heartbeat_timer_start_def heartbeat_timer_schedule_def stcp_heartbeat_handler_def
      stcp_heartbeat_timer_error_def Let_def split: option.splits)

lemma server_typed_login [simp]:
  assumes "server_typed w"
  shows "server_typed (snd (acceptor_on_login_request env d request w))"
proof -
  have "server_typed (snd (port_on_login_request p d request session w))" for p session
    using assms by (simp add: port_on_login_request_def stcp_supersede_def Let_def split: option.splits)
  with assms show ?thesis by (simp add: acceptor_on_login_request_def split: option.splits)
qed

lemma server_typed_answer [simp]:
  assumes "server_typed w"
  shows "server_typed (stcp_accept_login env d response w)" "server_typed (stcp_reject_login d reject w)"
  using assms by (simp_all add: stcp_accept_login_def stcp_reject_login_def Let_def)

lemma server_typed_read_success [simp]:
  assumes "server_typed w"
  shows "server_typed (stcp_read_success env d packet w)"
proof -
  have login: "server_typed (snd (stcp_process_login_request env d data sz w))" for data sz
    using assms by (simp add: stcp_process_login_request_def Let_def split_def split: option.splits)
  have "server_typed (snd (stcp_process_packet env d packet w))"
    using assms
    by (auto simp: stcp_process_packet_def Let_def login stcp_process_debug_def
        stcp_process_unsequenced_data_def stcp_process_client_heartbeat_def
        stcp_process_logout_request_def stcp_increment_receive_count_def split: option.splits)
  with assms show ?thesis by (simp add: stcp_read_success_def Let_def split_def)
qed

lemma server_typed_signal_closed [simp]:
  "server_typed w \<Longrightarrow> server_typed (stcp_maybe_signal_closed d w)"
  by (simp add: stcp_maybe_signal_closed_def acceptor_on_closed_def port_on_closed_def Let_def
      split: option.splits)

interpretation server_typing: typed_owner "stcp_socket_handler env d" server_packet server_typed
  for env d
proof (unfold_locales, goal_cases)
  case (1 w)
  then show ?case by (simp add: stcp_socket_handler_def stcp_socket_lens_def server_typedD)
next
  case (2 w k)
  then show ?case by (simp add: stcp_socket_handler_def stcp_socket_lens_def server_typed_upd)
qed (simp_all add: stcp_socket_handler_def stcp_connect_failure_def
    stcp_connect_success_def stcp_read_failure_def stcp_read_packet_failure_def stcp_read_aborted_def
    stcp_read_end_of_file_def stcp_write_failure_def stcp_write_success_def
    stcp_write_buffer_empty_def stcp_closed_def)

section \<open>Every event\<close>

lemma server_typed_timers [simp]:
  assumes "server_typed w"
  shows "server_typed (login_timer_wait_done (stcp_login_handler d) ec w)"
    "server_typed (login_timer_post_done (stcp_login_handler d) w)"
    "server_typed (heartbeat_timer_wait_done (stcp_heartbeat_handler d) throws ec w)"
    "server_typed (heartbeat_timer_post_done (stcp_heartbeat_handler d) w)"
  using assms
  by (simp_all add: login_timer_wait_done_def login_timer_on_expiry_def login_timer_post_done_def
      heartbeat_timer_wait_done_def heartbeat_timer_on_expiry_def heartbeat_timer_schedule_def
      heartbeat_timer_post_done_def stcp_login_handler_def stcp_heartbeat_handler_def
      stcp_login_timer_error_def stcp_login_timer_expired_def stcp_login_timer_stopped_def
      stcp_heartbeat_timer_error_def stcp_heartbeat_send_due_def
      stcp_heartbeat_receive_timeout_def stcp_heartbeat_timer_stopped_def Let_def
      split: option.splits)

text \<open>What the user sends has to fit in a packet: \<open>oversized_packet_wraps\<close> is what happens
  otherwise.\<close>

fun modest :: "server_event \<Rightarrow> bool" where
  "modest (Sv_send_message p data n) \<longleftrightarrow>
     n \<le> max_payload \<and> (case data of None \<Rightarrow> True | Some bs \<Rightarrow> n \<le> length bs)"
| "modest (Sv_send_packet p packet) \<longleftrightarrow> typed_packet server_packet packet"
| "modest (Sv_send_debug p bs) \<longleftrightarrow> length bs \<le> max_payload"
| "modest _ \<longleftrightarrow> True"

lemma server_typed_sends:
  assumes ok: "server_typed w"
  shows "typed_packet server_packet packet \<Longrightarrow> server_typed (snd (stcp_send_packet d packet w))"
    "length bs \<le> max_payload \<Longrightarrow> server_typed (snd (stcp_send_debug_packet d bs w))"
proof -
  have wrote: "server_typed (upd_stcp d (\<lambda>t. t\<lparr>ct_socket := snd (socket_async_write p (ct_socket (stcp d w)))\<rparr>) w)"
    if "typed_packet server_packet p" for p
    using ok that by (intro server_typed_upd) (simp_all add: server_typedD)
  show "typed_packet server_packet packet \<Longrightarrow> server_typed (snd (stcp_send_packet d packet w))"
    using ok wrote by (simp add: stcp_send_packet_def Let_def split_def)
  show "length bs \<le> max_payload \<Longrightarrow> server_typed (snd (stcp_send_debug_packet d bs w))"
    using ok wrote typed_text [OF server_packet.debug]
    by (simp add: stcp_send_debug_packet_def Let_def split_def)
qed

lemma server_typed_port_sends:
  assumes ok: "server_typed w"
  shows "typed_packet server_packet packet \<Longrightarrow> server_typed (snd (port_send_counted p packet w))"
    "length bs \<le> max_payload \<Longrightarrow> server_typed (snd (port_send_debug p bs w))"
    "server_typed (port_end_session p w)"
proof -
  show counted: "typed_packet server_packet packet \<Longrightarrow> server_typed (snd (port_send_counted p packet w))"
    using ok server_typed_sends(1)
    by (simp add: port_send_counted_def port_send_packet_def Let_def split_def split: option.splits)
  show "length bs \<le> max_payload \<Longrightarrow> server_typed (snd (port_send_debug p bs w))"
    using ok server_typed_sends(2) by (simp add: port_send_debug_def split: option.splits)
  show "server_typed (port_end_session p w)"
    using ok server_typed_sends(1) by (simp add: port_end_session_def Let_def split: option.splits)
qed

lemma server_typed_message:
  assumes "server_typed w" and "modest (Sv_send_message p data n)"
  shows "server_typed (snd (port_send_message p data n w))"
proof -
  have "typed_packet server_packet (write_packet_of sequenced_data_type bs (of_nat n))"
    if "data = Some bs" for bs
  proof -
    have "unat (of_nat n :: u16) = n" using assms(2) by (simp add: max_payload_def unat_of_nat)
    with assms(2) that show ?thesis by (intro typed_of server_packet.data) simp_all
  qed
  with assms(1) show ?thesis
    by (simp add: port_send_message_def server_typed_port_sends split: option.splits)
qed

lemma server_typed_packet:
  assumes "server_typed w" and "typed_packet server_packet packet"
  shows "server_typed (case port_send_message_packet p packet w of None \<Rightarrow> w | Some (_, w) \<Rightarrow> w)"
proof -
  have "fst (release_packet packet) = packet"
    by (simp add: release_packet_def write_packet_move_def Let_def split_def)
  with assms server_typed_port_sends(1) [OF assms] show ?thesis
    by (auto simp: port_send_message_packet_def split: option.splits prod.splits) (metis snd_conv)
qed

lemma server_typed_folds:
  "server_typed w \<Longrightarrow> server_typed (fold port_end_session ps w)"
  "server_typed w \<Longrightarrow> server_typed (fold stcp_close cs w)"
  by (induction ps arbitrary: w) (simp_all add: server_typed_port_sends,
      induction cs arbitrary: w, simp_all add: stcp_close_def)

lemma server_typed_accept:
  assumes "server_typed w"
  shows "server_typed (accept_done (acceptor_socket_handler env) ec w)"
proof -
  have "server_typed (upd_object x (\<lambda>_. server_tcp_new h (set_write_packets_limit n (socket_new True))) w)"
    if "server_typed w" for x h n w
    using that by (simp add: server_typed_def server_tcp_new_def)
  then have built: "server_typed (stcp_construct env x h (set_write_packets_limit n (socket_new True)) w)"
    if "server_typed w" for x h n w
    using that by (simp add: stcp_construct_def Let_def login_timer_start_def stcp_login_handler_def
        stcp_login_timer_error_def split: option.splits)
  have "server_typed (acceptor_accept_success env w)" if "server_typed w" for w
    using that built server_typed_sends(2) [OF _ server_typedD(2)]
    by (simp add: acceptor_accept_success_def Let_def split: option.splits)
  with assms show ?thesis
    by (simp add: accept_done_def acceptor_socket_handler_def acceptor_accept_failure_def Let_def)
qed

theorem server_typed_step:
  assumes "server_typed w" and "modest ev"
  shows "server_typed (server_step env ev w)"
  using assms server_typing.complete_typed [of w]
  by (cases ev) (simp_all add: server_step_def server_typed_accept server_typed_message
      server_typed_packet server_typed_port_sends server_typed_folds acceptor_end_session_def
      acceptor_stop_def acceptor_start_def acceptor_add_port_def Let_def split_def)

theorem server_typed_run:
  "server_typed w \<Longrightarrow> list_all (\<lambda>(env, ev). modest ev) evs \<Longrightarrow> server_typed (server_run evs w)"
proof (induction evs arbitrary: w)
  case (Cons e evs)
  then show ?case by (cases e) (simp add: server_typed_step)
qed simp

section \<open>What the client makes of them\<close>

lemma typed_socket_bytes:
  assumes "typed_socket T k" and "Op_write bs \<in> set (sk_ops k) \<or> bs \<in> wp_wire ` set (sk_write_packets k)"
  shows "\<exists>t d. T t d \<and> bs = frame t d"
  using assms by (auto simp: typed_socket_def typed_packet_def typed_bytes_def list_all_iff)

text \<open>C11 Type safety of the protocol, from server to client: in every state an acceptor can
  reach, with any banner, limits and errors, whatever its connections have queued and are
  writing is the frame of a packet of the server's side, with the size its type requires, as
  long as its user sends nothing that does not fit.  Those bytes, on the stream of any client
  connection that waits for a packet, in whatever state it is, are read to the last one, and
  the client never reports them as malformed, of an unknown type or of a wrong length.\<close>

theorem server_speaks_protocol:
  assumes "fresh_acceptor w0" and "length (ac_debug_banner w0) \<le> max_payload"
    and "list_all (\<lambda>(env, ev). modest ev) evs" and w: "w = server_run evs w0"
    and client: "awaits_packet (ct_socket (tcp v))"
    and bs: "Op_write bs \<in> set (sk_ops (ct_socket (stcp c w))) \<or>
      bs \<in> wp_wire ` set (sk_write_packets (ct_socket (stcp c w)))"
  shows "(\<exists>t d. server_packet t d \<and> bs = frame t d \<and> length d \<le> max_payload) \<and>
    (\<exists>v'. feed env bs v = ([], v') \<and> complaints v' = complaints v)"
proof -
  have "server_typed w0" using assms(1,2) by (simp add: server_typed_def fresh_acceptor_def server_tcp_new_def)
  from typed_socket_bytes [OF server_typedD(1) [OF server_typed_run [OF this assms(3)], of c]] bs
  obtain t d where "server_packet t d" "bs = frame t d" unfolding w by blast
  with packet_fits(1) client_reads [OF _ client] show ?thesis by blast
qed

lemma demo_awaits: "awaits_packet (ct_socket (tcp (connection_world 0 demo_online)))"
  using demo_in_step by (simp add: in_step_def)

theorem server_speaks_protocol_witness:
  "\<exists>v'. feed quiet_env (wp_wire (write_packet_of debug_type ''hi'' 2)) (connection_world 0 demo_online) =
     ([], v') \<and> complaints v' = complaints (connection_world 0 demo_online)"
proof -
  let ?w = "acceptor_set_debug_banner ''hi'' demo_acceptor"
  have start: "fresh_acceptor ?w" "length (ac_debug_banner ?w) \<le> max_payload"
    "list_all (\<lambda>(env, ev). modest ev) demo_events"
    using demo_ready(1)
    by (simp_all add: fresh_acceptor_def acceptor_set_debug_banner_def max_payload_def demo_events_def)
  have "?w = demo_acceptor\<lparr>ac_debug_banner := ''hi'', ac_write_packets_limit := 100\<rparr>"
    by (simp add: acceptor_set_debug_banner_def demo_acceptor_eq acceptor_new_def)
  from demo_accepts_with [OF this]
  have "write_packet_of debug_type ''hi'' 2 \<in>
      set (sk_write_packets (ct_socket (stcp 0 (server_run demo_events ?w))))"
    by (simp add: only_connection_def waiting_def fresh_read socket_async_write_def
        write_packet_start_def Let_def)
  then show ?thesis
    using server_speaks_protocol [OF start refl demo_awaits] by blast
qed

end
