(* ===== verification/Client_Packets.thy ===== *)
theory Client_Packets
  imports Server_Packets
begin

text \<open>
  A client only ever writes packets of the client's side of the protocol, and a server reads
  each of them off the stream whole, header and payload, without calling it malformed, of an
  unknown type or of a wrong length.
\<close>

section \<open>Typed connections\<close>

definition client_typed :: "cw \<Rightarrow> bool" where
  "client_typed w \<longleftrightarrow> typed_socket client_packet (ct_socket (tcp w))"

lemma client_typed_calls [simp]:
  "client_typed (emit cb w) = client_typed w"
  "client_typed (upd_core f w) = client_typed w"
  "(\<And>c. cc_tcp (g c) = cc_tcp c) \<Longrightarrow> client_typed (upd_conn g w) = client_typed w"
  by (simp_all add: client_typed_def emit_def upd_core_def upd_conn_def)

lemma client_typed_same [simp]:
  "client_typed w \<Longrightarrow> (\<And>t. typed_socket client_packet (ct_socket t) \<Longrightarrow>
     typed_socket client_packet (ct_socket (g t))) \<Longrightarrow> client_typed (upd_tcp g w)"
  by (simp add: client_typed_def upd_tcp_def)

lemma client_typed_ends [simp]:
  assumes "client_typed w"
  shows "client_typed (tcp_disconnect r w)"
    "client_typed (tcp_handle_connect_failure ec operation w)"
    "client_typed (tcp_handle_transport_error ec operation w)"
    "client_typed (tcp_handle_protocol_violation pe w)"
  using assms
  by (simp_all add: tcp_disconnect_eq tcp_handle_connect_failure_def tcp_handle_transport_error_def
      tcp_handle_protocol_violation_def)

lemma reconnect_upd [simp]:
  "lens_upd conn_reconnect_lens f =
     upd_conn (\<lambda>c. c\<lparr>cc_reconnect_timer := f (cc_reconnect_timer c)\<rparr>)"
  by (rule ext) (simp add: lens_upd_def client_lens_defs client_upd_defs)

section \<open>The packets a connection writes\<close>

lemma typed_requests [simp]:
  "typed_packet client_packet (wp_write_payload (write_login_request q)
     (write_packet_sized login_request_type (of_nat login_request_size)))"
  "typed_packet client_packet (write_packet_empty client_heartbeat_type)"
  "typed_packet client_packet (write_packet_empty logout_request_type)"
  by (auto intro!: typed_sized typed_empty simp: payload_lengths)

lemma client_typed_construct [simp]: "client_typed w \<Longrightarrow> client_typed (tcp_construct env w)"
proof -
  have "client_typed (upd_conn (\<lambda>c. c\<lparr>cc_engaged := True, cc_tcp := client_tcp_new\<rparr>) w)"
    by (simp add: client_typed_def upd_conn_def client_tcp_new_def)
  then show ?thesis
    by (simp add: tcp_construct_def Let_def split_def)
qed

lemma client_typed_closed [simp]:
  assumes "client_typed w"
  shows "client_typed (conn_on_closed env reason w)" "client_typed (tcp_maybe_signal_closed env w)"
  using assms
  by (simp_all add: tcp_maybe_signal_closed_def conn_on_closed_def conn_schedule_reconnect_def
      reconnect_timer_start_def conn_reconnect_timer_error_def Let_def split: option.splits)

lemma client_typed_starts [simp]:
  "client_typed w \<Longrightarrow> client_typed (login_timer_start (tcp_login_handler env) throws w)"
  "client_typed w \<Longrightarrow> client_typed (heartbeat_timer_start (tcp_heartbeat_handler env) now throws throws' w)"
  by (simp_all add: login_timer_start_def heartbeat_timer_start_def heartbeat_timer_schedule_def
      tcp_login_handler_def tcp_heartbeat_handler_def tcp_login_timer_error_def
      tcp_heartbeat_timer_error_def Let_def split: option.splits)

lemma client_typed_calls_up [simp]:
  assumes "client_typed w"
  shows "client_typed (snd (conn_on_connect_success w))" "client_typed (snd (conn_on_login_success a w))"
    "client_typed (conn_on_sequenced_data data w)" "client_typed (conn_on_end_of_session w)"
  using assms
  by (simp_all add: conn_on_connect_success_def conn_on_login_success_def conn_on_sequenced_data_def
      client_on_sequenced_data_def conn_on_end_of_session_def client_on_end_of_session_def Let_def)

lemma client_typed_read_success [simp]:
  assumes "client_typed w"
  shows "client_typed (tcp_read_success env packet w)"
proof -
  have "client_typed (snd (tcp_process_packet env packet w))"
    using assms
    by (simp add: tcp_process_packet_def tcp_process_debug_def tcp_process_login_accepted_def
        tcp_process_login_rejected_def tcp_process_sequenced_data_def tcp_process_server_heartbeat_def
        tcp_process_end_of_session_def tcp_increment_receive_count_def Let_def split_def)
  with assms show ?thesis by (simp add: tcp_read_success_def Let_def split_def)
qed

lemma client_typed_connected [simp]: "client_typed w \<Longrightarrow> client_typed (tcp_connect_success env w)"
  by (simp add: tcp_connect_success_def Let_def split_def)

lemma socket_put_eq: "lens_put tcp_socket_lens k w = upd_tcp (\<lambda>t. t\<lparr>ct_socket := k\<rparr>) w"
  by (simp add: client_lens_defs client_upd_defs)

lemma client_typed_put:
  assumes "client_typed w" and "typed_socket client_packet k"
  shows "client_typed (lens_put (sh_socket (tcp_socket_handler env)) k w)"
  unfolding sh_socket_eq socket_put_eq using assms by simp

interpretation client_typing: typed_owner "tcp_socket_handler env" client_packet client_typed for env
proof (unfold_locales, goal_cases)
  case (2 w k)
  then show ?case by (rule client_typed_put)
qed (simp_all add: tcp_socket_handler_def client_typed_def [of "_ :: cw", symmetric]
    tcp_connect_failure_def tcp_read_failure_def tcp_read_packet_failure_def tcp_read_aborted_def
    tcp_read_end_of_file_def tcp_write_failure_def tcp_write_success_def
    tcp_write_buffer_empty_def tcp_closed_def)

section \<open>Every event of a connection\<close>

lemma client_typed_timers [simp]:
  assumes "client_typed w"
  shows "client_typed (login_timer_wait_done (tcp_login_handler env) ec w)"
    "client_typed (login_timer_post_done (tcp_login_handler env) w)"
    "client_typed (heartbeat_timer_wait_done (tcp_heartbeat_handler env) throws ec w)"
    "client_typed (heartbeat_timer_post_done (tcp_heartbeat_handler env) w)"
    "client_typed (reconnect_timer_wait_done (conn_reconnect_handler env) epoch ec w)"
  using assms
  by (simp_all add: login_timer_wait_done_def login_timer_on_expiry_def login_timer_post_done_def
      heartbeat_timer_wait_done_def heartbeat_timer_on_expiry_def heartbeat_timer_schedule_def
      heartbeat_timer_post_done_def tcp_login_handler_def tcp_heartbeat_handler_def
      tcp_login_timer_error_def tcp_login_timer_expired_def tcp_login_timer_stopped_def
      tcp_heartbeat_timer_error_def tcp_heartbeat_send_due_def tcp_heartbeat_receive_timeout_def
      tcp_heartbeat_timer_stopped_def reconnect_timer_wait_done_def reconnect_timer_on_expiry_def
      conn_reconnect_handler_def conn_reconnect_timer_error_def conn_reconnect_timer_expired_def
      Let_def split: option.splits)

fun modest_event :: "client_event \<Rightarrow> bool" where
  "modest_event (Ev_send_packet p) \<longleftrightarrow> typed_packet client_packet p"
| "modest_event (Ev_send_debug bs) \<longleftrightarrow> length bs \<le> max_payload"
| "modest_event _ \<longleftrightarrow> True"

lemma client_typed_sends:
  assumes ok: "client_typed w"
  shows "typed_packet client_packet p \<Longrightarrow> client_typed (snd (tcp_send_packet p w))"
    "length bs \<le> max_payload \<Longrightarrow> client_typed (snd (tcp_send_debug_packet bs w))"
proof -
  have wrote: "client_typed (upd_tcp (\<lambda>t. t\<lparr>ct_socket := snd (socket_async_write p (ct_socket (tcp w)))\<rparr>) w)"
    if "typed_packet client_packet p" for p
    using ok that by (simp add: client_typed_def upd_tcp_def)
  show "typed_packet client_packet p \<Longrightarrow> client_typed (snd (tcp_send_packet p w))"
    using ok wrote by (simp add: tcp_send_packet_def Let_def split_def)
  show "client_typed (snd (tcp_send_debug_packet bs w))" if "length bs \<le> max_payload"
  proof -
    have "unat (of_nat (length bs) :: u16) = length bs"
      using that by (simp add: max_payload_def unat_of_nat)
    with that have "typed_packet client_packet (write_packet_of debug_type bs (of_nat (length bs)))"
      by (intro typed_of client_packet.debug) simp_all
    with ok wrote show ?thesis by (simp add: tcp_send_debug_packet_def Let_def split_def)
  qed
qed

theorem client_typed_step:
  assumes "client_typed w" and "modest_event ev"
  shows "client_typed (client_step env ev w)"
  using assms client_typing.complete_typed [of w] client_typed_sends [of w]
  by (cases ev) (simp_all add: client_step_def conn_connect_def conn_close_def tcp_close_def
      conn_send_packet_def conn_send_logout_request_def conn_send_debug_def)

section \<open>The client\<close>

definition connections_typed :: "client \<Rightarrow> bool" where
  "connections_typed cl \<longleftrightarrow>
     list_all (\<lambda>c. typed_socket client_packet (ct_socket (cc_tcp c))) (ck_connections cl)"

lemma world_typed:
  "connections_typed cl \<Longrightarrow> i < length (ck_connections cl) \<Longrightarrow> client_typed (connection_world i cl)"
  by (simp add: connections_typed_def client_typed_def connection_world_def list_all_length)

lemma connections_typed_same [simp]:
  "connections_typed (cl\<lparr>ck_posts := ps\<rparr>) = connections_typed cl"
  "connections_typed (cl\<lparr>ck_core := co\<rparr>) = connections_typed cl"
  by (simp_all add: connections_typed_def)

lemma on_connection_typed:
  assumes "connections_typed cl" and "\<And>w. client_typed w \<Longrightarrow> client_typed (snd (f w))"
  shows "connections_typed (snd (on_connection i f cl))"
proof (cases "i < length (ck_connections cl)")
  case True
  let ?w = "snd (f (connection_world i cl))"
  have "connections_typed (snd (on_connection i f cl)) \<longleftrightarrow> list_all
      (\<lambda>c. typed_socket client_packet (ct_socket (cc_tcp c))) ((ck_connections cl)[i := cw_conn ?w])"
    by (simp add: on_connection_def Let_def split_def connections_typed_def)
  moreover have "typed_socket client_packet (ct_socket (cc_tcp (cw_conn ?w)))"
    using assms(2) [OF world_typed [OF assms(1) True]] by (simp add: client_typed_def)
  ultimately show ?thesis
    using assms(1) set_update_subset_insert [of "ck_connections cl" i "cw_conn ?w"]
    by (auto simp: connections_typed_def list_all_iff)
next
  case False
  with assms(1) show ?thesis
    by (simp add: on_connection_def Let_def split_def connections_typed_def list_update_beyond)
qed

lemma run_connection_typed:
  "connections_typed cl \<Longrightarrow> (\<And>w. client_typed w \<Longrightarrow> client_typed (f w)) \<Longrightarrow>
   connections_typed (run_connection i f cl)"
  unfolding run_connection_def by (rule on_connection_typed) simp_all

lemma connections_typed_fold:
  "connections_typed cl \<Longrightarrow> (\<And>i cl. connections_typed cl \<Longrightarrow> connections_typed (f i cl)) \<Longrightarrow>
   connections_typed (fold f is cl)"
  by (induction "is" arbitrary: cl) simp_all

lemma on_connection_sends_typed:
  "connections_typed cl \<Longrightarrow> typed_packet client_packet p \<Longrightarrow>
   connections_typed (snd (on_connection i (conn_send_packet p) cl))"
  using client_typed_sends by (intro on_connection_typed) (simp_all add: conn_send_packet_def)

lemma send_copies_typed:
  "connections_typed cl \<Longrightarrow> typed_packet client_packet p \<Longrightarrow>
   connections_typed (snd (client_send_copies is p cl))"
proof (induction "is" arbitrary: cl)
  case (Cons i "is")
  from Cons.IH [OF on_connection_sends_typed [OF Cons.prems(1) typed_clone [OF Cons.prems(2)]] Cons.prems(2), of i]
  show ?case by (simp add: Let_def split_def)
qed simp

lemma send_packet_typed:
  assumes "connections_typed cl" and "typed_packet client_packet p"
  shows "connections_typed (snd (client_send_packet p cl))"
  using assms typed_clone [OF assms(2)] send_copies_typed
  by (simp add: client_send_packet_def client_send_one_def client_send_two_def
      client_send_multiple_def on_connection_sends_typed Let_def split_def)

fun modest_action :: "client_action \<Rightarrow> bool" where
  "modest_action (At_connection i ev env) \<longleftrightarrow> modest_event ev"
| "modest_action (Call_send data n) \<longleftrightarrow>
     n \<le> max_payload \<and> (case data of None \<Rightarrow> True | Some bs \<Rightarrow> n \<le> length bs)"
| "modest_action (Call_send_message m) \<longleftrightarrow> typed_packet client_packet m"
| "modest_action (Call_debug bs) \<longleftrightarrow> length bs \<le> max_payload"
| "modest_action _ \<longleftrightarrow> True"

lemma client_posts_typed:
  assumes "connections_typed cl"
  shows "connections_typed (client_started_posted envs cl)" "connections_typed (client_stopped_posted cl)"
proof -
  have connect: "client_typed (conn_connect env w)" and close: "client_typed (conn_close w)"
    if "client_typed w" for env w
    using client_typed_step [OF that, of Ev_connect env] client_typed_step [OF that, of Ev_close]
    by (simp_all only: calls_are_events [symmetric] modest_event.simps simp_thms)
  show "connections_typed (client_started_posted envs cl)"
    using assms unfolding client_started_posted_def
    by (auto intro!: connections_typed_fold run_connection_typed connect)
  show "connections_typed (client_stopped_posted cl)"
    using assms unfolding client_stopped_posted_def
    by (auto intro!: connections_typed_fold run_connection_typed close)
qed

lemma client_calls_typed:
  assumes ok: "connections_typed cl"
  shows "modest_action (Call_send data n) \<Longrightarrow> connections_typed (snd (client_send_message data n cl))"
    "connections_typed (client_send_logout_request cl)"
    "length bs \<le> max_payload \<Longrightarrow> connections_typed (client_send_debug bs cl)"
    "typed_packet client_packet m \<Longrightarrow>
      connections_typed (case client_send_message_packet m cl of None \<Rightarrow> cl | Some (_, cl) \<Rightarrow> cl)"
proof -
  show "connections_typed (snd (client_send_message data n cl))" if "modest_action (Call_send data n)"
  proof -
    have "typed_packet client_packet (write_packet_of unsequenced_data_type bs (of_nat n))"
      if "data = Some bs" for bs
    proof -
      have "unat (of_nat n :: u16) = n"
        using \<open>modest_action (Call_send data n)\<close> by (simp add: max_payload_def unat_of_nat)
      with that \<open>modest_action (Call_send data n)\<close> show ?thesis
        by (intro typed_of client_packet.data) simp_all
    qed
    with ok show ?thesis by (simp add: client_send_message_def send_packet_typed split: option.splits)
  qed
  show "connections_typed (client_send_logout_request cl)"
    unfolding client_send_logout_request_def
    using client_typed_sends
    by (intro connections_typed_fold ok on_connection_typed) (simp_all add: conn_send_logout_request_def)
  show "connections_typed (client_send_debug bs cl)" if "length bs \<le> max_payload"
    unfolding client_send_debug_def
    using client_typed_sends that
    by (intro connections_typed_fold ok on_connection_typed) (simp_all add: conn_send_debug_def)
  have "fst (release_packet m) = m"
    by (simp add: release_packet_def write_packet_move_def Let_def split_def)
  then show "connections_typed (case client_send_message_packet m cl of None \<Rightarrow> cl | Some (_, cl) \<Rightarrow> cl)"
    if "typed_packet client_packet m"
    using ok send_packet_typed [OF ok that]
    by (auto simp: client_send_message_packet_def split: option.splits prod.splits)
qed

theorem connections_typed_act:
  assumes "connections_typed cl" and "modest_action a"
  shows "connections_typed (client_act a cl)"
  using assms client_posts_typed client_calls_typed [OF assms(1)] client_typed_step
  by (cases a) (auto simp: client_start_def client_stop_def intro!: run_connection_typed
      split: list.splits client_post.splits)

theorem connections_typed_acts:
  "connections_typed cl \<Longrightarrow> list_all modest_action as \<Longrightarrow> connections_typed (client_acts as cl)"
  by (induction "as" arbitrary: cl) (simp_all add: connections_typed_act)

section \<open>What the server makes of them\<close>

text \<open>C12 Type safety of the protocol, from client to server: in every state a client can reach,
  whatever its connections have queued and are writing is the frame of a packet of the
  client's side, with the size its type requires, as long as its user sends nothing that
  does not fit.  Those bytes, on the stream of any connection of a server that waits for a
  packet, in whatever state it is, are read to the last one, and the server never reports
  them as malformed, of an unknown type or of a wrong length.\<close>

theorem client_speaks_protocol:
  assumes "fresh_client cl" and "list_all modest_action as"
    and k: "k \<in> (\<lambda>c. ct_socket (cc_tcp c)) ` set (ck_connections (client_acts as cl))"
    and server: "awaits_packet (ct_socket (stcp c v))"
    and bs: "Op_write bs \<in> set (sk_ops k) \<or> bs \<in> wp_wire ` set (sk_write_packets k)"
  shows "(\<exists>t d. client_packet t d \<and> bs = frame t d \<and> length d \<le> max_payload) \<and>
    (\<exists>v'. server_feed env c bs v = ([], v') \<and> server_complaints v' = server_complaints v)"
proof -
  have "typed_socket client_packet (ct_socket (cc_tcp c))" if "fresh_connection c" for c
  proof -
    obtain ep h u p s where "c = (client_connection_new ep h)
        \<lparr>cc_username := u, cc_password := p, cc_session := s\<rparr>"
      using \<open>fresh_connection c\<close> unfolding fresh_connection_def by blast
    then show ?thesis by (simp add: client_connection_new_def client_tcp_new_def)
  qed
  then have "connections_typed cl"
    using assms(1) by (simp add: connections_typed_def fresh_client_def list_all_iff)
  from connections_typed_acts [OF this assms(2)] k have "typed_socket client_packet k"
    by (auto simp: connections_typed_def list_all_iff)
  from typed_socket_bytes [OF this bs] obtain t d where "client_packet t d" "bs = frame t d" by blast
  with packet_fits(2) server_reads [OF _ server] show ?thesis by blast
qed

theorem client_speaks_protocol_witness:
  "\<exists>v'. server_feed demo_env 0 (wp_wire demo_request) demo_accepted = ([], v') \<and>
     server_complaints v' = server_complaints demo_accepted"
proof -
  let ?as = "demo_start @ [At_connection 0 (Ev_socket Op_connect no_error 0 []) quiet_env]"
  let ?k = "ct_socket (cc_tcp (ck_connections demo_connected ! 0))"
  have modest: "list_all modest_action ?as" by (simp add: demo_start_def)
  have "client_acts ?as demo_client = demo_connected"
    using demo_connects by (simp add: acts_append)
  then have k: "?k \<in> (\<lambda>c. ct_socket (cc_tcp c)) ` set (ck_connections (client_acts ?as demo_client))"
    by (simp add: demo_connected_conn)
  have bs: "Op_write (wp_wire demo_request) \<in> set (sk_ops ?k) \<or>
      wp_wire demo_request \<in> wp_wire ` set (sk_write_packets ?k)"
    by (simp add: demo_connected_conn)
  have "ct_socket (stcp 0 demo_accepted) =
      socket_async_read (set_write_packets_limit 100 (socket_new True))"
    using demo_accepted_simps(4) by (simp only: accepted_waiting waiting_def tcp_object.simps)
  then have "awaits_packet (ct_socket (stcp 0 demo_accepted))"
    unfolding awaits_packet_def using fresh_read_ready by (simp add: fresh_read)
  from client_speaks_protocol [OF demo_fresh modest k this bs, of demo_env] show ?thesis by blast
qed

end
