(* ===== verification/Client_Winding.thy ===== *)
theory Client_Winding
  imports Winding Client_Demo
begin

text \<open>
  How a connection of the client winds down.  Once its TCP connection is disconnected, every
  completion for it takes one off the \<open>work\<close> that is left, nothing else that happens to the
  client adds to it, and when it is used up the object has been destroyed.  The exception is
  a connection attempt that succeeds after all: \<^verbatim>\<open>connect_success\<close> does not test the state
  and starts the login timer of the disconnected object.
\<close>

section \<open>One connection\<close>

definition winding :: "nat \<Rightarrow> client_connection \<Rightarrow> bool" where
  "winding n c \<longleftrightarrow> cc_engaged c \<and> \<not> rt_started (cc_reconnect_timer c) \<and> quiet n (cc_tcp c)"

definition ebbing :: "nat \<Rightarrow> cw \<Rightarrow> bool" where
  "ebbing n w \<longleftrightarrow> winding n (cw_conn w)"

lemma ebbing_calls [simp]:
  "ebbing n (emit cb w) = ebbing n w" "ebbing n (upd_core f w) = ebbing n w"
  "(\<And>c. cc_tcp (g c) = cc_tcp c \<and> cc_engaged (g c) = cc_engaged c \<and>
     cc_reconnect_timer (g c) = cc_reconnect_timer c) \<Longrightarrow> ebbing n (upd_conn g w) = ebbing n w"
  by (simp_all add: ebbing_def winding_def emit_def upd_core_def upd_conn_def)

lemma ebbing_conn [simp]:
  "ebbing n w \<Longrightarrow> (\<And>c. \<not> rt_started (cc_reconnect_timer c) \<Longrightarrow> cc_tcp (g c) = cc_tcp c \<and>
     cc_engaged (g c) = cc_engaged c \<and> \<not> rt_started (cc_reconnect_timer (g c))) \<Longrightarrow> ebbing n (upd_conn g w)"
  by (simp add: ebbing_def winding_def upd_conn_def)

lemma ebbing_upd: "ebbing m w \<Longrightarrow> quiet n (g (tcp w)) \<Longrightarrow> ebbing n (upd_tcp g w)"
  by (simp add: ebbing_def winding_def upd_tcp_def)

lemma ebbingD:
  assumes "ebbing n w"
  shows "cc_engaged (cw_conn w)" "\<not> rt_started (cc_reconnect_timer (cw_conn w))" "quiet n (tcp w)"
    "cs_state (ct_state (tcp w)) = Disconnected" "is_closing (ct_state (tcp w))"
    "\<not> lt_started (ct_login_timer (tcp w))" "\<not> hb_started (ct_heartbeat_timer (tcp w))"
  using assms quietD [of n "tcp w"] by (simp_all add: ebbing_def winding_def)

lemma ebbing_same [simp]:
  "ebbing n w \<Longrightarrow> (\<And>t. quiet n t \<Longrightarrow> quiet n (g t)) \<Longrightarrow> ebbing n (upd_tcp g w)"
  by (rule ebbing_upd, assumption) (simp add: ebbingD)

lemma ebbing_more: "ebbing n w \<Longrightarrow> ebbing (Suc n) w"
  by (simp add: ebbing_def winding_def quiet_more)

lemma ebbing_ends [simp]:
  assumes "ebbing n w"
  shows "ebbing n (tcp_disconnect r w)" "ebbing n (tcp_handle_connect_failure ec operation w)"
    "ebbing n (tcp_handle_transport_error ec operation w)" "ebbing n (tcp_handle_protocol_violation pe w)"
  using assms
  by (simp_all add: tcp_disconnect_eq tcp_handle_connect_failure_def tcp_handle_transport_error_def
      tcp_handle_protocol_violation_def)

section \<open>Completions of the socket\<close>

lemma handler_fields [simp]:
  "sh_connect_failure (tcp_socket_handler env) = tcp_connect_failure"
  "sh_connect_success (tcp_socket_handler env) = tcp_connect_success env"
  "sh_read_failure (tcp_socket_handler env) = tcp_read_failure"
  "sh_read_packet_failure (tcp_socket_handler env) = tcp_read_packet_failure"
  "sh_read_success (tcp_socket_handler env) = tcp_read_success env"
  "sh_write_failure (tcp_socket_handler env) = tcp_write_failure"
  "sh_write_success (tcp_socket_handler env) = tcp_write_success"
  "sh_write_buffer_empty (tcp_socket_handler env) = tcp_write_buffer_empty"
  "sh_closed (tcp_socket_handler env) = tcp_closed env"
  by (simp_all add: tcp_socket_handler_def)

lemma ebbing_read [simp]:
  assumes "ebbing n w"
  shows "ebbing n (read_error (tcp_socket_handler env) ec w)" "ebbing n (tcp_read_success env packet w)"
  using assms ebbingD(5) [OF assms]
  by (simp_all add: read_error_def tcp_socket_handler_def tcp_read_aborted_def
      tcp_read_end_of_file_def tcp_read_failure_def tcp_read_success_def)

lemma ebbing_payload [simp]:
  "ebbing n w \<Longrightarrow> ebbing n (payload_received (tcp_socket_handler env) ec m w)"
  by (simp add: payload_received_def Let_def split_def read_packet_move_def tcp_read_failure_def
      sh_socket_eq)

lemma ebbing_header:
  assumes "ebbing n w"
  shows "ebbing (Suc n) (header_received (tcp_socket_handler env) ec m w)"
proof -
  have "ebbing (Suc n) (upd_tcp (\<lambda>t. t\<lparr>ct_socket := read_payload (ct_socket t)\<rparr>) w)" if "ebbing n w" for w
    using that by (intro ebbing_upd [OF that])
      (simp add: ebbing_def winding_def quiet_def work_def socket_work_def read_payload_def)
  with assms ebbing_more show ?thesis
    by (simp add: header_received_def Let_def split_def read_packet_move_def tcp_read_failure_def
        tcp_read_packet_failure_def sh_socket_eq split: read_resize.splits)
qed

lemma ebbing_sent [simp]:
  assumes "ebbing n w"
  shows "ebbing n (packet_sent (tcp_socket_handler env) ec m w)"
proof -
  let ?k = "\<lambda>w. ct_socket (tcp w)"
  have "ebbing n (upd_tcp (\<lambda>t. t\<lparr>ct_socket := write_packet_start (ct_socket t)\<rparr>)
      (upd_tcp (\<lambda>t. t\<lparr>ct_socket := (ct_socket t)\<lparr>sk_write_packets := tl (sk_write_packets (ct_socket t))\<rparr>\<rparr>) w))"
    if "ebbing n w" "tl (sk_write_packets (?k w)) \<noteq> []" for w
    using that by (simp add: ebbing_def winding_def upd_tcp_def quiet_next_write)
  with assms show ?thesis
    by (simp add: packet_sent_def Let_def tcp_write_failure_def tcp_write_success_def
        tcp_write_buffer_empty_def sh_socket_eq quiet_next_write)
qed

text \<open>The last announcement may destroy the object.\<close>

definition ebbs :: "nat \<Rightarrow> cw \<Rightarrow> bool" where
  "ebbs n w \<longleftrightarrow> (cc_engaged (cw_conn w) \<longrightarrow> ebbing n w)"

lemma ebbing_ebbs [simp]: "ebbing n w \<Longrightarrow> ebbs n w"
  by (simp add: ebbs_def)

lemma destroyed_stays: "\<not> cc_engaged (cw_conn (conn_on_closed env reason w))"
  by (simp add: conn_on_closed_def conn_schedule_reconnect_def reconnect_timer_start_def
      conn_reconnect_timer_error_def Let_def split: option.splits)

lemma ebbs_signal [simp]: "ebbing n w \<Longrightarrow> ebbs n (tcp_maybe_signal_closed env w)"
  by (simp add: tcp_maybe_signal_closed_def Let_def ebbs_def destroyed_stays)

lemma ebbing_op_taken:
  assumes "ebbing (n + op_work op) w" and "op \<in> set (sk_ops (ct_socket (tcp w)))"
    and "\<And>k. sk_closing (g k) = sk_closing k \<and> sk_ops (g k) = remove1 op (sk_ops k) \<and>
      sk_write_packets (g k) = sk_write_packets k \<and> sk_closed_signaled (g k) = sk_closed_signaled k"
  shows "ebbing n (upd_tcp (\<lambda>t. t\<lparr>ct_socket := g (ct_socket t)\<rparr>) w)"
  using quiet_op_taken [OF ebbingD(3) [OF assms(1)] assms(2)] assms(3)
    quietD(2) [OF ebbingD(3) [OF assms(1)]]
  by (intro ebbing_upd [OF assms(1)]) simp

theorem ebbs_complete:
  assumes ok: "ebbing (Suc n) w" and op: "op \<in> set (sk_ops (ct_socket (tcp w)))"
    and failed: "op = Op_connect \<Longrightarrow> ec_set ec"
  shows "ebbs n (socket_complete (tcp_socket_handler env) op ec m data w)"
proof -
  have one: "ebbing n (upd_tcp (\<lambda>t. t\<lparr>ct_socket := g (ct_socket t)\<rparr>) w)"
    if "op \<noteq> Op_read_header"
      "\<And>k. sk_closing (g k) = sk_closing k \<and> sk_ops (g k) = remove1 op (sk_ops k) \<and>
        sk_write_packets (g k) = sk_write_packets k \<and> sk_closed_signaled (g k) = sk_closed_signaled k"
    for g
  proof (rule ebbing_op_taken [OF _ op that(2)])
    have "op_work op = 1" using that(1) by (cases op) simp_all
    with ok show "ebbing (n + op_work op) w" by simp
  qed
  show ?thesis
  proof (cases op)
    case Op_read_header
    have "op_work op \<le> work (tcp w)"
      using sum_list_taken(2) [OF op] by (simp add: work_def socket_work_def)
    with ok Op_read_header obtain b where b: "n = Suc b"
      by (cases n) (simp_all add: ebbing_def winding_def quiet_def)
    let ?g = "\<lambda>k. k\<lparr>sk_ops := remove1 Op_read_header (sk_ops k), sk_read_packet := (sk_read_packet k)
        \<lparr>rp_header := poke 0 data (rp_header (sk_read_packet k))\<rparr>, sk_read_pending := False\<rparr>"
    have "ebbing b (upd_tcp (\<lambda>t. t\<lparr>ct_socket := ?g (ct_socket t)\<rparr>) w)"
      using ok b by (intro ebbing_op_taken [OF _ op]) (simp_all add: Op_read_header)
    from ebbing_header [OF this]
    have "ebbing n (read_header_done (tcp_socket_handler env) ec data w)"
      by (simp add: read_header_done_def Let_def b sh_socket_eq)
    with op Op_read_header show ?thesis by (simp add: socket_complete_def sh_socket_eq)
  next
    case Op_connect
    note k = one [of "\<lambda>k. k\<lparr>sk_ops := remove1 Op_connect (sk_ops k), sk_connect_pending := False\<rparr>"]
    with op Op_connect failed show ?thesis
      by (simp add: socket_complete_def connect_done_def tcp_connect_failure_def sh_socket_eq Let_def)
  next
    case Op_read_payload
    note k = one [of "\<lambda>k. k\<lparr>sk_ops := remove1 Op_read_payload (sk_ops k), sk_read_packet :=
        (sk_read_packet k)\<lparr>rp_payload := buffer_poke 0 data (rp_payload (sk_read_packet k))\<rparr>,
        sk_read_pending := False\<rparr>"]
    with op Op_read_payload show ?thesis
      by (simp add: socket_complete_def read_payload_done_def sh_socket_eq Let_def)
  next
    case (Op_write bs)
    note k = one [of "\<lambda>k. k\<lparr>sk_ops := remove1 (Op_write bs) (sk_ops k), sk_write_pending := False\<rparr>"]
    with op Op_write show ?thesis by (simp add: socket_complete_def write_done_def sh_socket_eq Let_def)
  next
    case Op_post_closed
    note k = one [of "\<lambda>k. k\<lparr>sk_ops := remove1 Op_post_closed (sk_ops k)\<rparr>"]
    with op Op_post_closed show ?thesis
      by (simp add: socket_complete_def post_closed_done_def tcp_closed_def sh_socket_eq)
  qed
qed

section \<open>Every event of a connection\<close>

fun tcp_completes :: "client_event \<Rightarrow> bool" where
  "tcp_completes (Ev_socket op ec n data) \<longleftrightarrow> True"
| "tcp_completes (Ev_login_wait ec) \<longleftrightarrow> True"
| "tcp_completes Ev_login_post \<longleftrightarrow> True"
| "tcp_completes (Ev_heartbeat_wait ec) \<longleftrightarrow> True"
| "tcp_completes Ev_heartbeat_post \<longleftrightarrow> True"
| "tcp_completes _ \<longleftrightarrow> False"

text \<open>An attempt that succeeds.\<close>

fun connects :: "client_event \<Rightarrow> bool" where
  "connects (Ev_socket op ec n data) \<longleftrightarrow> op = Op_connect \<and> \<not> ec_set ec"
| "connects _ \<longleftrightarrow> False"

lemma ebbs_timers:
  assumes ok: "ebbing (Suc n) w"
  shows "0 < lt_waits (ct_login_timer (tcp w)) \<Longrightarrow>
      ebbs n (login_timer_wait_done (tcp_login_handler env) ec w)"
    "0 < lt_posts (ct_login_timer (tcp w)) \<Longrightarrow>
      ebbs n (login_timer_post_done (tcp_login_handler env) w)"
    "0 < hb_waits (ct_heartbeat_timer (tcp w)) \<Longrightarrow>
      ebbs n (heartbeat_timer_wait_done (tcp_heartbeat_handler env) throws ec w)"
    "0 < hb_posts (ct_heartbeat_timer (tcp w)) \<Longrightarrow>
      ebbs n (heartbeat_timer_post_done (tcp_heartbeat_handler env) w)"
proof -
  note taken = quiet_taken [OF ebbingD(3) [OF ok]] and off = ebbingD(6,7) [OF ok]
  show "ebbs n (login_timer_wait_done (tcp_login_handler env) ec w)"
    if "0 < lt_waits (ct_login_timer (tcp w))"
    using taken(3) [OF that] off ok
    by (simp add: login_timer_wait_done_def login_timer_on_expiry_def tcp_login_handler_def Let_def
        ebbs_def ebbing_def winding_def)
  show "ebbs n (heartbeat_timer_wait_done (tcp_heartbeat_handler env) throws ec w)"
    if "0 < hb_waits (ct_heartbeat_timer (tcp w))"
    using taken(4) [OF that] off ok
    by (simp add: heartbeat_timer_wait_done_def heartbeat_timer_on_expiry_def tcp_heartbeat_handler_def
        Let_def ebbs_def ebbing_def winding_def)
  show "ebbs n (login_timer_post_done (tcp_login_handler env) w)"
    if "0 < lt_posts (ct_login_timer (tcp w))"
  proof -
    have "ebbing n (upd_tcp (\<lambda>t. t\<lparr>ct_login_timer := (ct_login_timer t)
        \<lparr>lt_posts := lt_posts (ct_login_timer t) - 1\<rparr>\<rparr>) w)"
      by (rule ebbing_upd [OF ok]) (rule taken(1) [OF that])
    then show ?thesis
      by (simp add: login_timer_post_done_def tcp_login_handler_def tcp_login_timer_stopped_def)
  qed
  show "ebbs n (heartbeat_timer_post_done (tcp_heartbeat_handler env) w)"
    if "0 < hb_posts (ct_heartbeat_timer (tcp w))"
  proof -
    have "ebbing n (upd_tcp (\<lambda>t. t\<lparr>ct_heartbeat_timer := (ct_heartbeat_timer t)
        \<lparr>hb_posts := hb_posts (ct_heartbeat_timer t) - 1\<rparr>\<rparr>) w)"
      by (rule ebbing_upd [OF ok]) (rule taken(2) [OF that])
    then show ?thesis
      by (simp add: heartbeat_timer_post_done_def tcp_heartbeat_handler_def tcp_heartbeat_timer_stopped_def)
  qed
qed

lemma ebbing_sends:
  assumes "ebbing n w"
  shows "ebbing n (snd (conn_send_packet p w))" "ebbing n (snd (conn_send_logout_request w))"
    "ebbing n (snd (conn_send_debug bs w))" "ebbing n (conn_connect env w)" "ebbing n (conn_close w)"
  using assms ebbingD(1,4,5) [OF assms]
  by (simp_all add: conn_send_packet_def conn_send_logout_request_def conn_send_debug_def
      tcp_send_packet_def tcp_send_debug_packet_def conn_connect_def conn_close_def tcp_close_def
      reconnect_timer_stop_def)

theorem ebbs_step:
  assumes ok: "ebbing (if client_event_enabled w ev \<and> tcp_completes ev then Suc n else n) w"
    and "\<not> connects ev"
  shows "ebbs n (client_step env ev w)"
proof (cases "client_event_enabled w ev")
  case True
  show ?thesis
  proof (cases "tcp_completes ev")
    case True
    with \<open>client_event_enabled w ev\<close> assms have "ebbing (Suc n) w" by simp
    with \<open>client_event_enabled w ev\<close> True assms(2) ebbs_complete ebbs_timers show ?thesis
      by (cases ev) (simp_all add: client_step_def asio_may_complete_def)
  next
    case False
    with ok have "ebbing n w" by (simp split: if_splits)
    with False ebbing_sends ebbingD(2) show ?thesis
      by (cases ev) (simp_all add: client_step_def reconnect_timer_wait_done_def
          reconnect_timer_on_expiry_def conn_reconnect_handler_def Let_def)
  qed
qed (use ok in \<open>simp add: client_step_def\<close>)

section \<open>The client\<close>

definition held :: "nat \<Rightarrow> client \<Rightarrow> bool" where
  "held i cl \<longleftrightarrow> i < length (ck_connections cl) \<and> cc_engaged (ck_connections cl ! i)"

definition winds :: "nat \<Rightarrow> nat \<Rightarrow> client \<Rightarrow> bool" where
  "winds n i cl \<longleftrightarrow> i < length (ck_connections cl) \<and> winding n (ck_connections cl ! i)"

lemma winds_world: "winds n i cl \<longleftrightarrow> i < length (ck_connections cl) \<and> ebbing n (connection_world i cl)"
  by (simp add: winds_def ebbing_def)

lemma winds_same [simp]:
  "winds n i (cl\<lparr>ck_posts := ps\<rparr>) = winds n i cl" "winds n i (cl\<lparr>ck_core := co\<rparr>) = winds n i cl"
  by (simp_all add: winds_def)

text \<open>A call at any connection, as long as it leaves this one be.\<close>

lemma winds_on_connection:
  assumes "winds n i cl" and "\<And>w. ebbing n w \<Longrightarrow> ebbing n (snd (f w))"
  shows "winds n i (snd (on_connection j f cl))"
proof (cases "j = i")
  case True
  with assms(1) assms(2) [of "connection_world i cl"] show ?thesis
    by (simp add: winds_world) (simp add: ebbing_def)
qed (use assms(1) in \<open>simp add: winds_def on_connection_def split_def Let_def\<close>)

lemma winds_run_connection:
  "winds n i cl \<Longrightarrow> (\<And>w. ebbing n w \<Longrightarrow> ebbing n (f w)) \<Longrightarrow> winds n i (run_connection j f cl)"
  unfolding run_connection_def by (rule winds_on_connection) simp_all

lemma winds_fold:
  "winds n i cl \<Longrightarrow> (\<And>j cl. winds n i cl \<Longrightarrow> winds n i (f j cl)) \<Longrightarrow> winds n i (fold f is cl)"
  by (induction "is" arbitrary: cl) simp_all

lemma winds_send [simp]: "winds n i cl \<Longrightarrow> winds n i (snd (on_connection j (conn_send_packet p) cl))"
  by (intro winds_on_connection) (simp_all add: ebbing_sends)

lemma winds_copies [simp]: "winds n i cl \<Longrightarrow> winds n i (snd (client_send_copies is p cl))"
  by (induction "is" arbitrary: cl) (simp_all add: Let_def split_def)

lemma winds_calls [simp]:
  assumes "winds n i cl"
  shows "winds n i (snd (client_send_packet p cl))" "winds n i (snd (client_send_message data m cl))"
    "winds n i (case client_send_message_packet p cl of None \<Rightarrow> cl | Some (_, cl) \<Rightarrow> cl)"
    "winds n i (client_send_logout_request cl)" "winds n i (client_send_debug bs cl)"
    "winds n i (client_started_posted envs cl)" "winds n i (client_stopped_posted cl)"
proof -
  show send: "winds n i (snd (client_send_packet p cl))" for p
    using assms by (simp add: client_send_packet_def client_send_one_def client_send_two_def
        client_send_multiple_def Let_def split_def)
  show "winds n i (snd (client_send_message data m cl))"
    using assms send by (simp add: client_send_message_def split: option.splits)
  show "winds n i (case client_send_message_packet p cl of None \<Rightarrow> cl | Some (_, cl) \<Rightarrow> cl)"
    using assms send by (auto simp: client_send_message_packet_def split: option.splits prod.splits) (metis snd_conv)
  show "winds n i (client_send_logout_request cl)" "winds n i (client_send_debug bs cl)"
    using assms unfolding client_send_logout_request_def client_send_debug_def
    by (auto intro!: winds_fold winds_on_connection simp: ebbing_sends)
  show "winds n i (client_started_posted envs cl)" "winds n i (client_stopped_posted cl)"
    using assms unfolding client_started_posted_def client_stopped_posted_def
    by (auto intro!: winds_fold winds_run_connection simp: ebbing_sends)
qed

fun completion_at :: "nat \<Rightarrow> client_action \<Rightarrow> client \<Rightarrow> bool" where
  "completion_at i (At_connection j ev env) cl \<longleftrightarrow>
     j = i \<and> client_event_enabled (connection_world i cl) ev \<and> tcp_completes ev"
| "completion_at i _ cl \<longleftrightarrow> False"

fun late_connect :: "nat \<Rightarrow> client_action \<Rightarrow> bool" where
  "late_connect i (At_connection j ev env) \<longleftrightarrow> j = i \<and> connects ev"
| "late_connect i _ \<longleftrightarrow> False"

theorem winds_act:
  assumes ok: "winds (if completion_at i a cl then Suc n else n) i cl"
    and "\<not> late_connect i a" and still: "held i (client_act a cl)"
  shows "winds n i (client_act a cl)"
proof (cases "\<exists>ev env. a = At_connection i ev env")
  case True
  then obtain ev env where a: "a = At_connection i ev env" by blast
  let ?w = "connection_world i cl"
  have i: "i < length (ck_connections cl)" using ok by (simp add: winds_def)
  have "ebbs n (client_step env ev ?w)"
    using ok assms(2) by (intro ebbs_step) (simp_all add: a winds_world)
  with still i show ?thesis
    by (simp add: a held_def winds_def run_connection_def on_connection_def ebbs_def ebbing_def)
next
  case False
  then have "winds n i cl" using ok by (cases a) (auto split: if_splits)
  moreover have "winds n i (run_connection j f cl)" if "j \<noteq> i" for j f
    using that \<open>winds n i cl\<close> by (simp add: winds_def run_connection_def on_connection_def split_def Let_def)
  ultimately show ?thesis
    using False by (cases a)
      (auto simp: client_start_def client_stop_def split: list.splits client_post.splits)
qed

text \<open>How many of the actions completed something that was outstanding for the TCP connection, and
  whether it was there all the time.\<close>

fun wound :: "nat \<Rightarrow> client_action list \<Rightarrow> client \<Rightarrow> nat" where
  "wound i [] cl = 0"
| "wound i (a # as) cl = (if completion_at i a cl then 1 else 0) + wound i as (client_act a cl)"

fun held_all :: "nat \<Rightarrow> client_action list \<Rightarrow> client \<Rightarrow> bool" where
  "held_all i [] cl \<longleftrightarrow> held i cl"
| "held_all i (a # as) cl \<longleftrightarrow> held i cl \<and> held_all i as (client_act a cl)"

lemma held_all_now: "held_all i as cl \<Longrightarrow> held i cl"
  by (cases "as") simp_all

lemma completion_work:
  assumes "completion_at i a cl"
  shows "work (cc_tcp (ck_connections cl ! i)) \<noteq> 0"
proof -
  obtain ev env where a: "a = At_connection i ev env" "tcp_completes ev"
    "client_event_enabled (connection_world i cl) ev"
    using assms by (cases a) auto
  then have "tcp_outstanding (tcp (connection_world i cl))"
    by (cases ev) (auto simp: tcp_outstanding_def asio_may_complete_def)
  with no_work [of "tcp (connection_world i cl)"] show ?thesis by auto
qed

theorem winds_acts:
  "winds n i cl \<Longrightarrow> held_all i as cl \<Longrightarrow> list_all (\<lambda>a. \<not> late_connect i a) as \<Longrightarrow>
   wound i as cl + work (cc_tcp (ck_connections (client_acts as cl) ! i)) \<le> n"
proof (induction "as" arbitrary: n cl)
  case Nil
  then show ?case by (simp add: winds_def winding_def quiet_def)
next
  case (Cons a "as")
  from Cons.prems(2) have held: "held i (client_act a cl)" by (auto intro: held_all_now)
  show ?case
  proof (cases "completion_at i a cl")
    case True
    with completion_work [OF True] Cons.prems(1) obtain m where m: "n = Suc m"
      by (cases n) (auto simp: winds_def winding_def quiet_def)
    have "winds m i (client_act a cl)"
      by (rule winds_act [OF _ _ held]) (use True Cons.prems in \<open>simp_all add: m\<close>)
    from Cons.IH [OF this] True Cons.prems show ?thesis by (simp add: m)
  next
    case False
    have "winds n i (client_act a cl)"
      by (rule winds_act [OF _ _ held]) (use False Cons.prems in simp_all)
    from Cons.IH [OF this] False Cons.prems show ?thesis by simp
  qed
qed

section \<open>The property\<close>

text \<open>C7 A TCP connection of the client that is disconnected winds down: as long as it is there,
  fewer than \<open>work\<close> completions have run of what was outstanding for it (the operations of its
  socket, the writes still queued, the waits of its timers and one notification each), and
  something is still outstanding; so a system that completes what it was asked for destroys
  it, whatever else happens to the client and its other connections in between.  A
  connection attempt that succeeds in spite of the disconnect is the exception.\<close>

theorem client_winds_down:
  assumes "fresh_client cl0" and cl: "cl = client_acts as cl0" and i: "i < length (ck_connections cl0)"
    and t: "t = cc_tcp (ck_connections cl ! i)" "cs_state (ct_state t) = Disconnected"
    and "held_all i as' cl" and "list_all (\<lambda>a. \<not> late_connect i a) as'"
  shows "wound i as' cl < work t \<and>
    wound i as' cl + work (cc_tcp (ck_connections (client_acts as' cl) ! i)) \<le> work t \<and>
    tcp_outstanding (cc_tcp (ck_connections (client_acts as' cl) ! i))"
proof -
  have ok: "life.all_ok cl" "life.all_ok (client_acts as' cl)"
    unfolding cl using assms(1) by (simp_all add: life.acts_ok fresh_all_ok)
  have len: "i < length (ck_connections cl)" "i < length (ck_connections (client_acts as' cl))"
    using i by (simp_all add: cl acts_length)
  have "held i cl" using assms(6) by (rule held_all_now)
  with ok(1) len have "conn_ok (connection_world i cl)" "cc_engaged (ck_connections cl ! i)"
    by (simp_all add: life.all_ok_def held_def)
  with t have "winds (work t) i cl"
    using len(1) ok_mid [of t] by (simp add: winds_def winding_def quiet_def conn_ok_def tcp_mid_def)
  from winds_acts [OF this assms(6,7)]
  have bound: "wound i as' cl + work (cc_tcp (ck_connections (client_acts as' cl) ! i)) \<le> work t" .
  have "held_all i bs c \<Longrightarrow> held i (client_acts bs c)" for bs c
    by (induction bs arbitrary: c) simp_all
  from this [OF assms(6)] have "cc_engaged (ck_connections (client_acts as' cl) ! i)" by (simp add: held_def)
  moreover have "conn_ok (connection_world i (client_acts as' cl))"
    using ok(2) len(2) by (simp add: life.all_ok_def)
  ultimately have out: "tcp_outstanding (cc_tcp (ck_connections (client_acts as' cl) ! i))"
    using unfinished_outstanding by (simp add: conn_ok_def)
  moreover have "0 < work (cc_tcp (ck_connections (client_acts as' cl) ! i))"
    using no_work out by blast
  ultimately show ?thesis using bound by simp
qed

text \<open>A client that is stopped while it connects: the attempt is aborted and the socket announces
  that it is done.\<close>

definition demo_stopped :: client where
  "demo_stopped = client_acts (demo_start @ [Call_stop, Run_post (\<lambda>_. quiet_env)]) demo_client"

definition demo_aborted :: client_action where
  "demo_aborted = At_connection 0 (Ev_socket Op_connect operation_aborted 0 []) quiet_env"

lemma demo_stopped_eq: "demo_stopped = (client_acts demo_start demo_client)
  \<lparr>ck_core := ck_core demo_client, ck_connections := [(client_connection_new demo_endpoint True)
      \<lparr>cc_engaged := True, cc_tcp := t_disconnect DR_user_initiated (client_tcp_new
         \<lparr>ct_socket := (socket_new True)\<lparr>sk_connect_pending := True, sk_ops := [Op_connect]\<rparr>\<rparr>)\<rparr>]\<rparr>"
  unfolding demo_stopped_def acts_append demo_started
  by (simp add: demo_client_def client_stop_def client_stopped_posted_def run_connection_def
      on_connection_def connection_world_def conn_close_def tcp_close_def tcp_disconnect_eq
      client_add_connection_def client_new_def upd_tcp_def upd_conn_def reconnect_timer_stop_def
      client_connection_new_def reconnect_timer_new_def Let_def)

lemma demo_stopped_facts:
  "cs_state (ct_state (cc_tcp (ck_connections demo_stopped ! 0))) = Disconnected"
  "work (cc_tcp (ck_connections demo_stopped ! 0)) = 2"
  "held_all 0 [demo_aborted] demo_stopped"
  unfolding demo_stopped_eq
  by (simp_all add: t_disconnect_def cs_disconnect_def work_defs client_tcp_new_def socket_close_def
      socket_new_def socket_maybe_signal_closed_def is_idle_def login_timer_stop_def
      login_timer_maybe_signal_stopped_def login_timer_new_def heartbeat_timer_stop_def
      heartbeat_timer_maybe_signal_stopped_def heartbeat_timer_new_def connection_state_default_def
      held_def demo_aborted_def run_connection_def on_connection_def connection_world_def
      client_step_def asio_may_complete_def socket_complete_def connect_done_def sh_socket_eq
      upd_tcp_def Let_def)

theorem client_winds_down_witness:
  "wound 0 [demo_aborted] demo_stopped < 2 \<and>
   tcp_outstanding (cc_tcp (ck_connections (client_acts [demo_aborted] demo_stopped) ! 0))"
proof -
  have "0 < length (ck_connections demo_client)"
    by (simp add: demo_client_def client_add_connection_def client_new_def)
  moreover have "ec_set operation_aborted" by (simp add: ec_defs operation_aborted_def ECANCELED_def)
  ultimately show ?thesis
    using client_winds_down [OF demo_fresh demo_stopped_def, of 0 _ "[demo_aborted]"] demo_stopped_facts
    by (simp add: demo_aborted_def)
qed

section \<open>An attempt that succeeds after all\<close>

lemma outputs [simp]:
  "cw_out (upd_tcp f w) = cw_out w" "cw_out (emit cb w) = cw_out w @ [(cw_id w, cb)]"
  "cw_id (upd_tcp f w) = cw_id w" "cw_id (emit cb w) = cw_id w"
  "cw_core (upd_tcp f w) = cw_core w"
  by (simp_all add: upd_tcp_def emit_def)

lemma connect_success_late:
  assumes "\<not> lt_started (ct_login_timer (tcp w))" "ce_login_throws env = None"
    and "sk_closing (ct_socket (tcp w))"
  shows "ct_state (tcp (tcp_connect_success env w)) = set_state Connected (ct_state (tcp w))"
    "lt_started (ct_login_timer (tcp (tcp_connect_success env w)))"
    "0 < lt_waits (ct_login_timer (tcp (tcp_connect_success env w)))"
    "sk_closing (ct_socket (tcp (tcp_connect_success env w)))"
    "sk_read_pending (ct_socket (tcp (tcp_connect_success env w))) = sk_read_pending (ct_socket (tcp w))"
    "cw_out (tcp_connect_success env w) = cw_out w @
       [(cw_id w, Cb_connect_success (ce_local env) (ce_remote env)),
        (cw_id w, Cb_logging_in (fst (conn_on_connect_success w)))]"
  using assms
  by (simp_all add: tcp_connect_success_def login_timer_start_def tcp_login_handler_def
      socket_async_read_def socket_async_write_def conn_on_connect_success_def Let_def split_def)
    (simp add: upd_tcp_def)

text \<open>C35 The exception is real.  When the attempt of a disconnected TCP connection succeeds,
  because its completion was already queued as the socket was closed, the connection is
  connected again, tells its user so and that it is logging in, and starts a login timer; its
  socket stays closed, so nothing but that timer will ever end it again.\<close>

theorem late_connect_revives:
  assumes "fresh_client cl0" and i: "i < length (ck_connections cl0)"
    and w: "w = connection_world i (client_acts as cl0)"
    and op: "Op_connect \<in> set (sk_ops (ct_socket (tcp w)))"
    and down: "cs_state (ct_state (tcp w)) = Disconnected"
    and ok: "\<not> ec_set ec" "ce_login_throws env = None"
    and w': "w' = client_step env (Ev_socket Op_connect ec n data) w"
  shows "cs_state (ct_state (tcp w')) = Connected \<and> lt_started (ct_login_timer (tcp w')) \<and>
    0 < lt_waits (ct_login_timer (tcp w')) \<and> sk_closing (ct_socket (tcp w')) \<and>
    \<not> sk_read_pending (ct_socket (tcp w')) \<and>
    cw_out w' = cw_out w @ [(i, Cb_connect_success (ce_local env) (ce_remote env)),
      (i, Cb_logging_in (fst (conn_on_connect_success w)))]"
proof -
  have "conn_ok w"
    unfolding w using life.acts_ok [OF fresh_all_ok [OF assms(1)], of "as"] i
    by (simp add: life.all_ok_def acts_length)
  moreover have "tcp_outstanding (tcp w)" using op by (auto simp: tcp_outstanding_def)
  ultimately have mid: "tcp_mid (tcp w)" and core: "sock_core (ct_socket (tcp w))"
    by (auto dest!: conn_ok_outstanding ok_mid simp: tcp_mid_def)
  note c = cleared_core(1) [OF core op refl]
  have closing: "sk_closing (ct_socket (tcp w))" and "\<not> lt_started (ct_login_timer (tcp w))"
    using mid down by (simp_all add: tcp_mid_def)
  moreover have "may": "client_event_enabled w (Ev_socket Op_connect ec n data)"
    using op closing by (simp add: asio_may_complete_def)
  moreover have "cw_id w = i" by (simp add: w)
  moreover have "fst (conn_on_connect_success (upd_tcp f w)) = fst (conn_on_connect_success w)" for f
    by (simp add: conn_on_connect_success_def upd_tcp_def upd_conn_def Let_def)
  ultimately show ?thesis
    using op ok c connect_success_late [of "upd_tcp (\<lambda>t. t\<lparr>ct_socket := (ct_socket t)
        \<lparr>sk_ops := remove1 Op_connect (sk_ops (ct_socket t)), sk_connect_pending := False\<rparr>\<rparr>) w" env]
    unfolding w'
    by (simp add: client_step_def socket_complete_def connect_done_def sh_socket_eq
        socket_maybe_signal_closed_def set_state_def Let_def)
qed

text \<open>A client that is stopped while it connects.\<close>

definition demo_revived :: cw where
  "demo_revived = client_step quiet_env (Ev_socket Op_connect no_error 0 []) (connection_world 0 demo_stopped)"

theorem late_connect_revives_witness:
  "cs_state (ct_state (tcp demo_revived)) = Connected \<and> sk_closing (ct_socket (tcp demo_revived)) \<and>
   cw_out demo_revived = [(0, Cb_connecting demo_endpoint), (0, Cb_connect_success ([], 0) ([], 0)),
     (0, Cb_logging_in (login_request_packet_of [] [] [] 1))]"
proof -
  let ?w = "connection_world 0 demo_stopped"
  have "0 < length (ck_connections demo_client)"
    by (simp add: demo_client_def client_add_connection_def client_new_def)
  moreover have "Op_connect \<in> set (sk_ops (ct_socket (tcp ?w)))"
    by (simp add: demo_stopped_eq t_disconnect_def cs_disconnect_def client_tcp_new_def
        connection_state_default_def socket_close_def socket_maybe_signal_closed_def is_idle_def Let_def)
  moreover have "ce_login_throws quiet_env = None" "\<not> ec_set no_error" by (simp_all add: quiet_env_def ec_defs)
  moreover have "fst (conn_on_connect_success ?w) = login_request_packet_of [] [] [] 1"
    "ck_out demo_stopped = [(0, Cb_connecting demo_endpoint)]"
    unfolding demo_stopped_eq demo_started
    by (simp_all add: conn_on_connect_success_def connection_world_def upd_conn_def
        client_connection_new_def demo_client_def client_add_connection_def client_new_def Let_def)
  ultimately show ?thesis
    using late_connect_revives [OF demo_fresh, of 0 ?w _ no_error quiet_env demo_revived 0 "[]"]
      demo_stopped_facts(1)
    by (simp add: demo_revived_def demo_stopped_def quiet_env_def)
qed

end
