(* ===== verification/Client_Reconnect.thy ===== *)
theory Client_Reconnect
  imports Client_Demo
begin

text \<open>
  What the announcement of a reconnect is worth: whenever a connection tells its user that it
  will connect again after some delay, and reports no error of the timer after that, the wait
  for that delay is outstanding; it stays so, until it completes, whatever else happens, short
  of a close of the connection or a stop of the client; and its completion is the new attempt.
\<close>

section \<open>Only the end of a connection announces\<close>

fun announces :: "client_cb \<Rightarrow> bool" where
  "announces (Cb_reconnect_scheduled d) = True"
| "announces _ = False"

definition announcements :: "cw \<Rightarrow> (nat \<times> client_cb) list" where
  "announcements w = filter (\<lambda>(i, cb). announces cb) (cw_out w)"

lemma announcements_emit [simp]:
  "\<not> announces cb \<Longrightarrow> announcements (emit cb w) = announcements w"
  "announcements (upd_tcp f w) = announcements w" "announcements (upd_conn g w) = announcements w"
  "announcements (upd_core k w) = announcements w"
  by (simp_all add: announcements_def)

lemma announcements_ends [simp]:
  "announcements (tcp_disconnect r w) = announcements w"
  "announcements (tcp_handle_transport_error ec operation w) = announcements w"
  "announcements (tcp_handle_connect_failure ec operation w) = announcements w"
  "announcements (tcp_handle_protocol_violation pe w) = announcements w"
  by (simp_all add: tcp_disconnect_eq tcp_handle_transport_error_def
      tcp_handle_connect_failure_def tcp_handle_protocol_violation_def)

lemma announcements_starts [simp]:
  "announcements (heartbeat_timer_start (tcp_heartbeat_handler env) now throws throws' w) = announcements w"
  "announcements (login_timer_start (tcp_login_handler env) throws w) = announcements w"
  "announcements (tcp_construct env w) = announcements w"
  by (simp_all add: heartbeat_timer_start_def heartbeat_timer_schedule_def login_timer_start_def
      tcp_heartbeat_handler_def tcp_heartbeat_timer_error_def tcp_login_handler_def
      tcp_login_timer_error_def tcp_construct_def Let_def split_def split: option.splits)

lemma announcements_read [simp]: "announcements (tcp_read_success env packet w) = announcements w"
proof -
  have login: "announcements (snd (conn_on_login_success a w)) = announcements w" for a w
    by (simp add: conn_on_login_success_def Let_def)
  have accepted: "announcements (snd (tcp_process_login_accepted env data n w)) = announcements w" for data n
    by (simp add: tcp_process_login_accepted_def Let_def split_def login)
  have data: "announcements (conn_on_sequenced_data d w) = announcements w"
    "announcements (conn_on_end_of_session w) = announcements w" for d w
    by (simp_all add: conn_on_sequenced_data_def client_on_sequenced_data_def
        conn_on_end_of_session_def client_on_end_of_session_def Let_def)
  have "announcements (snd (tcp_process_packet env packet w)) = announcements w"
    by (simp add: tcp_process_packet_def tcp_process_debug_def accepted data
        tcp_process_login_rejected_def tcp_process_sequenced_data_def
        tcp_process_server_heartbeat_def tcp_process_end_of_session_def
        tcp_increment_receive_count_def Let_def)
  then show ?thesis by (simp add: tcp_read_success_def Let_def split_def)
qed

lemma announcements_socket:
  assumes "op \<noteq> Op_post_closed"
  shows "announcements (socket_complete (tcp_socket_handler env) op ec n data w) = announcements w"
proof -
  let ?h = "tcp_socket_handler env"
  note handler = tcp_socket_handler_def read_packet_move_def tcp_connect_failure_def
    tcp_read_failure_def tcp_read_packet_failure_def tcp_read_aborted_def
    tcp_read_end_of_file_def tcp_write_failure_def tcp_write_success_def
    tcp_write_buffer_empty_def Let_def split_def
  have connected: "announcements (tcp_connect_success env w) = announcements w" for w
    by (simp add: tcp_connect_success_def conn_on_connect_success_def Let_def split_def)
  have error: "announcements (read_error ?h ec w) = announcements w" for w
    by (simp add: read_error_def handler)
  have header: "announcements (header_received ?h ec m w) = announcements w" for m w
    using error by (simp add: header_received_def handler split: read_resize.splits)
  have payload: "announcements (payload_received ?h ec m w) = announcements w" for m w
    using error by (simp add: payload_received_def handler)
  have sent: "announcements (packet_sent ?h ec n w) = announcements w" for w
    by (simp add: packet_sent_def handler)
  show ?thesis
    using assms connected header payload sent
    by (cases op) (simp_all add: socket_complete_def connect_done_def read_header_done_def
        read_payload_done_def write_done_def sh_socket_eq, simp_all add: handler)
qed

definition armed :: "nat \<Rightarrow> client_connection \<Rightarrow> bool" where
  "armed d c \<longleftrightarrow> \<not> cc_engaged c \<and> rt_started (cc_reconnect_timer c) \<and>
     rt_delay (cc_reconnect_timer c) = d \<and>
     rt_epoch (cc_reconnect_timer c) \<in> set (rt_waits (cc_reconnect_timer c))"

definition truthful :: "cw \<Rightarrow> cw \<Rightarrow> bool" where
  "truthful w w' \<longleftrightarrow> announcements w' = announcements w \<or>
     (\<forall>i d. last (cw_out w') = (i, Cb_reconnect_scheduled d) \<longrightarrow> i = cw_id w \<and> armed d (cw_conn w'))"

lemma truthful_same: "announcements w' = announcements w \<Longrightarrow> truthful w w'"
  by (simp add: truthful_def)

lemma signal_truthful:
  assumes "\<not> rt_started (cc_reconnect_timer (cw_conn w))"
  shows "truthful w (tcp_maybe_signal_closed env w)"
  using assms
  by (simp add: truthful_def announcements_def tcp_maybe_signal_closed_def conn_on_closed_def
      conn_schedule_reconnect_def reconnect_timer_start_def conn_reconnect_timer_error_def
      client_lens_defs client_upd_defs lens_upd_def armed_def Let_def split: option.splits)

lemma step_truthful:
  assumes ok: "conn_ok w"
  shows "truthful w (client_step env ev w)"
proof (cases "client_event_enabled w ev")
  case False
  then show ?thesis by (simp add: client_step_def truthful_same)
next
  case True
  have idle: "\<not> rt_started (cc_reconnect_timer (cw_conn w))" if "tcp_outstanding (tcp w)"
    using ok that by (auto simp: conn_ok_def split: if_splits)
  have signal: "truthful w (tcp_maybe_signal_closed env (w\<lparr>cw_conn := (cw_conn w)\<lparr>cc_tcp := t\<rparr>\<rparr>))"
    if "tcp_outstanding (tcp w)" for t
    using signal_truthful [of "w\<lparr>cw_conn := (cw_conn w)\<lparr>cc_tcp := t\<rparr>\<rparr>" env] idle [OF that]
    by (simp add: truthful_def announcements_def)
  have posts: "0 < lt_posts (ct_login_timer (tcp w)) \<Longrightarrow> truthful w (login_timer_post_done (tcp_login_handler env) w)"
    "0 < hb_posts (ct_heartbeat_timer (tcp w)) \<Longrightarrow>
      truthful w (heartbeat_timer_post_done (tcp_heartbeat_handler env) w)"
    "Op_post_closed \<in> set (sk_ops (ct_socket (tcp w))) \<Longrightarrow>
      truthful w (socket_complete (tcp_socket_handler env) Op_post_closed ec n data w)" for ec n data
    by (auto intro!: signal simp: login_timer_post_done_def heartbeat_timer_post_done_def socket_complete_def
        post_closed_done_def tcp_login_handler_def tcp_heartbeat_handler_def tcp_socket_handler_def
        tcp_login_timer_stopped_def tcp_heartbeat_timer_stopped_def tcp_closed_def
        tcp_outstanding_def upd_tcp_def client_lens_defs lens_upd_def)
  have waits: "announcements (login_timer_wait_done (tcp_login_handler env) ec w) = announcements w"
    "announcements (heartbeat_timer_wait_done (tcp_heartbeat_handler env) throws ec w) = announcements w"
    "announcements (reconnect_timer_wait_done (conn_reconnect_handler env) epoch ec w) = announcements w"
    for ec throws epoch
    by (simp_all add: login_timer_wait_done_def login_timer_on_expiry_def
        heartbeat_timer_wait_done_def heartbeat_timer_on_expiry_def heartbeat_timer_schedule_def
        reconnect_timer_wait_done_def reconnect_timer_on_expiry_def conn_reconnect_handler_def
        conn_reconnect_timer_error_def conn_reconnect_timer_expired_def tcp_login_handler_def
        tcp_login_timer_error_def tcp_login_timer_expired_def tcp_heartbeat_handler_def
        tcp_heartbeat_timer_error_def tcp_heartbeat_send_due_def tcp_heartbeat_receive_timeout_def
        Let_def split: option.splits)
  have calls: "announcements (conn_connect env w) = announcements w"
    "announcements (conn_close w) = announcements w"
    "announcements (snd (conn_send_packet p w)) = announcements w"
    "announcements (snd (conn_send_logout_request w)) = announcements w"
    "announcements (snd (conn_send_debug bs w)) = announcements w" for p bs
    by (simp_all add: conn_connect_def conn_close_def tcp_close_def conn_send_packet_def
        conn_send_logout_request_def conn_send_debug_def tcp_send_packet_def
        tcp_send_debug_packet_def Let_def split_def)
  show ?thesis
  proof (cases ev)
    case (Ev_socket op ec n data)
    then show ?thesis
      using True posts(3) [of ec n data] announcements_socket [of op env ec n data w]
      by (cases "op = Op_post_closed") (auto simp: client_step_def asio_may_complete_def truthful_same)
  qed (use True posts waits calls in \<open>simp_all add: client_step_def truthful_same\<close>)
qed

section \<open>The client announces\<close>

definition announced :: "client \<Rightarrow> (nat \<times> client_cb) list" where
  "announced cl = filter (\<lambda>(i, cb). announces cb) (ck_out cl)"

lemma announced_simps [simp]:
  "announced (cl\<lparr>ck_posts := ps\<rparr>) = announced cl" "announced (cl\<lparr>ck_core := c\<rparr>) = announced cl"
  "announcements (connection_world i cl) = announced cl"
  by (simp_all add: announced_def announcements_def)

lemma announced_on [simp]:
  "(\<And>w. announcements (snd (f w)) = announcements w) \<Longrightarrow>
   announced (snd (on_connection i f cl)) = announced cl"
  using announced_simps(3) [of i cl]
  by (simp add: on_connection_def announced_def announcements_def split_def Let_def)

lemma announced_fold:
  "(\<And>i cl. announced (f i cl) = announced cl) \<Longrightarrow> announced (fold f is cl) = announced cl"
  by (induction "is" arbitrary: cl) simp_all

lemma calls_announce [simp]:
  "announcements (conn_connect env w) = announcements w" "announcements (conn_close w) = announcements w"
  "announcements (snd (conn_send_packet p w)) = announcements w"
  "announcements (snd (conn_send_logout_request w)) = announcements w"
  "announcements (snd (conn_send_debug bs w)) = announcements w"
  by (simp_all add: conn_connect_def conn_close_def tcp_close_def conn_send_packet_def
      conn_send_logout_request_def conn_send_debug_def tcp_send_packet_def
      tcp_send_debug_packet_def Let_def split_def)

lemma announced_sends [simp]: "announced (snd (client_send_packet p cl)) = announced cl"
proof -
  have "announced (snd (client_send_copies is p cl)) = announced cl" for "is" p cl
    by (induction "is" arbitrary: cl) (simp_all add: Let_def split_def)
  then show ?thesis
    by (simp add: client_send_packet_def client_send_one_def client_send_two_def
        client_send_multiple_def Let_def split_def)
qed

lemma announced_act:
  assumes "\<And>i ev env. a \<noteq> At_connection i ev env"
  shows "announced (client_act a cl) = announced cl"
proof -
  have message: "announced (case client_send_message_packet m cl of None \<Rightarrow> cl | Some (_, cl) \<Rightarrow> cl) =
      announced cl" for m
    using announced_sends [of "fst (release_packet m)" cl]
    by (auto simp: client_send_message_packet_def split: option.splits prod.splits simp del: announced_sends)
  show ?thesis
  proof (cases a)
    case (At_connection i ev env)
    with assms show ?thesis by blast
  qed (simp_all add: message client_start_def client_stop_def client_started_posted_def
        client_stopped_posted_def client_send_message_def client_send_logout_request_def
        client_send_debug_def run_connection_eq announced_fold
        split: list.splits client_post.splits option.splits)
qed

lemma act_arms:
  assumes ok: "life.all_ok cl"
    and out: "ck_out (client_act a cl) = ck_out cl @ xs @ [(i, Cb_reconnect_scheduled d)]"
  shows "i < length (ck_connections cl) \<and> armed d (ck_connections (client_act a cl) ! i)"
proof -
  have new: "announced (client_act a cl) \<noteq> announced cl"
    unfolding announced_def out by simp
  then obtain j ev env where a: "a = At_connection j ev env" using announced_act by blast
  with new have j: "j < length (ck_connections cl)" by (auto split: if_splits)
  let ?w = "connection_world j cl" and ?w' = "client_step env ev (connection_world j cl)"
  have act: "ck_out (client_act a cl) = cw_out ?w'" "ck_connections (client_act a cl) ! j = cw_conn ?w'"
    using j by (simp_all add: a run_connection_def on_connection_def Let_def)
  have "conn_ok ?w" using ok j by (simp add: life.all_ok_def)
  from step_truthful [OF this, of env ev] new have "i = j \<and> armed d (cw_conn ?w')"
    using out unfolding truthful_def announced_def announcements_def act(1) by auto
  then show ?thesis using j act(2) by simp
qed

section \<open>The wait goes on\<close>

definition waits_for :: "u32 \<Rightarrow> nat \<Rightarrow> client_connection \<Rightarrow> bool" where
  "waits_for e d c \<longleftrightarrow> armed d c \<and> rt_epoch (cc_reconnect_timer c) = e"

text \<open>The events of the connection itself that end the wait.\<close>

fun ends_wait :: "u32 \<Rightarrow> client_event \<Rightarrow> bool" where
  "ends_wait e Ev_close = True"
| "ends_wait e (Ev_reconnect_wait e' ec) = (e' = e)"
| "ends_wait e _ = False"

lemma step_waits:
  assumes "conn_ok w" and w: "waits_for e d (cw_conn w)" and "\<not> ends_wait e ev"
  shows "waits_for e d (cw_conn (client_step env ev w))"
proof (cases "client_event_enabled w ev")
  case False
  with w show ?thesis by (simp add: client_step_def)
next
  case True
  have calm: "\<not> cc_engaged (cw_conn w)" "rt_started (cc_reconnect_timer (cw_conn w))"
    using w by (simp_all add: waits_for_def armed_def)
  with assms(1) have none: "\<not> tcp_outstanding (tcp w)" by (simp add: conn_ok_def)
  show ?thesis
  proof (cases ev)
    case (Ev_socket op ec n data)
    with True none show ?thesis by (auto simp: asio_may_complete_def tcp_outstanding_def)
  next
    case (Ev_reconnect_wait e' ec)
    with assms(3) True w show ?thesis
      by (auto simp: client_step_def reconnect_timer_wait_done_def conn_reconnect_handler_def
          waits_for_def armed_def client_lens_defs client_upd_defs lens_upd_def Let_def)
  qed (use True none calm w assms(3) in \<open>simp_all add: tcp_outstanding_def client_step_def
      conn_connect_def conn_send_packet_def conn_send_logout_request_def conn_send_debug_def\<close>)
qed

definition keeps :: "nat \<Rightarrow> u32 \<Rightarrow> nat \<Rightarrow> client \<Rightarrow> bool" where
  "keeps i e d cl \<longleftrightarrow> life.all_ok cl \<and> i < length (ck_connections cl) \<and>
     waits_for e d (ck_connections cl ! i)"

lemma keeps_same [simp]:
  "keeps i e d (cl\<lparr>ck_posts := ps\<rparr>) = keeps i e d cl"
  "keeps i e d cl \<Longrightarrow> keeps i e d (cl\<lparr>ck_core := (ck_core cl)\<lparr>cl_started := b\<rparr>\<rparr>)"
  by (simp_all add: keeps_def life.starting_ok)

lemma keeps_on:
  assumes k: "keeps i e d cl" and ev: "\<And>w. snd (f w) = client_step env ev w"
    and own: "j = i \<Longrightarrow> \<not> ends_wait e ev"
  shows "keeps i e d (snd (on_connection j f cl))"
proof (cases "j < length (ck_connections cl)")
  case True
  have ok: "life.all_ok cl" and i: "i < length (ck_connections cl)"
    and w: "waits_for e d (ck_connections cl ! i)" using k by (simp_all add: keeps_def)
  have "ck_connections (snd (on_connection j f cl)) ! i =
      (if i = j then cw_conn (client_step env ev (connection_world i cl)) else ck_connections cl ! i)"
    using True by (simp add: on_connection_def split_def Let_def ev)
  moreover have "waits_for e d (cw_conn (client_step env ev (connection_world i cl)))" if "i = j"
    using ok i w own that by (intro step_waits) (simp_all add: life.all_ok_def)
  ultimately show ?thesis
    using life.on_connection_ok [OF ok True ev] i w by (auto simp: keeps_def)
next
  case False
  let ?cl = "snd (on_connection j f cl)"
  have "conn_ok (connection_world m ?cl) = conn_ok (connection_world m cl)" for m
    using False by (simp add: on_connection_def connection_world_def conn_ok_def split_def Let_def
        list_update_beyond)
  then have "life.all_ok ?cl = life.all_ok cl" by (simp add: life.all_ok_def)
  with k False show ?thesis
    by (simp add: keeps_def on_connection_def split_def Let_def list_update_beyond)
qed

lemma keeps_fold:
  "keeps i e d cl \<Longrightarrow> (\<And>j cl. keeps i e d cl \<Longrightarrow> keeps i e d (f j cl)) \<Longrightarrow> keeps i e d (fold f js cl)"
  by (induction js arbitrary: cl) simp_all

lemma keeps_calls:
  assumes "keeps i e d cl"
  shows "keeps i e d (run_connection j (conn_connect env) cl)"
    "keeps i e d (snd (on_connection j (conn_send_packet p) cl))"
    "keeps i e d (snd (on_connection j conn_send_logout_request cl))"
    "keeps i e d (snd (on_connection j (conn_send_debug bs) cl))"
proof -
  show "keeps i e d (run_connection j (conn_connect env) cl)"
    unfolding run_connection_eq
    by (rule keeps_on [OF assms, of _ env Ev_connect]) (simp_all add: client_step_def)
  show "keeps i e d (snd (on_connection j (conn_send_packet p) cl))"
    by (rule keeps_on [OF assms, of _ quiet_env "Ev_send_packet p"]) (simp_all add: client_step_def)
  show "keeps i e d (snd (on_connection j conn_send_logout_request cl))"
    by (rule keeps_on [OF assms, of _ quiet_env Ev_send_logout_request]) (simp_all add: client_step_def)
  show "keeps i e d (snd (on_connection j (conn_send_debug bs) cl))"
    by (rule keeps_on [OF assms, of _ quiet_env "Ev_send_debug bs"]) (simp_all add: client_step_def)
qed

lemma keeps_send_packet:
  assumes k: "keeps i e d cl"
  shows "keeps i e d (snd (client_send_packet p cl))"
proof -
  have copies: "keeps i e d (snd (client_send_copies js q cl))" if "keeps i e d cl" for js q cl
    using that by (induction js arbitrary: cl) (simp_all add: Let_def split_def keeps_calls)
  with k show ?thesis
    by (simp add: client_send_packet_def client_send_one_def client_send_two_def
        client_send_multiple_def Let_def split_def keeps_calls)
qed

text \<open>The actions that end it: those events, and the posted \<^verbatim>\<open>stop\<close> of the client.\<close>

fun disturbs :: "nat \<Rightarrow> u32 \<Rightarrow> client_action \<Rightarrow> client \<Rightarrow> bool" where
  "disturbs i e (At_connection j ev env) cl \<longleftrightarrow> j = i \<and> ends_wait e ev"
| "disturbs i e (Run_post envs) cl \<longleftrightarrow> take 1 (ck_posts cl) = [Post_stop]"
| "disturbs i e _ cl \<longleftrightarrow> False"

fun undisturbed :: "nat \<Rightarrow> u32 \<Rightarrow> client_action list \<Rightarrow> client \<Rightarrow> bool" where
  "undisturbed i e [] cl \<longleftrightarrow> True"
| "undisturbed i e (a # as) cl \<longleftrightarrow> \<not> disturbs i e a cl \<and> undisturbed i e as (client_act a cl)"

lemma act_keeps:
  assumes k: "keeps i e d cl" and "\<not> disturbs i e a cl"
  shows "keeps i e d (client_act a cl)"
proof (cases a)
  case (At_connection j ev env)
  with assms show ?thesis
    by (auto simp: run_connection_eq intro!: keeps_on [OF k, of _ env ev])
next
  case (Run_post envs)
  have "keeps i e d (client_started_posted envs cl)" if "keeps i e d cl" for cl
    using that by (simp add: client_started_posted_def keeps_fold keeps_calls)
  with Run_post assms show ?thesis by (auto split: list.splits client_post.splits)
next
  case (Call_send_message m)
  with k keeps_send_packet [OF k, of "fst (release_packet m)"] show ?thesis
    by (auto simp: client_send_message_packet_def split: option.splits prod.splits)
qed (use k in \<open>simp_all add: client_start_def client_stop_def client_send_message_def
    client_send_logout_request_def client_send_debug_def keeps_send_packet keeps_fold keeps_calls
    split: option.splits\<close>)

lemma acts_keep: "keeps i e d cl \<Longrightarrow> undisturbed i e as cl \<Longrightarrow> keeps i e d (client_acts as cl)"
  by (induction "as" arbitrary: cl) (simp_all add: act_keeps)

section \<open>The attempt\<close>

lemma construct_starts:
  "cc_engaged (cw_conn (tcp_construct env w))"
  "\<exists>ys. cw_out (tcp_construct env w) = cw_out w @ (cw_id w, Cb_connecting (cc_endpoint (cw_conn w))) # ys"
  by (simp_all add: tcp_construct_def tcp_handle_connect_failure_def tcp_disconnect_eq emit_def
      upd_conn_def upd_tcp_def Let_def split_def)

lemma wait_fires:
  assumes k: "keeps i e d cl" and ec: "\<not> ec_set ec"
    and cl': "cl' = client_act (At_connection i (Ev_reconnect_wait e ec) env) cl"
  shows "cc_engaged (ck_connections cl' ! i) \<and>
    (\<exists>ys. ck_out cl' = ck_out cl @ (i, Cb_connecting (cc_endpoint (ck_connections cl ! i))) # ys)"
proof -
  let ?w = "connection_world i cl"
  let ?v = "upd_conn (\<lambda>c. c\<lparr>cc_reconnect_timer := (cc_reconnect_timer c)
      \<lparr>rt_waits := remove1 e (rt_waits (cc_reconnect_timer c)), rt_started := False\<rparr>\<rparr>) ?w"
  have i: "i < length (ck_connections cl)" and w: "waits_for e d (cw_conn ?w)"
    using k by (simp_all add: keeps_def)
  then have "client_step env (Ev_reconnect_wait e ec) ?w = tcp_construct env ?v"
    using ec by (auto simp: client_step_def reconnect_timer_wait_done_def reconnect_timer_on_expiry_def
        conn_reconnect_handler_def conn_reconnect_timer_expired_def waits_for_def armed_def
        client_lens_defs lens_upd_def upd_conn_def Let_def)
  with construct_starts [of env ?v] i show ?thesis
    by (simp add: cl' run_connection_def on_connection_def upd_conn_def Let_def)
qed

section \<open>The property\<close>

text \<open>C18 An announced reconnect is carried out.  When an action ends with a connection telling
  its user that a reconnect is scheduled after \<open>d\<close> (an error of the timer would be reported
  after it), then from there on, whatever happens and whoever calls, short of a close of the
  connection, a stop of the client, or the end of the wait itself: the timer is started for
  \<open>d\<close>, a wait for its current epoch is outstanding, and there is no TCP connection; and when
  that wait completes without an error, the connection begins a new attempt and tells its user
  that it is connecting.\<close>

theorem client_reconnect_armed:
  assumes fresh: "fresh_client cl" and cl0: "cl0 = client_acts as cl" and cl1: "cl1 = client_act a cl0"
    and out: "ck_out cl1 = ck_out cl0 @ xs @ [(i, Cb_reconnect_scheduled d)]"
    and e: "e = rt_epoch (cc_reconnect_timer (ck_connections cl1 ! i))"
    and calm: "undisturbed i e as' cl1" and cl2: "cl2 = client_acts as' cl1"
    and cl3: "cl3 = client_act (At_connection i (Ev_reconnect_wait e no_error) env) cl2"
  shows "i < length (ck_connections cl2) \<and> \<not> cc_engaged (ck_connections cl2 ! i) \<and>
    rt_started (cc_reconnect_timer (ck_connections cl2 ! i)) \<and>
    rt_delay (cc_reconnect_timer (ck_connections cl2 ! i)) = d \<and>
    rt_epoch (cc_reconnect_timer (ck_connections cl2 ! i)) = e \<and>
    e \<in> set (rt_waits (cc_reconnect_timer (ck_connections cl2 ! i))) \<and>
    cc_engaged (ck_connections cl3 ! i) \<and>
    (\<exists>ys. ck_out cl3 = ck_out cl2 @ (i, Cb_connecting (cc_endpoint (ck_connections cl2 ! i))) # ys)"
proof -
  have ok: "life.all_ok cl0" unfolding cl0 by (intro life.acts_ok fresh_all_ok fresh)
  have "keeps i e d cl1"
    using act_arms [OF ok out [unfolded cl1]] life.act_ok [OF ok]
    by (simp add: keeps_def waits_for_def e cl1 act_length)
  from acts_keep [OF this calm] have k: "keeps i e d cl2" unfolding cl2 .
  have "\<not> ec_set no_error" by (simp add: ec_set_def no_error_def error_code_of_def)
  from wait_fires [OF k this cl3] k show ?thesis
    by (auto simp: keeps_def waits_for_def armed_def)
qed

text \<open>A client whose connection is refused, and which then closes its socket.\<close>

definition demo_refused :: "client_action list" where
  "demo_refused = demo_start @
     [At_connection 0 (Ev_socket Op_connect (error_code_of 111 System) 0 []) quiet_env]"

definition demo_gone :: client_action where
  "demo_gone = At_connection 0 (Ev_socket Op_post_closed no_error 0 []) quiet_env"

text \<open>Its world after the failure, and after the notification that the socket has closed.\<close>

lemmas refused_eval = error_code_of_def ec_set_def operation_aborted_def ECANCELED_def
  tcp_connect_failure_def tcp_handle_connect_failure_def tcp_disconnect_def cs_disconnect_def
  socket_close_def heartbeat_timer_stop_def heartbeat_timer_maybe_signal_stopped_def
  client_lens_defs lens_upd_def post_closed_done_def tcp_closed_def tcp_maybe_signal_closed_def
  conn_on_closed_def is_retryable_def conn_schedule_reconnect_def reconnect_timer_start_def

lemma demo_announces:
  "ck_out (client_act demo_gone (client_acts demo_refused demo_client)) =
     ck_out (client_acts demo_refused demo_client) @
       [(0, Cb_disconnect DR_connect_failure), (0, Cb_reconnect_scheduled 0)] \<and>
   rt_epoch (cc_reconnect_timer (ck_connections
     (client_act demo_gone (client_acts demo_refused demo_client)) ! 0)) = 1"
  unfolding demo_refused_def demo_gone_def acts_append demo_started
  by (simp add: demo_client_def client_eval refused_eval cong: let_weak_cong)

theorem client_reconnect_armed_witness:
  "\<exists>cl2. cl2 = client_acts [Call_debug ''x'', At_connection 0 Ev_connect quiet_env]
       (client_act demo_gone (client_acts demo_refused demo_client)) \<and>
     rt_started (cc_reconnect_timer (ck_connections cl2 ! 0)) \<and>
     cc_engaged (ck_connections (client_act
       (At_connection 0 (Ev_reconnect_wait 1 no_error) quiet_env) cl2) ! 0)"
proof -
  have "ck_out (client_act demo_gone (client_acts demo_refused demo_client)) =
      ck_out (client_acts demo_refused demo_client) @
        [(0, Cb_disconnect DR_connect_failure)] @ [(0, Cb_reconnect_scheduled 0)]"
    using demo_announces by simp
  note armed = client_reconnect_armed [OF demo_fresh refl refl this
      conjunct2 [OF demo_announces, symmetric] _ refl refl]
  have "undisturbed 0 1 [Call_debug ''x'', At_connection 0 Ev_connect quiet_env] cl" for cl by simp
  from armed [OF this] show ?thesis by blast
qed

end
