(* ===== verification/Spec2Isabelle.thy ===== *)
theory Spec2Isabelle
  imports Wire_Properties Client_Properties Expected Client_Contract Server_Properties Server_Faults Server_System File_Properties
    Options Example_Programs Server_Stages Server_Winding Exchange Client_Sending Result_Properties Socket_Queue
    Server_Packets Client_Packets Client_Winding Client_Reconnect
begin

text \<open>
  A verification library for \<^verbatim>\<open>bc::soup\<close>, a C++ implementation of the SoupBinTCP
  protocol over Asio: a server gives every user of a port a numbered stream of messages,
  which a client reads over one or several TCP connections without gaps or repetitions.

  \<^bold>\<open>The parts and how they interact.\<close>  Packets have a two-byte size in network order, one
  byte of type and a payload (\<^verbatim>\<open>rw_packets\<close>, \<^verbatim>\<open>logical_packets\<close>, \<^verbatim>\<open>packing\<close>,
  \<^verbatim>\<open>validate\<close>).  A \<^verbatim>\<open>Socket\<close> frames them on a TCP stream and keeps a bounded queue
  of packets to write.  A \<^verbatim>\<open>client::Tcp_connection\<close> or \<^verbatim>\<open>server::Tcp_connection\<close> owns a
  socket, a login timer and a heartbeat timer, and runs the state machine of
  \<^verbatim>\<open>connection_state\<close>; it ends when all three have announced that they are done.  On the
  client side a \<^verbatim>\<open>Connection\<close> makes a new TCP connection whenever the reconnect timer says
  so, and the \<^verbatim>\<open>Client\<close> shares one next sequence number among its connections.  On the
  server side an \<^verbatim>\<open>Acceptor\<close> makes a TCP connection for every accept, finds the \<^verbatim>\<open>Port\<close> of
  the user that logs in, and the port hands messages to the connection that is logged in;
  a \<^verbatim>\<open>Server\<close> holds the session and the acceptors.  The \<^verbatim>\<open>File_store\<close> keeps messages
  in a file.  Components call back through handler interfaces, and Asio completes
  what was started one handler at a time.

  \<^bold>\<open>How the model corresponds to the code.\<close>  A class is a record of its members, an
  enumeration a datatype, a fixed-width integer a word (the sizes, counters and sequence numbers
  that can wrap), a \<^verbatim>\<open>std::byte\<close> a \<open>char\<close>; a function is a definition of the same name
  (with a prefix for its class) from state to state.  What an object started and Asio has not
  completed is part of its state (\<open>sk_ops\<close>, \<open>lt_waits\<close>, \<open>lt_posts\<close> and the like), so that
  destroying it too early is a statement about the state.  What Asio or the operating system
  answers (error codes, byte counts, bytes, exceptions thrown by timers, the clock) is an
  argument of the step, and every theorem holds for all of them.  Calls of the user's handlers
  are appended to a trace (\<open>cw_out\<close>, \<open>ac_out\<close>); a null handler that would be called, or an
  assertion that fails, clears \<open>ac_defined\<close>.  A sub-object that calls its owner is defined
  over the owner's state through a lens (\<open>Lens\<close>).

  \<^bold>\<open>The theories.\<close>
    \<^item> \<open>Prelude\<close>, \<open>Types\<close> (\<^verbatim>\<open>constants.h\<close>, \<^verbatim>\<open>types\<close>, \<^verbatim>\<open>error\<close>), \<open>Expected\<close>
      (\<^verbatim>\<open>expected.h\<close>), \<open>Lens\<close>.
    \<^item> \<open>Codec\<close> (the locale \<open>field_codec\<close> of fixed-width formats), \<open>Packing\<close>, \<open>Validate\<close>,
      \<open>Logical_Packets\<close>, \<open>Rw_Packets\<close>: the formats, each an interpretation of the locale, from
      which the round trips follow; \<open>Wire_Properties\<close>.
    \<^item> \<open>Connection_State\<close>, and \<open>Stages\<close>: the abstract life of a connection as two step
      relations, \<open>moves\<close> on the states of the code and \<open>life_step\<close> on phases of its own.
    \<^item> \<open>Timers\<close>, \<open>Socket\<close>, with the locales \<open>login_timer_owner\<close>, \<open>heartbeat_timer_owner\<close> and
      (in \<open>Socket_Contract\<close>) \<open>socket_owner\<close>: what a timer and a socket need from the object
      they call back, and what they keep true in return.  \<open>Framing\<close>: chunks of the stream
      become exactly the packets that were sent.  \<open>Socket_Queue\<close>: the write queue is first-in
      first-out.
    \<^item> \<open>Tcp_Object\<close>: what the two kinds of TCP connection have in common, and its invariant
      \<open>tcp_mid\<close>, on which the lifetime of the objects rests.  \<open>Winding\<close>: the completions left
      for one that is disconnected.
    \<^item> \<open>Packet_Types\<close>: the packets of either side as a typing judgement, and the locale
      \<open>typed_owner\<close> of a connection that writes nothing else; \<open>Streams\<close>: either end reading
      bytes off the stream, header and payload, packet after packet; \<open>Server_Packets\<close> and
      \<open>Client_Packets\<close> interpret the locale and show that the other side reads each packet
      whole and has nothing to complain of.
    \<^item> Client: \<open>Client_Types\<close>, \<open>Client_Tcp\<close> (\<^verbatim>\<open>client/tcp_connection\<close>), \<open>Client_Connection\<close>
      (\<^verbatim>\<open>client/connection\<close>), \<open>Client_Main\<close> (\<^verbatim>\<open>client/client\<close>); the invariant \<open>conn_ok\<close> in
      \<open>Client_Lifecycle\<close> and \<open>Client_Invariant\<close>, the contracts discharged in
      \<open>Client_Contract\<close>, all connections together in \<open>Client_System\<close> (the locale
      \<open>connection_property\<close> lifts what every event of one connection keeps to the client),
      the delivery of data in \<open>Client_Delivery\<close>, sending in \<open>Client_Sending\<close>, the
      end of a connection in \<open>Client_Winding\<close>, a run in \<open>Client_Demo\<close>, the reconnects in
      \<open>Client_Reconnect\<close> and the properties in \<open>Client_Properties\<close>.
    \<^item> Server: \<open>Listener\<close> (\<^verbatim>\<open>socket_acceptor\<close>), \<open>Server_Types\<close>, \<open>Server_Tcp\<close>
      (\<^verbatim>\<open>server/tcp_connection\<close>), \<open>Server_Acceptor\<close> (\<^verbatim>\<open>server/port\<close>, \<^verbatim>\<open>server/acceptor\<close>),
      \<open>Server_Main\<close> (\<^verbatim>\<open>server/server\<close>, and the locale \<open>acceptor_invariant\<close>); the invariant
      \<open>srv_ok\<close> in \<open>Server_Lifecycle\<close>, \<open>Server_World\<close>, \<open>Server_Login\<close>,
      \<open>Server_Invariant\<close> and \<open>Server_Events\<close>, the contracts in \<open>Server_Contract\<close>, what a login
      decides in \<open>Server_Answers\<close>, the absence of undefined behaviour in \<open>Server_Defined\<close>, the
      refinement of \<open>Stages\<close> in \<open>Server_Stages\<close>, the end of a connection in \<open>Server_Winding\<close>
      and that of a session in \<open>Server_Ending\<close>, runs in \<open>Server_Demo\<close> and
      \<open>Server_Online\<close>; properties in \<open>Server_Properties\<close>, \<open>Server_System\<close> and
      \<open>Server_Faults\<close> (runs on which the code goes wrong).
    \<^item> \<open>Exchange\<close>: client and server joined by a stream: the login and the data, end to end.
    \<^item> File store: \<open>Posix\<close> (the system calls, answers left open), \<open>File_Store\<close>,
      \<open>File_Contents\<close> and \<open>File_Messages\<close> (a store is the list of its messages, the locale
      \<open>message_store\<close>), \<open>File_Properties\<close>.
    \<^item> \<open>Options\<close> (\<^verbatim>\<open>example/utility/option_convert\<close>, \<^verbatim>\<open>option_error\<close>), \<open>Printing\<close>,
      \<open>Io_Runner\<close> (\<^verbatim>\<open>example/utility/io_context_runner\<close>, and what reaches a main thread) and
      \<open>Example_Programs\<close> (the two \<^verbatim>\<open>main.cpp\<close>, each translated on its own): options, set-up,
      what the handlers print, and what the main threads call.
    \<^item> \<open>Result_Properties\<close>: the results of type \<^verbatim>\<open>expected\<close>.

  \<^bold>\<open>What the properties show.\<close>  No TCP connection object of either side is destroyed while
  something can still call it, nor kept when nothing can; a disconnected one winds down in a
  bounded number of completions.  Sequenced data is delivered to the user in order, once, across
  connections, and arrives as it was sent; a login is granted exactly when it should be, on one
  connection of a port at a time.  Either side writes only packets of its side of the
  protocol, which the other reads whole and never finds malformed.  States only go forward
  and the first reason stays.  A reconnect that is announced is carried out, and a session
  that is ended stays ended.  Formats round-trip, packets leave in the order they were
  accepted.  The store returns what was added.  Where the code does not do what it means to, the theorem says what it does instead.

  \<^bold>\<open>Bounds and fuel.\<close>  Nothing is bounded: runs are arbitrary lists of events, byte strings and
  queues arbitrary lists.  The loops of the file store, which the system can keep busy for
  ever, are \<open>partial_function\<close>s over \<open>option\<close>, and \<open>None\<close> is a loop that does not return
  (\<open>read_partial_handling\<close>, whose loop shrinks the buffer or stops, is a \<open>function\<close> with a
  measure, and \<open>None\<close> when a call does not return).  The two loops of the header also say
  \<open>Some None\<close>: the callable returned a count that makes the size of the rest wrap, which is
  undefined.  That they return, and are defined, is a theorem for callables that keep to the
  contract of \<^verbatim>\<open>read\<close> and \<^verbatim>\<open>write\<close>; that the calls of the store return has a hypothesis
  (\<open>steady\<close>) on the system.  Widths are those of the code: a size wraps at 16 bits, a sequence
  number at 64, the counters at 32.

  \<^bold>\<open>Not modelled.\<close>  A handler of the user that calls back into the library during the call
  (the calls of the user are events of their own); threads (the library runs on one
  executor); the value categories and \<^verbatim>\<open>noexcept\<close> of \<^verbatim>\<open>expected\<close>; \<^verbatim>\<open>get_executor\<close>.  Of the
  example programs, the pauses of their main threads, the order of lines that different
  threads print, and a signal that is not in the signal set; and \<^verbatim>\<open>getopt\<close>, whose results
  are an argument.  Asio, the operating system and the standard library
  beyond what is used of them are arguments of the model.
\<close>

end
